(* ===== verification/Prelude.thy ===== *)
theory Prelude
  imports Main "HOL-Library.Sublist" "HOL-Library.Char_ord"
begin

text \<open>
  Shared vocabulary of the development: the value types the Go code uses everywhere
  (strings as byte lists, opaque references, panicking results), the functions of the
  \<open>strings\<close> and \<open>slices\<close> packages the sources call, and the generic lemmas and
  collections the component theories draw on.
\<close>

section \<open>Collections\<close>

named_theorems go_defs \<open>definitions of the model that a proof may unfold\<close>
named_theorems string_simps \<open>simplification rules for the string functions\<close>

section \<open>Values\<close>

text \<open>
  A Go string is a byte sequence, and an Isabelle \<^typ>\<open>char\<close> is a byte, so
  \<^typ>\<open>string\<close> is used for both \<open>string\<close> and \<open>[]byte\<close>. A value whose type belongs to a
  dependency and which the code only passes on (an HTTP client, a backoff, a logger)
  is an opaque reference.
\<close>

type_synonym bytes = "char list"
type_synonym handle = nat

abbreviation NL :: string where "NL \<equiv> [CHR 0x0A]"

text \<open>A call that may panic: \<open>Panic\<close> carries the reason, \<open>Ret\<close> the returned value.\<close>

datatype 'a go = Panic string | Ret 'a

fun go_bind :: "'a go \<Rightarrow> ('a \<Rightarrow> 'b go) \<Rightarrow> 'b go" where
  "go_bind (Panic p) f = Panic p"
| "go_bind (Ret v) f = f v"

section \<open>Searching lists\<close>

text \<open>The first result a partial function has on a list.\<close>

fun first_some :: "('a \<Rightarrow> 'b option) \<Rightarrow> 'a list \<Rightarrow> 'b option" where
  "first_some f [] = None"
| "first_some f (x # xs) = (case f x of Some v \<Rightarrow> Some v | None \<Rightarrow> first_some f xs)"

lemma first_some_cong [fundef_cong]:
  "xs = ys \<Longrightarrow> (\<And>x. x \<in> set ys \<Longrightarrow> f x = g x) \<Longrightarrow> first_some f xs = first_some g ys"
  by (induction xs arbitrary: ys) (auto split: option.split)

lemma first_some_append:
  "first_some f (xs @ ys) = (case first_some f xs of Some v \<Rightarrow> Some v | None \<Rightarrow> first_some f ys)"
  by (induction xs) (auto split: option.splits)

lemma first_some_concat: "first_some f (concat xss) = first_some (first_some f) xss"
  by (induction xss) (simp_all add: first_some_append split: option.split)

lemma first_some_None: "first_some f xs = None \<longleftrightarrow> (\<forall>x \<in> set xs. f x = None)"
  by (induction xs) (auto split: option.splits)

lemma first_some_map: "first_some f (map g xs) = first_some (\<lambda>x. f (g x)) xs"
  by (induction xs) (auto split: option.splits)

lemma first_some_Some:
  "first_some f xs = Some v \<longleftrightarrow>
     (\<exists>as x bs. xs = as @ x # bs \<and> (\<forall>a \<in> set as. f a = None) \<and> f x = Some v)"
proof
  assume "first_some f xs = Some v"
  then show "\<exists>as x bs. xs = as @ x # bs \<and> (\<forall>a \<in> set as. f a = None) \<and> f x = Some v"
  proof (induction xs)
    case (Cons y ys)
    show ?case
    proof (cases "f y")
      case None
      with Cons obtain as x bs where
        "ys = as @ x # bs" "\<forall>a \<in> set as. f a = None" "f x = Some v" by auto
      with None have "y # ys = (y # as) @ x # bs \<and> (\<forall>a \<in> set (y # as). f a = None) \<and> f x = Some v"
        by simp
      then show ?thesis by blast
    qed (use Cons.prems in fastforce)
  qed simp
qed (auto simp: first_some_append first_some_None[THEN iffD2])

section \<open>The strings package\<close>

text \<open>\<open>strings.HasPrefix\<close>, \<open>strings.HasSuffix\<close>, \<open>strings.Contains\<close>.\<close>

definition HasPrefix :: "string \<Rightarrow> string \<Rightarrow> bool" where
  "HasPrefix s p \<longleftrightarrow> take (length p) s = p"

definition HasSuffix :: "string \<Rightarrow> string \<Rightarrow> bool" where
  "HasSuffix s p \<longleftrightarrow> HasPrefix (rev s) (rev p)"

fun Contains_str :: "string \<Rightarrow> string \<Rightarrow> bool" where
  "Contains_str [] p \<longleftrightarrow> p = []"
| "Contains_str (c # cs) p \<longleftrightarrow> HasPrefix (c # cs) p \<or> Contains_str cs p"

text \<open>
  \<open>strings.Split(s, sep)\<close> for a one-byte separator: always at least one part, the
  separators dropped.
\<close>

fun Split1 :: "char \<Rightarrow> string \<Rightarrow> string list" where
  "Split1 sep [] = [[]]"
| "Split1 sep (c # cs) =
     (if c = sep then [] # Split1 sep cs
      else case Split1 sep cs of
             [] \<Rightarrow> [[c]]
           | p # ps \<Rightarrow> (c # p) # ps)"

text \<open>\<open>strings.Join\<close>.\<close>

fun Join :: "string \<Rightarrow> string list \<Rightarrow> string" where
  "Join sep [] = []"
| "Join sep [p] = p"
| "Join sep (p # q # ps) = p @ sep @ Join sep (q # ps)"

text \<open>
  \<open>strings.LastIndex(s, sep)\<close> for a one-byte separator; \<open>None\<close> stands for the result -1.
\<close>

fun LastIndex1 :: "char \<Rightarrow> string \<Rightarrow> nat option" where
  "LastIndex1 sep [] = None"
| "LastIndex1 sep (c # cs) =
     (case LastIndex1 sep cs of
        Some i \<Rightarrow> Some (Suc i)
      | None \<Rightarrow> (if c = sep then Some 0 else None))"

text \<open>
  \<open>strings.TrimSpace\<close> drops the code points of \<open>unicode.IsSpace\<close> from both ends; here is
  their list as UTF-8 byte sequences, the six ASCII ones first.
\<close>

definition space_runes :: "string list" where
  "space_runes =
     [[CHR '' ''], [CHR 0x09], [CHR 0x0A], [CHR 0x0B], [CHR 0x0C], [CHR 0x0D],
      [CHR 0xC2, CHR 0x85], [CHR 0xC2, CHR 0xA0], [CHR 0xE1, CHR 0x9A, CHR 0x80],
      [CHR 0xE2, CHR 0x80, CHR 0x80], [CHR 0xE2, CHR 0x80, CHR 0x81],
      [CHR 0xE2, CHR 0x80, CHR 0x82], [CHR 0xE2, CHR 0x80, CHR 0x83],
      [CHR 0xE2, CHR 0x80, CHR 0x84], [CHR 0xE2, CHR 0x80, CHR 0x85],
      [CHR 0xE2, CHR 0x80, CHR 0x86], [CHR 0xE2, CHR 0x80, CHR 0x87],
      [CHR 0xE2, CHR 0x80, CHR 0x88], [CHR 0xE2, CHR 0x80, CHR 0x89],
      [CHR 0xE2, CHR 0x80, CHR 0x8A], [CHR 0xE2, CHR 0x80, CHR 0xA8],
      [CHR 0xE2, CHR 0x80, CHR 0xA9], [CHR 0xE2, CHR 0x80, CHR 0xAF],
      [CHR 0xE2, CHR 0x81, CHR 0x9F], [CHR 0xE3, CHR 0x80, CHR 0x80]]"

function trim_left_by :: "string list \<Rightarrow> string \<Rightarrow> string" where
  "trim_left_by rs s =
     (case find (\<lambda>r. r \<noteq> [] \<and> HasPrefix s r) rs of
        None \<Rightarrow> s
      | Some r \<Rightarrow> trim_left_by rs (drop (length r) s))"
  by pat_completeness auto
termination
  by (relation "measure (\<lambda>(rs, s). length s)")
     (auto simp: find_Some_iff HasPrefix_def intro!: diff_less)

declare trim_left_by.simps [simp del]

definition TrimSpace :: "string \<Rightarrow> string" where
  "TrimSpace s =
     rev (trim_left_by (map rev space_runes) (rev (trim_left_by space_runes s)))"

text \<open>\<open>strings.TrimSuffix\<close>.\<close>

definition TrimSuffix :: "string \<Rightarrow> string \<Rightarrow> string" where
  "TrimSuffix s p = (if HasSuffix s p then take (length s - length p) s else s)"

text \<open>\<open>strconv.Itoa\<close> of a count.\<close>

fun Itoa :: "nat \<Rightarrow> string" where
  "Itoa n = (if n < 10 then [char_of (48 + n)] else Itoa (n div 10) @ [char_of (48 + n mod 10)])"

declare Itoa.simps [simp del]

section \<open>Lemmas on strings\<close>

lemma HasPrefix_iff: "HasPrefix s p \<longleftrightarrow> (\<exists>t. s = p @ t)"
proof
  assume "HasPrefix s p"
  then have "s = p @ drop (length p) s"
    unfolding HasPrefix_def by (metis append_take_drop_id)
  then show "\<exists>t. s = p @ t" by blast
qed (auto simp: HasPrefix_def)

lemma Contains_str_iff: "Contains_str s p \<longleftrightarrow> (\<exists>a b. s = a @ p @ b)"
proof (induction s)
  case Nil
  then show ?case by auto
next
  case (Cons c cs)
  have "(\<exists>a b. c # cs = a @ p @ b) \<longleftrightarrow> (\<exists>b. c # cs = p @ b) \<or> (\<exists>a b. cs = a @ p @ b)"
    by (auto simp: Cons_eq_append_conv)
  then show ?case by (simp add: Cons.IH HasPrefix_iff)
qed

lemma Split1_nonempty [simp]: "Split1 sep s \<noteq> []"
  by (cases s) (auto split: list.splits)

lemma Split1_no_sep: "sep \<notin> set s \<Longrightarrow> Split1 sep s = [s]"
  by (induction s) auto

lemma Split1_append: "sep \<notin> set a \<Longrightarrow> Split1 sep (a @ sep # b) = a # Split1 sep b"
  by (induction a) auto

lemma Split1_append_sep: "Split1 sep (a @ sep # b) = Split1 sep a @ Split1 sep b"
  by (induction a) (auto split: list.splits)

lemma Split1_parts: "p \<in> set (Split1 sep s) \<Longrightarrow> sep \<notin> set p"
  by (induction s arbitrary: p) (auto split: list.splits if_splits)

lemma set_Itoa: "set (Itoa n) \<subseteq> {CHR ''0''..CHR ''9''}"
proof (induction n rule: Itoa.induct)
  case (1 n)
  have digit: "char_of (48 + k) \<in> {CHR ''0''..CHR ''9''}" if "k < 10" for k :: nat
    using that by (auto simp: less_eq_char_def)
  show ?case using 1 digit [of n] digit [of "n mod 10"] by (subst Itoa.simps) auto
qed

lemma Itoa_not_Nil [simp]: "Itoa n \<noteq> []"
  by (subst Itoa.simps) simp

lemma Join_Split1: "Join [sep] (Split1 sep s) = s"
proof (induction s)
  case Nil
  then show ?case by simp
next
  case (Cons c cs)
  obtain p ps where "Split1 sep cs = p # ps" by (cases "Split1 sep cs") auto
  with Cons.IH show ?case by (cases ps) auto
qed

lemma LastIndex1_None: "LastIndex1 sep s = None \<longleftrightarrow> sep \<notin> set s"
  by (induction s) (auto split: option.splits)

lemma LastIndex1_append: "sep \<notin> set b \<Longrightarrow> LastIndex1 sep (a @ sep # b) = Some (length a)"
proof (induction a)
  case Nil
  then have "LastIndex1 sep b = None" by (simp add: LastIndex1_None)
  then show ?case by simp
qed simp

end
