(* ===== verification/GoError.thy ===== *)
theory GoError
  imports Prelude
begin

text \<open>
  Go error values and the two packages that classify them: \<open>internal/errs\<close>
  (\<open>As\<close>, \<open>IsA\<close>), \<open>tfawserr\<close> for the AWS SDK v2 and \<open>v2/awsv1shim/tfawserr\<close> for the AWS SDK v1.
  An error is a tree: \<open>Unwrap\<close> gives the children, and \<open>errors.As\<close> searches the tree
  depth first. The classifiers are characterised by the first matching node of that tree.
\<close>

section \<open>Error values\<close>

text \<open>
  The constructors are the error types the sources build or tell apart.
  \<open>WrapError p e\<close> is \<open>fmt.Errorf("p%w", e)\<close>, \<open>JoinError\<close> is \<open>errors.Join\<close>.
  \<open>SmithyAPIError\<close> (code, message), \<open>HTTPResponseError\<close> (status code, wrapped error),
  \<open>NetOpError\<close> (text), \<open>MaxAttemptsError\<close> (attempt, wrapped error), \<open>AwsV1Error\<close> (code,
  message, OrigErr), \<open>AwsV1RequestFailure\<close> (code, message, OrigErr, status code) and
  \<open>EndpointNotFoundError\<close> are the library types the code asks for or builds by type.
  \<open>ForeignError\<close> is any other library error: its text and the errors it unwraps to.
\<close>

datatype go_error =
    ErrorString string
  | WrapError string go_error
  | JoinError "go_error list"
  | SmithyAPIError string string
  | HTTPResponseError int "go_error option"
  | NetOpError string
  | MaxAttemptsError int go_error
  | AwsV1Error string string "go_error option"
  | AwsV1RequestFailure string string "go_error option" int
  | EndpointNotFoundError
  | InvalidRegionError string
  | ForeignError string "go_error list"

text \<open>
  \<open>Unwrap() error\<close> and \<open>Unwrap() []error\<close>. The SDK v1 errors have \<open>OrigErr\<close> but no \<open>Unwrap\<close>.
\<close>

fun Unwrap :: "go_error \<Rightarrow> go_error list" where
  "Unwrap (WrapError p e) = [e]"
| "Unwrap (JoinError es) = es"
| "Unwrap (HTTPResponseError st (Some e)) = [e]"
| "Unwrap (MaxAttemptsError n e) = [e]"
| "Unwrap (ForeignError txt es) = es"
| "Unwrap _ = []"

lemma Unwrap_size [termination_simp]: "c \<in> set (Unwrap e) \<Longrightarrow> size c < size e"
  by (cases e rule: Unwrap.cases) (auto dest: size_list_estimation'[where f = size, OF _ order_refl])

section \<open>errors.As\<close>

text \<open>
  \<open>errors.As(err, target)\<close>: \<open>m\<close> is the assignability test against the target type, tried on
  the error itself and then on the tree of each child, in order.
\<close>

function errors_As :: "(go_error \<Rightarrow> 'a option) \<Rightarrow> go_error \<Rightarrow> 'a option" where
  "errors_As m e =
     (case m e of
        Some v \<Rightarrow> Some v
      | None \<Rightarrow> first_some (errors_As m) (Unwrap e))"
  by pat_completeness auto
termination
  by (relation "measure (\<lambda>(m, e). size e)") (auto simp: Unwrap_size)

declare errors_As.simps [simp del]

text \<open>The nodes of an error's tree in the order \<open>errors.As\<close> visits them.\<close>

function err_tree :: "go_error \<Rightarrow> go_error list" where
  "err_tree e = e # concat (map err_tree (Unwrap e))"
  by pat_completeness auto
termination
  by (relation "measure size") (auto simp: Unwrap_size)

declare err_tree.simps [simp del]

lemma errors_As_tree: "errors_As m e = first_some m (err_tree e)"
proof (induction m e rule: errors_As.induct)
  case (1 m e)
  have "first_some (errors_As m) (Unwrap e) = first_some m (concat (map err_tree (Unwrap e)))"
    if "m e = None"
    unfolding first_some_concat first_some_map
    using 1 that by (intro first_some_cong) auto
  then show ?case
    by (subst errors_As.simps, subst err_tree.simps) (auto split: option.splits)
qed

lemma err_tree_self [simp]: "e \<in> set (err_tree e)"
  by (subst err_tree.simps) simp

text \<open>\<open>errs.As\<close> and \<open>errs.IsA\<close>; a nil error has no tree.\<close>

definition errs_As :: "(go_error \<Rightarrow> 'a option) \<Rightarrow> go_error option \<Rightarrow> 'a option" where
  "errs_As m err = (case err of None \<Rightarrow> None | Some e \<Rightarrow> errors_As m e)"

definition errs_IsA :: "(go_error \<Rightarrow> 'a option) \<Rightarrow> go_error option \<Rightarrow> bool" where
  "errs_IsA m err \<longleftrightarrow> errs_As m err \<noteq> None"

section \<open>Error texts\<close>

text \<open>
  \<open>Error() string\<close>. The texts of the SDK error types are the SDK's: \<open>dep\<close> gives them.
\<close>

definition InvalidRegionError_Error :: "string \<Rightarrow> string" where [simp]:
  "InvalidRegionError_Error region = ''invalid AWS Region: '' @ region"

fun err_Error :: "(go_error \<Rightarrow> string) \<Rightarrow> go_error \<Rightarrow> string" where
  "err_Error dep (ErrorString s) = s"
| "err_Error dep (WrapError p e) = p @ err_Error dep e"
| "err_Error dep (JoinError es) = Join [CHR 0x0A] (map (err_Error dep) es)"
| "err_Error dep (InvalidRegionError r) = InvalidRegionError_Error r"
| "err_Error dep (NetOpError txt) = txt"
| "err_Error dep (ForeignError txt es) = txt"
| "err_Error dep e = dep e"

section \<open>tfawserr (AWS SDK v2)\<close>

text \<open>Assignability to \<open>smithy.APIError\<close> (giving code and message) and to
  \<open>*smithyhttp.ResponseError\<close> (giving the HTTP status code).\<close>

fun as_APIError :: "go_error \<Rightarrow> (string \<times> string) option" where
  "as_APIError (SmithyAPIError code msg) = Some (code, msg)"
| "as_APIError _ = None"

fun as_ResponseError :: "go_error \<Rightarrow> int option" where
  "as_ResponseError (HTTPResponseError st e) = Some st"
| "as_ResponseError _ = None"

definition ErrCodeEquals :: "go_error option \<Rightarrow> string list \<Rightarrow> bool" where
  "ErrCodeEquals err codes =
     (case errs_As as_APIError err of
        Some (code, msg) \<Rightarrow> (if code \<in> set codes then True else False)
      | None \<Rightarrow> False)"

definition ErrCodeContains :: "go_error option \<Rightarrow> string \<Rightarrow> bool" where
  "ErrCodeContains err code =
     (case errs_As as_APIError err of
        Some (c, msg) \<Rightarrow> Contains_str c code
      | None \<Rightarrow> False)"

definition ErrMessageContains :: "go_error option \<Rightarrow> string \<Rightarrow> string \<Rightarrow> bool" where
  "ErrMessageContains err code message =
     (case errs_As as_APIError err of
        Some (c, msg) \<Rightarrow> c = code \<and> Contains_str msg message
      | None \<Rightarrow> False)"

fun ErrMessageContainsAny :: "go_error option \<Rightarrow> string \<Rightarrow> string list \<Rightarrow> bool" where
  "ErrMessageContainsAny err code [] = False"
| "ErrMessageContainsAny err code (m # ms) =
     (if ErrMessageContains err code m then True else ErrMessageContainsAny err code ms)"

definition ErrHTTPStatusCodeEquals :: "go_error option \<Rightarrow> int list \<Rightarrow> bool" where
  "ErrHTTPStatusCodeEquals err statusCodes =
     (case errs_As as_ResponseError err of
        Some st \<Rightarrow> (if st \<in> set statusCodes then True else False)
      | None \<Rightarrow> False)"

section \<open>tfawserr (AWS SDK v1)\<close>

text \<open>Assignability to \<open>awserr.Error\<close> (code, message, OrigErr) and \<open>awserr.RequestFailure\<close>.\<close>

fun as_AwsErr :: "go_error \<Rightarrow> (string \<times> string \<times> go_error option) option" where
  "as_AwsErr (AwsV1Error code msg orig) = Some (code, msg, orig)"
| "as_AwsErr (AwsV1RequestFailure code msg orig st) = Some (code, msg, orig)"
| "as_AwsErr _ = None"

fun as_RequestFailure :: "go_error \<Rightarrow> int option" where
  "as_RequestFailure (AwsV1RequestFailure code msg orig st) = Some st"
| "as_RequestFailure _ = None"

definition v1_ErrCodeEquals :: "go_error option \<Rightarrow> string list \<Rightarrow> bool" where
  "v1_ErrCodeEquals err codes =
     (case errs_As as_AwsErr err of
        Some (code, msg, orig) \<Rightarrow> (if code \<in> set codes then True else False)
      | None \<Rightarrow> False)"

definition v1_ErrCodeContains :: "go_error option \<Rightarrow> string \<Rightarrow> bool" where
  "v1_ErrCodeContains err code =
     (case errs_As as_AwsErr err of
        Some (c, msg, orig) \<Rightarrow> Contains_str c code
      | None \<Rightarrow> False)"

definition v1_ErrMessageContains :: "go_error option \<Rightarrow> string \<Rightarrow> string \<Rightarrow> bool" where
  "v1_ErrMessageContains err code message =
     (case errs_As as_AwsErr err of
        Some (c, msg, orig) \<Rightarrow> c = code \<and> Contains_str msg message
      | None \<Rightarrow> False)"

definition v1_ErrStatusCodeEquals :: "go_error option \<Rightarrow> int \<Rightarrow> bool" where
  "v1_ErrStatusCodeEquals err statusCode =
     (case errs_As as_RequestFailure err of
        Some st \<Rightarrow> st = statusCode
      | None \<Rightarrow> False)"

text \<open>
  The type assertion \<open>err.(awserr.Error)\<close> has no comma-ok form: on a value of another
  dynamic type it panics.
\<close>

definition assert_AwsErr :: "go_error option \<Rightarrow> (string \<times> string \<times> go_error option) go" where
  "assert_AwsErr err =
     (case err of
        None \<Rightarrow> Panic ''interface conversion: interface is nil''
      | Some e \<Rightarrow>
          (case as_AwsErr e of
             None \<Rightarrow> Panic ''interface conversion: missing method Code''
           | Some t \<Rightarrow> Ret t))"

definition ErrMessageAndOrigErrContain ::
    "(go_error \<Rightarrow> string) \<Rightarrow> go_error option \<Rightarrow> string \<Rightarrow> string \<Rightarrow> string \<Rightarrow> bool go" where
  "ErrMessageAndOrigErrContain dep err code message origErrMessage =
     (if \<not> v1_ErrMessageContains err code message then Ret False
      else if origErrMessage = [] then Ret True
      else
        (case assert_AwsErr err of
           Panic p \<Rightarrow> Panic p
         | Ret (c, m, origErr) \<Rightarrow>
             (case origErr of
                Some e \<Rightarrow> Ret (Contains_str (err_Error dep e) origErrMessage)
              | None \<Rightarrow> Ret False)))"

section \<open>Classifiers look through wrapping\<close>

text \<open>
  A target of \<open>errors.As\<close> that neither \<open>fmt.Errorf\<close> nor \<open>errors.Join\<close> produces: every search
  for it sees through wrapped and joined errors. All four targets of the two packages are
  of this kind.
\<close>

locale error_target =
  fixes target :: "go_error \<Rightarrow> 'a option"
  assumes target_wrap: "target (WrapError p e) = None"
    and target_join: "target (JoinError es) = None"
begin

lemma As_wrap: "errs_As target (Some (WrapError p e)) = errs_As target (Some e)"
  by (simp add: errs_As_def errors_As.simps [of target "WrapError p e"] target_wrap
      split: option.split)

lemma As_join:
  "errs_As target (Some (JoinError es)) = first_some (\<lambda>e. errs_As target (Some e)) es"
  by (simp add: errs_As_def errors_As.simps [of target "JoinError es"] target_join)

lemma As_first:
  "errs_As target (Some e) = Some v \<longleftrightarrow>
     (\<exists>as x bs. err_tree e = as @ x # bs \<and> (\<forall>a \<in> set as. target a = None) \<and> target x = Some v)"
  by (simp add: errs_As_def errors_As_tree first_some_Some)

lemma As_none: "errs_As target (Some e) = None \<longleftrightarrow> (\<forall>x \<in> set (err_tree e). target x = None)"
  by (simp add: errs_As_def errors_As_tree first_some_None)

lemma As_self: "target e = Some v \<Longrightarrow> errs_As target (Some e) = Some v"
  by (simp add: errs_As_def errors_As.simps)

end

interpretation api: error_target as_APIError by unfold_locales simp_all
interpretation resp: error_target as_ResponseError by unfold_locales simp_all
interpretation aws1: error_target as_AwsErr by unfold_locales simp_all
interpretation reqfail: error_target as_RequestFailure by unfold_locales simp_all

lemma as_APIError_Some: "as_APIError e = Some (c, m) \<longleftrightarrow> e = SmithyAPIError c m"
  by (cases e) auto

lemma as_APIError_None: "as_APIError e = None \<longleftrightarrow> (\<forall>c m. e \<noteq> SmithyAPIError c m)"
  by (cases e) auto

lemma ErrMessageContainsAny_iff:
  "ErrMessageContainsAny err code ms \<longleftrightarrow> (\<exists>m \<in> set ms. ErrMessageContains err code m)"
  by (induction ms) auto

text \<open>C4: \<open>tfawserr.ErrCodeEquals\<close> is decided by the first API error that a depth first
  walk of the error's tree meets: it holds iff there is one and its code is in the list;
  an API error further on, shadowed by it, never counts.\<close>

theorem ErrCodeEquals_first_api_error:
  "ErrCodeEquals (Some e) codes \<longleftrightarrow>
     (\<exists>as c m bs. err_tree e = as @ SmithyAPIError c m # bs \<and>
        filter (\<lambda>a. as_APIError a \<noteq> None) as = [] \<and> c \<in> set codes)"
proof -
  have first: "errs_As as_APIError (Some e) = Some (c, m) \<longleftrightarrow>
      (\<exists>as bs. err_tree e = as @ SmithyAPIError c m # bs \<and>
         filter (\<lambda>a. as_APIError a \<noteq> None) as = [])" for c m
    unfolding api.As_first by (simp add: as_APIError_Some as_APIError_None filter_empty_conv)
  have "ErrCodeEquals (Some e) codes \<longleftrightarrow>
      (\<exists>c m. errs_As as_APIError (Some e) = Some (c, m) \<and> c \<in> set codes)"
    by (simp add: ErrCodeEquals_def split: option.split)
  then show ?thesis unfolding first by blast
qed

text \<open>The SDK v1 classifier \<open>ErrMessageAndOrigErrContain\<close> accepts a wrapped error in its
  first test, which uses \<open>errors.As\<close>, and then asserts the type of the outer error: for
  every matching \<open>awserr.Error\<close> and every non-empty original message the call panics as soon
  as the error is wrapped, while the bare error gets its answer.\<close>

theorem ErrMessageAndOrigErrContain_wrapped_panics:
  "ErrMessageAndOrigErrContain dep (Some (WrapError pre (AwsV1Error code (a @ m @ b) (Some oe))))
       code m (c # cs)
     = Panic ''interface conversion: missing method Code'' \<and>
   ErrMessageAndOrigErrContain dep (Some (AwsV1Error code (a @ m @ b) (Some oe))) code m (c # cs)
     = Ret (Contains_str (err_Error dep oe) (c # cs))"
proof -
  let ?e = "AwsV1Error code (a @ m @ b) (Some oe)"
  have *: "v1_ErrMessageContains (Some ?e) code m"
    by (auto simp: v1_ErrMessageContains_def aws1.As_self Contains_str_iff)
  then have "v1_ErrMessageContains (Some (WrapError pre ?e)) code m"
    by (simp add: v1_ErrMessageContains_def aws1.As_wrap)
  with * show ?thesis
    by (simp add: ErrMessageAndOrigErrContain_def assert_AwsErr_def)
qed

end
