(* ===== verification/ConfigTypes.thy ===== *)
theory ConfigTypes
  imports Prelude
begin

text \<open>
  The configuration types of \<open>internal/config\<close> (aliased in \<open>config.go\<close>): \<open>Config\<close>,
  \<open>AssumeRole\<close>, \<open>AssumeRoleWithWebIdentity\<close>, \<open>APNInfo\<close> and \<open>UserAgentProduct\<close>. A field
  \<open>F\<close> of \<open>Config\<close> is \<open>c_F\<close>, of \<open>AssumeRole\<close> \<open>ar_F\<close>, of \<open>AssumeRoleWithWebIdentity\<close> \<open>wi_F\<close>, of
  \<open>APNInfo\<close> \<open>apn_F\<close> and of \<open>UserAgentProduct\<close> \<open>p_F\<close>. A pointer, and a slice whose nilness
  the code tests, is an option; a map is the list of its entries in the order a
  \<open>range\<close> loop visits them; a \<open>time.Duration\<close> is its count of nanoseconds.
\<close>

record UserAgentProduct =
  p_Name :: string
  p_Version :: string
  p_Comment :: string

type_synonym UserAgentProducts = "UserAgentProduct list"

record APNInfo =
  apn_PartnerName :: string
  apn_Products :: "UserAgentProduct list"

record AssumeRole =
  ar_RoleARN :: string
  ar_Duration :: int
  ar_ExternalID :: string
  ar_Policy :: string
  ar_PolicyARNs :: "string list"
  ar_SessionName :: string
  ar_SourceIdentity :: string
  ar_Tags :: "(string \<times> string) list"
  ar_TransitiveTagKeys :: "string list"

record AssumeRoleWithWebIdentity =
  wi_RoleARN :: string
  wi_Duration :: int
  wi_Policy :: string
  wi_PolicyARNs :: "string list"
  wi_SessionName :: string
  wi_WebIdentityToken :: string
  wi_WebIdentityTokenFile :: string

text \<open>\<open>ProxyMode\<close>, and the SDK's \<open>imds.ClientEnableState\<close> with its three named constants.\<close>

datatype ProxyMode = HTTPProxyModeLegacy | HTTPProxyModeSeparate | ProxyMode_other int

datatype ClientEnableState =
    ClientDefaultEnableState | ClientDisabled | ClientEnabled | ClientEnableState_other int

record Config =
  c_AccessKey :: string
  c_AllowedAccountIds :: "string list"
  c_APNInfo :: "APNInfo option"
  c_AssumeRole :: "AssumeRole list option"
  c_AssumeRoleWithWebIdentity :: "AssumeRoleWithWebIdentity option"
  c_Backoff :: "handle option"
  c_CallerDocumentationURL :: string
  c_CallerName :: string
  c_CustomCABundle :: string
  c_EC2MetadataServiceEnableState :: ClientEnableState
  c_EC2MetadataServiceEndpoint :: string
  c_EC2MetadataServiceEndpointMode :: string
  c_ForbiddenAccountIds :: "string list"
  c_HTTPClient :: "handle option"
  c_HTTPProxy :: "string option"
  c_HTTPSProxy :: "string option"
  c_IamEndpoint :: string
  c_Insecure :: bool
  c_Logger :: "handle option"
  c_MaxBackoff :: int
  c_MaxRetries :: int
  c_NoProxy :: string
  c_Profile :: string
  c_HTTPProxyMode :: ProxyMode
  c_Region :: string
  c_RetryMode :: string
  c_SecretKey :: string
  c_SharedCredentialsFiles :: "string list"
  c_SharedConfigFiles :: "string list"
  c_SkipCredsValidation :: bool
  c_SkipRequestingAccountId :: bool
  c_SsoEndpoint :: string
  c_StsEndpoint :: string
  c_StsRegion :: string
  c_SuppressDebugLog :: bool
  c_Token :: string
  c_TokenBucketRateLimiterCapacity :: int
  c_UseDualStackEndpoint :: bool
  c_UseFIPSEndpoint :: bool
  c_UserAgent :: UserAgentProducts

text \<open>The addressing modes a caller can choose for the metadata service (\<open>config.go\<close>).\<close>

definition EC2MetadataEndpointModeIPv4 :: string where "EC2MetadataEndpointModeIPv4 = ''IPv4''"
definition EC2MetadataEndpointModeIPv6 :: string where "EC2MetadataEndpointModeIPv6 = ''IPv6''"

definition EC2MetadataEndpointMode_Values :: "string list" where
  "EC2MetadataEndpointMode_Values = [EC2MetadataEndpointModeIPv4, EC2MetadataEndpointModeIPv6]"

text \<open>The zero value \<open>Config{}\<close>, the base of the concrete configurations below.\<close>

definition zero_Config :: Config where
  "zero_Config =
     \<lparr>c_AccessKey = [], c_AllowedAccountIds = [], c_APNInfo = None, c_AssumeRole = None,
      c_AssumeRoleWithWebIdentity = None, c_Backoff = None, c_CallerDocumentationURL = [],
      c_CallerName = [], c_CustomCABundle = [],
      c_EC2MetadataServiceEnableState = ClientDefaultEnableState,
      c_EC2MetadataServiceEndpoint = [], c_EC2MetadataServiceEndpointMode = [],
      c_ForbiddenAccountIds = [], c_HTTPClient = None, c_HTTPProxy = None, c_HTTPSProxy = None,
      c_IamEndpoint = [], c_Insecure = False, c_Logger = None, c_MaxBackoff = 0,
      c_MaxRetries = 0, c_NoProxy = [], c_Profile = [], c_HTTPProxyMode = HTTPProxyModeLegacy,
      c_Region = [], c_RetryMode = [], c_SecretKey = [], c_SharedCredentialsFiles = [],
      c_SharedConfigFiles = [], c_SkipCredsValidation = False,
      c_SkipRequestingAccountId = False, c_SsoEndpoint = [], c_StsEndpoint = [],
      c_StsRegion = [], c_SuppressDebugLog = False, c_Token = [],
      c_TokenBucketRateLimiterCapacity = 0, c_UseDualStackEndpoint = False,
      c_UseFIPSEndpoint = False, c_UserAgent = []\<rparr>"

definition zero_AssumeRole :: AssumeRole where
  "zero_AssumeRole =
     \<lparr>ar_RoleARN = [], ar_Duration = 0, ar_ExternalID = [], ar_Policy = [], ar_PolicyARNs = [],
      ar_SessionName = [], ar_SourceIdentity = [], ar_Tags = [], ar_TransitiveTagKeys = []\<rparr>"

definition zero_UserAgentProduct :: UserAgentProduct where
  "zero_UserAgentProduct = \<lparr>p_Name = [], p_Version = [], p_Comment = []\<rparr>"

end
