(* ===== verification/Diag.thy ===== *)
theory Diag
  imports GoError ConfigTypes
begin

text \<open>
  The \<open>diag\<close> package and the diagnostics the other packages implement: \<open>Severity\<close>, the six
  implementations of the \<open>Diagnostic\<close> interface (three of \<open>diag\<close>, two of
  \<open>internal/config/errors.go\<close>, one of \<open>errors.go\<close>) and the \<open>Diagnostics\<close> collection. The
  collection's operations call \<open>Equal\<close> and \<open>Severity\<close> through the interface, so they
  take them as arguments; the locale \<open>diag_interface\<close> states what they rely on, and the
  interpretation at the end provides it for the six implementations.
\<close>

section \<open>Severity\<close>

type_synonym Severity = int

definition SeverityInvalid :: Severity where "SeverityInvalid = 0"
definition SeverityError :: Severity where "SeverityError = 1"
definition SeverityWarning :: Severity where "SeverityWarning = 2"

lemmas severity_defs = SeverityInvalid_def SeverityError_def SeverityWarning_def

definition Severity_String :: "Severity \<Rightarrow> string" where
  "Severity_String s =
     (if s = SeverityError then ''Error''
      else if s = SeverityWarning then ''Warning''
      else ''Invalid'')"

section \<open>The Diagnostics collection\<close>

text \<open>
  \<open>Equal d other\<close> is the method \<open>d.Equal(other)\<close>; \<open>other\<close> is an interface value and may be
  nil (\<open>None\<close>).
\<close>

fun diags_Contains :: "('d \<Rightarrow> 'd option \<Rightarrow> bool) \<Rightarrow> 'd list \<Rightarrow> 'd option \<Rightarrow> bool" where
  "diags_Contains Equal [] x = False"
| "diags_Contains Equal (d # ds) x = (if Equal d x then True else diags_Contains Equal ds x)"

fun diags_Append :: "('d \<Rightarrow> 'd option \<Rightarrow> bool) \<Rightarrow> 'd list \<Rightarrow> 'd option list \<Rightarrow> 'd list" where
  "diags_Append Equal diags [] = diags"
| "diags_Append Equal diags (None # rest) = diags_Append Equal diags rest"
| "diags_Append Equal diags (Some d # rest) =
     (if diags_Contains Equal diags (Some d) then diags_Append Equal diags rest
      else diags_Append Equal (diags @ [d]) rest)"

text \<open>
  The index loop of \<open>Equal\<close> runs after the length test, so every index is in range.
\<close>

fun diags_Equal_loop :: "('d \<Rightarrow> 'd option \<Rightarrow> bool) \<Rightarrow> 'd list \<Rightarrow> 'd list \<Rightarrow> bool" where
  "diags_Equal_loop Equal (d # ds) (x # xs) =
     (if \<not> Equal d (Some x) then False else diags_Equal_loop Equal ds xs)"
| "diags_Equal_loop Equal _ _ = True"

definition diags_Equal :: "('d \<Rightarrow> 'd option \<Rightarrow> bool) \<Rightarrow> 'd list \<Rightarrow> 'd list \<Rightarrow> bool" where
  "diags_Equal Equal diags other =
     (if length diags \<noteq> length other then False else diags_Equal_loop Equal diags other)"

fun diags_HasError :: "('d \<Rightarrow> Severity) \<Rightarrow> 'd list \<Rightarrow> bool" where
  "diags_HasError Sev [] = False"
| "diags_HasError Sev (d # ds) = (if Sev d = SeverityError then True else diags_HasError Sev ds)"

definition diags_Count :: "'d list \<Rightarrow> nat" where
  "diags_Count diags = length diags"

fun diags_Errors :: "('d \<Rightarrow> Severity) \<Rightarrow> 'd list \<Rightarrow> 'd list" where
  "diags_Errors Sev [] = []"
| "diags_Errors Sev (d # ds) =
     (if SeverityError = Sev d then d # diags_Errors Sev ds else diags_Errors Sev ds)"

fun diags_Warnings :: "('d \<Rightarrow> Severity) \<Rightarrow> 'd list \<Rightarrow> 'd list" where
  "diags_Warnings Sev [] = []"
| "diags_Warnings Sev (d # ds) =
     (if SeverityWarning = Sev d then d # diags_Warnings Sev ds else diags_Warnings Sev ds)"

definition diags_ErrorsCount :: "('d \<Rightarrow> Severity) \<Rightarrow> 'd list \<Rightarrow> nat" where
  "diags_ErrorsCount Sev diags = length (diags_Errors Sev diags)"

definition diags_WarningsCount :: "('d \<Rightarrow> Severity) \<Rightarrow> 'd list \<Rightarrow> nat" where
  "diags_WarningsCount Sev diags = length (diags_Warnings Sev diags)"

lemma diags_Contains_iff: "diags_Contains Equal ds x \<longleftrightarrow> (\<exists>d \<in> set ds. Equal d x)"
  by (induction ds) auto

lemma diags_HasError_iff: "diags_HasError Sev ds \<longleftrightarrow> (\<exists>d \<in> set ds. Sev d = SeverityError)"
  by (induction ds) auto

lemma diags_HasError_append:
  "diags_HasError Sev (ds @ es) \<longleftrightarrow> diags_HasError Sev ds \<or> diags_HasError Sev es"
  by (auto simp: diags_HasError_iff)

lemma diags_Errors_filter: "diags_Errors Sev ds = filter (\<lambda>d. Sev d = SeverityError) ds"
  by (induction ds) auto

lemma diags_Warnings_filter: "diags_Warnings Sev ds = filter (\<lambda>d. Sev d = SeverityWarning) ds"
  by (induction ds) auto

lemma diags_Append_append:
  "diags_Append Equal ds (xs @ ys) = diags_Append Equal (diags_Append Equal ds xs) ys"
  by (induction Equal ds xs rule: diags_Append.induct) auto

lemma diags_Append_prefix: "\<exists>new. diags_Append Equal ds xs = ds @ new \<and> Some ` set new \<subseteq> set xs"
proof (induction Equal ds xs rule: diags_Append.induct)
  case (3 Equal ds d rest)
  show ?case
  proof (cases "diags_Contains Equal ds (Some d)")
    case True
    with "3.IH"(1) show ?thesis by auto
  next
    case False
    with "3.IH"(2) obtain new where
      "diags_Append Equal (ds @ [d]) rest = (ds @ [d]) @ new" "Some ` set new \<subseteq> set rest" by auto
    with False show ?thesis by (intro exI [of _ "d # new"]) auto
  qed
qed auto

text \<open>No element of a list equals a later one.\<close>

definition no_duplicates :: "('d \<Rightarrow> 'd option \<Rightarrow> bool) \<Rightarrow> 'd list \<Rightarrow> bool" where
  "no_duplicates Equal ds \<longleftrightarrow> sorted_wrt (\<lambda>a b. \<not> Equal a (Some b)) ds"

lemma no_duplicates_snoc:
  "no_duplicates Equal (ds @ [d]) \<longleftrightarrow>
     no_duplicates Equal ds \<and> \<not> diags_Contains Equal ds (Some d)"
  by (auto simp: no_duplicates_def sorted_wrt_append diags_Contains_iff)

lemma diags_Append_no_duplicates:
  "no_duplicates Equal ds \<Longrightarrow> no_duplicates Equal (diags_Append Equal ds xs)"
  by (induction Equal ds xs rule: diags_Append.induct) (auto simp: no_duplicates_snoc)

section \<open>The interface contract\<close>

text \<open>
  What the collection relies on: \<open>Equal\<close> is an equivalence on non-nil diagnostics, never
  relates anything to nil, and equal diagnostics have the same severity.
\<close>

locale diag_interface =
  fixes Equal :: "'d \<Rightarrow> 'd option \<Rightarrow> bool"
    and Sev :: "'d \<Rightarrow> Severity"
  assumes Equal_nil: "\<not> Equal d None"
    and Equal_refl: "Equal d (Some d)"
    and Equal_sym: "Equal d (Some e) \<Longrightarrow> Equal e (Some d)"
    and Equal_trans: "Equal d (Some e) \<Longrightarrow> Equal e (Some f) \<Longrightarrow> Equal d (Some f)"
    and Equal_Sev: "Equal d (Some e) \<Longrightarrow> Sev d = Sev e"
begin

lemma Contains_absorb:
  "diags_Contains Equal ds (Some d) \<Longrightarrow> Equal d y \<Longrightarrow> diags_Contains Equal ds y"
  by (cases y) (auto simp: diags_Contains_iff Equal_nil intro: Equal_trans)

lemma Append_Contains:
  "diags_Contains Equal (diags_Append Equal ds xs) y \<longleftrightarrow>
     diags_Contains Equal ds y \<or> (\<exists>d. Some d \<in> set xs \<and> Equal d y)"
proof (induction xs arbitrary: ds)
  case (Cons x xs)
  show ?case
  proof (cases x)
    case (Some d)
    have "diags_Contains Equal (ds @ [d]) y \<longleftrightarrow> diags_Contains Equal ds y \<or> Equal d y"
      by (auto simp: diags_Contains_iff)
    with Some Cons.IH show ?thesis by (auto dest: Contains_absorb)
  qed (simp add: Cons.IH)
qed simp

lemma Append_absorbed:
  "(\<And>d. Some d \<in> set xs \<Longrightarrow> diags_Contains Equal ds (Some d)) \<Longrightarrow> diags_Append Equal ds xs = ds"
proof (induction xs)
  case (Cons x xs)
  then show ?case by (cases x) auto
qed simp

lemma Append_idem: "diags_Append Equal (diags_Append Equal ds xs) xs = diags_Append Equal ds xs"
  by (rule Append_absorbed) (auto simp: Append_Contains Equal_refl)

lemma Contains_HasError:
  "diags_Contains Equal ds (Some d) \<Longrightarrow> Sev d = SeverityError \<Longrightarrow> diags_HasError Sev ds"
  by (metis diags_Contains_iff diags_HasError_iff Equal_Sev)

lemma Append_HasError:
  "diags_HasError Sev (diags_Append Equal ds xs) \<longleftrightarrow>
     diags_HasError Sev ds \<or> (\<exists>d. Some d \<in> set xs \<and> Sev d = SeverityError)"
proof (induction xs arbitrary: ds)
  case (Cons x xs)
  show ?case
  proof (cases x)
    case (Some d)
    have "diags_HasError Sev (ds @ [d]) \<longleftrightarrow> diags_HasError Sev ds \<or> Sev d = SeverityError"
      by (auto simp: diags_HasError_iff)
    with Some Cons.IH show ?thesis by (auto dest: Contains_HasError)
  qed (simp add: Cons.IH)
qed simp

lemma Equal_list_refl: "diags_Equal Equal ds ds"
proof -
  have "diags_Equal_loop Equal ds ds" by (induction ds) (simp_all add: Equal_refl)
  then show ?thesis by (simp add: diags_Equal_def)
qed

lemma Equal_list_HasError:
  "diags_Equal Equal ds es \<Longrightarrow> diags_HasError Sev ds = diags_HasError Sev es"
proof -
  have "length ds = length es \<Longrightarrow> diags_Equal_loop Equal ds es \<Longrightarrow>
      diags_HasError Sev ds = diags_HasError Sev es"
    by (induction ds es rule: list_induct2) (auto split: if_splits dest: Equal_Sev)
  then show "diags_Equal Equal ds es \<Longrightarrow> ?thesis"
    by (simp add: diags_Equal_def split: if_splits)
qed

end

section \<open>The six diagnostics\<close>

text \<open>
  Constructor arguments follow the constructors \<open>NewErrorDiagnostic\<close> and
  \<open>NewWarningDiagnostic\<close> (summary, detail), \<open>NewNativeErrorDiagnostic\<close> (error),
  \<open>newCannotAssumeRoleError\<close> (role, error), \<open>NewCannotAssumeRoleWithWebIdentityError\<close> and
  \<open>NewNoValidCredentialSourcesError\<close> (receiver config, error).
\<close>

datatype Diagnostic =
    ErrorDiagnostic string string
  | WarningDiagnostic string string
  | NativeErrorDiagnostic go_error
  | cannotAssumeRoleError AssumeRole go_error
  | CannotAssumeRoleWithWebIdentityError "Config option" go_error
  | NoValidCredentialSourcesError "Config option" go_error

text \<open>
  The methods of the types. \<open>Severity\<close>, \<open>Summary\<close>, \<open>Detail\<close> and \<open>Err\<close> of a type are functions of
  its fields; \<open>Equal\<close> asserts that the other diagnostic has the same dynamic type before it compares
  the texts. A nil interface is \<open>None\<close>.
\<close>

subsection \<open>\<open>diag/error_diagnostic.go\<close>\<close>

definition NewErrorDiagnostic :: "string \<Rightarrow> string \<Rightarrow> Diagnostic" where
  [simp]: "NewErrorDiagnostic summary detail = ErrorDiagnostic summary detail"

definition ErrorDiagnostic_Severity :: "string \<Rightarrow> string \<Rightarrow> Severity" where
  [simp]: "ErrorDiagnostic_Severity summary detail = SeverityError"

definition ErrorDiagnostic_Summary :: "string \<Rightarrow> string \<Rightarrow> string" where
  [simp]: "ErrorDiagnostic_Summary summary detail = summary"

definition ErrorDiagnostic_Detail :: "string \<Rightarrow> string \<Rightarrow> string" where
  [simp]: "ErrorDiagnostic_Detail summary detail = detail"

definition ErrorDiagnostic_Equal :: "string \<Rightarrow> string \<Rightarrow> Diagnostic option \<Rightarrow> bool" where
  "ErrorDiagnostic_Equal summary detail other =
     (case other of
        Some (ErrorDiagnostic s d) \<Rightarrow>
          ErrorDiagnostic_Summary s d = ErrorDiagnostic_Summary summary detail \<and>
          ErrorDiagnostic_Detail s d = ErrorDiagnostic_Detail summary detail
      | _ \<Rightarrow> False)"

subsection \<open>\<open>diag/warning_diagnostic.go\<close>\<close>

definition NewWarningDiagnostic :: "string \<Rightarrow> string \<Rightarrow> Diagnostic" where
  [simp]: "NewWarningDiagnostic summary detail = WarningDiagnostic summary detail"

definition WarningDiagnostic_Severity :: "string \<Rightarrow> string \<Rightarrow> Severity" where
  [simp]: "WarningDiagnostic_Severity summary detail = SeverityWarning"

definition WarningDiagnostic_Summary :: "string \<Rightarrow> string \<Rightarrow> string" where
  [simp]: "WarningDiagnostic_Summary summary detail = summary"

definition WarningDiagnostic_Detail :: "string \<Rightarrow> string \<Rightarrow> string" where
  [simp]: "WarningDiagnostic_Detail summary detail = detail"

definition WarningDiagnostic_Equal :: "string \<Rightarrow> string \<Rightarrow> Diagnostic option \<Rightarrow> bool" where
  "WarningDiagnostic_Equal summary detail other =
     (case other of
        Some (WarningDiagnostic s d) \<Rightarrow>
          WarningDiagnostic_Summary s d = WarningDiagnostic_Summary summary detail \<and>
          WarningDiagnostic_Detail s d = WarningDiagnostic_Detail summary detail
      | _ \<Rightarrow> False)"

subsection \<open>\<open>diag/native_error_diagnostic.go\<close>\<close>

definition NewNativeErrorDiagnostic :: "go_error \<Rightarrow> Diagnostic" where
  [simp]: "NewNativeErrorDiagnostic err = NativeErrorDiagnostic err"

definition NativeErrorDiagnostic_Severity :: "go_error \<Rightarrow> Severity" where
  [simp]: "NativeErrorDiagnostic_Severity err = SeverityError"

definition NativeErrorDiagnostic_Summary :: "(go_error \<Rightarrow> string) \<Rightarrow> go_error \<Rightarrow> string" where
  [simp]: "NativeErrorDiagnostic_Summary dep err = err_Error dep err"

definition NativeErrorDiagnostic_Detail :: "go_error \<Rightarrow> string" where
  [simp]: "NativeErrorDiagnostic_Detail err = []"

definition NativeErrorDiagnostic_Err :: "go_error \<Rightarrow> go_error" where
  [simp]: "NativeErrorDiagnostic_Err err = err"

definition NativeErrorDiagnostic_Equal :: "(go_error \<Rightarrow> string) \<Rightarrow> go_error \<Rightarrow> Diagnostic option \<Rightarrow> bool" where
  "NativeErrorDiagnostic_Equal dep err other =
     (case other of
        Some (NativeErrorDiagnostic e) \<Rightarrow>
          NativeErrorDiagnostic_Summary dep e = NativeErrorDiagnostic_Summary dep err \<and>
          NativeErrorDiagnostic_Detail e = NativeErrorDiagnostic_Detail err
      | _ \<Rightarrow> False)"

definition NativeErrorDiagnostic_GoString :: "(go_error \<Rightarrow> string) \<Rightarrow> go_error \<Rightarrow> string" where
  "NativeErrorDiagnostic_GoString dep err = ''NativeErrorDiagnostic: err: '' @ err_Error dep err"

subsection \<open>\<open>errors.go\<close>\<close>

definition newCannotAssumeRoleError :: "AssumeRole \<Rightarrow> go_error \<Rightarrow> Diagnostic" where
  [simp]: "newCannotAssumeRoleError ar err = cannotAssumeRoleError ar err"

definition cannotAssumeRoleError_Severity :: "AssumeRole \<Rightarrow> go_error \<Rightarrow> Severity" where
  [simp]: "cannotAssumeRoleError_Severity ar err = SeverityError"

definition cannotAssumeRoleError_Summary :: "AssumeRole \<Rightarrow> go_error \<Rightarrow> string" where
  [simp]: "cannotAssumeRoleError_Summary ar err = ''Cannot assume IAM Role''"

definition cannotAssumeRoleError_Detail :: "(go_error \<Rightarrow> string) \<Rightarrow> AssumeRole \<Rightarrow> go_error \<Rightarrow> string" where
  "cannotAssumeRoleError_Detail dep ar err =
     ''IAM Role ('' @ ar_RoleARN ar @ '') cannot be assumed.'' @ NL @ NL @
     ''There are a number of possible causes of this - the most common are:'' @ NL @
     ''  * The credentials used in order to assume the role are invalid'' @ NL @
     ''  * The credentials do not have appropriate permission to assume the role'' @ NL @
     ''  * The role ARN is not valid'' @ NL @ NL @
     ''Error: '' @ err_Error dep err @ NL"

definition cannotAssumeRoleError_Err :: "AssumeRole \<Rightarrow> go_error \<Rightarrow> go_error" where
  [simp]: "cannotAssumeRoleError_Err ar err = err"

definition cannotAssumeRoleError_Equal ::
    "(go_error \<Rightarrow> string) \<Rightarrow> AssumeRole \<Rightarrow> go_error \<Rightarrow> Diagnostic option \<Rightarrow> bool" where
  "cannotAssumeRoleError_Equal dep ar err other =
     (case other of
        Some (cannotAssumeRoleError ar' e) \<Rightarrow>
          cannotAssumeRoleError_Summary ar' e = cannotAssumeRoleError_Summary ar err \<and>
          cannotAssumeRoleError_Detail dep ar' e = cannotAssumeRoleError_Detail dep ar err
      | _ \<Rightarrow> False)"

subsection \<open>\<open>internal/config/errors.go\<close>\<close>

definition NewCannotAssumeRoleWithWebIdentityError :: "Config option \<Rightarrow> go_error \<Rightarrow> Diagnostic" where
  [simp]: "NewCannotAssumeRoleWithWebIdentityError c err = CannotAssumeRoleWithWebIdentityError c err"

definition CannotAssumeRoleWithWebIdentityError_Severity :: "Config option \<Rightarrow> go_error \<Rightarrow> Severity" where
  [simp]: "CannotAssumeRoleWithWebIdentityError_Severity c err = SeverityError"

definition CannotAssumeRoleWithWebIdentityError_Summary :: "Config option \<Rightarrow> go_error \<Rightarrow> string" where
  [simp]: "CannotAssumeRoleWithWebIdentityError_Summary c err = ''Cannot assume IAM Role with web identity''"

definition CannotAssumeRoleWithWebIdentityError_Detail ::
    "(go_error \<Rightarrow> string) \<Rightarrow> Config option \<Rightarrow> go_error \<Rightarrow> string" where
  "CannotAssumeRoleWithWebIdentityError_Detail dep c err =
     (case Option.bind c c_AssumeRoleWithWebIdentity of
        None \<Rightarrow> ''cannot assume role with web identity: '' @ err_Error dep err
      | Some ar \<Rightarrow>
          ''IAM Role ('' @ wi_RoleARN ar @ '') cannot be assumed with web identity token.'' @ NL @ NL @
          ''There are a number of possible causes of this - the most common are:'' @ NL @
          ''  * The web identity token used in order to assume the role is invalid'' @ NL @
          ''  * The web identity token does not have appropriate permission to assume the role'' @ NL @
          ''  * The role ARN is not valid'' @ NL @ NL @
          ''Error: '' @ err_Error dep err @ NL)"

definition CannotAssumeRoleWithWebIdentityError_Err :: "Config option \<Rightarrow> go_error \<Rightarrow> go_error" where
  [simp]: "CannotAssumeRoleWithWebIdentityError_Err c err = err"

definition CannotAssumeRoleWithWebIdentityError_Equal ::
    "(go_error \<Rightarrow> string) \<Rightarrow> Config option \<Rightarrow> go_error \<Rightarrow> Diagnostic option \<Rightarrow> bool" where
  "CannotAssumeRoleWithWebIdentityError_Equal dep c err other =
     (case other of
        Some (CannotAssumeRoleWithWebIdentityError c' e) \<Rightarrow>
          CannotAssumeRoleWithWebIdentityError_Summary c' e = CannotAssumeRoleWithWebIdentityError_Summary c err \<and>
          CannotAssumeRoleWithWebIdentityError_Detail dep c' e = CannotAssumeRoleWithWebIdentityError_Detail dep c err
      | _ \<Rightarrow> False)"

definition NewNoValidCredentialSourcesError :: "Config option \<Rightarrow> go_error \<Rightarrow> Diagnostic" where
  [simp]: "NewNoValidCredentialSourcesError c err = NoValidCredentialSourcesError c err"

definition NoValidCredentialSourcesError_Severity :: "Config option \<Rightarrow> go_error \<Rightarrow> Severity" where
  [simp]: "NoValidCredentialSourcesError_Severity c err = SeverityError"

definition NoValidCredentialSourcesError_Summary :: "Config option \<Rightarrow> go_error \<Rightarrow> string" where
  [simp]: "NoValidCredentialSourcesError_Summary c err = ''No valid credential sources found''"

definition NoValidCredentialSourcesError_Detail ::
    "(go_error \<Rightarrow> string) \<Rightarrow> Config option \<Rightarrow> go_error \<Rightarrow> string" where
  "NoValidCredentialSourcesError_Detail dep c err =
     (case c of
        None \<Rightarrow> err_Error dep err
      | Some cfg \<Rightarrow>
          ''Please see '' @ c_CallerDocumentationURL cfg @ NL @
          ''for more information about providing credentials.'' @ NL @ NL @
          ''Error: '' @ err_Error dep err @ NL)"

definition NoValidCredentialSourcesError_Err :: "Config option \<Rightarrow> go_error \<Rightarrow> go_error" where
  [simp]: "NoValidCredentialSourcesError_Err c err = err"

definition NoValidCredentialSourcesError_Equal ::
    "(go_error \<Rightarrow> string) \<Rightarrow> Config option \<Rightarrow> go_error \<Rightarrow> Diagnostic option \<Rightarrow> bool" where
  "NoValidCredentialSourcesError_Equal dep c err other =
     (case other of
        Some (NoValidCredentialSourcesError c' e) \<Rightarrow>
          NoValidCredentialSourcesError_Summary c' e = NoValidCredentialSourcesError_Summary c err \<and>
          NoValidCredentialSourcesError_Detail dep c' e = NoValidCredentialSourcesError_Detail dep c err
      | _ \<Rightarrow> False)"

subsection \<open>Calls through the interface\<close>

text \<open>A call of a method of \<open>diag.Diagnostic\<close> runs the method of the dynamic type; \<open>diag_Err\<close> is
  \<open>None\<close> where the type is no \<open>DiagnosticWithErr\<close>.\<close>

fun diag_Severity :: "Diagnostic \<Rightarrow> Severity" where
  "diag_Severity (ErrorDiagnostic s d) = ErrorDiagnostic_Severity s d"
| "diag_Severity (WarningDiagnostic s d) = WarningDiagnostic_Severity s d"
| "diag_Severity (NativeErrorDiagnostic e) = NativeErrorDiagnostic_Severity e"
| "diag_Severity (cannotAssumeRoleError ar e) = cannotAssumeRoleError_Severity ar e"
| "diag_Severity (CannotAssumeRoleWithWebIdentityError c e) = CannotAssumeRoleWithWebIdentityError_Severity c e"
| "diag_Severity (NoValidCredentialSourcesError c e) = NoValidCredentialSourcesError_Severity c e"

fun diag_Summary :: "(go_error \<Rightarrow> string) \<Rightarrow> Diagnostic \<Rightarrow> string" where
  "diag_Summary dep (ErrorDiagnostic s d) = ErrorDiagnostic_Summary s d"
| "diag_Summary dep (WarningDiagnostic s d) = WarningDiagnostic_Summary s d"
| "diag_Summary dep (NativeErrorDiagnostic e) = NativeErrorDiagnostic_Summary dep e"
| "diag_Summary dep (cannotAssumeRoleError ar e) = cannotAssumeRoleError_Summary ar e"
| "diag_Summary dep (CannotAssumeRoleWithWebIdentityError c e) = CannotAssumeRoleWithWebIdentityError_Summary c e"
| "diag_Summary dep (NoValidCredentialSourcesError c e) = NoValidCredentialSourcesError_Summary c e"

fun diag_Detail :: "(go_error \<Rightarrow> string) \<Rightarrow> Diagnostic \<Rightarrow> string" where
  "diag_Detail dep (ErrorDiagnostic s d) = ErrorDiagnostic_Detail s d"
| "diag_Detail dep (WarningDiagnostic s d) = WarningDiagnostic_Detail s d"
| "diag_Detail dep (NativeErrorDiagnostic e) = NativeErrorDiagnostic_Detail e"
| "diag_Detail dep (cannotAssumeRoleError ar e) = cannotAssumeRoleError_Detail dep ar e"
| "diag_Detail dep (CannotAssumeRoleWithWebIdentityError c e) =
     CannotAssumeRoleWithWebIdentityError_Detail dep c e"
| "diag_Detail dep (NoValidCredentialSourcesError c e) = NoValidCredentialSourcesError_Detail dep c e"

fun diag_Equal :: "(go_error \<Rightarrow> string) \<Rightarrow> Diagnostic \<Rightarrow> Diagnostic option \<Rightarrow> bool" where
  "diag_Equal dep (ErrorDiagnostic s d) other = ErrorDiagnostic_Equal s d other"
| "diag_Equal dep (WarningDiagnostic s d) other = WarningDiagnostic_Equal s d other"
| "diag_Equal dep (NativeErrorDiagnostic e) other = NativeErrorDiagnostic_Equal dep e other"
| "diag_Equal dep (cannotAssumeRoleError ar e) other = cannotAssumeRoleError_Equal dep ar e other"
| "diag_Equal dep (CannotAssumeRoleWithWebIdentityError c e) other =
     CannotAssumeRoleWithWebIdentityError_Equal dep c e other"
| "diag_Equal dep (NoValidCredentialSourcesError c e) other = NoValidCredentialSourcesError_Equal dep c e other"

fun diag_Err :: "Diagnostic \<Rightarrow> go_error option" where
  "diag_Err (NativeErrorDiagnostic e) = Some (NativeErrorDiagnostic_Err e)"
| "diag_Err (cannotAssumeRoleError ar e) = Some (cannotAssumeRoleError_Err ar e)"
| "diag_Err (CannotAssumeRoleWithWebIdentityError c e) = Some (CannotAssumeRoleWithWebIdentityError_Err c e)"
| "diag_Err (NoValidCredentialSourcesError c e) = Some (NoValidCredentialSourcesError_Err c e)"
| "diag_Err _ = None"

text \<open>What the six methods \<open>Equal\<close> have in common, in terms of the dynamic type of a diagnostic.\<close>

fun diag_type :: "Diagnostic \<Rightarrow> nat" where
  "diag_type (ErrorDiagnostic s d) = 0"
| "diag_type (WarningDiagnostic s d) = 1"
| "diag_type (NativeErrorDiagnostic e) = 2"
| "diag_type (cannotAssumeRoleError ar e) = 3"
| "diag_type (CannotAssumeRoleWithWebIdentityError c e) = 4"
| "diag_type (NoValidCredentialSourcesError c e) = 5"

lemmas Equal_defs = ErrorDiagnostic_Equal_def WarningDiagnostic_Equal_def NativeErrorDiagnostic_Equal_def
  cannotAssumeRoleError_Equal_def CannotAssumeRoleWithWebIdentityError_Equal_def NoValidCredentialSourcesError_Equal_def

lemma diag_Equal_None [simp]: "\<not> diag_Equal dep d None"
  by (cases d) (simp_all add: Equal_defs)

lemma diag_Equal_iff:
  "diag_Equal dep d (Some ed) \<longleftrightarrow>
     diag_type ed = diag_type d \<and> diag_Summary dep ed = diag_Summary dep d \<and> diag_Detail dep ed = diag_Detail dep d"
  by (cases d; cases ed) (simp_all add: Equal_defs)

lemma diag_type_Severity: "diag_type d = diag_type e \<Longrightarrow> diag_Severity d = diag_Severity e"
  by (cases d; cases e) simp_all

interpretation dg: diag_interface "diag_Equal dep" diag_Severity for dep
  by unfold_locales
     (auto simp: diag_Equal_iff intro: diag_type_Severity)

text \<open>The collection at the six diagnostics.\<close>

type_synonym Diagnostics = "Diagnostic list"

abbreviation Append :: "(go_error \<Rightarrow> string) \<Rightarrow> Diagnostics \<Rightarrow> Diagnostic option list \<Rightarrow> Diagnostics" where
  "Append dep \<equiv> diags_Append (diag_Equal dep)"

abbreviation HasError :: "Diagnostics \<Rightarrow> bool" where
  "HasError \<equiv> diags_HasError diag_Severity"

definition AddError :: "(go_error \<Rightarrow> string) \<Rightarrow> Diagnostics \<Rightarrow> string \<Rightarrow> string \<Rightarrow> Diagnostics" where
  "AddError dep diags summary detail = Append dep diags [Some (NewErrorDiagnostic summary detail)]"

definition AddSimpleError :: "(go_error \<Rightarrow> string) \<Rightarrow> Diagnostics \<Rightarrow> go_error \<Rightarrow> Diagnostics" where
  "AddSimpleError dep diags err = Append dep diags [Some (NewNativeErrorDiagnostic err)]"

definition AddWarning :: "(go_error \<Rightarrow> string) \<Rightarrow> Diagnostics \<Rightarrow> string \<Rightarrow> string \<Rightarrow> Diagnostics" where
  "AddWarning dep diags summary detail = Append dep diags [Some (NewWarningDiagnostic summary detail)]"

text \<open>The classifiers of \<open>errors.go\<close>.\<close>

fun IsCannotAssumeRoleError :: "Diagnostic \<Rightarrow> bool" where
  "IsCannotAssumeRoleError (cannotAssumeRoleError ar e) = True"
| "IsCannotAssumeRoleError _ = False"

fun IsNoValidCredentialSourcesError :: "Diagnostic \<Rightarrow> bool" where
  "IsNoValidCredentialSourcesError (NoValidCredentialSourcesError c e) = True"
| "IsNoValidCredentialSourcesError _ = False"

definition ContainsNoValidCredentialSourcesError :: "Diagnostics \<Rightarrow> bool" where
  "ContainsNoValidCredentialSourcesError diags = list_ex IsNoValidCredentialSourcesError diags"

lemma AddError_HasError [simp]: "HasError (AddError dep ds s d)"
  by (simp add: AddError_def dg.Append_HasError del: diags_Append.simps)

lemma AddSimpleError_HasError [simp]: "HasError (AddSimpleError dep ds e)"
  by (simp add: AddSimpleError_def dg.Append_HasError del: diags_Append.simps)

lemma AddWarning_HasError [simp]: "HasError (AddWarning dep ds s d) \<longleftrightarrow> HasError ds"
  by (simp add: AddWarning_def dg.Append_HasError severity_defs del: diags_Append.simps)

section \<open>Properties\<close>

lemma no_duplicates_appends:
  "no_duplicates Equal ds \<Longrightarrow> no_duplicates Equal (foldl (diags_Append Equal) ds xss)"
  by (induction xss arbitrary: ds) (simp_all add: diags_Append_no_duplicates)

lemma errors_and_warnings:
  "diags_ErrorsCount diag_Severity ds + diags_WarningsCount diag_Severity ds = diags_Count ds"
proof -
  have sev: "diag_Severity d = SeverityWarning \<longleftrightarrow> diag_Severity d \<noteq> SeverityError" for d
    by (cases d) (simp_all add: severity_defs)
  show ?thesis
    unfolding diags_ErrorsCount_def diags_WarningsCount_def diags_Errors_filter
      diags_Warnings_filter diags_Count_def sev
    by (rule sum_length_filter_compl)
qed

text \<open>\<open>Append\<close> keeps every diagnostic it is called on, in order, adds only diagnostics of its
  arguments behind them, and the result contains (in the sense of \<open>Contains\<close>) exactly what the
  collection or one of the non-nil arguments is equal to.\<close>

theorem Append_spec:
  "(\<exists>new. Append dep ds xs = ds @ new \<and> Some ` set new \<subseteq> set xs) \<and>
   (\<forall>y. diags_Contains (diag_Equal dep) (Append dep ds xs) y \<longleftrightarrow>
      diags_Contains (diag_Equal dep) ds y \<or> (\<exists>d. Some d \<in> set xs \<and> diag_Equal dep d y))"
  by (metis diags_Append_prefix dg.Append_Contains)

text \<open>C3: A collection built from the empty one by any sequence of \<open>Append\<close> calls holds no
  two equal diagnostics, and appending the same arguments a second time changes nothing.\<close>

theorem Append_never_duplicates:
  "no_duplicates (diag_Equal dep) (foldl (Append dep) [] xss) \<and>
   Append dep (Append dep ds xs) xs = Append dep ds xs"
  using no_duplicates_appends [of _ "[]"] dg.Append_idem by (auto simp: no_duplicates_def)

text \<open>\<open>Append\<close> never loses or invents an error: the result has an error exactly when the
  collection or a non-nil argument has, deduplication notwithstanding. Every diagnostic of the
  six types is counted either as an error or as a warning.\<close>

theorem Append_reports_errors:
  "(HasError (Append dep ds xs) \<longleftrightarrow>
      HasError ds \<or> (\<exists>d. Some d \<in> set xs \<and> diag_Severity d = SeverityError)) \<and>
   diags_ErrorsCount diag_Severity ds + diags_WarningsCount diag_Severity ds = diags_Count ds"
  using dg.Append_HasError errors_and_warnings by blast

lemma Append_image:
  assumes "\<And>d e. diag_Equal dep d (Some e) \<Longrightarrow> f d = f e"
  shows "f ` set (Append dep ds xs) = f ` set ds \<union> f ` {d. Some d \<in> set xs}"
proof -
  have step: "f ` set (Append dep ds [x]) = f ` set ds \<union> f ` {d. Some d \<in> set [x]}" for ds x
  proof (cases x)
    case (Some d)
    show ?thesis
    proof (cases "diags_Contains (diag_Equal dep) ds (Some d)")
      case True
      then obtain e where "e \<in> set ds" "f e = f d" using assms by (auto simp: diags_Contains_iff)
      then have "f d \<in> f ` set ds" by (metis image_eqI)
      with True Some show ?thesis by (simp add: insert_absorb)
    qed (simp add: Some)
  qed simp
  show ?thesis
  proof (induction xs arbitrary: ds)
    case (Cons x xs)
    have "Append dep ds (x # xs) = Append dep (Append dep ds [x]) xs"
      using diags_Append_append [of "diag_Equal dep" ds "[x]" xs] by simp
    then show ?case using Cons.IH [of "Append dep ds [x]"] step [of ds x] by auto
  qed simp
qed

text \<open>C26: Deduplication respects dynamic types: \<open>Equal\<close> compares texts only within a type, so after
  \<open>Append\<close> exactly the dynamic types of the old diagnostics and of the appended ones are present, and
  the test for missing credential sources answers as if nothing had been dropped, even when a
  diagnostic of another type has the same summary and detail.\<close>

theorem Append_keeps_dynamic_types:
  "diag_type ` set (Append dep ds xs) = diag_type ` set ds \<union> diag_type ` {d. Some d \<in> set xs} \<and>
   (ContainsNoValidCredentialSourcesError (Append dep ds xs) \<longleftrightarrow>
      ContainsNoValidCredentialSourcesError ds \<or> (\<exists>d. Some d \<in> set xs \<and> IsNoValidCredentialSourcesError d)) \<and>
   ((\<exists>d \<in> set (Append dep ds xs). IsCannotAssumeRoleError d) \<longleftrightarrow>
      (\<exists>d \<in> set ds. IsCannotAssumeRoleError d) \<or> (\<exists>d. Some d \<in> set xs \<and> IsCannotAssumeRoleError d))"
proof -
  have types: "diag_type ` set (Append dep ds xs) = diag_type ` set ds \<union> diag_type ` {d. Some d \<in> set xs}"
    by (rule Append_image) (simp add: diag_Equal_iff)
  have nv: "IsNoValidCredentialSourcesError d \<longleftrightarrow> diag_type d = 5" for d by (cases d) simp_all
  have ca: "IsCannotAssumeRoleError d \<longleftrightarrow> diag_type d = 3" for d by (cases d) simp_all
  have ex: "(\<exists>d \<in> set (Append dep ds xs). diag_type d = k) \<longleftrightarrow>
      (\<exists>d \<in> set ds. diag_type d = k) \<or> (\<exists>d. Some d \<in> set xs \<and> diag_type d = k)" for k
    using arg_cong [OF types, of "\<lambda>S. k \<in> S"] by auto
  show ?thesis
    using types ex [of 5] ex [of 3]
    by (simp add: ContainsNoValidCredentialSourcesError_def list_ex_iff nv ca)
qed

end
