(* ===== verification/HttpHeader.thy ===== *)
theory HttpHeader
  imports Prelude
begin

text \<open>
  The part of \<open>net/http.Header\<close> the sources use: canonical keys, \<open>Get\<close>, \<open>Values\<close>,
  \<open>Del\<close>, and direct writes through the map. A header is a finite map from keys to value
  lists; \<open>Clone\<close> is a deep copy and needs no definition for immutable values.
\<close>

type_synonym Header = "string \<rightharpoonup> string list"

definition is_upper :: "char \<Rightarrow> bool" where
  "is_upper c \<longleftrightarrow> CHR ''A'' \<le> c \<and> c \<le> CHR ''Z''"

definition is_lower :: "char \<Rightarrow> bool" where
  "is_lower c \<longleftrightarrow> CHR ''a'' \<le> c \<and> c \<le> CHR ''z''"

definition is_digit :: "char \<Rightarrow> bool" where
  "is_digit c \<longleftrightarrow> CHR ''0'' \<le> c \<and> c \<le> CHR ''9''"

definition to_lower :: "char \<Rightarrow> char" where
  "to_lower c = (if is_upper c then char_of (of_char c + 32 :: nat) else c)"

definition to_upper :: "char \<Rightarrow> char" where
  "to_upper c = (if is_lower c then char_of (of_char c - 32 :: nat) else c)"

text \<open>
  \<open>textproto.CanonicalMIMEHeaderKey\<close>: a key with a byte that is no token byte is returned
  unchanged; otherwise the first letter and every letter after a hyphen are upper case,
  the others lower case.
\<close>

definition validHeaderFieldByte :: "char \<Rightarrow> bool" where
  "validHeaderFieldByte c \<longleftrightarrow>
     is_upper c \<or> is_lower c \<or> is_digit c \<or> c \<in> set ''!#$%&*+-.^_`|~'' \<or> c = CHR 0x27"

fun canonical_from :: "bool \<Rightarrow> string \<Rightarrow> string" where
  "canonical_from upper [] = []"
| "canonical_from upper (c # cs) =
     (if upper then to_upper c else to_lower c) # canonical_from (c = CHR ''-'') cs"

definition CanonicalHeaderKey :: "string \<Rightarrow> string" where
  "CanonicalHeaderKey k =
     (if list_all validHeaderFieldByte k then canonical_from True k else k)"

definition header_Values :: "Header \<Rightarrow> string \<Rightarrow> string list" where
  "header_Values h k = (case h (CanonicalHeaderKey k) of None \<Rightarrow> [] | Some vs \<Rightarrow> vs)"

definition header_Get :: "Header \<Rightarrow> string \<Rightarrow> string" where
  "header_Get h k = (case header_Values h k of [] \<Rightarrow> [] | v # vs \<Rightarrow> v)"

definition header_Del :: "Header \<Rightarrow> string \<Rightarrow> Header" where
  "header_Del h k = h(CanonicalHeaderKey k := None)"

lemma canonical_keys:
  "CanonicalHeaderKey ''User-Agent'' = ''User-Agent''"
  "CanonicalHeaderKey ''Content-Length'' = ''Content-Length''"
  "CanonicalHeaderKey ''Content-Type'' = ''Content-Type''"
  "CanonicalHeaderKey ''Authorization'' = ''Authorization''"
  "CanonicalHeaderKey ''Amz-Sdk-Request'' = ''Amz-Sdk-Request''"
  "CanonicalHeaderKey ''X-Amz-Security-Token'' = ''X-Amz-Security-Token''"
  by code_simp+

lemma header_Get_upd: "header_Get (h(k \<mapsto> [v])) k' = v" if "CanonicalHeaderKey k' = k"
  using that by (simp add: header_Get_def header_Values_def)

end
