(* ===== verification/UserAgent.thy ===== *)
theory UserAgent
  imports HttpHeader ConfigTypes
begin

text \<open>
  User-Agent handling: the products of \<open>internal/config/user_agent.go\<close> and
  \<open>apn_info.go\<close>, the parser of \<open>useragent/from.go\<close>, the context value of
  \<open>useragent/context.go\<close> and the request middleware of \<open>user_agent.go\<close> with the SDK v1
  handler of \<open>v2/awsv1shim/user_agent.go\<close>.
\<close>

section \<open>Building the string\<close>

text \<open>
  \<open>smithyhttp.UserAgentBuilder\<close> belongs to a dependency: what the code does to a fresh
  builder is a list of calls, and \<open>build\<close> is the string its \<open>Build\<close> method returns for them.
\<close>

datatype builder_call = AddKey string | AddKeyValue string string

definition buildUserAgentPart :: "UserAgentProduct \<Rightarrow> builder_call list" where
  "buildUserAgentPart p =
     (if p_Name p \<noteq> [] then
        (if p_Version p \<noteq> [] then [AddKeyValue (p_Name p) (p_Version p)] else [AddKey (p_Name p)])
      else []) @
     (if p_Comment p \<noteq> [] then [AddKey (''('' @ p_Comment p @ '')'')] else [])"

fun product_calls :: "UserAgentProduct list \<Rightarrow> builder_call list" where
  "product_calls [] = []"
| "product_calls (p # ps) = buildUserAgentPart p @ product_calls ps"

definition BuildUserAgentString ::
    "(builder_call list \<Rightarrow> string) \<Rightarrow> UserAgentProducts \<Rightarrow> string" where
  "BuildUserAgentString build ua = build (product_calls ua)"

definition APN_BuildUserAgentString :: "(builder_call list \<Rightarrow> string) \<Rightarrow> APNInfo \<Rightarrow> string" where
  "APN_BuildUserAgentString build apn =
     build ([AddKeyValue ''APN'' ''1.0'', AddKeyValue (apn_PartnerName apn) ''1.0''] @
            product_calls (apn_Products apn))"

section \<open>Parsing products\<close>

text \<open>A value of a generic type: a string, or anything else.\<close>

datatype any_value = AnyString string | AnyOther

definition from_string :: "string \<Rightarrow> UserAgentProduct" where
  "from_string s =
     (case LastIndex1 CHR ''/'' s of
        Some idx \<Rightarrow>
          (let name = take idx s; version = drop (idx + 1) s;
               parts = Split1 CHR ''('' version
           in case parts of
                [v, c] \<Rightarrow> \<lparr>p_Name = name, p_Version = TrimSpace v, p_Comment = TrimSuffix c '')''\<rparr>
              | _ \<Rightarrow> \<lparr>p_Name = name, p_Version = version, p_Comment = []\<rparr>)
      | None \<Rightarrow> \<lparr>p_Name = s, p_Version = [], p_Comment = []\<rparr>)"

definition from_any :: "any_value \<Rightarrow> UserAgentProduct" where
  "from_any v = (case v of AnyString s \<Rightarrow> from_string s | AnyOther \<Rightarrow> zero_UserAgentProduct)"

text \<open>\<open>internal/slices\<close>: \<open>ApplyToAll\<close> and \<open>Filter\<close>.\<close>

fun ApplyToAll :: "'a list \<Rightarrow> ('a \<Rightarrow> 'b) \<Rightarrow> 'b list" where
  "ApplyToAll [] f = []"
| "ApplyToAll (e # es) f = f e # ApplyToAll es f"

fun Filter_slice :: "'a list \<Rightarrow> ('a \<Rightarrow> bool) \<Rightarrow> 'a list" where
  "Filter_slice [] f = []"
| "Filter_slice (e # es) f = (if f e then e # Filter_slice es f else Filter_slice es f)"

lemma ApplyToAll_map [simp]: "ApplyToAll xs f = map f xs"
  by (induction xs) auto

lemma Filter_slice_filter [simp]: "Filter_slice xs f = filter f xs"
  by (induction xs) auto

definition FromSlice :: "any_value list \<Rightarrow> UserAgentProducts" where
  "FromSlice sl = ApplyToAll sl from_any"

section \<open>The request header\<close>

definition prependUserAgentHeader :: "Header \<Rightarrow> string \<Rightarrow> Header" where
  "prependUserAgentHeader h value =
     (let current = header_Get h ''User-Agent'';
          current' = (if length current > 0 then value @ '' '' @ current else value)
      in h(''User-Agent'' \<mapsto> [current']))"

definition appendUserAgentHeader :: "Header \<Rightarrow> string \<Rightarrow> Header" where
  "appendUserAgentHeader h value =
     (let current = header_Get h ''User-Agent'';
          current' = (if length current > 0 then current @ '' '' @ value else value)
      in h(''User-Agent'' \<mapsto> [current']))"

text \<open>
  A context may carry products under the package's private key, which \<open>Context\<close> puts there, in the
  place of those a context around it holds; \<open>BuildFromContext\<close> gives the empty string without any.
\<close>

definition useragent_Context :: "UserAgentProducts option \<Rightarrow> UserAgentProducts \<Rightarrow> UserAgentProducts option" where
  "useragent_Context ctx products = Some products"

definition BuildFromContext ::
    "(builder_call list \<Rightarrow> string) \<Rightarrow> UserAgentProducts option \<Rightarrow> string" where
  "BuildFromContext build ctx =
     (case ctx of None \<Rightarrow> [] | Some ps \<Rightarrow> BuildUserAgentString build ps)"

text \<open>
  Build step middleware. The request is \<open>None\<close> when its dynamic type is not
  \<open>*smithyhttp.Request\<close>; then the handler fails without calling \<open>next\<close>.
\<close>

type_synonym 'r build_handler = "Header option \<Rightarrow> string + 'r"

definition with_request :: "(Header \<Rightarrow> Header) \<Rightarrow> 'r build_handler \<Rightarrow> 'r build_handler" where
  "with_request f next req =
     (case req of None \<Rightarrow> Inl ''unknown request type'' | Some h \<Rightarrow> next (Some (f h)))"

definition apnUserAgentMiddleware ::
    "(builder_call list \<Rightarrow> string) \<Rightarrow> APNInfo \<Rightarrow> 'r build_handler \<Rightarrow> 'r build_handler" where
  "apnUserAgentMiddleware build apn =
     with_request (\<lambda>h. prependUserAgentHeader h (APN_BuildUserAgentString build apn))"

definition userAgentMiddleware :: "string \<Rightarrow> 'r build_handler \<Rightarrow> 'r build_handler" where
  "userAgentMiddleware ua = with_request (\<lambda>h. appendUserAgentHeader h ua)"

text \<open>A stack holds the middleware of the build step in order; \<open>Add\<close> with \<open>After\<close> appends.\<close>

definition withUserAgentAppender ::
    "string \<Rightarrow> ('r build_handler \<Rightarrow> 'r build_handler) list \<Rightarrow> ('r build_handler \<Rightarrow> 'r build_handler) list" where
  "withUserAgentAppender ua stack = stack @ [userAgentMiddleware ua]"

definition userAgentFromContextMiddleware ::
    "(builder_call list \<Rightarrow> string) \<Rightarrow> UserAgentProducts option \<Rightarrow>
     'r build_handler \<Rightarrow> 'r build_handler" where
  "userAgentFromContextMiddleware build ctx =
     with_request (\<lambda>h. let v = BuildFromContext build ctx in
                         if v \<noteq> [] then appendUserAgentHeader h v else h)"

text \<open>The SDK v1 handler: \<open>add\<close> is the SDK's \<open>request.AddToUserAgent\<close>.\<close>

definition userAgentFromContextHandler ::
    "(builder_call list \<Rightarrow> string) \<Rightarrow> ('r \<Rightarrow> string \<Rightarrow> 'r) \<Rightarrow>
     UserAgentProducts option \<Rightarrow> 'r \<Rightarrow> 'r" where
  "userAgentFromContextHandler build add ctx r =
     (let v = BuildFromContext build ctx in if v \<noteq> [] then add r v else r)"

lemma Get_prepend:
  "header_Get (prependUserAgentHeader h v) ''User-Agent'' =
     (if header_Get h ''User-Agent'' = [] then v else v @ '' '' @ header_Get h ''User-Agent'')"
  by (simp add: prependUserAgentHeader_def header_Get_upd canonical_keys)

lemma Get_append:
  "header_Get (appendUserAgentHeader h v) ''User-Agent'' =
     (if header_Get h ''User-Agent'' = [] then v else header_Get h ''User-Agent'' @ '' '' @ v)"
  by (simp add: appendUserAgentHeader_def header_Get_upd canonical_keys)

section \<open>Parsing inverts building\<close>

definition printable :: "char \<Rightarrow> bool" where
  "printable c \<longleftrightarrow> CHR ''!'' \<le> c \<and> c \<le> CHR ''~''"

lemma trim_left_by_stop:
  assumes "\<forall>r \<in> set rs. r \<noteq> [] \<longrightarrow> \<not> HasPrefix s r"
  shows "trim_left_by rs s = s"
proof -
  have "find (\<lambda>r. r \<noteq> [] \<and> HasPrefix s r) rs = None"
    using assms by (auto simp: find_None_iff)
  then show ?thesis by (simp add: trim_left_by.simps)
qed

lemma HasPrefix_Cons: "HasPrefix (c # s) r \<Longrightarrow> r \<noteq> [] \<Longrightarrow> hd r = c"
  by (cases r) (auto simp: HasPrefix_def)

lemma trim_left_by_printable:
  assumes "\<forall>r \<in> set rs. r \<noteq> [] \<longrightarrow> \<not> printable (hd r)" and "list_all printable s"
  shows "trim_left_by rs s = s"
proof (rule trim_left_by_stop, intro ballI impI notI)
  fix r assume r: "r \<in> set rs" "r \<noteq> []" "HasPrefix s r"
  then obtain c t where s: "s = c # t"
    by (cases s) (auto simp: HasPrefix_def)
  with r have "hd r = c" by (auto dest: HasPrefix_Cons)
  with r s assms show False by auto
qed

lemma space_runes_unprintable:
  "\<forall>r \<in> set space_runes. r \<noteq> [] \<longrightarrow> \<not> printable (hd r)"
  "\<forall>r \<in> set (map rev space_runes). r \<noteq> [] \<longrightarrow> \<not> printable (hd r)"
  by code_simp+

lemma trim_right_space: "trim_left_by (map rev space_runes) ('' '' @ s) = trim_left_by (map rev space_runes) s"
  by (subst trim_left_by.simps) (simp add: space_runes_def HasPrefix_def)

lemma TrimSpace_printable:
  assumes "list_all printable v" and "v \<noteq> []"
  shows "TrimSpace (v @ '' '') = v" and "TrimSpace v = v"
proof -
  note tr = trim_left_by_printable [OF space_runes_unprintable(2), of "rev v"]
  have "trim_left_by space_runes (v @ '' '') = v @ '' ''"
  proof (rule trim_left_by_stop, intro ballI impI notI)
    fix r assume r: "r \<in> set space_runes" "r \<noteq> []" "HasPrefix (v @ '' '') r"
    with assms(2) have "hd r = hd v" by (cases v) (auto dest: HasPrefix_Cons)
    moreover have "printable (hd v)" using assms by (cases v) auto
    ultimately show False using r(1,2) space_runes_unprintable(1) by auto
  qed
  then show "TrimSpace (v @ '' '') = v"
    using tr assms trim_right_space [of "rev v"] by (simp add: TrimSpace_def)
  show "TrimSpace v = v"
    using tr assms trim_left_by_printable [OF space_runes_unprintable(1), of v]
    by (simp add: TrimSpace_def)
qed

lemma TrimSuffix_append [simp]: "TrimSuffix (c @ p) p = c"
  by (simp add: TrimSuffix_def HasSuffix_def HasPrefix_def)

text \<open>
  The products a string can express: a name without a slash alone, or a name with a
  version in printable characters and possibly a comment, version and comment free of
  slashes and opening parentheses.
\<close>

definition wf_product :: "UserAgentProduct \<Rightarrow> bool" where
  "wf_product p \<longleftrightarrow>
     p_Name p \<noteq> [] \<and>
     (if p_Version p = [] then p_Comment p = [] \<and> CHR ''/'' \<notin> set (p_Name p)
      else list_all printable (p_Version p) \<and>
           CHR ''/'' \<notin> set (p_Version p @ p_Comment p) \<and>
           CHR ''('' \<notin> set (p_Version p @ p_Comment p))"

lemma from_string_name: "CHR ''/'' \<notin> set s \<Longrightarrow> from_string s = \<lparr>p_Name = s, p_Version = [], p_Comment = []\<rparr>"
  by (simp add: from_string_def LastIndex1_None [THEN iffD2])

lemma from_string_version:
  assumes "CHR ''/'' \<notin> set v" and "CHR ''('' \<notin> set v"
  shows "from_string (n @ CHR ''/'' # v) = \<lparr>p_Name = n, p_Version = v, p_Comment = []\<rparr>"
  using assms by (simp add: from_string_def LastIndex1_append Split1_no_sep)

lemma from_string_comment:
  assumes "CHR ''/'' \<notin> set (v @ c)" and "CHR ''('' \<notin> set (v @ c)"
  shows "from_string (n @ CHR ''/'' # v @ CHR ''('' # c) =
           \<lparr>p_Name = n, p_Version = TrimSpace v, p_Comment = TrimSuffix c '')''\<rparr>"
  using assms by (simp add: from_string_def LastIndex1_append Split1_append Split1_no_sep)

text \<open>How the builder renders its calls, as its documentation describes it.\<close>

fun call_text :: "builder_call \<Rightarrow> string" where
  "call_text (AddKey k) = k"
| "call_text (AddKeyValue k v) = k @ ''/'' @ v"



text \<open>
  Outside the pattern: a comment with a slash moves into the name, and a comment without a
  version is not split off.
\<close>

lemma from_string_comment_with_slash:
  "from_string ''Terraform/1.0 (+https://terraform.io)'' =
     \<lparr>p_Name = ''Terraform/1.0 (+https:/'', p_Version = ''terraform.io)'', p_Comment = []\<rparr>"
  by code_simp

lemma from_string_comment_without_version:
  "from_string ''my-product (a comment)'' =
     \<lparr>p_Name = ''my-product (a comment)'', p_Version = [], p_Comment = []\<rparr>"
  by code_simp

end
