(* ===== verification/GoRegex.thy ===== *)
theory GoRegex
  imports HttpHeader
begin

text \<open>
  The regular expressions of the sources and Go's matching of them. \<open>bt r s\<close> lists the
  lengths of the prefixes of \<open>s\<close> that \<open>r\<close> matches in the order of preference of a
  backtracking matcher (left alternative first, stars greedy), so its head is the match that
  Go's leftmost-first semantics takes at that position. The main lemma relates the list to
  the declarative relation \<open>rx_in\<close>.
\<close>

section \<open>Expressions\<close>

datatype rx =
    Eps
  | Cls "(char \<times> char) list"
  | Seq rx rx
  | Alt rx rx
  | Star rx

definition in_class :: "(char \<times> char) list \<Rightarrow> char \<Rightarrow> bool" where
  "in_class rs c \<longleftrightarrow> list_ex (\<lambda>(lo, hi). lo \<le> c \<and> c \<le> hi) rs"

fun Lit :: "string \<Rightarrow> rx" where
  "Lit [] = Eps"
| "Lit [c] = Cls [(c, c)]"
| "Lit (c # cs) = Seq (Cls [(c, c)]) (Lit cs)"

fun Alts :: "rx list \<Rightarrow> rx" where
  "Alts [] = Cls []"
| "Alts [r] = r"
| "Alts (r # rs) = Alt r (Alts rs)"

fun Seqs :: "rx list \<Rightarrow> rx" where
  "Seqs [] = Eps"
| "Seqs [r] = r"
| "Seqs (r # rs) = Seq r (Seqs rs)"

text \<open>\<open>r+\<close> and \<open>r{n,}\<close>.\<close>

definition Plus :: "rx \<Rightarrow> rx" where
  "Plus r = Seq r (Star r)"

fun At_least :: "nat \<Rightarrow> rx \<Rightarrow> rx" where
  "At_least 0 r = Star r"
| "At_least (Suc n) r = Seq r (At_least n r)"

text \<open>The classes \<open>\w\<close>, \<open>\d\<close> and \<open>\s\<close> of Go's syntax (ASCII only).\<close>

definition word_class :: rx where
  "word_class = Cls [(CHR ''0'', CHR ''9''), (CHR ''A'', CHR ''Z''), (CHR ''_'', CHR ''_''), (CHR ''a'', CHR ''z'')]"

definition digit_class :: rx where
  "digit_class = Cls [(CHR ''0'', CHR ''9'')]"

definition space_class :: rx where
  "space_class = Cls [(CHR 0x09, CHR 0x0A), (CHR 0x0C, CHR 0x0D), (CHR '' '', CHR '' '')]"

section \<open>The language\<close>

inductive rx_in :: "rx \<Rightarrow> string \<Rightarrow> bool" where
  in_Eps: "rx_in Eps []"
| in_Cls: "in_class rs c \<Longrightarrow> rx_in (Cls rs) [c]"
| in_Seq: "rx_in r s \<Longrightarrow> rx_in q t \<Longrightarrow> rx_in (Seq r q) (s @ t)"
| in_AltL: "rx_in r s \<Longrightarrow> rx_in (Alt r q) s"
| in_AltR: "rx_in q s \<Longrightarrow> rx_in (Alt r q) s"
| in_Star0: "rx_in (Star r) []"
| in_StarS: "rx_in r s \<Longrightarrow> s \<noteq> [] \<Longrightarrow> rx_in (Star r) t \<Longrightarrow> rx_in (Star r) (s @ t)"

inductive_simps rx_in_Eps [simp]: "rx_in Eps s"
inductive_simps rx_in_Cls: "rx_in (Cls rs) s"
inductive_simps rx_in_Seq: "rx_in (Seq r q) s"
inductive_simps rx_in_Alt [simp]: "rx_in (Alt r q) s"
inductive_cases rx_in_StarE: "rx_in (Star r) s"

section \<open>The matcher\<close>

function bt :: "rx \<Rightarrow> string \<Rightarrow> nat list" where
  "bt Eps s = [0]"
| "bt (Cls rs) [] = []"
| "bt (Cls rs) (c # cs) = (if in_class rs c then [1] else [])"
| "bt (Seq r q) s = concat (map (\<lambda>n. map ((+) n) (bt q (drop n s))) (bt r s))"
| "bt (Alt r q) s = bt r s @ bt q s"
| "bt (Star r) s =
     concat (map (\<lambda>n. if 0 < n \<and> n \<le> length s then map ((+) n) (bt (Star r) (drop n s)) else [])
        (bt r s)) @ [0]"
  by pat_completeness auto
termination
  by (relation "measures [\<lambda>(r, s). length s, \<lambda>(r, s). size r]") auto

declare bt.simps(6) [simp del]

text \<open>The preferred match at the start of \<open>s\<close>, and \<open>MatchString\<close> with and without \<open>^\<dots>$\<close>.\<close>

definition rx_first :: "rx \<Rightarrow> string \<Rightarrow> nat option" where
  "rx_first r s = (case bt r s of [] \<Rightarrow> None | n # ns \<Rightarrow> Some n)"

definition rx_full_match :: "rx \<Rightarrow> string \<Rightarrow> bool" where
  "rx_full_match r s \<longleftrightarrow> length s \<in> set (bt r s)"

fun rx_search :: "rx \<Rightarrow> string \<Rightarrow> bool" where
  "rx_search r [] = (rx_first r [] \<noteq> None)"
| "rx_search r (c # cs) = (rx_first r (c # cs) \<noteq> None \<or> rx_search r cs)"

lemma bt_Star_iff:
  "n \<in> set (bt (Star r) s) \<longleftrightarrow>
     n = 0 \<or> (\<exists>k \<in> set (bt r s). 0 < k \<and> k \<le> length s \<and> (\<exists>m \<in> set (bt (Star r) (drop k s)). n = k + m))"
  by (subst bt.simps(6)) (auto split: if_splits)

lemma bt_sound: "n \<in> set (bt r s) \<Longrightarrow> \<exists>a b. s = a @ b \<and> length a = n \<and> rx_in r a"
proof (induction r s arbitrary: n rule: bt.induct)
  case (4 r q s)
  from "4.prems" obtain k m where k: "k \<in> set (bt r s)" and m: "m \<in> set (bt q (drop k s))"
    and n: "n = k + m" by auto
  from "4.IH"(1) [OF k] obtain a b where ab: "s = a @ b" "length a = k" "rx_in r a" by blast
  from "4.IH"(2) [OF k m] ab obtain c d where "b = c @ d" "length c = m" "rx_in q c" by auto
  with ab n have "s = (a @ c) @ d \<and> length (a @ c) = n \<and> rx_in (Seq r q) (a @ c)"
    using in_Seq [of r a q c] by simp
  then show ?case by blast
next
  case (6 r s)
  show ?case
  proof (cases "n = 0")
    case False
    with "6.prems" obtain k m where k: "k \<in> set (bt r s)" "0 < k \<and> k \<le> length s"
      and m: "m \<in> set (bt (Star r) (drop k s))" and n: "n = k + m"
      unfolding bt_Star_iff [of n] by blast
    from "6.IH"(1) [OF k(1)] obtain a b where ab: "s = a @ b" "length a = k" "rx_in r a" by blast
    from "6.IH"(2) [OF k m] ab obtain c d where "b = c @ d" "length c = m" "rx_in (Star r) c"
      by auto
    moreover from ab k have "a \<noteq> []" by auto
    ultimately have "s = (a @ c) @ d \<and> length (a @ c) = n \<and> rx_in (Star r) (a @ c)"
      using ab n in_StarS [of r a c] by simp
    then show ?thesis by blast
  next
    case True
    then have "s = [] @ s \<and> length [] = n \<and> rx_in (Star r) []" by (simp add: in_Star0)
    then show ?thesis by blast
  qed
next
  case (1 s)
  then have "s = [] @ s \<and> length [] = n \<and> rx_in Eps []" by simp
  then show ?case by blast
next
  case (3 rs c cs)
  then have "c # cs = [c] @ cs \<and> length [c] = n \<and> rx_in (Cls rs) [c]"
    by (simp add: rx_in_Cls split: if_splits)
  then show ?case by blast
next
  case (5 r q s)
  then show ?case by (auto intro: in_AltL in_AltR) blast+
qed simp

lemma bt_complete: "rx_in r a \<Longrightarrow> length a \<in> set (bt r (a @ b))"
proof (induction arbitrary: b rule: rx_in.induct)
  case (in_Seq r s q t)
  from in_Seq.IH(1) [of "t @ b"] in_Seq.IH(2) [of b] show ?case
    by (auto intro!: bexI [of _ "length s"])
next
  case (in_StarS r s t)
  have "length s \<in> set (bt r (s @ t @ b))" by (rule in_StarS.IH(1))
  moreover have "length t \<in> set (bt (Star r) (drop (length s) (s @ t @ b)))"
    using in_StarS.IH(2) [of b] by simp
  moreover have "0 < length s \<and> length s \<le> length (s @ t @ b)" using in_StarS.hyps(2) by simp
  ultimately have "length s + length t \<in> set (bt (Star r) (s @ t @ b))"
    unfolding bt_Star_iff [of "length s + length t"] by blast
  then show ?case by simp
next
  case (in_Star0 r)
  show ?case by (subst bt_Star_iff) simp
qed auto

theorem bt_iff: "n \<in> set (bt r s) \<longleftrightarrow> n \<le> length s \<and> rx_in r (take n s)"
proof
  assume "n \<le> length s \<and> rx_in r (take n s)"
  then have "length (take n s) \<in> set (bt r (take n s @ drop n s))" and "n \<le> length s"
    using bt_complete by blast+
  then show "n \<in> set (bt r s)" by simp
qed (auto dest!: bt_sound)

lemma rx_full_match_iff: "rx_full_match r s \<longleftrightarrow> rx_in r s"
  by (simp add: rx_full_match_def bt_iff)

lemma rx_first_None: "rx_first r s = None \<longleftrightarrow> (\<forall>n \<le> length s. \<not> rx_in r (take n s))"
proof -
  have "rx_first r s = None \<longleftrightarrow> set (bt r s) = {}"
    by (simp add: rx_first_def split: list.split)
  then show ?thesis by (auto simp: bt_iff set_eq_iff)
qed

lemma rx_first_Some: "rx_first r s = Some n \<Longrightarrow> n \<le> length s \<and> rx_in r (take n s)"
proof -
  assume "rx_first r s = Some n"
  then have "n \<in> set (bt r s)" by (auto simp: rx_first_def split: list.splits)
  then show ?thesis by (simp add: bt_iff)
qed

lemma rx_search_iff: "rx_search r s \<longleftrightarrow> (\<exists>i \<le> length s. rx_first r (drop i s) \<noteq> None)"
proof (induction s)
  case (Cons c cs)
  have "(\<exists>i \<le> length (c # cs). rx_first r (drop i (c # cs)) \<noteq> None) \<longleftrightarrow>
      rx_first r (c # cs) \<noteq> None \<or> (\<exists>i \<le> length cs. rx_first r (drop i cs) \<noteq> None)"
    by (metis Suc_le_mono drop0 drop_Suc_Cons le0 length_Cons not0_implies_Suc)
  with Cons.IH show ?case by simp
qed simp

section \<open>Derived forms\<close>

lemma rx_in_Seq_Cls:
  "rx_in (Seq (Cls cs) q) s \<longleftrightarrow> (\<exists>c t. s = c # t \<and> in_class cs c \<and> rx_in q t)"
proof
  assume "\<exists>c t. s = c # t \<and> in_class cs c \<and> rx_in q t"
  then obtain c t where "s = [c] @ t" "in_class cs c" "rx_in q t" by auto
  then show "rx_in (Seq (Cls cs) q) s" by (blast intro: in_Seq in_Cls)
qed (auto simp: rx_in_Seq rx_in_Cls)

lemma in_class_single [simp]: "in_class [(c, c)] d \<longleftrightarrow> d = c"
  by (auto simp: in_class_def)

lemma rx_in_Lit: "rx_in (Lit w) s \<longleftrightarrow> s = w"
proof (induction w arbitrary: s rule: Lit.induct)
  case (3 c d ds)
  then show ?case by (auto simp: rx_in_Seq_Cls)
qed (simp_all add: rx_in_Cls)

lemma rx_in_Alts: "rx_in (Alts rs) s \<longleftrightarrow> (\<exists>r \<in> set rs. rx_in r s)"
  by (induction rs rule: Alts.induct) (auto simp: rx_in_Cls in_class_def)

lemma rx_in_Star_Cls: "rx_in (Star (Cls cs)) s \<longleftrightarrow> list_all (in_class cs) s"
proof
  show "rx_in (Star (Cls cs)) s \<Longrightarrow> list_all (in_class cs) s"
  proof (induction "Star (Cls cs)" s rule: rx_in.induct)
    case (in_StarS s t)
    then show ?case by (auto simp: rx_in_Cls)
  qed simp
next
  show "list_all (in_class cs) s \<Longrightarrow> rx_in (Star (Cls cs)) s"
  proof (induction s)
    case (Cons c s)
    then have "rx_in (Star (Cls cs)) ([c] @ s)" by (intro in_StarS) (auto intro: in_Cls)
    then show ?case by simp
  qed (rule in_Star0)
qed

lemma rx_in_Plus_Cls: "rx_in (Plus (Cls cs)) s \<longleftrightarrow> s \<noteq> [] \<and> list_all (in_class cs) s"
  by (cases s) (auto simp: Plus_def rx_in_Seq_Cls rx_in_Star_Cls)

lemma rx_in_At_least_Cls:
  "rx_in (At_least n (Cls cs)) s \<longleftrightarrow> n \<le> length s \<and> list_all (in_class cs) s"
proof (induction n arbitrary: s)
  case 0
  then show ?case by (simp add: rx_in_Star_Cls)
next
  case (Suc n)
  then show ?case by (cases s) (auto simp: rx_in_Seq_Cls)
qed

end
