(* ===== verification/Mask.thy ===== *)
theory Mask
  imports GoRegex
begin

text \<open>
  Masking of AWS credentials in log text (\<open>logging/aws.go\<close>, \<open>logging/mask.go\<close>): unique IDs
  (access keys and their kin) are found by a regular expression and masked by
  \<open>partialMaskString\<close>; secret keys are found by a counting loop over the bytes and masked in
  place. The loop is refined to a specification by maximal base64 runs, and the composed
  function is shown to leave nothing that either search would still find.
\<close>

section \<open>partialMaskString\<close>

text \<open>
  \<open>s[0:first]\<close> and \<open>s[l-last:]\<close> panic when they are out of range; \<open>range\<close> over a
  negative count does nothing.
\<close>

definition partialMaskString :: "bytes \<Rightarrow> nat \<Rightarrow> nat \<Rightarrow> bytes go" where
  "partialMaskString s nfirst nlast =
     (let l = length s in
      if nfirst > l \<or> nlast > l then Panic ''slice bounds out of range''
      else Ret (take nfirst s @ replicate (l - nfirst - nlast) CHR ''*'' @ drop (l - nlast) s))"

section \<open>Unique IDs\<close>

definition id_class :: "(char \<times> char) list" where
  "id_class = [(CHR ''A'', CHR ''Z''), (CHR ''0'', CHR ''9'')]"

definition id_prefixes :: "string list" where
  "id_prefixes = [''ABIA'', ''ACCA'', ''AGPA'', ''AIDA'', ''AIPA'', ''AKIA'', ''ANPA'', ''ANVA'',
     ''APKA'', ''AROA'', ''ASCA'', ''ASIA'']"

definition id_prefix_rx :: rx where
  "id_prefix_rx = Alts (Seq (Lit ''A3T'') (Cls id_class) # map Lit id_prefixes)"

definition UniqueIDRegex :: rx where
  "UniqueIDRegex = Seq id_prefix_rx (At_least 16 (Cls id_class))"

definition unmaskedFirst :: nat where "unmaskedFirst = 4"
definition unmaskedLast :: nat where "unmaskedLast = 4"

text \<open>
  \<open>Regexp.ReplaceAllFunc\<close> for an expression that never matches the empty string: the text is
  scanned from the left, each match is replaced and scanning goes on behind it.
\<close>

function ReplaceAllFunc :: "rx \<Rightarrow> bytes \<Rightarrow> (bytes \<Rightarrow> bytes go) \<Rightarrow> bytes go" where
  "ReplaceAllFunc r s f =
     (case rx_first r s of
        Some (Suc n) \<Rightarrow>
          (if s = [] then Ret []
           else go_bind (f (take (Suc n) s)) (\<lambda>m.
                go_bind (ReplaceAllFunc r (drop (Suc n) s) f) (\<lambda>rest. Ret (m @ rest))))
      | _ \<Rightarrow>
          (case s of
             [] \<Rightarrow> Ret []
           | c # cs \<Rightarrow> go_bind (ReplaceAllFunc r cs f) (\<lambda>rest. Ret (c # rest))))"
  by pat_completeness auto
termination
  by (relation "measure (\<lambda>(r, s, f). length s)") (auto intro: diff_less)

declare ReplaceAllFunc.simps [simp del]

definition MaskAWSAccessKey :: "bytes \<Rightarrow> bytes go" where
  "MaskAWSAccessKey field =
     ReplaceAllFunc UniqueIDRegex field (\<lambda>s. partialMaskString s unmaskedFirst unmaskedLast)"

section \<open>Secret keys\<close>

definition secretKeyLen :: nat where "secretKeyLen = 40"

definition is_base64 :: "char \<Rightarrow> bool" where
  "is_base64 b \<longleftrightarrow>
     (CHR ''A'' \<le> b \<and> b \<le> CHR ''Z'') \<or> (CHR ''a'' \<le> b \<and> b \<le> CHR ''z'') \<or>
     (CHR ''0'' \<le> b \<and> b \<le> CHR ''9'') \<or> b = CHR ''/'' \<or> b = CHR ''+'' \<or> b = CHR ''=''"

text \<open>The inner loop: \<open>for j := lo; j < hi; j++ { in[j] = '*' }\<close>.\<close>

function star_loop :: "nat \<Rightarrow> nat \<Rightarrow> bytes \<Rightarrow> bytes" where
  "star_loop j hi bs = (if j < hi then star_loop (j + 1) hi (bs[j := CHR ''*'']) else bs)"
  by pat_completeness auto
termination by (relation "measure (\<lambda>(j, hi, bs). hi - j)") auto

declare star_loop.simps [simp del]

text \<open>
  The outer loop over \<open>i\<close> with the counter \<open>base64Characters\<close>; \<open>in\<close> is updated in place. All
  indices are in range: \<open>i < len\<close>, and a count of 40 means that 40 bytes precede \<open>i\<close>.
\<close>

function secret_loop :: "nat \<Rightarrow> nat \<Rightarrow> nat \<Rightarrow> bytes \<Rightarrow> nat \<times> bytes" where
  "secret_loop len i base64Characters bs =
     (if i < len then
        (let b = bs ! i in
         if is_base64 b then secret_loop len (i + 1) (base64Characters + 1) bs
         else
           (let bs' = (if base64Characters = secretKeyLen
                       then star_loop ((i - secretKeyLen) + unmaskedFirst) (i - unmaskedLast) bs
                       else bs)
            in secret_loop len (i + 1) 0 bs'))
      else (base64Characters, bs))"
  by pat_completeness auto
termination by (relation "measure (\<lambda>(len, i, n, bs). len - i)") auto

declare secret_loop.simps [simp del]

definition MaskAWSSecretKeys :: "bytes \<Rightarrow> bytes" where
  "MaskAWSSecretKeys bs =
     (let len = length bs; (base64Characters, bs') = secret_loop len 0 0 bs in
      if base64Characters = secretKeyLen
      then star_loop ((len - secretKeyLen) + unmaskedFirst) (len - unmaskedLast) bs'
      else bs')"

text \<open>
  \<open>MaskAWSSensitiveValues\<close>: \<open>ReplaceAllFunc\<close> returns a fresh slice, so the in-place masking
  never writes to the argument string's memory.
\<close>

definition MaskAWSSensitiveValues :: "string \<Rightarrow> string go" where
  "MaskAWSSensitiveValues field =
     go_bind (MaskAWSAccessKey field) (\<lambda>b. Ret (MaskAWSSecretKeys b))"

section \<open>The preferred match of the unique ID expression\<close>

definition is_id_char :: "char \<Rightarrow> bool" where
  "is_id_char c \<longleftrightarrow> in_class id_class c"

definition is_id_prefix :: "string \<Rightarrow> bool" where
  "is_id_prefix p \<longleftrightarrow>
     (length p = 4 \<and> take 3 p = ''A3T'' \<and> is_id_char (p ! 3)) \<or> p \<in> set id_prefixes"

definition id_run :: "string \<Rightarrow> nat" where
  "id_run s = length (takeWhile is_id_char s)"

definition id_match :: "string \<Rightarrow> nat option" where
  "id_match s =
     (if is_id_prefix (take 4 s) \<and> 16 \<le> id_run (drop 4 s) then Some (4 + id_run (drop 4 s))
      else None)"

lemma rx_first_Seq_Cls:
  "rx_first (Seq (Cls cs) q) s =
     (case s of [] \<Rightarrow> None | c # t \<Rightarrow> if in_class cs c then map_option Suc (rx_first q t) else None)"
  by (auto simp: rx_first_def split: list.split)

lemma rx_first_Star_Cls: "rx_first (Star (Cls cs)) s = Some (length (takeWhile (in_class cs) s))"
proof (induction s)
  case Nil
  show ?case unfolding rx_first_def by (subst bt.simps(6)) simp
next
  case (Cons c s)
  then obtain n ns where "bt (Star (Cls cs)) s = n # ns" "n = length (takeWhile (in_class cs) s)"
    by (auto simp: rx_first_def split: list.splits)
  then show ?case unfolding rx_first_def by (subst bt.simps(6)) simp
qed

lemma rx_first_At_least_Cls:
  "rx_first (At_least n (Cls cs)) s =
     (if n \<le> length (takeWhile (in_class cs) s) then Some (length (takeWhile (in_class cs) s))
      else None)"
proof (induction n arbitrary: s)
  case 0
  then show ?case by (simp add: rx_first_Star_Cls)
next
  case (Suc n)
  then show ?case by (cases s) (auto simp: rx_first_Seq_Cls)
qed

text \<open>A sequence whose first part only matches prefixes of one length.\<close>

lemma rx_first_Seq_fixed:
  assumes "\<And>w. rx_in r w \<Longrightarrow> length w = k"
  shows "rx_first (Seq r q) s =
     (if k \<le> length s \<and> rx_in r (take k s) then map_option ((+) k) (rx_first q (drop k s)) else None)"
proof -
  have all: "set (bt r s) = (if k \<le> length s \<and> rx_in r (take k s) then {k} else {})"
  proof -
    have "n = k" if "n \<in> set (bt r s)" for n
      using that assms [of "take n s"] by (auto simp: bt_iff)
    moreover have "k \<in> set (bt r s) \<longleftrightarrow> k \<le> length s \<and> rx_in r (take k s)" by (rule bt_iff)
    ultimately have "n \<in> set (bt r s) \<longleftrightarrow> n = k \<and> k \<le> length s \<and> rx_in r (take k s)" for n
      by blast
    then show ?thesis by (simp add: set_eq_iff)
  qed
  show ?thesis
  proof (cases "bt r s")
    case Nil
    with all show ?thesis by (auto simp: rx_first_def split: if_splits)
  next
    case (Cons n ns)
    with all have k: "k \<le> length s \<and> rx_in r (take k s)" "n = k" "\<forall>m \<in> set ns. m = k"
      by (auto split: if_splits)
    show ?thesis
    proof (cases "bt q (drop k s)")
      case Nil
      with k Cons have "bt (Seq r q) s = []" by auto
      with k Nil show ?thesis by (simp add: rx_first_def del: bt.simps)
    next
      case (Cons m ms)
      with k \<open>bt r s = n # ns\<close> show ?thesis by (simp add: rx_first_def)
    qed
  qed
qed

lemma rx_in_id_prefix: "rx_in id_prefix_rx w \<longleftrightarrow> is_id_prefix w"
proof -
  have "(\<exists>c. w = ''A3T'' @ [c] \<and> is_id_char c) \<longleftrightarrow>
      length w = 4 \<and> take 3 w = ''A3T'' \<and> is_id_char (w ! 3)"
  proof
    assume *: "length w = 4 \<and> take 3 w = ''A3T'' \<and> is_id_char (w ! 3)"
    then obtain a b c d where "w = [a, b, c, d]"
      by (auto simp: numeral_eq_Suc length_Suc_conv)
    with * show "\<exists>c. w = ''A3T'' @ [c] \<and> is_id_char c" by simp
  qed auto
  moreover have "rx_in (Seq (Lit ''A3T'') (Cls id_class)) w \<longleftrightarrow>
      (\<exists>c. w = ''A3T'' @ [c] \<and> is_id_char c)"
    unfolding rx_in_Seq rx_in_Lit rx_in_Cls is_id_char_def by blast
  ultimately show ?thesis
    unfolding id_prefix_rx_def rx_in_Alts is_id_prefix_def by (simp add: rx_in_Lit del: Lit.simps)
qed

lemma is_id_prefix_length: "is_id_prefix w \<Longrightarrow> length w = 4"
  by (auto simp: is_id_prefix_def id_prefixes_def)

lemma rx_first_UniqueIDRegex: "rx_first UniqueIDRegex s = id_match s"
proof -
  have "rx_first UniqueIDRegex s =
     (if 4 \<le> length s \<and> is_id_prefix (take 4 s)
      then map_option ((+) 4) (rx_first (At_least 16 (Cls id_class)) (drop 4 s)) else None)"
    unfolding UniqueIDRegex_def
    by (subst rx_first_Seq_fixed [where k = 4]) (simp_all only: rx_in_id_prefix is_id_prefix_length)
  moreover have "is_id_prefix (take 4 s) \<Longrightarrow> 4 \<le> length s"
    by (auto dest: is_id_prefix_length)
  moreover have "takeWhile (in_class id_class) = takeWhile is_id_char"
    by (simp add: is_id_char_def [abs_def])
  ultimately show ?thesis
    by (auto simp: rx_first_At_least_Cls id_match_def id_run_def simp del: At_least.simps)
qed

section \<open>Unique ID masking, refined\<close>

text \<open>The bytes a match keeps: four at each end.\<close>

definition mask_id :: "bytes \<Rightarrow> bytes" where
  "mask_id m = take 4 m @ replicate (length m - 8) CHR ''*'' @ drop (length m - 4) m"

function mask_ids :: "bytes \<Rightarrow> bytes" where
  "mask_ids s =
     (case s of
        [] \<Rightarrow> []
      | c # cs \<Rightarrow>
          (case id_match s of
             Some n \<Rightarrow> mask_id (take n s) @ mask_ids (drop n s)
           | None \<Rightarrow> c # mask_ids cs))"
  by pat_completeness auto
termination
  by (relation "measure length") (auto simp: id_match_def split: if_splits)

declare mask_ids.simps [simp del]

lemma mask_ids_Nil [simp]: "mask_ids [] = []"
  by (simp add: mask_ids.simps)

lemma mask_ids_match: "id_match s = Some n \<Longrightarrow> mask_ids s = mask_id (take n s) @ mask_ids (drop n s)"
  by (cases s) (simp_all add: mask_ids.simps [of s] mask_ids.simps [of "_ # _"] id_match_def
      is_id_prefix_def id_prefixes_def split: if_splits)

lemma mask_ids_skip: "id_match (c # cs) = None \<Longrightarrow> mask_ids (c # cs) = c # mask_ids cs"
  by (simp add: mask_ids.simps [of "c # cs"])

lemma id_run_le: "id_run s \<le> length s"
  by (simp add: id_run_def length_takeWhile_le)

lemma id_match_bounds: "id_match s = Some n \<Longrightarrow> 20 \<le> n \<and> n \<le> length s"
  using id_run_le [of "drop 4 s"]
  by (auto simp: id_match_def split: if_splits dest: is_id_prefix_length)

lemma partialMaskString_id:
  "8 \<le> length m \<Longrightarrow> partialMaskString m unmaskedFirst unmaskedLast = Ret (mask_id m)"
  by (simp add: partialMaskString_def unmaskedFirst_def unmaskedLast_def mask_id_def Let_def)

lemma MaskAWSAccessKey_eq: "MaskAWSAccessKey s = Ret (mask_ids s)"
  unfolding MaskAWSAccessKey_def
proof (induction s rule: mask_ids.induct)
  case (1 s)
  show ?case
  proof (cases "id_match s")
    case None
    show ?thesis
    proof (cases s)
      case (Cons c cs)
      with None "1.IH"(1) [OF Cons] show ?thesis
        by (subst ReplaceAllFunc.simps) (simp add: rx_first_UniqueIDRegex mask_ids_skip)
    qed (use None in \<open>subst ReplaceAllFunc.simps, simp add: rx_first_UniqueIDRegex\<close>)
  next
    case (Some n)
    then have n: "20 \<le> n" "n \<le> length s" by (auto dest: id_match_bounds)
    then obtain m where m: "n = Suc m" by (cases n) auto
    from n obtain c cs where s: "s = c # cs" by (cases s) auto
    have "ReplaceAllFunc UniqueIDRegex (drop n s)
        (\<lambda>s. partialMaskString s unmaskedFirst unmaskedLast) = Ret (mask_ids (drop n s))"
      using "1.IH"(2) [OF s Some] .
    then show ?thesis
      by (subst ReplaceAllFunc.simps)
         (use Some n m s in \<open>simp add: rx_first_UniqueIDRegex partialMaskString_id mask_ids_match
            del: take_Suc_Cons drop_Suc_Cons\<close>)
  qed
qed

section \<open>Starring\<close>

text \<open>\<open>o\<close> is \<open>s\<close> with some bytes replaced by stars.\<close>

definition starred :: "bytes \<Rightarrow> bytes \<Rightarrow> bool" where
  "starred s t \<longleftrightarrow> list_all2 (\<lambda>a b. b = a \<or> b = CHR ''*'') s t"

lemma starred_refl [simp]: "starred s s"
  by (simp add: starred_def list_all2_refl)

lemma starred_trans: "starred s t \<Longrightarrow> starred t u \<Longrightarrow> starred s u"
  unfolding starred_def list_all2_conv_all_nth by metis

lemma starred_append: "starred a b \<Longrightarrow> starred c d \<Longrightarrow> starred (a @ c) (b @ d)"
  by (simp add: starred_def list_all2_appendI)

lemma starred_Cons [simp]: "starred (a # s) (b # t) \<longleftrightarrow> (b = a \<or> b = CHR ''*'') \<and> starred s t"
  by (simp add: starred_def)

lemma starred_Nil [simp]: "starred [] t \<longleftrightarrow> t = []" "starred s [] \<longleftrightarrow> s = []"
  by (simp_all add: starred_def)

lemma starred_length: "starred s t \<Longrightarrow> length t = length s"
  by (simp add: starred_def list_all2_lengthD)

lemma starred_replicate: "starred s (replicate (length s) CHR ''*'')"
  by (simp add: starred_def list_all2_conv_all_nth)

lemma starred_drop: "starred s t \<Longrightarrow> starred (drop i s) (drop i t)"
  by (simp add: starred_def list_all2_dropI)

lemma starred_take: "starred s t \<Longrightarrow> starred (take i s) (take i t)"
  by (simp add: starred_def list_all2_takeI)

lemma star_not_id [simp]: "\<not> is_id_char CHR ''*''"
  by code_simp

lemma star_not_base64 [simp]: "\<not> is_base64 CHR ''*''"
  by code_simp

lemma starred_no_star: "starred s t \<Longrightarrow> CHR ''*'' \<notin> set t \<Longrightarrow> t = s"
  unfolding starred_def by (induction rule: list_all2_induct) auto

lemma starred_id_run: "starred s t \<Longrightarrow> id_run t \<le> id_run s"
  unfolding starred_def id_run_def by (induction rule: list_all2_induct) auto

lemma is_id_prefix_no_star: "is_id_prefix p \<Longrightarrow> CHR ''*'' \<notin> set p"
proof -
  have "\<forall>p \<in> set id_prefixes. CHR ''*'' \<notin> set p" by code_simp
  moreover have "CHR ''*'' \<notin> set p" if "length p = 4" "take 3 p = ''A3T''" "is_id_char (p ! 3)"
  proof -
    from that(1) obtain a b c d where "p = [a, b, c, d]" by (auto simp: numeral_eq_Suc length_Suc_conv)
    with that(2,3) show ?thesis by auto
  qed
  ultimately show "is_id_prefix p \<Longrightarrow> ?thesis" by (auto simp: is_id_prefix_def)
qed

text \<open>Starring never creates a match.\<close>

lemma starred_id_match: "starred s t \<Longrightarrow> id_match s = None \<Longrightarrow> id_match t = None"
proof (rule ccontr)
  assume st: "starred s t" and none: "id_match s = None" and "id_match t \<noteq> None"
  then have t: "is_id_prefix (take 4 t)" "16 \<le> id_run (drop 4 t)"
    by (auto simp: id_match_def split: if_splits)
  from st t(1) have "take 4 t = take 4 s"
    by (intro starred_no_star starred_take is_id_prefix_no_star)
  moreover have "id_run (drop 4 t) \<le> id_run (drop 4 s)"
    by (rule starred_id_run [OF starred_drop [OF st]])
  ultimately show False using t none by (simp add: id_match_def)
qed

lemma mask_id_starred: "8 \<le> length m \<Longrightarrow> starred m (mask_id m)"
  by (auto simp: starred_def mask_id_def list_all2_conv_all_nth nth_append)

lemma mask_ids_starred: "starred s (mask_ids s)"
proof (induction s rule: mask_ids.induct)
  case (1 s)
  show ?case
  proof (cases s)
    case (Cons c cs)
    show ?thesis
    proof (cases "id_match s")
      case None
      with Cons "1.IH"(1) [OF Cons] show ?thesis by (simp add: mask_ids_skip)
    next
      case (Some n)
      then have "8 \<le> length (take n s)" by (auto dest: id_match_bounds)
      then have "starred (take n s @ drop n s) (mask_id (take n s) @ mask_ids (drop n s))"
        using "1.IH"(2) [OF Cons Some] by (intro starred_append mask_id_starred)
      with Some show ?thesis by (simp add: mask_ids_match)
    qed
  qed simp
qed

section \<open>No unique ID survives\<close>

lemma id_match_window: "id_match s \<noteq> None \<Longrightarrow> 20 \<le> length s \<and> list_all is_id_char (take 16 (drop 4 s))"
proof -
  assume "id_match s \<noteq> None"
  then have *: "is_id_prefix (take 4 s)" "16 \<le> id_run (drop 4 s)"
    by (auto simp: id_match_def split: if_splits)
  then have "take 16 (drop 4 s) = take 16 (takeWhile is_id_char (drop 4 s))"
    by (metis id_run_def takeWhile_eq_take take_take min.absorb1)
  moreover have "list_all is_id_char (take 16 (takeWhile is_id_char (drop 4 s)))"
    by (metis (no_types, lifting) in_set_takeD list_all_iff set_takeWhileD)
  moreover have "20 \<le> length s"
    using * id_run_le [of "drop 4 s"] is_id_prefix_length [of "take 4 s"] by simp
  ultimately show ?thesis by simp
qed

lemma id_prefix_chars: "is_id_prefix p \<Longrightarrow> list_all is_id_char p"
proof -
  have "\<forall>p \<in> set id_prefixes. list_all is_id_char p" by code_simp
  moreover have "list_all is_id_char p" if "length p = 4" "take 3 p = ''A3T''" "is_id_char (p ! 3)"
  proof -
    from that(1) obtain a b c d where p: "p = [a, b, c, d]" by (auto simp: numeral_eq_Suc length_Suc_conv)
    moreover have "list_all is_id_char ''A3T''" by code_simp
    ultimately show ?thesis using that(2,3) by auto
  qed
  ultimately show "is_id_prefix p \<Longrightarrow> ?thesis" by (auto simp: is_id_prefix_def)
qed

lemma id_match_chars: "id_match s \<noteq> None \<Longrightarrow> 20 \<le> length s \<and> (\<forall>i < 20. is_id_char (s ! i))"
proof -
  assume m: "id_match s \<noteq> None"
  then have p: "is_id_prefix (take 4 s)" by (auto simp: id_match_def split: if_splits)
  note w = id_match_window [OF m]
  have "is_id_char (s ! i)" if "i < 20" for i
  proof (cases "i < 4")
    case True
    have "take 4 s ! i \<in> set (take 4 s)" using True w by (intro nth_mem) simp
    with True id_prefix_chars [OF p] show ?thesis by (simp add: list_all_iff)
  next
    case False
    with that w have "take 16 (drop 4 s) ! (i - 4) \<in> set (take 16 (drop 4 s))"
      by (intro nth_mem) auto
    with False that w show ?thesis by (simp add: list_all_iff)
  qed
  with w show ?thesis by blast
qed

text \<open>The byte after a match is no ID character, since the star is greedy.\<close>

lemma id_match_maximal:
  "id_match s = Some n \<Longrightarrow> n < length s \<Longrightarrow> \<not> is_id_char (s ! n)"
proof -
  assume n: "id_match s = Some n" "n < length s"
  then have "n = 4 + id_run (drop 4 s)" by (auto simp: id_match_def split: if_splits)
  moreover with n have "id_run (drop 4 s) < length (drop 4 s)" by simp
  ultimately show ?thesis
    using nth_length_takeWhile [of is_id_char "drop 4 s"] by (simp add: id_run_def)
qed

lemma starred_nth: "starred s t \<Longrightarrow> i < length t \<Longrightarrow> t ! i = s ! i \<or> t ! i = CHR ''*''"
  unfolding starred_def by (drule list_all2_nthD2) auto

text \<open>Nothing matches from inside a masked ID.\<close>

lemma mask_id_no_match:
  assumes m: "id_match s = Some n" and st: "starred (drop n s) t" and i: "i < n"
  shows "id_match (drop i (mask_id (take n s) @ t)) = None"
proof (rule ccontr)
  assume "id_match (drop i (mask_id (take n s) @ t)) \<noteq> None"
  note w = id_match_chars [OF this]
  have n: "20 \<le> n" "n \<le> length s" using id_match_bounds [OF m] by auto
  let ?o = "mask_id (take n s) @ t"
  have len: "length (mask_id (take n s)) = n" using n by (simp add: mask_id_def)
  have at: "is_id_char (?o ! j)" if "i \<le> j" "j < i + 20" for j
  proof -
    have "j - i < 20" and "i \<le> length ?o" using that len i by auto
    then have "is_id_char (drop i ?o ! (j - i))" using w by blast
    with that \<open>i \<le> length ?o\<close> show ?thesis by (simp del: drop_append)
  qed
  show False
  proof (cases "i < n - 4")
    case True
    let ?j = "max i 4"
    have "?o ! ?j = CHR ''*''" using True n len by (auto simp: nth_append mask_id_def)
    moreover have "is_id_char (?o ! ?j)" by (rule at) auto
    ultimately show False by simp
  next
    case False
    have "20 \<le> n + length t - i" using w len i by simp
    with False i n have t: "0 < length t" by linarith
    then have "n < length s" using starred_length [OF st] by simp
    then have "\<not> is_id_char (s ! n)" by (rule_tac id_match_maximal [OF m])
    moreover have "t ! 0 = drop n s ! 0 \<or> t ! 0 = CHR ''*''"
      using starred_nth [OF st, of 0] t by simp
    moreover have "is_id_char (?o ! n)" by (rule at) (use False i n in auto)
    ultimately show False using \<open>n < length s\<close> len by (auto simp: nth_append)
  qed
qed

lemma mask_ids_no_match: "id_match (drop i (mask_ids s)) = None"
proof (induction s arbitrary: i rule: mask_ids.induct)
  case (1 s)
  show ?case
  proof (cases s)
    case Nil
    then show ?thesis by (simp add: id_match_def is_id_prefix_def id_prefixes_def)
  next
    case (Cons c cs)
    show ?thesis
    proof (cases "id_match s")
      case None
      show ?thesis
      proof (cases i)
        case 0
        with None show ?thesis using starred_id_match [OF mask_ids_starred] by simp
      next
        case (Suc j)
        with None Cons "1.IH"(1) [OF Cons None, of j] show ?thesis by (simp add: mask_ids_skip)
      qed
    next
      case (Some n)
      have len: "length (mask_id (take n s)) = n"
        using id_match_bounds [OF Some] by (simp add: mask_id_def)
      show ?thesis
      proof (cases "i < n")
        case True
        with mask_id_no_match [OF Some mask_ids_starred True] show ?thesis
          by (simp add: mask_ids_match [OF Some])
      next
        case False
        with len "1.IH"(2) [OF Cons Some, of "i - n"] show ?thesis
          by (simp add: mask_ids_match [OF Some])
      qed
    qed
  qed
qed

section \<open>Secret key masking, refined\<close>

definition mask_run :: "bytes \<Rightarrow> bytes" where
  "mask_run r = (if length r = 40 then take 4 r @ replicate 32 CHR ''*'' @ drop 36 r else r)"

text \<open>The specification: every maximal run of base64 bytes goes through \<open>mask_run\<close>.\<close>

function secret_spec :: "bytes \<Rightarrow> bytes" where
  "secret_spec s =
     mask_run (takeWhile is_base64 s) @
     (case dropWhile is_base64 s of [] \<Rightarrow> [] | c # cs \<Rightarrow> c # secret_spec cs)"
  by pat_completeness auto
termination
  by (relation "measure length") (auto dest!: arg_cong [of _ _ length],
      metis length_dropWhile_le less_eq_Suc_le)

declare secret_spec.simps [simp del]

text \<open>The lengths of the maximal base64 runs.\<close>

function b64_runs :: "bytes \<Rightarrow> nat list" where
  "b64_runs s =
     length (takeWhile is_base64 s) #
     (case dropWhile is_base64 s of [] \<Rightarrow> [] | c # cs \<Rightarrow> b64_runs cs)"
  by pat_completeness auto
termination
  by (relation "measure length") (auto dest!: arg_cong [of _ _ length],
      metis length_dropWhile_le less_eq_Suc_le)

declare b64_runs.simps [simp del]

lemma secret_spec_all: "list_all is_base64 r \<Longrightarrow> secret_spec r = mask_run r"
  by (subst secret_spec.simps) (simp add: list_all_iff takeWhile_eq_all_conv [THEN iffD2]
      dropWhile_eq_Nil_conv [THEN iffD2])

lemma secret_spec_run:
  "list_all is_base64 r \<Longrightarrow> \<not> is_base64 c \<Longrightarrow>
     secret_spec (r @ c # cs) = mask_run r @ c # secret_spec cs"
  by (subst secret_spec.simps) (simp add: list_all_iff takeWhile_append2 dropWhile_append2)

lemma star_loop_eq:
  "j \<le> hi \<Longrightarrow> hi \<le> length bs \<Longrightarrow>
     star_loop j hi bs = take j bs @ replicate (hi - j) CHR ''*'' @ drop hi bs"
proof (induction j hi bs rule: star_loop.induct)
  case (1 j hi bs)
  show ?case
  proof (cases "j < hi")
    case True
    with 1 have "star_loop (j + 1) hi (bs[j := CHR ''*'']) =
        take (j + 1) (bs[j := CHR ''*'']) @ replicate (hi - (j + 1)) CHR ''*'' @ drop hi bs"
      by simp
    moreover have "take (j + 1) (bs[j := CHR ''*'']) = take j bs @ [CHR ''*'']"
      using True 1 by (simp add: take_Suc_conv_app_nth)
    moreover have "replicate (hi - j) CHR ''*'' = CHR ''*'' # replicate (hi - (j + 1)) CHR ''*''"
      using True by (metis Suc_diff_Suc Suc_eq_plus1 replicate_Suc)
    ultimately show ?thesis using True by (subst star_loop.simps) simp
  next
    case False
    with 1 show ?thesis by (subst star_loop.simps) simp
  qed
qed

lemma star_loop_run:
  assumes "length run = 40" and "i = length pre + 40"
  shows "star_loop ((i - secretKeyLen) + unmaskedFirst) (i - unmaskedLast) (pre @ run @ rest) =
    pre @ mask_run run @ rest"
  using assms
  by (subst star_loop_eq)
     (simp_all add: secretKeyLen_def unmaskedFirst_def unmaskedLast_def mask_run_def)

text \<open>The test after the outer loop, on the counter and the bytes it leaves.\<close>

definition secret_finish :: "nat \<Rightarrow> nat \<times> bytes \<Rightarrow> bytes" where
  "secret_finish len st =
     (if fst st = secretKeyLen
      then star_loop ((len - secretKeyLen) + unmaskedFirst) (len - unmaskedLast) (snd st)
      else snd st)"

lemma secret_loop_invariant:
  assumes "list_all is_base64 run" and "len = length pre + length run + length rest"
  shows "secret_finish len (secret_loop len (length pre + length run) (length run) (pre @ run @ rest)) =
    pre @ secret_spec (run @ rest)"
  using assms
proof (induction rest arbitrary: pre run)
  case Nil
  have "secret_loop len (length pre + length run) (length run) (pre @ run) = (length run, pre @ run)"
    by (subst secret_loop.simps) (use Nil in simp)
  moreover have "secret_spec run = mask_run run" by (rule secret_spec_all) (rule Nil)
  moreover have "secret_finish len (length run, pre @ run) = pre @ mask_run run"
  proof (cases "length run = 40")
    case True
    with Nil star_loop_run [of run len pre "[]"] show ?thesis
      by (simp add: secret_finish_def secretKeyLen_def)
  qed (simp add: secret_finish_def secretKeyLen_def mask_run_def)
  ultimately show ?case by simp
next
  case (Cons c cs)
  have at: "(pre @ run @ c # cs) ! (length pre + length run) = c"
    by (metis append.assoc length_append nth_append_length)
  show ?case
  proof (cases "is_base64 c")
    case True
    with Cons.IH [of "run @ [c]" pre] Cons.prems at show ?thesis
      by (subst secret_loop.simps) (simp add: Let_def)
  next
    case False
    let ?bs = "if length run = secretKeyLen
      then star_loop ((length pre + length run - secretKeyLen) + unmaskedFirst)
             (length pre + length run - unmaskedLast) (pre @ run @ c # cs)
      else pre @ run @ c # cs"
    have "?bs = (pre @ mask_run run @ [c]) @ [] @ cs"
    proof (cases "length run = 40")
      case True
      with star_loop_run [OF True, of "length pre + length run" pre "c # cs"] show ?thesis
        by (simp add: secretKeyLen_def)
    qed (simp add: secretKeyLen_def mask_run_def)
    moreover have "length (mask_run run) = length run" by (simp add: mask_run_def)
    ultimately show ?thesis
      using Cons.IH [of "[]" "pre @ mask_run run @ [c]"] Cons.prems False at
      by (subst secret_loop.simps) (simp add: Let_def secret_spec_run)
  qed
qed

lemma MaskAWSSecretKeys_eq: "MaskAWSSecretKeys bs = secret_spec bs"
  using secret_loop_invariant [of "[]" "length bs" "[]" bs]
  by (simp add: MaskAWSSecretKeys_def secret_finish_def Let_def case_prod_beta)

lemma secret_spec_unfold:
  "secret_spec s = mask_run (takeWhile is_base64 s) @
     (if dropWhile is_base64 s = [] then []
      else hd (dropWhile is_base64 s) # secret_spec (tl (dropWhile is_base64 s)))"
  by (subst secret_spec.simps) (cases "dropWhile is_base64 s"; simp del: dropWhile_eq_Nil_conv)

lemma mask_run_starred: "starred r (mask_run r)"
  by (auto simp: mask_run_def starred_def list_all2_conv_all_nth nth_append)

lemma secret_spec_starred: "starred s (secret_spec s)"
proof (induction s rule: secret_spec.induct)
  case (1 s)
  show ?case
  proof (cases "dropWhile is_base64 s")
    case Nil
    then have "takeWhile is_base64 s = s" by (metis append_Nil2 takeWhile_dropWhile_id)
    with Nil have "secret_spec s = mask_run s" by (metis append_Nil2 secret_spec_unfold)
    then show ?thesis by (simp add: mask_run_starred)
  next
    case (Cons c cs)
    have "starred (takeWhile is_base64 s @ [c] @ cs)
        (mask_run (takeWhile is_base64 s) @ [c] @ secret_spec cs)"
      by (intro starred_append mask_run_starred starred_refl "1.IH" [OF Cons])
    moreover have "takeWhile is_base64 s @ [c] @ cs = s"
      using Cons by (metis append_Cons append_Nil takeWhile_dropWhile_id)
    ultimately show ?thesis using Cons by (simp add: secret_spec_unfold [of s])
  qed
qed

lemma b64_runs_run:
  "list_all is_base64 r \<Longrightarrow> \<not> is_base64 c \<Longrightarrow> b64_runs (r @ c # cs) = length r # b64_runs cs"
  by (subst b64_runs.simps) (simp add: list_all_iff takeWhile_append2 dropWhile_append2)

lemma b64_runs_all: "list_all is_base64 r \<Longrightarrow> b64_runs r = [length r]"
  by (subst b64_runs.simps) (simp add: list_all_iff takeWhile_eq_all_conv [THEN iffD2]
      dropWhile_eq_Nil_conv [THEN iffD2])

lemma b64_runs_stars:
  "b64_runs (replicate n CHR ''*'' @ t) = replicate n 0 @ b64_runs t"
  using b64_runs_run [of "[]" "CHR ''*''"] by (induction n) auto

text \<open>After \<open>mask_run\<close> a run of 40 is two runs of 4; the other runs keep their lengths.\<close>

lemma b64_runs_masked:
  assumes "list_all is_base64 r" and "rest = [] \<or> \<not> is_base64 (hd rest)"
  shows "40 \<in> set (b64_runs (mask_run r @ rest)) \<longleftrightarrow> rest \<noteq> [] \<and> 40 \<in> set (b64_runs (tl rest))"
proof -
  have app: "b64_runs (q @ rest) = length q # (if rest = [] then [] else b64_runs (tl rest))"
    if "list_all is_base64 q" for q
    using that assms(2) by (cases rest) (auto simp: b64_runs_run b64_runs_all)
  show ?thesis
  proof (cases "length r = 40")
    case True
    have p: "list_all is_base64 (take 4 r)" "list_all is_base64 (drop 36 r)"
      using assms(1) by (auto simp: list_all_iff dest: in_set_takeD in_set_dropD)
    have "mask_run r @ rest = take 4 r @ CHR ''*'' # replicate 31 CHR ''*'' @ drop 36 r @ rest"
      using True by (simp add: mask_run_def numeral_eq_Suc)
    then have "b64_runs (mask_run r @ rest) =
        4 # replicate 31 0 @ 4 # (if rest = [] then [] else b64_runs (tl rest))"
      using True by (simp add: b64_runs_run [OF p(1)] b64_runs_stars app [OF p(2)])
    then show ?thesis by auto
  qed (auto simp: mask_run_def app [OF assms(1)])
qed

lemma secret_spec_runs: "40 \<notin> set (b64_runs (secret_spec s))"
proof (induction s rule: secret_spec.induct)
  case (1 s)
  let ?r = "takeWhile is_base64 s"
  have r: "list_all is_base64 ?r" by (auto simp: list_all_iff dest: set_takeWhileD)
  show ?case
  proof (cases "dropWhile is_base64 s")
    case Nil
    with b64_runs_masked [OF r, of "[]"] show ?thesis by (simp add: secret_spec_unfold [of s])
  next
    case (Cons c cs)
    then have "\<not> is_base64 c" by (metis dropWhile_eq_Cons_conv)
    with Cons b64_runs_masked [OF r, of "c # secret_spec cs"] "1.IH" [OF Cons] show ?thesis
      by (simp add: secret_spec_unfold [of s])
  qed
qed

lemma secret_spec_fixed: "40 \<notin> set (b64_runs s) \<Longrightarrow> secret_spec s = s"
proof (induction s rule: secret_spec.induct)
  case (1 s)
  let ?r = "takeWhile is_base64 s"
  show ?case
  proof (cases "dropWhile is_base64 s")
    case Nil
    then have r: "takeWhile is_base64 s = s" by (metis append_Nil2 takeWhile_dropWhile_id)
    with Nil have "secret_spec s = mask_run s" by (metis append_Nil2 secret_spec_unfold)
    moreover have "length s \<noteq> 40" using "1.prems" unfolding b64_runs.simps [of s] r by auto
    ultimately show ?thesis by (simp add: mask_run_def)
  next
    case (Cons c cs)
    have len: "length ?r \<noteq> 40" and cs: "40 \<notin> set (b64_runs cs)"
      using "1.prems" Cons by (auto simp: b64_runs.simps [of s])
    have "secret_spec s = ?r @ c # cs"
      using Cons len "1.IH" [OF Cons cs] by (simp add: secret_spec_unfold [of s] mask_run_def)
    also have "\<dots> = s" using Cons by (metis takeWhile_dropWhile_id)
    finally show ?thesis .
  qed
qed

section \<open>The composition\<close>

lemma MaskAWSSensitiveValues_eq: "MaskAWSSensitiveValues s = Ret (secret_spec (mask_ids s))"
  by (simp add: MaskAWSSensitiveValues_def MaskAWSAccessKey_eq MaskAWSSecretKeys_eq)

lemma rx_search_unique_id:
  "rx_search UniqueIDRegex s \<longleftrightarrow> (\<exists>i \<le> length s. id_match (drop i s) \<noteq> None)"
  by (simp add: rx_search_iff rx_first_UniqueIDRegex)

lemma mask_ids_fixed: "\<not> rx_search UniqueIDRegex s \<Longrightarrow> mask_ids s = s"
proof (induction s)
  case (Cons c cs)
  then have "id_match (c # cs) = None" and "\<not> rx_search UniqueIDRegex cs"
    by (simp_all add: rx_first_UniqueIDRegex)
  with Cons.IH show ?case by (simp add: mask_ids_skip)
qed simp

lemma masked_no_unique_id: "\<not> rx_search UniqueIDRegex (secret_spec (mask_ids s))"
proof -
  have "id_match (drop i (secret_spec (mask_ids s))) = None" for i
    by (rule starred_id_match [OF starred_drop [OF secret_spec_starred] mask_ids_no_match])
  then show ?thesis by (simp add: rx_search_unique_id)
qed

text \<open>C2: The in-place counting loop of \<open>MaskAWSSecretKeys\<close>, with its counter, its inner loop
  and the test after the loop, computes the run-by-run specification: every maximal run of exactly
  40 base64 bytes keeps its first and last four bytes, every other byte of the text is kept.\<close>

theorem MaskAWSSecretKeys_refines: "MaskAWSSecretKeys bs = secret_spec bs"
  by (rule MaskAWSSecretKeys_eq)

text \<open>C1: \<open>MaskAWSSensitiveValues\<close> never panics; its output has the length of the text and
  differs from it only in bytes replaced by an asterisk; no unique ID can be found in it any more
  and no maximal base64 run in it has the length of a secret key.\<close>

theorem MaskAWSSensitiveValues_safe:
  "\<exists>out. MaskAWSSensitiveValues s = Ret out \<and> starred s out \<and>
     \<not> rx_search UniqueIDRegex out \<and> 40 \<notin> set (b64_runs out)"
  using masked_no_unique_id secret_spec_runs
  by (auto simp: MaskAWSSensitiveValues_eq
      intro: starred_trans [OF mask_ids_starred secret_spec_starred])

text \<open>Masking is idempotent: masking text that was masked before changes nothing.\<close>

theorem MaskAWSSensitiveValues_idempotent:
  "go_bind (MaskAWSSensitiveValues s) MaskAWSSensitiveValues = MaskAWSSensitiveValues s"
  by (simp add: MaskAWSSensitiveValues_eq mask_ids_fixed [OF masked_no_unique_id]
      secret_spec_fixed [OF secret_spec_runs])

text \<open>
  The order of the two maskings matters: a secret key with an ID-like part loses only the bytes
  of that part, since the asterisks break the run of 40 that \<open>MaskAWSSecretKeys\<close> looks for.
\<close>

lemma secret_with_id_partly_masked:
  "MaskAWSSensitiveValues ''abcdefghijAKIAIOSFODNN7EXAMPLEabcdefghij'' =
     Ret ''abcdefghijAKIA************MPLEabcdefghij''"
proof -
  have "mask_ids ''abcdefghijAKIAIOSFODNN7EXAMPLEabcdefghij'' =
      ''abcdefghijAKIA************MPLEabcdefghij''"
    by code_simp
  moreover have "secret_spec ''abcdefghijAKIA************MPLEabcdefghij'' =
      ''abcdefghijAKIA************MPLEabcdefghij''"
    by code_simp
  ultimately show ?thesis by (simp add: MaskAWSSensitiveValues_eq)
qed

end
