(* ===== verification/EndpointsData.thy ===== *)
theory EndpointsData
  imports GoRegex
begin

text \<open>
  The partition table of \<open>endpoints/endpoints_gen.go\<close> with the types of
  \<open>endpoints/partition.go\<close>, \<open>region.go\<close> and \<open>service.go\<close>. A map literal is the list of its
  entries in source order, with the named ID constants written out; the entry's key and its
  \<open>id\<close> field are the same constant throughout the file. Long service lists are cut
  in pieces of at most fifty entries.
\<close>

record Region =
  rg_id :: string
  rg_description :: string

record Service =
  sv_id :: string

record Partition =
  pt_id :: string
  pt_name :: string
  pt_dnsSuffix :: string
  pt_regionRegex :: rx
  pt_regions :: "(string \<times> Region) list"
  pt_services :: "(string \<times> Service) list"

text \<open>One entry of a region or service map literal.\<close>

definition region_entry :: "string \<Rightarrow> string \<Rightarrow> string \<times> Region" where
  "region_entry key desc = (key, \<lparr>rg_id = key, rg_description = desc\<rparr>)"

definition service_entry :: "string \<Rightarrow> string \<times> Service" where
  "service_entry key = (key, \<lparr>sv_id = key\<rparr>)"

text \<open>The expressions all have the form \<open>^head\-\w+\-\d+$\<close>; the head may have several parts.\<close>

definition region_rx :: "rx list \<Rightarrow> rx" where
  "region_rx head = Seqs (head @ [Lit ''-'', Plus word_class, Lit ''-'', Plus digit_class])"

section \<open>The ID constants\<close>

definition AwsGlobalRegionID :: string where
  "AwsGlobalRegionID = ''aws-global''"

definition partition_ids :: "string list" where
  "partition_ids =
    [
     ''aws'', ''aws-cn'', ''aws-eusc'', ''aws-iso'', ''aws-iso-b'', ''aws-iso-e'', ''aws-iso-f'',
     ''aws-us-gov'']"

definition region_ids :: "string list" where
  "region_ids =
    [
     ''af-south-1'', ''ap-east-1'', ''ap-east-2'', ''ap-northeast-1'', ''ap-northeast-2'',
     ''ap-northeast-3'', ''ap-south-1'', ''ap-south-2'', ''ap-southeast-1'', ''ap-southeast-2'',
     ''ap-southeast-3'', ''ap-southeast-4'', ''ap-southeast-5'', ''ap-southeast-6'',
     ''ap-southeast-7'', ''ca-central-1'', ''ca-west-1'', ''eu-central-1'', ''eu-central-2'',
     ''eu-north-1'', ''eu-south-1'', ''eu-south-2'', ''eu-west-1'', ''eu-west-2'', ''eu-west-3'',
     ''il-central-1'', ''me-central-1'', ''me-south-1'', ''mx-central-1'', ''sa-east-1'',
     ''us-east-1'', ''us-east-2'', ''us-west-1'', ''us-west-2'', ''cn-north-1'',
     ''cn-northwest-1'', ''eusc-de-east-1'', ''us-iso-east-1'', ''us-iso-west-1'',
     ''us-isob-east-1'', ''us-isob-west-1'', ''eu-isoe-west-1'', ''us-isof-east-1'',
     ''us-isof-south-1'', ''us-gov-east-1'', ''us-gov-west-1'']"

section \<open>AWS Standard\<close>

definition aws_regions :: "(string \<times> Region) list" where
  "aws_regions =
    [
     region_entry ''af-south-1'' ''Africa (Cape Town)'',
     region_entry ''ap-east-1'' ''Asia Pacific (Hong Kong)'',
     region_entry ''ap-east-2'' ''Asia Pacific (Taipei)'',
     region_entry ''ap-northeast-1'' ''Asia Pacific (Tokyo)'',
     region_entry ''ap-northeast-2'' ''Asia Pacific (Seoul)'',
     region_entry ''ap-northeast-3'' ''Asia Pacific (Osaka)'',
     region_entry ''ap-south-1'' ''Asia Pacific (Mumbai)'',
     region_entry ''ap-south-2'' ''Asia Pacific (Hyderabad)'',
     region_entry ''ap-southeast-1'' ''Asia Pacific (Singapore)'',
     region_entry ''ap-southeast-2'' ''Asia Pacific (Sydney)'',
     region_entry ''ap-southeast-3'' ''Asia Pacific (Jakarta)'',
     region_entry ''ap-southeast-4'' ''Asia Pacific (Melbourne)'',
     region_entry ''ap-southeast-5'' ''Asia Pacific (Malaysia)'',
     region_entry ''ap-southeast-6'' ''Asia Pacific (New Zealand)'',
     region_entry ''ap-southeast-7'' ''Asia Pacific (Thailand)'',
     region_entry ''ca-central-1'' ''Canada (Central)'',
     region_entry ''ca-west-1'' ''Canada West (Calgary)'',
     region_entry ''eu-central-1'' ''Europe (Frankfurt)'',
     region_entry ''eu-central-2'' ''Europe (Zurich)'',
     region_entry ''eu-north-1'' ''Europe (Stockholm)'',
     region_entry ''eu-south-1'' ''Europe (Milan)'',
     region_entry ''eu-south-2'' ''Europe (Spain)'',
     region_entry ''eu-west-1'' ''Europe (Ireland)'',
     region_entry ''eu-west-2'' ''Europe (London)'',
     region_entry ''eu-west-3'' ''Europe (Paris)'',
     region_entry ''il-central-1'' ''Israel (Tel Aviv)'',
     region_entry ''me-central-1'' ''Middle East (UAE)'',
     region_entry ''me-south-1'' ''Middle East (Bahrain)'',
     region_entry ''mx-central-1'' ''Mexico (Central)'',
     region_entry ''sa-east-1'' ''South America (Sao Paulo)'',
     region_entry ''us-east-1'' ''US East (N. Virginia)'',
     region_entry ''us-east-2'' ''US East (Ohio)'',
     region_entry ''us-west-1'' ''US West (N. California)'',
     region_entry ''us-west-2'' ''US West (Oregon)'']"

definition aws_services_1 :: "string list" where
  "aws_services_1 =
    [
     ''access-analyzer'', ''account'', ''acm'', ''acm-pca'', ''agreement-marketplace'',
     ''airflow'', ''amplify'', ''amplifybackend'', ''amplifyuibuilder'', ''aoss'',
     ''api.detective'', ''api.ecr'', ''api.ecr-public'', ''api.iotdeviceadvisor'',
     ''api.iotwireless'', ''api.mediatailor'', ''api.pricing'', ''api.sagemaker'',
     ''api.tunneling.iot'', ''apigateway'', ''app-integrations'', ''appconfig'',
     ''appconfigdata'', ''appflow'', ''application-autoscaling'', ''applicationinsights'',
     ''appmesh'', ''apprunner'', ''appstream2'', ''appsync'', ''aps'', ''arc-zonal-shift'',
     ''athena'', ''auditmanager'', ''autoscaling'', ''autoscaling-plans'', ''backup'',
     ''backup-gateway'', ''batch'', ''bedrock'', ''billingconductor'', ''braket'', ''budgets'',
     ''cases'', ''cassandra'', ''catalog.marketplace'', ''ce'', ''chime'', ''cleanrooms'',
     ''cloud9'']"

definition aws_services_2 :: "string list" where
  "aws_services_2 =
    [
     ''cloudcontrolapi'', ''clouddirectory'', ''cloudformation'', ''cloudfront'', ''cloudhsm'',
     ''cloudhsmv2'', ''cloudsearch'', ''cloudtrail'', ''cloudtrail-data'', ''codeartifact'',
     ''codebuild'', ''codecatalyst'', ''codecommit'', ''codedeploy'', ''codeguru-profiler'',
     ''codeguru-reviewer'', ''codepipeline'', ''codestar-connections'',
     ''codestar-notifications'', ''cognito-identity'', ''cognito-idp'', ''cognito-sync'',
     ''comprehend'', ''comprehendmedical'', ''compute-optimizer'', ''config'', ''connect'',
     ''connect-campaigns'', ''contact-lens'', ''controltower'', ''cost-optimization-hub'',
     ''cur'', ''data-ats.iot'', ''data.iot'', ''data.jobs.iot'', ''data.mediastore'',
     ''databrew'', ''dataexchange'', ''datapipeline'', ''datasync'', ''datazone'', ''dax'',
     ''devicefarm'', ''devops-guru'', ''directconnect'', ''discovery'', ''dlm'', ''dms'',
     ''docdb'', ''drs'']"

definition aws_services_3 :: "string list" where
  "aws_services_3 =
    [
     ''ds'', ''dynamodb'', ''ebs'', ''ec2'', ''ecs'', ''edge.sagemaker'', ''eks'', ''eks-auth'',
     ''elasticache'', ''elasticbeanstalk'', ''elasticfilesystem'', ''elasticloadbalancing'',
     ''elasticmapreduce'', ''email'', ''emr-containers'', ''emr-serverless'',
     ''entitlement.marketplace'', ''es'', ''events'', ''finspace'', ''finspace-api'',
     ''firehose'', ''fms'', ''forecast'', ''forecastquery'', ''frauddetector'', ''fsx'',
     ''gamelift'', ''gameliftstreams'', ''geo'', ''glacier'', ''globalaccelerator'', ''glue'',
     ''grafana'', ''greengrass'', ''groundstation'', ''guardduty'', ''health'', ''healthlake'',
     ''iam'', ''identity-chime'', ''identitystore'', ''importexport'', ''ingest.timestream'',
     ''inspector'', ''inspector2'', ''internetmonitor'', ''iot'', ''iotevents'', ''ioteventsdata'']"

definition aws_services_4 :: "string list" where
  "aws_services_4 =
    [
     ''iotfleetwise'', ''iotsecuredtunneling'', ''iotsitewise'', ''iotthingsgraph'',
     ''iottwinmaker'', ''iotwireless'', ''ivs'', ''ivschat'', ''ivsrealtime'', ''kafka'',
     ''kafkaconnect'', ''kendra'', ''kendra-ranking'', ''kinesis'', ''kinesisanalytics'',
     ''kinesisvideo'', ''kms'', ''lakeformation'', ''lambda'', ''license-manager'',
     ''license-manager-linux-subscriptions'', ''license-manager-user-subscriptions'',
     ''lightsail'', ''logs'', ''lookoutequipment'', ''m2'', ''machinelearning'', ''macie2'',
     ''managedblockchain'', ''managedblockchain-query'', ''marketplacecommerceanalytics'',
     ''media-pipelines-chime'', ''mediaconnect'', ''mediaconvert'', ''medialive'',
     ''mediapackage'', ''mediapackage-vod'', ''mediapackagev2'', ''mediastore'',
     ''meetings-chime'', ''memory-db'', ''messaging-chime'', ''metering.marketplace'',
     ''metrics.sagemaker'', ''mgh'', ''mgn'', ''migrationhub-orchestrator'',
     ''migrationhub-strategy'', ''mobileanalytics'', ''models-v2-lex'']"

definition aws_services_5 :: "string list" where
  "aws_services_5 =
    [
     ''models.lex'', ''monitoring'', ''mq'', ''mturk-requester'', ''neptune'',
     ''network-firewall'', ''networkmanager'', ''notifications'', ''notifications-contacts'',
     ''nova-act'', ''oam'', ''oidc'', ''omics'', ''organizations'', ''osis'', ''outposts'',
     ''participant.connect'', ''partnercentral-channel'', ''personalize'', ''pi'', ''pinpoint'',
     ''pipes'', ''polly'', ''portal.sso'', ''profile'', ''proton'', ''qbusiness'',
     ''query.timestream'', ''quicksight'', ''ram'', ''rbin'', ''rds'', ''rds-data'',
     ''redshift'', ''redshift-serverless'', ''rekognition'', ''resiliencehub'',
     ''resource-explorer-2'', ''resource-groups'', ''rolesanywhere'', ''route53'',
     ''route53-recovery-control-config'', ''route53domains'', ''route53profiles'',
     ''route53resolver'', ''rum'', ''runtime-v2-lex'', ''runtime.lex'', ''runtime.sagemaker'',
     ''s3'']"

definition aws_services_6 :: "string list" where
  "aws_services_6 =
    [
     ''s3-control'', ''s3-outposts'', ''sagemaker-geospatial'', ''savingsplans'', ''scheduler'',
     ''schemas'', ''sdb'', ''secretsmanager'', ''securityhub'', ''securitylake'',
     ''serverlessrepo'', ''servicecatalog'', ''servicecatalog-appregistry'',
     ''servicediscovery'', ''servicequotas'', ''shield'', ''signer'', ''simspaceweaver'',
     ''sms-voice'', ''snowball'', ''sns'', ''sqs'', ''ssm'', ''ssm-contacts'', ''ssm-incidents'',
     ''ssm-quicksetup'', ''ssm-sap'', ''sso'', ''states'', ''storagegateway'',
     ''streams.dynamodb'', ''sts'', ''support'', ''supportapp'', ''swf'', ''synthetics'',
     ''tagging'', ''tax'', ''textract'', ''thinclient'', ''tnb'', ''transcribe'',
     ''transcribestreaming'', ''transfer'', ''translate'', ''trustedadvisor'',
     ''verifiedpermissions'', ''voice-chime'', ''voiceid'', ''vpc-lattice'']"

definition aws_services_7 :: "string list" where
  "aws_services_7 =
    [
     ''waf'', ''waf-regional'', ''wafv2'', ''wellarchitected'', ''wisdom'', ''workdocs'',
     ''workmail'', ''workspaces'', ''workspaces-web'', ''xray'']"

definition aws_services :: "(string \<times> Service) list" where
  "aws_services =
     map service_entry
       (aws_services_1 @
        aws_services_2 @
        aws_services_3 @
        aws_services_4 @
        aws_services_5 @
        aws_services_6 @
        aws_services_7)"

definition aws_partition :: Partition where
  "aws_partition =
     \<lparr>pt_id = ''aws'', pt_name = ''AWS Standard'', pt_dnsSuffix = ''amazonaws.com'',
      pt_regionRegex = region_rx [Alts [Lit ''us'', Lit ''eu'', Lit ''ap'', Lit ''sa'', Lit ''ca'', Lit ''me'', Lit ''af'', Lit ''il'', Lit ''mx'']],
      pt_regions = aws_regions, pt_services = aws_services\<rparr>"

section \<open>AWS China\<close>

definition aws_cn_regions :: "(string \<times> Region) list" where
  "aws_cn_regions =
    [
     region_entry ''cn-north-1'' ''China (Beijing)'',
     region_entry ''cn-northwest-1'' ''China (Ningxia)'']"

definition aws_cn_services_1 :: "string list" where
  "aws_cn_services_1 =
    [
     ''access-analyzer'', ''account'', ''acm'', ''acm-pca'', ''airflow'', ''api.ecr'',
     ''api.pricing'', ''api.sagemaker'', ''api.tunneling.iot'', ''apigateway'', ''appconfig'',
     ''appconfigdata'', ''application-autoscaling'', ''applicationinsights'', ''appmesh'',
     ''appsync'', ''arc-zonal-shift'', ''athena'', ''autoscaling'', ''autoscaling-plans'',
     ''backup'', ''batch'', ''budgets'', ''cassandra'', ''ce'', ''cloudcontrolapi'',
     ''cloudformation'', ''cloudfront'', ''cloudtrail'', ''codebuild'', ''codecommit'',
     ''codedeploy'', ''codepipeline'', ''cognito-identity'', ''compute-optimizer'', ''config'',
     ''cur'', ''data-ats.iot'', ''data.iot'', ''data.jobs.iot'', ''databrew'', ''datasync'',
     ''datazone'', ''dax'', ''directconnect'', ''dlm'', ''dms'', ''docdb'', ''ds'', ''dynamodb'']"

definition aws_cn_services_2 :: "string list" where
  "aws_cn_services_2 =
    [
     ''ebs'', ''ec2'', ''ecs'', ''eks'', ''eks-auth'', ''elasticache'', ''elasticbeanstalk'',
     ''elasticfilesystem'', ''elasticloadbalancing'', ''elasticmapreduce'', ''emr-containers'',
     ''emr-serverless'', ''entitlement.marketplace'', ''es'', ''events'', ''firehose'', ''fms'',
     ''fsx'', ''gamelift'', ''gameliftstreams'', ''glacier'', ''glue'', ''greengrass'',
     ''guardduty'', ''health'', ''iam'', ''identitystore'', ''inspector2'', ''internetmonitor'',
     ''iot'', ''iotevents'', ''ioteventsdata'', ''iotsecuredtunneling'', ''iotsitewise'',
     ''iottwinmaker'', ''kafka'', ''kafkaconnect'', ''kendra-ranking'', ''kinesis'',
     ''kinesisanalytics'', ''kinesisvideo'', ''kms'', ''lakeformation'', ''lambda'',
     ''license-manager'', ''license-manager-linux-subscriptions'', ''logs'', ''mediaconvert'',
     ''memory-db'', ''metering.marketplace'']"

definition aws_cn_services_3 :: "string list" where
  "aws_cn_services_3 =
    [
     ''metrics.sagemaker'', ''monitoring'', ''mq'', ''neptune'', ''network-firewall'',
     ''notifications'', ''oam'', ''oidc'', ''organizations'', ''personalize'', ''pi'', ''pipes'',
     ''polly'', ''portal.sso'', ''qbusiness'', ''quicksight'', ''ram'', ''rbin'', ''rds'',
     ''redshift'', ''redshift-serverless'', ''resource-groups'', ''rolesanywhere'', ''route53'',
     ''route53profiles'', ''route53resolver'', ''runtime.sagemaker'', ''s3'', ''s3-control'',
     ''savingsplans'', ''scheduler'', ''schemas'', ''secretsmanager'', ''securityhub'',
     ''serverlessrepo'', ''servicecatalog'', ''servicediscovery'', ''servicequotas'', ''signer'',
     ''snowball'', ''sns'', ''sqs'', ''ssm'', ''sso'', ''states'', ''storagegateway'',
     ''streams.dynamodb'', ''sts'', ''support'', ''swf'']"

definition aws_cn_services_4 :: "string list" where
  "aws_cn_services_4 =
    [
     ''synthetics'', ''tagging'', ''transcribe'', ''transcribestreaming'', ''transfer'',
     ''verifiedpermissions'', ''waf-regional'', ''wafv2'', ''workspaces'', ''xray'']"

definition aws_cn_services :: "(string \<times> Service) list" where
  "aws_cn_services =
     map service_entry
       (aws_cn_services_1 @
        aws_cn_services_2 @
        aws_cn_services_3 @
        aws_cn_services_4)"

definition aws_cn_partition :: Partition where
  "aws_cn_partition =
     \<lparr>pt_id = ''aws-cn'', pt_name = ''AWS China'', pt_dnsSuffix = ''amazonaws.com.cn'',
      pt_regionRegex = region_rx [Lit ''cn''],
      pt_regions = aws_cn_regions, pt_services = aws_cn_services\<rparr>"

section \<open>AWS EUSC\<close>

definition aws_eusc_regions :: "(string \<times> Region) list" where
  "aws_eusc_regions =
    [
     region_entry ''eusc-de-east-1'' ''AWS European Sovereign Cloud (Germany)'']"

definition aws_eusc_services_1 :: "string list" where
  "aws_eusc_services_1 =
    [
     ''access-analyzer'', ''acm'', ''acm-pca'', ''agreement-marketplace'', ''api.ecr'',
     ''api.pricing'', ''api.sagemaker'', ''apigateway'', ''appconfig'', ''appconfigdata'',
     ''application-autoscaling'', ''arc-zonal-shift'', ''athena'', ''autoscaling'', ''backup'',
     ''batch'', ''bedrock'', ''cloudcontrolapi'', ''cloudformation'', ''cloudtrail'',
     ''codedeploy'', ''cognito-identity'', ''cognito-idp'', ''compute-optimizer'', ''config'',
     ''controltower'', ''cost-optimization-hub'', ''datasync'', ''datazone'', ''directconnect'',
     ''dlm'', ''dms'', ''drs'', ''ds'', ''dynamodb'', ''ebs'', ''ec2'', ''ecs'', ''eks'',
     ''eks-auth'', ''elasticache'', ''elasticfilesystem'', ''elasticloadbalancing'',
     ''elasticmapreduce'', ''email'', ''entitlement.marketplace'', ''es'', ''events'',
     ''firehose'', ''fsx'']"

definition aws_eusc_services_2 :: "string list" where
  "aws_eusc_services_2 =
    [
     ''gameliftstreams'', ''glue'', ''guardduty'', ''health'', ''identitystore'',
     ''internetmonitor'', ''kafka'', ''kendra-ranking'', ''kinesis'', ''kinesisanalytics'',
     ''kms'', ''lakeformation'', ''lambda'', ''license-manager'', ''logs'',
     ''metering.marketplace'', ''metrics.sagemaker'', ''monitoring'', ''network-firewall'',
     ''notifications'', ''oam'', ''oidc'', ''pi'', ''polly'', ''portal.sso'', ''qbusiness'',
     ''ram'', ''rbin'', ''rds'', ''redshift'', ''resource-groups'', ''rolesanywhere'',
     ''route53profiles'', ''route53resolver'', ''rum'', ''runtime.sagemaker'', ''s3'',
     ''s3-control'', ''scheduler'', ''secretsmanager'', ''securityhub'', ''servicediscovery'',
     ''servicequotas'', ''signer'', ''sms-voice'', ''sns'', ''sqs'', ''ssm'', ''sso'', ''states'']"

definition aws_eusc_services_3 :: "string list" where
  "aws_eusc_services_3 =
    [
     ''storagegateway'', ''streams.dynamodb'', ''sts'', ''swf'', ''synthetics'', ''tagging'',
     ''transfer'', ''trustedadvisor'', ''wafv2'', ''xray'']"

definition aws_eusc_services :: "(string \<times> Service) list" where
  "aws_eusc_services =
     map service_entry
       (aws_eusc_services_1 @
        aws_eusc_services_2 @
        aws_eusc_services_3)"

definition aws_eusc_partition :: Partition where
  "aws_eusc_partition =
     \<lparr>pt_id = ''aws-eusc'', pt_name = ''AWS EUSC'', pt_dnsSuffix = ''amazonaws.eu'',
      pt_regionRegex = region_rx [Lit ''eusc'', Lit ''-'', Alts [Lit ''de'']],
      pt_regions = aws_eusc_regions, pt_services = aws_eusc_services\<rparr>"

section \<open>AWS ISO (US)\<close>

definition aws_iso_regions :: "(string \<times> Region) list" where
  "aws_iso_regions =
    [
     region_entry ''us-iso-east-1'' ''US ISO East'',
     region_entry ''us-iso-west-1'' ''US ISO WEST'']"

definition aws_iso_services_1 :: "string list" where
  "aws_iso_services_1 =
    [
     ''acm'', ''acm-pca'', ''agreement-marketplace'', ''api.ecr'', ''api.pricing'',
     ''api.sagemaker'', ''apigateway'', ''appconfig'', ''appconfigdata'',
     ''application-autoscaling'', ''arc-zonal-shift'', ''athena'', ''autoscaling'', ''backup'',
     ''batch'', ''bedrock'', ''budgets'', ''ce'', ''cloudcontrolapi'', ''cloudformation'',
     ''cloudtrail'', ''codebuild'', ''codedeploy'', ''comprehend'', ''config'', ''datapipeline'',
     ''datasync'', ''directconnect'', ''dlm'', ''dms'', ''ds'', ''dynamodb'', ''ebs'', ''ec2'',
     ''ecs'', ''eks'', ''elasticache'', ''elasticfilesystem'', ''elasticloadbalancing'',
     ''elasticmapreduce'', ''es'', ''events'', ''firehose'', ''fsx'', ''glacier'', ''glue'',
     ''guardduty'', ''health'', ''iam'', ''kinesis'']"

definition aws_iso_services_2 :: "string list" where
  "aws_iso_services_2 =
    [
     ''kinesisanalytics'', ''kinesisvideo'', ''kms'', ''lakeformation'', ''lambda'',
     ''license-manager'', ''logs'', ''medialive'', ''mediapackage'', ''metrics.sagemaker'',
     ''monitoring'', ''mq'', ''network-firewall'', ''oam'', ''organizations'', ''outposts'',
     ''pi'', ''ram'', ''rbin'', ''rds'', ''redshift'', ''resource-groups'', ''route53'',
     ''route53resolver'', ''runtime.sagemaker'', ''s3'', ''s3-control'', ''s3-outposts'',
     ''scheduler'', ''secretsmanager'', ''securityhub'', ''servicediscovery'', ''servicequotas'',
     ''snowball'', ''sns'', ''sqs'', ''ssm'', ''states'', ''storagegateway'',
     ''streams.dynamodb'', ''sts'', ''support'', ''swf'', ''synthetics'', ''tagging'',
     ''textract'', ''transcribe'', ''transcribestreaming'', ''translate'', ''wafv2'']"

definition aws_iso_services_3 :: "string list" where
  "aws_iso_services_3 =
    [
     ''workspaces'', ''xray'']"

definition aws_iso_services :: "(string \<times> Service) list" where
  "aws_iso_services =
     map service_entry
       (aws_iso_services_1 @
        aws_iso_services_2 @
        aws_iso_services_3)"

definition aws_iso_partition :: Partition where
  "aws_iso_partition =
     \<lparr>pt_id = ''aws-iso'', pt_name = ''AWS ISO (US)'', pt_dnsSuffix = ''c2s.ic.gov'',
      pt_regionRegex = region_rx [Lit ''us'', Lit ''-'', Lit ''iso''],
      pt_regions = aws_iso_regions, pt_services = aws_iso_services\<rparr>"

section \<open>AWS ISOB (US)\<close>

definition aws_iso_b_regions :: "(string \<times> Region) list" where
  "aws_iso_b_regions =
    [
     region_entry ''us-isob-east-1'' ''US ISOB East (Ohio)'',
     region_entry ''us-isob-west-1'' ''US ISOB West'']"

definition aws_iso_b_services_1 :: "string list" where
  "aws_iso_b_services_1 =
    [
     ''acm'', ''agreement-marketplace'', ''api.ecr'', ''api.pricing'', ''api.sagemaker'',
     ''apigateway'', ''appconfig'', ''appconfigdata'', ''application-autoscaling'',
     ''appstream2'', ''arc-zonal-shift'', ''athena'', ''autoscaling'', ''backup'', ''batch'',
     ''bedrock'', ''budgets'', ''ce'', ''cloudcontrolapi'', ''cloudformation'', ''cloudtrail'',
     ''codebuild'', ''codedeploy'', ''config'', ''datasync'', ''directconnect'', ''dlm'',
     ''dms'', ''ds'', ''dynamodb'', ''ebs'', ''ec2'', ''ecs'', ''eks'', ''elasticache'',
     ''elasticfilesystem'', ''elasticloadbalancing'', ''elasticmapreduce'', ''es'', ''events'',
     ''firehose'', ''fsx'', ''glacier'', ''glue'', ''guardduty'', ''health'', ''iam'',
     ''kinesis'', ''kinesisanalytics'', ''kms'']"

definition aws_iso_b_services_2 :: "string list" where
  "aws_iso_b_services_2 =
    [
     ''lakeformation'', ''lambda'', ''license-manager'', ''logs'', ''medialive'',
     ''mediapackage'', ''metering.marketplace'', ''metrics.sagemaker'', ''monitoring'',
     ''network-firewall'', ''oam'', ''organizations'', ''outposts'', ''pi'', ''ram'', ''rbin'',
     ''rds'', ''redshift'', ''resource-groups'', ''route53'', ''route53resolver'',
     ''runtime.sagemaker'', ''s3'', ''s3-control'', ''s3-outposts'', ''scheduler'',
     ''secretsmanager'', ''securityhub'', ''servicediscovery'', ''servicequotas'', ''snowball'',
     ''sns'', ''sqs'', ''ssm'', ''states'', ''storagegateway'', ''streams.dynamodb'', ''sts'',
     ''support'', ''swf'', ''synthetics'', ''tagging'', ''wafv2'', ''workspaces'', ''xray'']"

definition aws_iso_b_services :: "(string \<times> Service) list" where
  "aws_iso_b_services =
     map service_entry
       (aws_iso_b_services_1 @
        aws_iso_b_services_2)"

definition aws_iso_b_partition :: Partition where
  "aws_iso_b_partition =
     \<lparr>pt_id = ''aws-iso-b'', pt_name = ''AWS ISOB (US)'', pt_dnsSuffix = ''sc2s.sgov.gov'',
      pt_regionRegex = region_rx [Lit ''us'', Lit ''-'', Lit ''isob''],
      pt_regions = aws_iso_b_regions, pt_services = aws_iso_b_services\<rparr>"

section \<open>AWS ISOE (Europe)\<close>

definition aws_iso_e_regions :: "(string \<times> Region) list" where
  "aws_iso_e_regions =
    [
     region_entry ''eu-isoe-west-1'' ''EU ISOE West'']"

definition aws_iso_e_services_1 :: "string list" where
  "aws_iso_e_services_1 =
    [
     ''access-analyzer'', ''acm'', ''acm-pca'', ''api.ecr'', ''api.pricing'', ''apigateway'',
     ''appconfig'', ''appconfigdata'', ''application-autoscaling'', ''arc-zonal-shift'',
     ''athena'', ''autoscaling'', ''batch'', ''budgets'', ''cloudcontrolapi'',
     ''cloudformation'', ''cloudtrail'', ''cloudtrail-data'', ''codedeploy'',
     ''compute-optimizer'', ''config'', ''cost-optimization-hub'', ''directconnect'', ''dlm'',
     ''dms'', ''ds'', ''dynamodb'', ''ebs'', ''ec2'', ''ecs'', ''eks'', ''elasticache'',
     ''elasticfilesystem'', ''elasticloadbalancing'', ''elasticmapreduce'', ''emr-serverless'',
     ''es'', ''events'', ''firehose'', ''glue'', ''kinesis'', ''kms'', ''lakeformation'',
     ''lambda'', ''license-manager'', ''logs'', ''metrics.sagemaker'', ''monitoring'', ''oam'',
     ''organizations'']"

definition aws_iso_e_services_2 :: "string list" where
  "aws_iso_e_services_2 =
    [
     ''pi'', ''pipes'', ''ram'', ''rbin'', ''rds'', ''redshift'', ''redshift-serverless'',
     ''rekognition'', ''resource-groups'', ''route53'', ''route53profiles'', ''route53resolver'',
     ''s3'', ''savingsplans'', ''scheduler'', ''schemas'', ''secretsmanager'',
     ''servicecatalog'', ''servicediscovery'', ''servicequotas'', ''sns'', ''sqs'', ''ssm'',
     ''states'', ''streams.dynamodb'', ''sts'', ''swf'', ''synthetics'', ''tagging'',
     ''trustedadvisor'', ''xray'']"

definition aws_iso_e_services :: "(string \<times> Service) list" where
  "aws_iso_e_services =
     map service_entry
       (aws_iso_e_services_1 @
        aws_iso_e_services_2)"

definition aws_iso_e_partition :: Partition where
  "aws_iso_e_partition =
     \<lparr>pt_id = ''aws-iso-e'', pt_name = ''AWS ISOE (Europe)'', pt_dnsSuffix = ''cloud.adc-e.uk'',
      pt_regionRegex = region_rx [Lit ''eu'', Lit ''-'', Lit ''isoe''],
      pt_regions = aws_iso_e_regions, pt_services = aws_iso_e_services\<rparr>"

section \<open>AWS ISOF\<close>

definition aws_iso_f_regions :: "(string \<times> Region) list" where
  "aws_iso_f_regions =
    [
     region_entry ''us-isof-east-1'' ''US ISOF EAST'',
     region_entry ''us-isof-south-1'' ''US ISOF SOUTH'']"

definition aws_iso_f_services_1 :: "string list" where
  "aws_iso_f_services_1 =
    [
     ''access-analyzer'', ''acm'', ''acm-pca'', ''agreement-marketplace'', ''api.ecr'',
     ''api.pricing'', ''api.sagemaker'', ''appconfig'', ''appconfigdata'',
     ''application-autoscaling'', ''arc-zonal-shift'', ''athena'', ''autoscaling'', ''backup'',
     ''batch'', ''bedrock'', ''budgets'', ''ce'', ''cloudcontrolapi'', ''cloudformation'',
     ''cloudtrail'', ''cloudtrail-data'', ''codebuild'', ''codedeploy'', ''codepipeline'',
     ''comprehend'', ''compute-optimizer'', ''config'', ''cost-optimization-hub'',
     ''directconnect'', ''dlm'', ''dms'', ''ds'', ''dynamodb'', ''ebs'', ''ec2'', ''ecs'',
     ''eks'', ''elasticache'', ''elasticfilesystem'', ''elasticloadbalancing'',
     ''elasticmapreduce'', ''es'', ''events'', ''firehose'', ''fsx'', ''glue'', ''guardduty'',
     ''iam'', ''identitystore'']"

definition aws_iso_f_services_2 :: "string list" where
  "aws_iso_f_services_2 =
    [
     ''kinesis'', ''kms'', ''lakeformation'', ''lambda'', ''license-manager'', ''logs'',
     ''metrics.sagemaker'', ''monitoring'', ''oam'', ''organizations'', ''pi'', ''pipes'',
     ''quicksight'', ''ram'', ''rbin'', ''rds'', ''redshift'', ''redshift-serverless'',
     ''rekognition'', ''resource-groups'', ''rolesanywhere'', ''route53'', ''route53profiles'',
     ''route53resolver'', ''runtime.sagemaker'', ''s3'', ''savingsplans'', ''scheduler'',
     ''schemas'', ''secretsmanager'', ''servicediscovery'', ''servicequotas'', ''sns'', ''sqs'',
     ''ssm'', ''states'', ''streams.dynamodb'', ''sts'', ''swf'', ''synthetics'', ''tagging'',
     ''textract'', ''transcribe'', ''transcribestreaming'', ''translate'', ''trustedadvisor'',
     ''xray'']"

definition aws_iso_f_services :: "(string \<times> Service) list" where
  "aws_iso_f_services =
     map service_entry
       (aws_iso_f_services_1 @
        aws_iso_f_services_2)"

definition aws_iso_f_partition :: Partition where
  "aws_iso_f_partition =
     \<lparr>pt_id = ''aws-iso-f'', pt_name = ''AWS ISOF'', pt_dnsSuffix = ''csp.hci.ic.gov'',
      pt_regionRegex = region_rx [Lit ''us'', Lit ''-'', Lit ''isof''],
      pt_regions = aws_iso_f_regions, pt_services = aws_iso_f_services\<rparr>"

section \<open>AWS GovCloud (US)\<close>

definition aws_us_gov_regions :: "(string \<times> Region) list" where
  "aws_us_gov_regions =
    [
     region_entry ''us-gov-east-1'' ''AWS GovCloud (US-East)'',
     region_entry ''us-gov-west-1'' ''AWS GovCloud (US-West)'']"

definition aws_us_gov_services_1 :: "string list" where
  "aws_us_gov_services_1 =
    [
     ''access-analyzer'', ''acm'', ''acm-pca'', ''aoss'', ''api.detective'', ''api.ecr'',
     ''api.sagemaker'', ''api.tunneling.iot'', ''apigateway'', ''appconfig'', ''appconfigdata'',
     ''application-autoscaling'', ''applicationinsights'', ''appstream2'', ''aps'',
     ''arc-zonal-shift'', ''athena'', ''autoscaling'', ''autoscaling-plans'', ''backup'',
     ''backup-gateway'', ''batch'', ''bedrock'', ''cassandra'', ''cloudcontrolapi'',
     ''clouddirectory'', ''cloudformation'', ''cloudhsm'', ''cloudhsmv2'', ''cloudtrail'',
     ''codebuild'', ''codecommit'', ''codedeploy'', ''codepipeline'', ''codestar-connections'',
     ''cognito-identity'', ''cognito-idp'', ''comprehend'', ''comprehendmedical'',
     ''compute-optimizer'', ''config'', ''connect'', ''controltower'', ''data-ats.iot'',
     ''data.iot'', ''data.jobs.iot'', ''databrew'', ''datasync'', ''datazone'', ''directconnect'']"

definition aws_us_gov_services_2 :: "string list" where
  "aws_us_gov_services_2 =
    [
     ''dlm'', ''dms'', ''docdb'', ''drs'', ''ds'', ''dynamodb'', ''ebs'', ''ec2'', ''ecs'',
     ''eks'', ''eks-auth'', ''elasticache'', ''elasticbeanstalk'', ''elasticfilesystem'',
     ''elasticloadbalancing'', ''elasticmapreduce'', ''email'', ''emr-containers'',
     ''emr-serverless'', ''es'', ''events'', ''firehose'', ''fms'', ''fsx'', ''gameliftstreams'',
     ''geo'', ''glacier'', ''glue'', ''grafana'', ''greengrass'', ''guardduty'', ''health'',
     ''iam'', ''identitystore'', ''ingest.timestream'', ''inspector'', ''inspector2'',
     ''internetmonitor'', ''iot'', ''iotevents'', ''ioteventsdata'', ''iotsecuredtunneling'',
     ''iotsitewise'', ''iottwinmaker'', ''kafka'', ''kafkaconnect'', ''kendra'',
     ''kendra-ranking'', ''kinesis'', ''kinesisanalytics'']"

definition aws_us_gov_services_3 :: "string list" where
  "aws_us_gov_services_3 =
    [
     ''kinesisvideo'', ''kms'', ''lakeformation'', ''lambda'', ''license-manager'',
     ''license-manager-linux-subscriptions'', ''license-manager-user-subscriptions'', ''logs'',
     ''m2'', ''managedblockchain'', ''mediaconvert'', ''meetings-chime'', ''memory-db'',
     ''metering.marketplace'', ''metrics.sagemaker'', ''mgn'', ''models-v2-lex'', ''models.lex'',
     ''monitoring'', ''mq'', ''neptune'', ''network-firewall'', ''networkmanager'',
     ''notifications'', ''oam'', ''oidc'', ''organizations'', ''outposts'',
     ''participant.connect'', ''pi'', ''pinpoint'', ''polly'', ''portal.sso'', ''qbusiness'',
     ''query.timestream'', ''quicksight'', ''ram'', ''rbin'', ''rds'', ''redshift'',
     ''redshift-serverless'', ''rekognition'', ''resiliencehub'', ''resource-explorer-2'',
     ''resource-groups'', ''rolesanywhere'', ''route53'', ''route53profiles'',
     ''route53resolver'', ''rum'']"

definition aws_us_gov_services_4 :: "string list" where
  "aws_us_gov_services_4 =
    [
     ''runtime-v2-lex'', ''runtime.lex'', ''runtime.sagemaker'', ''s3'', ''s3-control'',
     ''s3-outposts'', ''scheduler'', ''schemas'', ''secretsmanager'', ''securityhub'',
     ''securitylake'', ''serverlessrepo'', ''servicecatalog'', ''servicecatalog-appregistry'',
     ''servicediscovery'', ''servicequotas'', ''signer'', ''simspaceweaver'', ''sms-voice'',
     ''snowball'', ''sns'', ''sqs'', ''ssm'', ''sso'', ''states'', ''storagegateway'',
     ''streams.dynamodb'', ''sts'', ''support'', ''swf'', ''synthetics'', ''tagging'',
     ''textract'', ''transcribe'', ''transcribestreaming'', ''transfer'', ''translate'',
     ''verifiedpermissions'', ''waf-regional'', ''wafv2'', ''wellarchitected'', ''workspaces'',
     ''xray'']"

definition aws_us_gov_services :: "(string \<times> Service) list" where
  "aws_us_gov_services =
     map service_entry
       (aws_us_gov_services_1 @
        aws_us_gov_services_2 @
        aws_us_gov_services_3 @
        aws_us_gov_services_4)"

definition aws_us_gov_partition :: Partition where
  "aws_us_gov_partition =
     \<lparr>pt_id = ''aws-us-gov'', pt_name = ''AWS GovCloud (US)'', pt_dnsSuffix = ''amazonaws.com'',
      pt_regionRegex = region_rx [Lit ''us'', Lit ''-'', Lit ''gov''],
      pt_regions = aws_us_gov_regions, pt_services = aws_us_gov_services\<rparr>"

definition partitions :: "(string \<times> Partition) list" where
  "partitions =
    [
     (''aws'', aws_partition),
     (''aws-cn'', aws_cn_partition),
     (''aws-eusc'', aws_eusc_partition),
     (''aws-iso'', aws_iso_partition),
     (''aws-iso-b'', aws_iso_b_partition),
     (''aws-iso-e'', aws_iso_e_partition),
     (''aws-iso-f'', aws_iso_f_partition),
     (''aws-us-gov'', aws_us_gov_partition)]"

end
