(* ===== verification/Endpoints.thy ===== *)
theory Endpoints
  imports EndpointsData GoError "HOL-Library.Multiset" "HOL-Library.List_Lexorder"
begin

text \<open>
  The operations of \<open>endpoints/partition.go\<close> and \<open>validation/region.go\<close> over the partition table.
  \<open>DefaultPartitions\<close> ranges over a map, so the order of its result is any order of
  the table's values; the search for a region's partition is shown not to depend on it, since no
  region ID is claimed by two partitions.
\<close>

section \<open>Operations\<close>

definition Partition_ID :: "Partition \<Rightarrow> string" where "Partition_ID p = pt_id p"
definition Partition_Name :: "Partition \<Rightarrow> string" where "Partition_Name p = pt_name p"
definition Partition_DNSSuffix :: "Partition \<Rightarrow> string" where "Partition_DNSSuffix p = pt_dnsSuffix p"
definition Partition_RegionRegex :: "Partition \<Rightarrow> rx" where
  "Partition_RegionRegex p = pt_regionRegex p"

text \<open>\<open>maps.Clone\<close> copies the map: the caller's copy has the same entries.\<close>

definition Partition_Regions :: "Partition \<Rightarrow> string \<Rightarrow> Region option" where
  "Partition_Regions p = map_of (pt_regions p)"

definition Partition_Services :: "Partition \<Rightarrow> string \<Rightarrow> Service option" where
  "Partition_Services p = map_of (pt_services p)"

definition Region_ID :: "Region \<Rightarrow> string" where "Region_ID r = rg_id r"
definition Region_Description :: "Region \<Rightarrow> string" where "Region_Description r = rg_description r"
definition Service_ID :: "Service \<Rightarrow> string" where "Service_ID s = sv_id s"

text \<open>\<open>range\<close> visits the entries of the map in some order \<open>entries\<close>.\<close>

fun append_values :: "(string \<times> Partition) list \<Rightarrow> Partition list \<Rightarrow> Partition list" where
  "append_values [] ps = ps"
| "append_values ((k, p) # es) ps = append_values es (ps @ [p])"

definition DefaultPartitions :: "(string \<times> Partition) list \<Rightarrow> Partition list" where
  "DefaultPartitions entries = append_values entries []"

text \<open>The second result \<open>false\<close> of the lookup is \<open>None\<close>.\<close>

fun PartitionForRegion :: "Partition list \<Rightarrow> string \<Rightarrow> Partition option" where
  "PartitionForRegion [] regionID = None"
| "PartitionForRegion (p # ps) regionID =
     (if map_of (pt_regions p) regionID \<noteq> None \<or> rx_full_match (pt_regionRegex p) regionID
      then Some p
      else PartitionForRegion ps regionID)"

text \<open>\<open>validation.SupportedRegion\<close>: \<open>None\<close> is the nil error.\<close>

fun ContainsFunc :: "'a list \<Rightarrow> ('a \<Rightarrow> bool) \<Rightarrow> bool" where
  "ContainsFunc [] f = False"
| "ContainsFunc (x # xs) f = (if f x then True else ContainsFunc xs f)"

definition SupportedRegion :: "(string \<times> Partition) list \<Rightarrow> string \<Rightarrow> go_error option" where
  "SupportedRegion entries region =
     (if ContainsFunc (DefaultPartitions entries) (\<lambda>p. Partition_Regions p region \<noteq> None)
      then None
      else Some (InvalidRegionError region))"

section \<open>Tables whose entries claim disjoint sets of keys\<close>

locale disjoint_table =
  fixes table :: "'p list"
    and claims :: "'p \<Rightarrow> 'k \<Rightarrow> bool"
  assumes claims_unique:
    "p \<in> set table \<Longrightarrow> q \<in> set table \<Longrightarrow> claims p k \<Longrightarrow> claims q k \<Longrightarrow> p = q"
begin

lemma find_iff:
  "set ps = set table \<Longrightarrow> find (\<lambda>p. claims p k) ps = Some p \<longleftrightarrow> p \<in> set table \<and> claims p k"
proof
  assume ps: "set ps = set table" and "find (\<lambda>p. claims p k) ps = Some p"
  then show "p \<in> set table \<and> claims p k"
    by (auto simp: find_Some_iff)
next
  assume ps: "set ps = set table" and p: "p \<in> set table \<and> claims p k"
  then have "find (\<lambda>p. claims p k) ps \<noteq> None" by (auto simp: find_None_iff)
  then obtain q where q: "find (\<lambda>p. claims p k) ps = Some q" by blast
  then have "q \<in> set table" "claims q k" using ps by (auto simp: find_Some_iff)
  with p q claims_unique show "find (\<lambda>p. claims p k) ps = Some p" by metis
qed

lemma find_order:
  "set ps = set table \<Longrightarrow> find (\<lambda>p. claims p k) ps = find (\<lambda>p. claims p k) table"
proof -
  assume "set ps = set table"
  then have "find (\<lambda>p. claims p k) ps = Some p \<longleftrightarrow> find (\<lambda>p. claims p k) table = Some p" for p
    by (simp add: find_iff)
  then show ?thesis by (metis not_Some_eq)
qed

end

section \<open>The region expressions\<close>

text \<open>The parts of a region ID between its dashes.\<close>

definition region_parts :: "string \<Rightarrow> string list" where
  "region_parts r = Split1 CHR ''-'' r"

definition dashless :: "string \<Rightarrow> bool" where
  "dashless s \<longleftrightarrow> CHR ''-'' \<notin> set s"

lemma rx_in_Seqs_Cons: "rs \<noteq> [] \<Longrightarrow> rx_in (Seqs (r # rs)) s \<longleftrightarrow> (\<exists>a b. s = a @ b \<and> rx_in r a \<and> rx_in (Seqs rs) b)"
  by (cases rs) (simp_all add: rx_in_Seq)

lemma word_dashless: "list_all (in_class [(CHR ''0'', CHR ''9''), (CHR ''A'', CHR ''Z''),
    (CHR ''_'', CHR ''_''), (CHR ''a'', CHR ''z'')]) w \<Longrightarrow> dashless w"
  by (auto simp: dashless_def list_all_iff in_class_def less_eq_char_def)

lemma digit_dashless: "list_all (in_class [(CHR ''0'', CHR ''9'')]) w \<Longrightarrow> dashless w"
  by (auto simp: dashless_def list_all_iff in_class_def less_eq_char_def)

text \<open>What follows the head: a dash, an area name, a dash and a number.\<close>

definition region_tail :: "string \<Rightarrow> bool" where
  "region_tail t \<longleftrightarrow> (\<exists>w d. t = CHR ''-'' # w @ CHR ''-'' # d \<and> dashless w \<and> dashless d)"

lemma rx_region_tail:
  assumes "rx_in (Seqs [Lit ''-'', Plus word_class, Lit ''-'', Plus digit_class]) t"
  shows "region_tail t"
proof -
  obtain w d where "t = ''-'' @ w @ ''-'' @ d" "rx_in (Plus word_class) w" "rx_in (Plus digit_class) d"
    using assms by (auto simp: rx_in_Seq rx_in_Lit simp del: Lit.simps)
  then show ?thesis
    by (auto simp: region_tail_def word_class_def digit_class_def rx_in_Plus_Cls
        dest!: word_dashless digit_dashless)
qed

lemma rx_region_head:
  "rx_in (region_rx [h]) s \<Longrightarrow> \<exists>a t. s = a @ t \<and> rx_in h a \<and> region_tail t"
  using rx_region_tail by (auto simp: region_rx_def rx_in_Seqs_Cons [of _ h] simp del: Seqs.simps Lit.simps)

lemma rx_region_head2:
  assumes "rx_in (region_rx [h, Lit ''-'', g]) s"
  shows "\<exists>a b t. s = a @ ''-'' @ b @ t \<and> rx_in h a \<and> rx_in g b \<and> region_tail t"
proof -
  obtain a u where s: "s = a @ u" "rx_in h a"
    and u: "rx_in (Seqs [Lit ''-'', g, Lit ''-'', Plus word_class, Lit ''-'', Plus digit_class]) u"
    using assms by (auto simp: region_rx_def rx_in_Seqs_Cons [of _ h] simp del: Seqs.simps Lit.simps)
  obtain v where v: "u = ''-'' @ v"
    "rx_in (Seqs [g, Lit ''-'', Plus word_class, Lit ''-'', Plus digit_class]) v"
    using u by (subst (asm) rx_in_Seqs_Cons) (auto simp: rx_in_Lit simp del: Seqs.simps Lit.simps)
  obtain b t where "v = b @ t" "rx_in g b" "region_tail t"
    using v(2) rx_region_tail by (subst (asm) rx_in_Seqs_Cons) (auto simp del: Seqs.simps Lit.simps)
  with s v(1) show ?thesis by blast
qed

lemma parts_tail:
  "dashless a \<Longrightarrow> region_tail t \<Longrightarrow> \<exists>w d. region_parts (a @ t) = [a, w, d]"
  by (auto simp: region_tail_def region_parts_def dashless_def Split1_append Split1_no_sep)

lemma parts_dash: "dashless a \<Longrightarrow> region_parts (a @ ''-'' @ s) = a # region_parts s"
  by (simp add: region_parts_def dashless_def Split1_append)

section \<open>The table claims disjoint sets of region IDs\<close>

definition claims_region :: "Partition \<Rightarrow> string \<Rightarrow> bool" where
  "claims_region p r \<longleftrightarrow> map_of (pt_regions p) r \<noteq> None \<or> rx_full_match (pt_regionRegex p) r"

definition aws_areas :: "string list" where
  "aws_areas = [''us'', ''eu'', ''ap'', ''sa'', ''ca'', ''me'', ''af'', ''il'', ''mx'']"

text \<open>The partition that the parts of a region ID name.\<close>

fun region_owner :: "string list \<Rightarrow> string option" where
  "region_owner [a, w, d] =
     (if a \<in> set aws_areas then Some ''aws'' else if a = ''cn'' then Some ''aws-cn'' else None)"
| "region_owner [a, b, w, d] =
     (if a = ''eusc'' \<and> b = ''de'' then Some ''aws-eusc''
      else if a = ''us'' \<and> b = ''iso'' then Some ''aws-iso''
      else if a = ''us'' \<and> b = ''isob'' then Some ''aws-iso-b''
      else if a = ''eu'' \<and> b = ''isoe'' then Some ''aws-iso-e''
      else if a = ''us'' \<and> b = ''isof'' then Some ''aws-iso-f''
      else if a = ''us'' \<and> b = ''gov'' then Some ''aws-us-gov''
      else None)"
| "region_owner _ = None"

lemmas partition_defs = aws_partition_def aws_cn_partition_def aws_eusc_partition_def
  aws_iso_partition_def aws_iso_b_partition_def aws_iso_e_partition_def aws_iso_f_partition_def
  aws_us_gov_partition_def

lemma regex_owner_1:
  assumes "rx_in (region_rx [h]) s" and "\<And>a. rx_in h a \<Longrightarrow> a \<in> set A"
    and "list_all dashless A" and "\<And>a w d. a \<in> set A \<Longrightarrow> region_owner [a, w, d] = Some o'"
  shows "region_owner (region_parts s) = Some o'"
proof -
  obtain a t where s: "s = a @ t" "rx_in h a" "region_tail t" using rx_region_head [OF assms(1)] by blast
  with assms(2,3) have "a \<in> set A" "dashless a" by (auto simp: list_all_iff)
  with parts_tail [of a t] s assms(4) show ?thesis by auto
qed

lemma regex_owner_2:
  assumes "rx_in (region_rx [h, Lit ''-'', g]) s" and "\<And>a. rx_in h a \<Longrightarrow> a = a0"
    and "\<And>b. rx_in g b \<Longrightarrow> b = b0" and "dashless a0" "dashless b0"
    and "\<And>w d. region_owner [a0, b0, w, d] = Some o'"
  shows "region_owner (region_parts s) = Some o'"
proof -
  obtain t where "s = a0 @ ''-'' @ b0 @ t" "region_tail t"
    using rx_region_head2 [OF assms(1)] assms(2,3) by blast
  with parts_tail [OF assms(5), of t] parts_dash [OF assms(4), of "b0 @ t"] assms(6) show ?thesis
    by auto
qed

lemma table_cases:
  "p \<in> set (map snd partitions) \<longleftrightarrow>
     p \<in> {aws_partition, aws_cn_partition, aws_eusc_partition, aws_iso_partition,
          aws_iso_b_partition, aws_iso_e_partition, aws_iso_f_partition, aws_us_gov_partition}"
  by (simp add: partitions_def)

definition two_part_heads :: "(Partition \<times> string \<times> string) list" where
  "two_part_heads =
     [(aws_eusc_partition, ''eusc'', ''de''), (aws_iso_partition, ''us'', ''iso''),
      (aws_iso_b_partition, ''us'', ''isob''), (aws_iso_e_partition, ''eu'', ''isoe''),
      (aws_iso_f_partition, ''us'', ''isof''), (aws_us_gov_partition, ''us'', ''gov'')]"

lemma two_part_heads_owner:
  "list_all (\<lambda>(p, a, b). pt_regionRegex p = region_rx [Lit a, Lit ''-'', Lit b] \<and>
     dashless a \<and> dashless b \<and> (\<forall>w d. region_owner [a, b, w, d] = Some (pt_id p))) two_part_heads"
  unfolding two_part_heads_def by (simp add: partition_defs dashless_def)

lemma table_regex_owner:
  assumes "p \<in> set (map snd partitions)" and "rx_full_match (pt_regionRegex p) r"
  shows "region_owner (region_parts r) = Some (pt_id p)"
proof -
  have in_rx: "rx_in (pt_regionRegex p) r" using assms(2) by (simp add: rx_full_match_iff)
  consider "p = aws_partition" | "p = aws_cn_partition"
    | "p \<in> {aws_eusc_partition, aws_iso_partition, aws_iso_b_partition, aws_iso_e_partition,
            aws_iso_f_partition, aws_us_gov_partition}"
    using assms(1) unfolding table_cases by blast
  then show ?thesis
  proof cases
    case 1
    have "pt_regionRegex p = region_rx [Alts (map Lit aws_areas)]" and "pt_id p = ''aws''"
      by (simp_all add: 1 aws_partition_def aws_areas_def)
    with in_rx show ?thesis
      by (intro regex_owner_1 [of "Alts (map Lit aws_areas)" r aws_areas])
         (auto simp: rx_in_Alts rx_in_Lit, simp add: aws_areas_def dashless_def)
  next
    case 2
    have "pt_regionRegex p = region_rx [Lit ''cn'']" and "pt_id p = ''aws-cn''"
      by (simp_all add: 2 aws_cn_partition_def)
    with in_rx show ?thesis
      by (intro regex_owner_1 [of "Lit ''cn''" r "[''cn'']"])
         (auto simp: rx_in_Lit dashless_def aws_areas_def simp del: Lit.simps)
  next
    case 3
    then have "p \<in> fst ` set two_part_heads" by (simp add: two_part_heads_def)
    then obtain a b where "(p, a, b) \<in> set two_part_heads" by force
    with two_part_heads_owner have ab: "pt_regionRegex p = region_rx [Lit a, Lit ''-'', Lit b]"
      "dashless a" "dashless b" "\<And>w d. region_owner [a, b, w, d] = Some (pt_id p)"
      unfolding list_all_iff by blast+
    show ?thesis
      by (rule regex_owner_2 [OF in_rx [unfolded ab(1)] _ _ ab(2,3,4)]) (erule rx_in_Lit [THEN iffD1])+
  qed
qed

text \<open>Every listed region is of its partition's form, too: the lookup in \<open>regions\<close> is never
  what makes the difference.\<close>

lemma listed_regions_match:
  "list_all (\<lambda>(k, p). list_all (\<lambda>(r, g). rx_full_match (pt_regionRegex p) r) (pt_regions p)) partitions"
  by code_simp

lemma claims_region_iff:
  "p \<in> set (map snd partitions) \<Longrightarrow> claims_region p r \<longleftrightarrow> rx_full_match (pt_regionRegex p) r"
  using listed_regions_match
  by (fastforce simp: claims_region_def list_all_iff dest: map_of_SomeD)

lemma table_ids: "map (\<lambda>(k, p). pt_id p) partitions = map fst partitions"
  "distinct (map fst partitions)"
  by (simp_all add: partitions_def partition_defs)

lemma table_id_inj:
  "p \<in> set (map snd partitions) \<Longrightarrow> q \<in> set (map snd partitions) \<Longrightarrow> pt_id p = pt_id q \<Longrightarrow> p = q"
  unfolding table_cases by (elim insertE emptyE) (simp_all add: partition_defs)

interpretation pt: disjoint_table "map snd partitions" claims_region
  by unfold_locales (metis claims_region_iff table_regex_owner table_id_inj option.inject)

section \<open>Well-formedness of the data\<close>

fun strictly_ascending :: "string list \<Rightarrow> bool" where
  "strictly_ascending (x # y # xs) \<longleftrightarrow> x < y \<and> strictly_ascending (y # xs)"
| "strictly_ascending xs \<longleftrightarrow> True"

lemma strictly_ascending_distinct: "strictly_ascending xs \<Longrightarrow> distinct xs"
proof -
  have "strictly_ascending xs \<Longrightarrow> sorted_wrt (<) xs"
    by (induction xs rule: strictly_ascending.induct) (auto intro: order.strict_trans)
  then show "strictly_ascending xs \<Longrightarrow> ?thesis" by (simp add: strict_sorted_iff)
qed

definition wf_partition :: "Partition \<Rightarrow> bool" where
  "wf_partition p \<longleftrightarrow>
     strictly_ascending (map fst (pt_regions p)) \<and> strictly_ascending (map fst (pt_services p)) \<and>
     list_all (\<lambda>(k, g). rg_id g = k) (pt_regions p) \<and>
     list_all (\<lambda>(k, sv). sv_id sv = k) (pt_services p)"

lemma wf_partitions: "list_all (\<lambda>(k, p). wf_partition p) partitions"
  by code_simp

lemma ascending_partitions: "strictly_ascending (map fst partitions)"
  by code_simp

lemma region_ids_tabled:
  "concat (map (\<lambda>(k, p). map fst (pt_regions p)) partitions) = region_ids"
  by code_simp

section \<open>The operations\<close>

lemma append_values_map: "append_values es ps = ps @ map snd es"
  by (induction es ps rule: append_values.induct) simp_all

lemma DefaultPartitions_map: "DefaultPartitions es = map snd es"
  by (simp add: DefaultPartitions_def append_values_map)

lemma PartitionForRegion_find: "PartitionForRegion ps r = find (\<lambda>p. claims_region p r) ps"
  by (induction ps) (simp_all add: claims_region_def)

lemma ContainsFunc_iff: "ContainsFunc xs f \<longleftrightarrow> (\<exists>x \<in> set xs. f x)"
  by (induction xs) auto

lemma PartitionForRegion_iff:
  "mset es = mset partitions \<Longrightarrow>
     PartitionForRegion (DefaultPartitions es) r = Some p \<longleftrightarrow>
       p \<in> set (map snd partitions) \<and> claims_region p r"
proof -
  assume "mset es = mset partitions"
  then have "set (map snd es) = set (map snd partitions)" by (metis set_map set_mset_mset)
  then show ?thesis by (simp only: PartitionForRegion_find DefaultPartitions_map pt.find_iff)
qed

lemma SupportedRegion_iff:
  "mset es = mset partitions \<Longrightarrow> SupportedRegion es r = None \<longleftrightarrow> r \<in> set region_ids"
proof -
  assume "mset es = mset partitions"
  then have es: "set es = set partitions" by (metis set_mset_mset)
  have "SupportedRegion es r = None \<longleftrightarrow>
      (\<exists>x \<in> set partitions. r \<in> set (map fst (pt_regions (snd x))))"
    by (auto simp: SupportedRegion_def ContainsFunc_iff DefaultPartitions_map es
        Partition_Regions_def map_of_eq_None_iff weak_map_of_SomeI)
  also have "\<dots> \<longleftrightarrow> r \<in> set region_ids"
    unfolding region_ids_tabled [symmetric] by (auto simp: case_prod_beta)
  finally show ?thesis .
qed

section \<open>Properties\<close>

text \<open>C6: Whatever order the map iteration of \<open>DefaultPartitions\<close> takes, \<open>PartitionForRegion\<close>
  returns a partition exactly when it is the one partition of the table that lists the region or
  whose expression matches it: the result is determined although the iteration order is not.\<close>

theorem PartitionForRegion_order_independent:
  assumes "mset es = mset partitions"
  shows "PartitionForRegion (DefaultPartitions es) r = Some p \<longleftrightarrow>
    p \<in> set (map snd partitions) \<and>
    (map_of (pt_regions p) r \<noteq> None \<or> rx_full_match (pt_regionRegex p) r)"
  using PartitionForRegion_iff [OF assms] by (simp add: claims_region_def)

lemma PartitionForRegion_order_independent_witness:
  "mset (rev partitions) = mset partitions \<and>
   PartitionForRegion (DefaultPartitions (rev partitions)) ''us-gov-west-7'' = Some aws_us_gov_partition"
proof -
  have "rx_full_match (pt_regionRegex aws_us_gov_partition) ''us-gov-west-7''" by code_simp
  then show ?thesis
    using PartitionForRegion_order_independent
      [of "rev partitions" "''us-gov-west-7''" aws_us_gov_partition]
    by (simp add: partitions_def)
qed

text \<open>Every region listed in the table is supported and is looked up to the partition that
  lists it, although \<open>PartitionForRegion\<close> also accepts unlisted IDs by expression.\<close>

theorem listed_region_found:
  assumes "mset es = mset partitions"
    and "(k, p) \<in> set partitions" and "map_of (pt_regions p) r = Some g"
  shows "PartitionForRegion (DefaultPartitions es) r = Some p \<and> SupportedRegion es r = None"
proof -
  have p: "p \<in> set (map snd partitions)" using assms(2) by force
  have "r \<in> set (map fst (pt_regions p))" using assms(3) by (force dest: map_of_SomeD)
  then have "r \<in> set region_ids"
    unfolding region_ids_tabled [symmetric] using assms(2) by (auto intro!: bexI [of _ "(k, p)"])
  with p assms(3) show ?thesis
    unfolding PartitionForRegion_iff [OF assms(1)] SupportedRegion_iff [OF assms(1)]
    by (simp add: claims_region_def)
qed

lemma listed_region_found_witness:
  "PartitionForRegion (DefaultPartitions (rev partitions)) ''eu-isoe-west-1'' = Some aws_iso_e_partition \<and>
   SupportedRegion (rev partitions) ''eu-isoe-west-1'' = None"
  by (rule listed_region_found [of _ "''aws-iso-e''" _ _ "snd (region_entry ''eu-isoe-west-1'' ''EU ISOE West'')"])
     (simp_all add: partitions_def aws_iso_e_partition_def aws_iso_e_regions_def region_entry_def)

text \<open>\<open>SupportedRegion\<close> accepts exactly the regions that have a named constant, in any
  iteration order, and reports every other ID with an \<open>InvalidRegionError\<close> that carries it.\<close>

theorem SupportedRegion_exact:
  assumes "mset es = mset partitions"
  shows "SupportedRegion es r = (if r \<in> set region_ids then None else Some (InvalidRegionError r))"
  using SupportedRegion_iff [OF assms, of r] by (auto simp: SupportedRegion_def)

lemma SupportedRegion_exact_witness:
  "SupportedRegion (rev partitions) ''us-east-99'' = Some (InvalidRegionError ''us-east-99'')"
  using SupportedRegion_exact [of "rev partitions" "''us-east-99''"] by (simp add: region_ids_def)

text \<open>The table is well formed: the partition keys and, in every partition, the region and
  service keys are strictly ascending (no duplicates), each entry's ID is its key, and the
  named region constants are exactly the listed regions, each in one partition.\<close>

theorem partition_table_wf:
  "strictly_ascending (map fst partitions) \<and> map fst partitions = partition_ids \<and>
   list_all (\<lambda>(k, p). pt_id p = k \<and> wf_partition p) partitions \<and>
   concat (map (\<lambda>(k, p). map fst (pt_regions p)) partitions) = region_ids \<and> distinct region_ids"
proof -
  have "list_all (\<lambda>(k, p). pt_id p = k) partitions"
    by (simp add: partitions_def partition_defs)
  with wf_partitions have "list_all (\<lambda>(k, p). pt_id p = k \<and> wf_partition p) partitions"
    by (auto simp: list_all_iff)
  moreover have "map fst partitions = partition_ids" by (simp add: partitions_def partition_ids_def)
  moreover have "distinct region_ids" by (simp add: region_ids_def)
  ultimately show ?thesis using ascending_partitions region_ids_tabled by blast
qed

text \<open>An ID can have a partition without being supported, and the global ID has none.\<close>

lemma unsupported_region_with_partition:
  "PartitionForRegion (DefaultPartitions partitions) ''us-east-99'' = Some aws_partition \<and>
   PartitionForRegion (DefaultPartitions partitions) AwsGlobalRegionID = None"
proof
  have "rx_full_match (pt_regionRegex aws_partition) ''us-east-99''" by code_simp
  then show "PartitionForRegion (DefaultPartitions partitions) ''us-east-99'' = Some aws_partition"
    by (simp add: PartitionForRegion_iff claims_region_def partitions_def)
  have "find (\<lambda>p. claims_region p ''aws-global'') (map snd partitions) = None"
    by code_simp
  then show "PartitionForRegion (DefaultPartitions partitions) AwsGlobalRegionID = None"
    by (simp add: PartitionForRegion_find DefaultPartitions_map AwsGlobalRegionID_def)
qed

end
