(* ===== verification/Validation.thy ===== *)
theory Validation
  imports GoError
begin

text \<open>
  The duplicate key check of \<open>validation/json.go\<close>. The decoder is the stream of its remaining
  tokens. Paths are Go slices: \<open>append\<close> writes into spare capacity of the backing array, and
  an error keeps the slice it was built with, so the model keeps the arrays in a store.
\<close>

section \<open>JSON values and their tokens\<close>

text \<open>An object keeps its fields as written, in order and with repeated keys.\<close>

datatype json =
    JNull
  | JBool bool
  | JNumber string
  | JString string
  | JArray "json list"
  | JObject "(string \<times> json) list"

datatype token = Delim char | TNull | TBool bool | TNumber string | TString string

fun tokens :: "json \<Rightarrow> token list" where
  "tokens JNull = [TNull]"
| "tokens (JBool b) = [TBool b]"
| "tokens (JNumber n) = [TNumber n]"
| "tokens (JString s) = [TString s]"
| "tokens (JArray vs) = Delim CHR ''['' # concat (map tokens vs) @ [Delim CHR '']'']"
| "tokens (JObject fs) =
     Delim CHR ''{'' # concat (map (\<lambda>(k, v). TString k # tokens v) fs) @ [Delim CHR ''}'']"

text \<open>\<open>Decoder.More\<close>: there is a next token and it closes nothing.\<close>

fun More :: "token list \<Rightarrow> bool" where
  "More [] = False"
| "More (t # ts) = (t \<noteq> Delim CHR '']'' \<and> t \<noteq> Delim CHR ''}'')"

section \<open>Slices of strings\<close>

record slice =
  sl_array :: nat
  sl_len :: nat
  sl_cap :: nat

type_synonym arrays = "string list list"

definition nil_slice :: slice where
  "nil_slice = \<lparr>sl_array = 0, sl_len = 0, sl_cap = 0\<rparr>"

definition slice_elems :: "arrays \<Rightarrow> slice \<Rightarrow> string list" where
  "slice_elems st s = (if sl_cap s = 0 then [] else take (sl_len s) (st ! sl_array s))"

text \<open>
  The built-in \<open>append\<close> of one element. \<open>grow\<close> is the capacity that the runtime allocates when
  a slice of the given capacity is full; the current runtime doubles small ones.
\<close>

definition append1 :: "(nat \<Rightarrow> nat) \<Rightarrow> arrays \<Rightarrow> slice \<Rightarrow> string \<Rightarrow> arrays \<times> slice" where
  "append1 grow st s x =
     (if sl_len s < sl_cap s
      then (st[sl_array s := (st ! sl_array s)[sl_len s := x]], s\<lparr>sl_len := sl_len s + 1\<rparr>)
      else (st @ [slice_elems st s @ x # replicate (grow (sl_cap s) - sl_len s - 1) []],
            \<lparr>sl_array = length st, sl_len = sl_len s + 1, sl_cap = grow (sl_cap s)\<rparr>))"

definition doubling :: "nat \<Rightarrow> nat" where
  "doubling c = (if c = 0 then 1 else 2 * c)"

section \<open>The check\<close>

datatype json_error =
    TokenError string
  | DuplicateKeyError slice string
  | JoinedError "json_error list"
  | UnmarshalError go_error

definition errors_Join :: "json_error list \<Rightarrow> json_error option" where
  "errors_Join errs = (if errs = [] then None else Some (JoinedError errs))"

fun append_err :: "json_error list \<Rightarrow> json_error option \<Rightarrow> json_error list" where
  "append_err errs None = errs"
| "append_err errs (Some e) = errs @ [e]"

text \<open>
  \<open>checkToken\<close> and its two loops, which carry the loop variables. The first number is fuel, one
  unit per call or iteration, and \<open>None\<close> is running out of it; a result is the returned error,
  the tokens left in the decoder and the store. The type assertion \<open>t.(string)\<close> panics.
\<close>

function (sequential) checkToken ::
    "(nat \<Rightarrow> nat) \<Rightarrow> nat \<Rightarrow> token list \<Rightarrow> arrays \<Rightarrow> slice \<Rightarrow>
     (json_error option \<times> token list \<times> arrays) go option"
and object_loop ::
    "(nat \<Rightarrow> nat) \<Rightarrow> nat \<Rightarrow> token list \<Rightarrow> arrays \<Rightarrow> slice \<Rightarrow> string list \<Rightarrow> json_error list \<Rightarrow>
     (json_error option \<times> token list \<times> arrays) go option"
and array_loop ::
    "(nat \<Rightarrow> nat) \<Rightarrow> nat \<Rightarrow> token list \<Rightarrow> arrays \<Rightarrow> slice \<Rightarrow> nat \<Rightarrow> json_error list \<Rightarrow>
     (json_error option \<times> token list \<times> arrays) go option"
where
  "checkToken grow 0 ts st path = None"
| "checkToken grow (Suc n) ts st path =
     (case ts of
        [] \<Rightarrow> Some (Ret (Some (TokenError ''EOF''), [], st))
      | Delim c # ts' \<Rightarrow>
          (if c = CHR ''{'' then object_loop grow n ts' st path [] []
           else if c = CHR ''['' then array_loop grow n ts' st path 0 []
           else Some (Ret (errors_Join [], ts', st)))
      | _ # ts' \<Rightarrow> Some (Ret (None, ts', st)))"
| "object_loop grow 0 ts st path keys errs = None"
| "object_loop grow (Suc n) ts st path keys errs =
     (if More ts then
        (case ts of
           TString key # ts1 \<Rightarrow>
             (let errs1 = (if key \<in> set keys then errs @ [DuplicateKeyError path key] else errs);
                  (st1, path1) = append1 grow st path key
              in case checkToken grow n ts1 st1 path1 of
                   None \<Rightarrow> None
                 | Some (Panic p) \<Rightarrow> Some (Panic p)
                 | Some (Ret (e, ts2, st2)) \<Rightarrow>
                     object_loop grow n ts2 st2 path (key # keys) (append_err errs1 e))
         | _ \<Rightarrow> Some (Panic ''interface conversion''))
      else
        (case ts of
           [] \<Rightarrow> Some (Ret (Some (TokenError ''EOF''), [], st))
         | _ # ts' \<Rightarrow> Some (Ret (errors_Join errs, ts', st))))"
| "array_loop grow 0 ts st path i errs = None"
| "array_loop grow (Suc n) ts st path i errs =
     (if More ts then
        (let (st1, path1) = append1 grow st path (Itoa i)
         in case checkToken grow n ts st1 path1 of
              None \<Rightarrow> None
            | Some (Panic p) \<Rightarrow> Some (Panic p)
            | Some (Ret (e, ts2, st2)) \<Rightarrow> array_loop grow n ts2 st2 path (i + 1) (append_err errs e))
      else
        (case ts of
           [] \<Rightarrow> Some (Ret (Some (TokenError ''EOF''), [], st))
         | _ # ts' \<Rightarrow> Some (Ret (errors_Join errs, ts', st))))"

  by pat_completeness auto
termination
  by (relation "measure (case_sum (\<lambda>(g, n, _). n)
        (case_sum (\<lambda>(g, n, _). n) (\<lambda>(g, n, _). n)))") auto

text \<open>
  \<open>JSONNoDuplicateKeys\<close>: \<open>Unmarshal\<close> is \<open>json.Unmarshal\<close> into a map, which gives its error or
  accepts the text; then it gives the value the text denotes. The fuel is the number of tokens.
\<close>

definition JSONNoDuplicateKeys ::
    "(nat \<Rightarrow> nat) \<Rightarrow> (string \<Rightarrow> go_error + json) \<Rightarrow> string \<Rightarrow>
     (json_error option \<times> arrays) go option" where
  "JSONNoDuplicateKeys grow Unmarshal s =
     (case Unmarshal s of
        Inl err \<Rightarrow> Some (Ret (Some (UnmarshalError (WrapError ''unmarshaling input: '' err)), []))
      | Inr v \<Rightarrow>
          map_option (\<lambda>r. go_bind r (\<lambda>(e, ts, st). Ret (e, st)))
            (checkToken grow (length (tokens v)) (tokens v) [] nil_slice))"

text \<open>
  \<open>Error\<close> of the errors. \<open>DuplicateKeyError.Error\<close> appends the key to the path it kept, so it
  may write to the store, too; \<open>errors.Join\<close> joins the texts by newlines.
\<close>

definition DuplicateKeyError_Error ::
    "(nat \<Rightarrow> nat) \<Rightarrow> arrays \<Rightarrow> slice \<Rightarrow> string \<Rightarrow> string \<times> arrays" where
  "DuplicateKeyError_Error grow st path key =
     (let (st', s) = append1 grow st path key
      in (''duplicate key '' @ [CHR 0x22] @ Join ''.'' (slice_elems st' s) @ [CHR 0x22], st'))"

fun json_Error :: "(nat \<Rightarrow> nat) \<Rightarrow> (go_error \<Rightarrow> string) \<Rightarrow> arrays \<Rightarrow> json_error \<Rightarrow> string \<times> arrays"
and json_Errors :: "(nat \<Rightarrow> nat) \<Rightarrow> (go_error \<Rightarrow> string) \<Rightarrow> arrays \<Rightarrow> json_error list \<Rightarrow> string list \<times> arrays"
where
  "json_Error grow dep st (TokenError m) = (m, st)"
| "json_Error grow dep st (DuplicateKeyError path key) = DuplicateKeyError_Error grow st path key"
| "json_Error grow dep st (UnmarshalError e) = (err_Error dep e, st)"
| "json_Error grow dep st (JoinedError es) =
     (let (txts, st') = json_Errors grow dep st es in (Join [CHR 0x0A] txts, st'))"
| "json_Errors grow dep st [] = ([], st)"
| "json_Errors grow dep st (e # es) =
     (let (t, st1) = json_Error grow dep st e; (ts, st2) = json_Errors grow dep st1 es
      in (t # ts, st2))"

section \<open>Specification\<close>

text \<open>The repeated keys of a value in the order of the text, and the keys an error reports.\<close>

fun dup_keys :: "json \<Rightarrow> string list"
and field_dups :: "string list \<Rightarrow> (string \<times> json) list \<Rightarrow> string list" where
  "dup_keys (JArray vs) = concat (map dup_keys vs)"
| "dup_keys (JObject fs) = field_dups [] fs"
| "dup_keys _ = []"
| "field_dups seen [] = []"
| "field_dups seen ((k, v) # fs) =
     (if k \<in> set seen then [k] else []) @ dup_keys v @ field_dups (k # seen) fs"

text \<open>Every object in the value has distinct keys.\<close>

fun unique_keys :: "json \<Rightarrow> bool" where
  "unique_keys (JArray vs) = (\<forall>v \<in> set vs. unique_keys v)"
| "unique_keys (JObject fs) = (distinct (map fst fs) \<and> (\<forall>f \<in> set fs. unique_keys (snd f)))"
| "unique_keys _ = True"

lemma dup_keys_unique: "dup_keys v = [] \<longleftrightarrow> unique_keys v"
  and field_dups_unique:
    "field_dups seen fs = [] \<longleftrightarrow>
       distinct (map fst fs) \<and> set (map fst fs) \<inter> set seen = {} \<and> (\<forall>f \<in> set fs. unique_keys (snd f))"
  by (induction v and seen fs rule: dup_keys_field_dups.induct) auto

fun leaf_keys :: "json_error \<Rightarrow> string list" where
  "leaf_keys (DuplicateKeyError path key) = [key]"
| "leaf_keys (JoinedError es) = concat (map leaf_keys es)"
| "leaf_keys _ = []"

definition reports :: "json_error option \<Rightarrow> string list \<Rightarrow> bool" where
  "reports e ks \<longleftrightarrow> (case e of None \<Rightarrow> ks = [] | Some x \<Rightarrow> ks \<noteq> [] \<and> leaf_keys x = ks)"

definition collects :: "json_error list \<Rightarrow> string list \<Rightarrow> bool" where
  "collects errs ks \<longleftrightarrow> concat (map leaf_keys errs) = ks \<and> (\<forall>x \<in> set errs. leaf_keys x \<noteq> [])"

lemma collects_Nil [simp]: "collects [] []"
  by (simp add: collects_def)

lemma collects_append_err: "collects errs ks \<Longrightarrow> reports e ls \<Longrightarrow> collects (append_err errs e) (ks @ ls)"
  by (cases e) (auto simp: collects_def reports_def)

lemma collects_dup: "collects errs ks \<Longrightarrow> collects (errs @ [DuplicateKeyError path key]) (ks @ [key])"
  by (auto simp: collects_def)

lemma collects_Join: "collects errs ks \<Longrightarrow> reports (errors_Join errs) ks"
  by (cases errs) (auto simp: collects_def reports_def errors_Join_def)

section \<open>Correctness\<close>

text \<open>What a run of the check on a value's tokens does, whatever follows them.\<close>

definition checks :: "(nat \<Rightarrow> nat) \<Rightarrow> json \<Rightarrow> bool" where
  "checks grow v \<longleftrightarrow>
     (\<forall>n rest st path. length (tokens v) \<le> n \<longrightarrow>
        (\<exists>e st'. checkToken grow n (tokens v @ rest) st path = Some (Ret (e, rest, st')) \<and>
           reports e (dup_keys v)))"

lemma checksD:
  "checks grow v \<Longrightarrow> length (tokens v) \<le> n \<Longrightarrow>
     \<exists>e st'. checkToken grow n (tokens v @ rest) st path = Some (Ret (e, rest, st')) \<and>
       reports e (dup_keys v)"
  by (simp add: checks_def)

lemma tokens_nonempty [simp]: "tokens v \<noteq> []"
  by (cases v) auto

lemma More_tokens: "More (tokens v @ rest)"
  by (cases v) auto

lemma object_loop_correct:
  assumes "\<forall>f \<in> set fs. checks grow (snd f)"
    and "length (concat (map (\<lambda>(k, v). TString k # tokens v) fs)) < n"
    and "collects errs ks"
  shows "\<exists>e st'. object_loop grow n
      (concat (map (\<lambda>(k, v). TString k # tokens v) fs) @ Delim CHR ''}'' # rest) st path keys errs =
        Some (Ret (e, rest, st')) \<and> reports e (ks @ field_dups keys fs)"
  using assms
proof (induction fs arbitrary: n st keys errs ks)
  case Nil
  then obtain m where "n = Suc m" by (cases n) auto
  with Nil collects_Join [of errs ks] show ?case by auto
next
  case (Cons f fs)
  obtain k v where f: "f = (k, v)" by (cases f)
  obtain m where n: "n = Suc m" using Cons.prems by (cases n) auto
  let ?rest = "concat (map (\<lambda>(k, v). TString k # tokens v) fs) @ Delim CHR ''}'' # rest"
  let ?errs = "if k \<in> set keys then errs @ [DuplicateKeyError path k] else errs"
  obtain st1 path1 where ap: "append1 grow st path k = (st1, path1)" by (cases "append1 grow st path k")
  have v: "checks grow v" and len: "length (tokens v) \<le> m"
    using Cons.prems f n by auto
  obtain e st2 where ck: "checkToken grow m (tokens v @ ?rest) st1 path1 = Some (Ret (e, ?rest, st2))"
    and e: "reports e (dup_keys v)" using checksD [OF v len] by blast
  have "collects ?errs (ks @ (if k \<in> set keys then [k] else []))"
    using Cons.prems(3) collects_dup by auto
  from collects_append_err [OF this e] have
    errs: "collects (append_err ?errs e) ((ks @ (if k \<in> set keys then [k] else [])) @ dup_keys v)" .
  have "length (concat (map (\<lambda>(k, v). TString k # tokens v) fs)) < m" using Cons.prems f n by auto
  from Cons.IH [OF _ this errs, of st2 "k # keys"] Cons.prems(1) obtain e' st' where
    "object_loop grow m ?rest st2 path (k # keys) (append_err ?errs e) = Some (Ret (e', rest, st'))"
    "reports e' (ks @ field_dups keys ((k, v) # fs))" by auto
  with ck ap show ?case by (simp add: f n Let_def)
qed

lemma array_loop_correct:
  assumes "\<forall>v \<in> set vs. checks grow v" and "length (concat (map tokens vs)) < n" and "collects errs ks"
  shows "\<exists>e st'. array_loop grow n (concat (map tokens vs) @ Delim CHR '']'' # rest) st path i errs =
        Some (Ret (e, rest, st')) \<and> reports e (ks @ concat (map dup_keys vs))"
  using assms
proof (induction vs arbitrary: n st i errs ks)
  case Nil
  then obtain m where "n = Suc m" by (cases n) auto
  with Nil collects_Join [of errs ks] show ?case by auto
next
  case (Cons v vs)
  obtain m where n: "n = Suc m" using Cons.prems by (cases n) auto
  let ?rest = "concat (map tokens vs) @ Delim CHR '']'' # rest"
  obtain st1 path1 where ap: "append1 grow st path (Itoa i) = (st1, path1)"
    by (cases "append1 grow st path (Itoa i)")
  have v: "checks grow v" and len: "length (tokens v) \<le> m" using Cons.prems n by auto
  obtain e st2 where ck: "checkToken grow m (tokens v @ ?rest) st1 path1 = Some (Ret (e, ?rest, st2))"
    and e: "reports e (dup_keys v)" using checksD [OF v len] by blast
  obtain t ts where "tokens v = t # ts" by (cases "tokens v") auto
  then have "length (concat (map tokens vs)) < m" using Cons.prems n by auto
  from Cons.IH [OF _ this collects_append_err [OF Cons.prems(3) e], of st2 "i + 1"] Cons.prems(1)
  obtain e' st' where
    "array_loop grow m ?rest st2 path (i + 1) (append_err errs e) = Some (Ret (e', rest, st'))"
    "reports e' (ks @ concat (map dup_keys (v # vs)))" by auto
  with ck ap More_tokens [of v ?rest] show ?case by (simp add: n)
qed

lemma checks_all: "checks grow v"
proof (induction v)
  case (JArray vs)
  show ?case
    unfolding checks_def
  proof (intro allI impI)
    fix n rest st path
    assume "length (tokens (JArray vs)) \<le> n"
    then obtain m where "n = Suc m" "length (concat (map tokens vs)) < m" by (cases n) auto
    with array_loop_correct [of vs grow m "[]" "[]" rest st path 0] JArray
    show "\<exists>e st'. checkToken grow n (tokens (JArray vs) @ rest) st path = Some (Ret (e, rest, st')) \<and>
        reports e (dup_keys (JArray vs))" by simp
  qed
next
  case (JObject fs)
  show ?case
    unfolding checks_def
  proof (intro allI impI)
    fix n rest st path
    assume "length (tokens (JObject fs)) \<le> n"
    then obtain m where "n = Suc m"
      "length (concat (map (\<lambda>(k, v). TString k # tokens v) fs)) < m" by (cases n) auto
    with object_loop_correct [of fs grow m "[]" "[]" rest st path "[]"] JObject
    show "\<exists>e st'. checkToken grow n (tokens (JObject fs) @ rest) st path = Some (Ret (e, rest, st')) \<and>
        reports e (dup_keys (JObject fs))" by fastforce
  qed
qed (auto simp: checks_def reports_def Suc_le_eq gr0_conv_Suc)

section \<open>Properties\<close>

text \<open>C7: \<open>JSONNoDuplicateKeys\<close> always returns, without a panic and for every growth policy of
  slices: an unmarshalling error is returned wrapped; otherwise the result is nil exactly when
  every object of the value, at every depth, has distinct keys, and an error reports the repeated
  keys, all of them, in the order of the text.\<close>

theorem JSONNoDuplicateKeys_correct:
  "\<exists>e st. JSONNoDuplicateKeys grow Unmarshal s = Some (Ret (e, st)) \<and>
     (case Unmarshal s of
        Inl err \<Rightarrow> e = Some (UnmarshalError (WrapError ''unmarshaling input: '' err))
      | Inr v \<Rightarrow> (e = None \<longleftrightarrow> unique_keys v) \<and> reports e (dup_keys v))"
proof (cases "Unmarshal s")
  case (Inr v)
  from checksD [OF checks_all [of grow v] order_refl, of "[]" "[]" nil_slice] obtain e st where
    "checkToken grow (length (tokens v)) (tokens v) [] nil_slice = Some (Ret (e, [], st))"
    "reports e (dup_keys v)" by auto
  moreover have "e = None \<longleftrightarrow> unique_keys v"
    using \<open>reports e (dup_keys v)\<close> by (simp add: reports_def dup_keys_unique split: option.splits)
  ultimately show ?thesis by (simp add: JSONNoDuplicateKeys_def Inr)
qed (simp add: JSONNoDuplicateKeys_def)

text \<open>A repeated key \<open>x\<close> below \<open>a.b.c.d\<close>, followed by a sibling \<open>e\<close> of \<open>d\<close>.\<close>

definition deep_duplicate :: "string \<Rightarrow> string \<Rightarrow> string \<Rightarrow> string \<Rightarrow> string \<Rightarrow> string \<Rightarrow> json" where
  "deep_duplicate a b c d e x =
     JObject [(a, JObject [(b, JObject [(c, JObject
       [(d, JObject [(x, JNull), (x, JNull)]), (e, JNull)])])])]"

text \<open>C9: The path in the message can be wrong. With the runtime's doubling of small slices, the
  path \<open>[a, b, c]\<close> has room for one more key; the sibling \<open>e\<close> overwrites \<open>d\<close> in the shared array
  after the error was built, and the error text names \<open>a.b.c.e.x\<close> instead of \<open>a.b.c.d.x\<close>.\<close>

theorem DuplicateKeyError_path_overwritten:
  assumes "d \<noteq> e" and "Unmarshal s = Inr (deep_duplicate a b c d e x)"
  shows "\<exists>err st. JSONNoDuplicateKeys doubling Unmarshal s = Some (Ret (Some err, st)) \<and>
    fst (json_Error doubling dep st err) =
      ''duplicate key '' @ [CHR 0x22] @ Join ''.'' [a, b, c, e, x] @ [CHR 0x22]"
  using assms
  by (simp add: JSONNoDuplicateKeys_def deep_duplicate_def nil_slice_def append1_def doubling_def
      slice_elems_def errors_Join_def DuplicateKeyError_Error_def Let_def)

lemma DuplicateKeyError_path_overwritten_witness:
  "\<exists>err st. JSONNoDuplicateKeys doubling (\<lambda>s. Inr (deep_duplicate ''a'' ''b'' ''c'' ''d'' ''e'' ''x'')) [] =
      Some (Ret (Some err, st)) \<and>
    fst (json_Error doubling (\<lambda>_. []) st err) = ''duplicate key '' @ [CHR 0x22] @ ''a.b.c.e.x'' @ [CHR 0x22]"
  using DuplicateKeyError_path_overwritten
    [of "''d''" "''e''" "\<lambda>s. Inr (deep_duplicate ''a'' ''b'' ''c'' ''d'' ''e'' ''x'')" "[]" "''a''"
        "''b''" "''c''" "''x''" "\<lambda>_. []"]
  by simp

section \<open>Termination\<close>

text \<open>
  Every call of \<open>checkToken\<close> takes a token, if there is one, so twice the number of tokens is fuel
  enough for any list of tokens, well formed or not.
\<close>

definition consumes :: "nat \<Rightarrow> token list \<Rightarrow> (json_error option \<times> token list \<times> arrays) go option \<Rightarrow> bool" where
  "consumes k ts r \<longleftrightarrow>
     (\<exists>p. r = Some (Panic p)) \<or> (\<exists>e ts' st'. r = Some (Ret (e, ts', st')) \<and> length ts' \<le> length ts - k)"

lemma consumesE:
  assumes "consumes k ts r"
  obtains p where "r = Some (Panic p)"
  | e ts' st' where "r = Some (Ret (e, ts', st'))" "length ts' \<le> length ts - k"
  using assms by (auto simp: consumes_def)

lemma More_Cons: "More ts \<Longrightarrow> \<exists>t ts'. ts = t # ts'"
  by (cases ts) auto

lemma checkToken_consumes:
  "2 * length ts + 1 \<le> n \<Longrightarrow> consumes 1 ts (checkToken grow n ts st path)"
  "2 * length ts2 + 2 \<le> n2 \<Longrightarrow> consumes 0 ts2 (object_loop grow n2 ts2 st2 path2 keys errs2)"
  "2 * length ts3 + 2 \<le> n3 \<Longrightarrow> consumes 0 ts3 (array_loop grow n3 ts3 st3 path3 i errs3)"
proof (induction grow n ts st path and grow n2 ts2 st2 path2 keys errs2 and grow n3 ts3 st3 path3 i errs3
    rule: checkToken_object_loop_array_loop.induct)
  case (2 grow n ts st path)
  show ?case
  proof (cases ts)
    case (Cons t ts')
    show ?thesis
    proof (cases t)
      case (Delim c)
      then show ?thesis using 2 Cons by (auto simp: consumes_def)
    qed (auto simp: Cons consumes_def)
  qed (simp add: consumes_def)
next
  case (4 grow n ts st path keys errs)
  show ?case
  proof (cases "More ts")
    case True
    then obtain t ts1 where ts: "ts = t # ts1" using More_Cons by blast
    show ?thesis
    proof (cases t)
      case (TString key)
      obtain st1 path1 where ap: "append1 grow st path key = (st1, path1)" by fastforce
      have "consumes 1 ts1 (checkToken grow n ts1 st1 path1)"
        using "4.prems" ts by (intro "4.IH"(1) [OF True ts TString refl refl ap [symmetric]]) simp
      then show ?thesis
      proof (cases rule: consumesE)
        case (2 e ts' st')
        then have "consumes 0 ts' (object_loop grow n ts' st' path (key # keys)
            (append_err (if key \<in> set keys then errs @ [DuplicateKeyError path key] else errs) e))"
          using "4.prems" ts
          by (intro "4.IH"(2) [OF True ts TString refl refl ap [symmetric] 2(1) refl refl refl]) simp
        then show ?thesis using 2 True ts TString ap by (auto simp: consumes_def)
      qed (use True ts TString ap in \<open>simp add: consumes_def\<close>)
    qed (use True ts in \<open>simp_all add: consumes_def\<close>)
  qed (auto simp: consumes_def split: list.split)
next
  case (6 grow n ts st path i errs)
  show ?case
  proof (cases "More ts")
    case True
    then have ts: "ts \<noteq> []" by auto
    obtain st1 path1 where ap: "append1 grow st path (Itoa i) = (st1, path1)" by fastforce
    have "consumes 1 ts (checkToken grow n ts st1 path1)"
      using "6.prems" by (intro "6.IH"(1) [OF True refl ap [symmetric]]) simp
    then show ?thesis
    proof (cases rule: consumesE)
      case (2 e ts' st')
      then have "length ts' < length ts" using ts by (cases ts) auto
      then have "consumes 0 ts' (array_loop grow n ts' st' path (i + 1) (append_err errs e))"
        using "6.prems"
        by (intro "6.IH"(2) [OF True refl ap [symmetric] 2(1) refl refl refl]) simp
      then show ?thesis using 2 True ap by (auto simp: consumes_def)
    qed (use True ap in \<open>simp add: consumes_def\<close>)
  qed (auto simp: consumes_def split: list.split)
qed (simp_all add: consumes_def)


end
