(* ===== verification/Config_ops.thy ===== *)
theory Config_ops
  imports Diag
begin

text \<open>
  The methods of \<open>internal/config/config.go\<close> and the path expansion of \<open>internal/expand\<close>.
  The environment is the function \<open>os.Getenv\<close> (empty when unset) and the file system the function
  \<open>os.ReadFile\<close>. Third-party code is a parameter: \<open>homedir.Expand\<close>, \<open>multierror.Append\<close>, the
  defaults of the SDK and \<open>httpproxy.FromEnvironment\<close>; so are \<open>url.Parse\<close>, \<open>URL.String\<close> and the
  verb \<open>%q\<close>, whose results the code only passes on.
\<close>

type_synonym env = "string \<Rightarrow> string"

section \<open>os.ExpandEnv\<close>

definition isShellSpecialVar :: "char \<Rightarrow> bool" where
  "isShellSpecialVar c \<longleftrightarrow> c \<in> set ''*#$@!?-0123456789''"

definition isAlphaNum :: "char \<Rightarrow> bool" where
  "isAlphaNum c \<longleftrightarrow> c = CHR ''_'' \<or> (CHR ''0'' \<le> c \<and> c \<le> CHR ''9'') \<or>
     (CHR ''a'' \<le> c \<and> c \<le> CHR ''z'') \<or> (CHR ''A'' \<le> c \<and> c \<le> CHR ''Z'')"

text \<open>The name behind a dollar sign and the number of bytes it takes; the text is not empty.\<close>

definition getShellName :: "string \<Rightarrow> string \<times> nat" where
  "getShellName s =
     (if s ! 0 = CHR ''{'' then
        (if 2 < length s \<and> isShellSpecialVar (s ! 1) \<and> s ! 2 = CHR ''}'' then ([s ! 1], 3)
         else
           (let name = takeWhile (\<lambda>c. c \<noteq> CHR ''}'') (tl s) in
            if length name = length (tl s) then ([], 1)
            else if name = [] then ([], 2)
            else (name, length name + 2)))
      else if isShellSpecialVar (s ! 0) then ([s ! 0], 1)
      else (let name = takeWhile isAlphaNum s in (name, length name)))"

function ExpandEnv :: "env \<Rightarrow> string \<Rightarrow> string" where
  "ExpandEnv getenv [] = []"
| "ExpandEnv getenv (c # s) =
     (if c = CHR ''$'' \<and> s \<noteq> [] then
        (let (name, w) = getShellName s in
         if name = [] \<and> w > 0 then ExpandEnv getenv (drop w s)
         else if name = [] then c # ExpandEnv getenv (drop w s)
         else getenv name @ ExpandEnv getenv (drop w s))
      else c # ExpandEnv getenv s)"
  by pat_completeness auto
termination by (relation "measure (\<lambda>(g, s). length s)") auto

lemma ExpandEnv_no_dollar: "CHR ''$'' \<notin> set s \<Longrightarrow> ExpandEnv getenv s = s"
  by (induction s) auto

section \<open>internal/expand\<close>

type_synonym homedir = "string \<Rightarrow> go_error + string"

definition FilePath :: "env \<Rightarrow> homedir \<Rightarrow> string \<Rightarrow> go_error + string" where
  "FilePath getenv Expand inp = Expand (ExpandEnv getenv inp)"

text \<open>
  \<open>FilePaths\<close> goes on after an error. It returns the paths it could expand beside the errors it
  collected; \<open>multierror.ErrorOrNil\<close> is nil when nothing was appended.
\<close>

fun FilePaths_loop ::
    "env \<Rightarrow> homedir \<Rightarrow> string list \<Rightarrow> string list \<Rightarrow> go_error list \<Rightarrow> string list \<times> go_error list" where
  "FilePaths_loop getenv Expand [] result errs = (result, errs)"
| "FilePaths_loop getenv Expand (v # vs) result errs =
     (case FilePath getenv Expand v of
        Inl err \<Rightarrow> FilePaths_loop getenv Expand vs result (errs @ [err])
      | Inr p \<Rightarrow> FilePaths_loop getenv Expand vs (result @ [p]) errs)"

definition FilePaths ::
    "env \<Rightarrow> homedir \<Rightarrow> (go_error list \<Rightarrow> go_error) \<Rightarrow> string list \<Rightarrow> string list \<times> go_error option" where
  "FilePaths getenv Expand multierror inp =
     (let (result, errs) = FilePaths_loop getenv Expand inp [] []
      in (result, if errs = [] then None else Some (multierror errs)))"

section \<open>Files\<close>

text \<open>\<open>CustomCABundleReader\<close>: the reader is nil (\<open>Inr None\<close>) when no bundle is configured.\<close>

definition CustomCABundleReader ::
    "env \<Rightarrow> homedir \<Rightarrow> (string \<Rightarrow> go_error + bytes) \<Rightarrow> Config \<Rightarrow> go_error + bytes option" where
  "CustomCABundleReader getenv Expand ReadFile c =
     (if c_CustomCABundle c = [] then Inr None
      else
        (case FilePath getenv Expand (c_CustomCABundle c) of
           Inl err \<Rightarrow> Inl (WrapError ''expanding custom CA bundle: '' err)
         | Inr bundleFile \<Rightarrow>
             (case ReadFile bundleFile of
                Inl err \<Rightarrow> Inl (WrapError ''reading custom CA bundle: '' err)
              | Inr bundle \<Rightarrow> Inr (Some bundle))))"

definition ResolveSharedConfigFiles ::
    "env \<Rightarrow> homedir \<Rightarrow> (go_error list \<Rightarrow> go_error) \<Rightarrow> Config \<Rightarrow> go_error + string list" where
  "ResolveSharedConfigFiles getenv Expand multierror c =
     (case FilePaths getenv Expand multierror (c_SharedConfigFiles c) of
        (v, Some err) \<Rightarrow> Inl (WrapError ''expanding shared config files: '' err)
      | (v, None) \<Rightarrow> Inr v)"

definition ResolveSharedCredentialsFiles ::
    "env \<Rightarrow> homedir \<Rightarrow> (go_error list \<Rightarrow> go_error) \<Rightarrow> Config \<Rightarrow> go_error + string list" where
  "ResolveSharedCredentialsFiles getenv Expand multierror c =
     (case FilePaths getenv Expand multierror (c_SharedCredentialsFiles c) of
        (v, Some err) \<Rightarrow> Inl (WrapError ''expanding shared credentials files: '' err)
      | (v, None) \<Rightarrow> Inr v)"

definition HasValidTokenSource :: "AssumeRoleWithWebIdentity \<Rightarrow> bool" where
  "HasValidTokenSource c \<longleftrightarrow> wi_WebIdentityToken c \<noteq> [] \<or> wi_WebIdentityTokenFile c \<noteq> []"

definition resolveWebIdentityTokenFile ::
    "env \<Rightarrow> homedir \<Rightarrow> AssumeRoleWithWebIdentity \<Rightarrow> go_error + string" where
  "resolveWebIdentityTokenFile getenv Expand c =
     (case FilePath getenv Expand (wi_WebIdentityTokenFile c) of
        Inl err \<Rightarrow> Inl (WrapError ''expanding web identity token file: '' err)
      | Inr v \<Rightarrow> Inr v)"

definition GetIdentityToken ::
    "env \<Rightarrow> homedir \<Rightarrow> (string \<Rightarrow> go_error + bytes) \<Rightarrow> AssumeRoleWithWebIdentity \<Rightarrow> go_error + bytes" where
  "GetIdentityToken getenv Expand ReadFile c =
     (if wi_WebIdentityToken c \<noteq> [] then Inr (wi_WebIdentityToken c)
      else
        (case resolveWebIdentityTokenFile getenv Expand c of
           Inl err \<Rightarrow> Inl err
         | Inr f \<Rightarrow>
             (case ReadFile f of
                Inl err \<Rightarrow> Inl (WrapError (''unable to read file at '' @ f @ '': '') err)
              | Inr b \<Rightarrow> Inr b)))"

section \<open>Account IDs\<close>

definition VerifyAccountIDAllowed :: "Config \<Rightarrow> string \<Rightarrow> go_error option" where
  "VerifyAccountIDAllowed c accountID =
     (if c_ForbiddenAccountIds c \<noteq> [] \<and> accountID \<in> set (c_ForbiddenAccountIds c)
      then Some (ErrorString (''AWS account ID not allowed: '' @ accountID))
      else if c_AllowedAccountIds c \<noteq> [] \<and> accountID \<notin> set (c_AllowedAccountIds c)
      then Some (ErrorString (''AWS account ID not allowed: '' @ accountID))
      else None)"

section \<open>The HTTP transport\<close>

record TLSConfig =
  tls_MinVersion :: nat
  tls_InsecureSkipVerify :: bool

record ProxyConfig =
  px_HTTPProxy :: string
  px_HTTPSProxy :: string
  px_NoProxy :: string
  px_CGI :: bool

text \<open>The fields of \<open>http.Transport\<close> the options touch; \<open>Proxy\<close> is the proxy configuration its
  closure holds.\<close>

record Transport =
  tr_MaxIdleConnsPerHost :: int
  tr_TLSClientConfig :: "TLSConfig option"
  tr_Proxy :: "ProxyConfig option"

definition VersionTLS12 :: nat where "VersionTLS12 = 0x0303"

record 'u http_deps =
  hd_Parse :: "string \<Rightarrow> go_error + 'u"
  hd_String :: "'u \<Rightarrow> string"
  hd_FromEnvironment :: "env \<Rightarrow> ProxyConfig"
  hd_DefaultMaxIdleConnsPerHost :: int

text \<open>The parsed form of an optional proxy setting; \<open>aws.ToString\<close> is the string of the pointer.\<close>

definition parse_proxy ::
    "('u, 'm) http_deps_scheme \<Rightarrow> string \<Rightarrow> string option \<Rightarrow> go_error + 'u option" where
  "parse_proxy D what proxy =
     (case proxy of
        None \<Rightarrow> Inr None
      | Some p \<Rightarrow>
          (case hd_Parse D p of Inl err \<Rightarrow> Inl (WrapError what err) | Inr u \<Rightarrow> Inr (Some u)))"

text \<open>The proxy configuration that the returned option function builds when it is called.\<close>

definition proxy_config ::
    "('u, 'm) http_deps_scheme \<Rightarrow> env \<Rightarrow> Config \<Rightarrow> 'u option \<Rightarrow> 'u option \<Rightarrow> ProxyConfig" where
  "proxy_config D getenv c httpProxyUrl httpsProxyUrl =
     (let pc = hd_FromEnvironment D getenv;
          pc = (case httpProxyUrl of
                  None \<Rightarrow> pc
                | Some u \<Rightarrow>
                    (let pc = pc\<lparr>px_HTTPProxy := hd_String D u\<rparr> in
                     if c_HTTPProxyMode c = HTTPProxyModeLegacy \<and> px_HTTPSProxy pc = []
                     then pc\<lparr>px_HTTPSProxy := hd_String D u\<rparr> else pc));
          pc = (case httpsProxyUrl of
                  None \<Rightarrow> pc | Some u \<Rightarrow> pc\<lparr>px_HTTPSProxy := hd_String D u\<rparr>)
      in if c_NoProxy c \<noteq> [] then pc\<lparr>px_NoProxy := c_NoProxy c\<rparr> else pc)"

definition HTTPTransportOptions ::
    "('u, 'm) http_deps_scheme \<Rightarrow> Config \<Rightarrow>
     go_error + (env \<Rightarrow> 't Transport_scheme \<Rightarrow> 't Transport_scheme)" where
  "HTTPTransportOptions D c =
     (case parse_proxy D ''parsing HTTP proxy URL: '' (c_HTTPProxy c) of
        Inl err \<Rightarrow> Inl err
      | Inr httpProxyUrl \<Rightarrow>
          (case parse_proxy D ''parsing HTTPS proxy URL: '' (c_HTTPSProxy c) of
             Inl err \<Rightarrow> Inl err
           | Inr httpsProxyUrl \<Rightarrow>
               Inr (\<lambda>getenv tr.
                 (let tr = tr\<lparr>tr_MaxIdleConnsPerHost := hd_DefaultMaxIdleConnsPerHost D\<rparr>;
                      tls = (case tr_TLSClientConfig tr of
                               None \<Rightarrow> \<lparr>tls_MinVersion = VersionTLS12, tls_InsecureSkipVerify = False\<rparr>
                             | Some t \<Rightarrow> t);
                      tls = (if c_Insecure c then tls\<lparr>tls_InsecureSkipVerify := True\<rparr> else tls)
                  in tr\<lparr>tr_TLSClientConfig := Some tls,
                        tr_Proxy := Some (proxy_config D getenv c httpProxyUrl httpsProxyUrl)\<rparr>))))"

section \<open>Proxy settings that deserve a diagnostic\<close>

definition missingHttpsProxyLegacyWarningDiag :: "(string \<Rightarrow> string) \<Rightarrow> string \<Rightarrow> Diagnostic" where
  "missingHttpsProxyLegacyWarningDiag quote s =
     NewWarningDiagnostic ''Missing HTTPS Proxy''
       (''An HTTP proxy was set but no HTTPS proxy was. Using HTTP proxy '' @ quote s @
        '' for HTTPS requests. This behavior may change in future versions.'' @ NL @ NL @
        ''To specify no proxy for HTTPS, set the HTTPS to an empty string.'')"

definition missingHttpsProxyWarningDiag :: Diagnostic where
  "missingHttpsProxyWarningDiag =
     NewWarningDiagnostic ''Missing HTTPS Proxy''
       (''An HTTP proxy was set but no HTTPS proxy was.'' @ NL @ NL @
        ''To specify no proxy for HTTPS, set the HTTPS to an empty string.'')"

definition check_proxy_url ::
    "('u, 'm) http_deps_scheme \<Rightarrow> (go_error \<Rightarrow> string) \<Rightarrow> string \<Rightarrow> string option \<Rightarrow>
     Diagnostics \<Rightarrow> Diagnostics" where
  "check_proxy_url D dep summary proxy diags =
     (case proxy of
        None \<Rightarrow> diags
      | Some p \<Rightarrow>
          (case hd_Parse D p of
             Inl err \<Rightarrow> AddError dep diags summary (''Unable to parse URL: '' @ err_Error dep err)
           | Inr u \<Rightarrow> diags))"

definition ValidateProxySettings ::
    "('u, 'm) http_deps_scheme \<Rightarrow> (go_error \<Rightarrow> string) \<Rightarrow> (string \<Rightarrow> string) \<Rightarrow> env \<Rightarrow> Config \<Rightarrow>
     Diagnostics \<Rightarrow> Diagnostics" where
  "ValidateProxySettings D dep quote getenv c diags =
     (let diags = check_proxy_url D dep ''Invalid HTTP Proxy'' (c_HTTPProxy c) diags;
          diags = check_proxy_url D dep ''Invalid HTTPS Proxy'' (c_HTTPSProxy c) diags
      in case c_HTTPProxy c of
           None \<Rightarrow> diags
         | Some p \<Rightarrow>
             (if p \<noteq> [] \<and> c_HTTPSProxy c = None \<and> getenv ''HTTPS_PROXY'' = [] \<and>
                 getenv ''https_proxy'' = []
              then
                (if c_HTTPProxyMode c = HTTPProxyModeLegacy
                 then Append dep diags [Some (missingHttpsProxyLegacyWarningDiag quote p)]
                 else Append dep diags [Some missingHttpsProxyWarningDiag])
              else diags))"

section \<open>Lemmas\<close>

lemma FilePaths_loop_append:
  "FilePaths_loop getenv Expand vs result errs =
     (result @ fst (FilePaths_loop getenv Expand vs [] []),
      errs @ snd (FilePaths_loop getenv Expand vs [] []))"
proof (induction vs arbitrary: result errs)
  case (Cons v vs)
  show ?case
  proof (cases "FilePath getenv Expand v")
    case (Inl e)
    with Cons.IH [of result "errs @ [e]"] Cons.IH [of "[]" "[e]"] show ?thesis by simp
  next
    case (Inr p)
    with Cons.IH [of "result @ [p]" errs] Cons.IH [of "[p]" "[]"] show ?thesis by simp
  qed
qed simp

lemma FilePaths_ok_iff:
  "FilePaths getenv Expand me vs = (ps, None) \<longleftrightarrow> map (FilePath getenv Expand) vs = map Inr ps"
proof -
  have "FilePaths_loop getenv Expand vs [] [] = (ps, []) \<longleftrightarrow> map (FilePath getenv Expand) vs = map Inr ps"
  proof (induction vs arbitrary: ps)
    case Nil
    then show ?case by auto
  next
    case (Cons v vs)
    show ?case
    proof (cases "FilePath getenv Expand v")
      case (Inl e)
      with FilePaths_loop_append [of getenv Expand vs "[]" "[e]"] show ?thesis by (cases ps) auto
    next
      case (Inr p)
      with FilePaths_loop_append [of getenv Expand vs "[p]" "[]"] Cons.IH [of "tl ps"] show ?thesis
        by (cases ps) (auto simp: prod_eq_iff)
    qed
  qed
  then show ?thesis by (auto simp: FilePaths_def split: prod.split)
qed

lemma parse_proxy_error_iff:
  "(\<exists>err. parse_proxy D what proxy = Inl err) \<longleftrightarrow>
     (\<exists>p err. proxy = Some p \<and> hd_Parse D p = Inl err)"
  by (auto simp: parse_proxy_def split: option.splits sum.splits)

lemma HTTPTransportOptions_error_iff:
  "(\<exists>err. HTTPTransportOptions D c = Inl err) \<longleftrightarrow>
     (\<exists>p err. (c_HTTPProxy c = Some p \<or> c_HTTPSProxy c = Some p) \<and> hd_Parse D p = Inl err)"
proof -
  have "(\<exists>err. HTTPTransportOptions D c = Inl err) \<longleftrightarrow>
      (\<exists>err. parse_proxy D ''parsing HTTP proxy URL: '' (c_HTTPProxy c) = Inl err) \<or>
      (\<exists>err. parse_proxy D ''parsing HTTPS proxy URL: '' (c_HTTPSProxy c) = Inl err)"
    by (auto simp: HTTPTransportOptions_def split: sum.splits)
  then show ?thesis unfolding parse_proxy_error_iff by blast
qed

lemma check_proxy_url_HasError:
  "HasError (check_proxy_url D dep summary proxy diags) \<longleftrightarrow>
     HasError diags \<or> (\<exists>p err. proxy = Some p \<and> hd_Parse D p = Inl err)"
  by (auto simp: check_proxy_url_def split: option.splits sum.splits)

lemma Append_warning_HasError:
  "HasError (Append dep diags [Some (WarningDiagnostic s d)]) \<longleftrightarrow> HasError diags"
  using AddWarning_HasError by (simp add: AddWarning_def)

lemma ValidateProxySettings_HasError:
  "HasError (ValidateProxySettings D dep quote getenv c diags) \<longleftrightarrow>
     HasError diags \<or>
     (\<exists>p err. (c_HTTPProxy c = Some p \<or> c_HTTPSProxy c = Some p) \<and> hd_Parse D p = Inl err)"
proof -
  let ?ds = "check_proxy_url D dep ''Invalid HTTPS Proxy'' (c_HTTPSProxy c)
      (check_proxy_url D dep ''Invalid HTTP Proxy'' (c_HTTPProxy c) diags)"
  have "HasError (ValidateProxySettings D dep quote getenv c diags) \<longleftrightarrow> HasError ?ds"
    by (simp add: ValidateProxySettings_def Let_def Append_warning_HasError
        missingHttpsProxyLegacyWarningDiag_def missingHttpsProxyWarningDiag_def
        del: diags_Append.simps split: option.split)
  then show ?thesis by (auto simp: check_proxy_url_HasError)
qed

section \<open>Properties\<close>

text \<open>An account ID is accepted exactly when it is not forbidden and, if there is an allow
  list, on it: a forbidden ID is refused even when it is allowed, too. A refusal names the ID.\<close>

theorem VerifyAccountIDAllowed_iff:
  "VerifyAccountIDAllowed c accountID =
     (if accountID \<notin> set (c_ForbiddenAccountIds c) \<and>
         (c_AllowedAccountIds c = [] \<or> accountID \<in> set (c_AllowedAccountIds c))
      then None
      else Some (ErrorString (''AWS account ID not allowed: '' @ accountID)))"
  by (auto simp: VerifyAccountIDAllowed_def)

text \<open>Shared config files resolve exactly when every configured path expands, and then to the
  expansions in order; one path that does not expand makes the whole result an error.\<close>

theorem ResolveSharedConfigFiles_iff:
  "ResolveSharedConfigFiles getenv Expand me c = Inr ps \<longleftrightarrow>
     map (FilePath getenv Expand) (c_SharedConfigFiles c) = map Inr ps"
  unfolding FilePaths_ok_iff [symmetric, of _ _ _ _ me]
  by (auto simp: ResolveSharedConfigFiles_def split: prod.splits option.splits)

text \<open>\<open>ValidateProxySettings\<close> reports an error, besides those it was given, exactly when
  \<open>HTTPTransportOptions\<close> would fail on the same configuration.\<close>

theorem proxy_validation_complete:
  "HasError (ValidateProxySettings D dep quote getenv c diags) \<longleftrightarrow>
     HasError diags \<or> (\<exists>err. HTTPTransportOptions D c = Inl err)"
  unfolding HTTPTransportOptions_error_iff by (rule ValidateProxySettings_HasError)

text \<open>C12: In legacy mode the warning that the HTTP proxy will be used for HTTPS requests is given
  exactly when the transport then does so for want of any HTTPS proxy setting: with the warning
  the HTTPS proxy is the HTTP proxy; without it, it is the configured one or else the one of the
  environment. \<open>FromEnvironment\<close> is assumed to read \<open>HTTPS_PROXY\<close>, then \<open>https_proxy\<close>.\<close>

theorem legacy_proxy_warning_truthful:
  assumes env: "px_HTTPSProxy (hd_FromEnvironment D getenv) =
      (if getenv ''HTTPS_PROXY'' \<noteq> [] then getenv ''HTTPS_PROXY'' else getenv ''https_proxy'')"
    and mode: "c_HTTPProxyMode c = HTTPProxyModeLegacy"
    and http: "c_HTTPProxy c = Some p" "p \<noteq> []" "hd_Parse D p = Inr u"
    and opts: "HTTPTransportOptions D c = Inr opts"
  shows "\<exists>pc. tr_Proxy (opts getenv tr) = Some pc \<and> px_HTTPProxy pc = hd_String D u \<and>
    (if missingHttpsProxyLegacyWarningDiag quote p \<in> set (ValidateProxySettings D dep quote getenv c [])
     then px_HTTPSProxy pc = hd_String D u
     else (\<exists>q v. c_HTTPSProxy c = Some q \<and> hd_Parse D q = Inr v \<and> px_HTTPSProxy pc = hd_String D v) \<or>
          (px_HTTPSProxy pc \<noteq> [] \<and> px_HTTPSProxy pc = px_HTTPSProxy (hd_FromEnvironment D getenv)))"
proof (cases "c_HTTPSProxy c")
  case None
  then have pc: "tr_Proxy (opts getenv tr) = Some (proxy_config D getenv c (Some u) None)"
    using opts http by (auto simp: HTTPTransportOptions_def parse_proxy_def Let_def)
  have "missingHttpsProxyLegacyWarningDiag quote p \<in> set (ValidateProxySettings D dep quote getenv c []) \<longleftrightarrow>
      getenv ''HTTPS_PROXY'' = [] \<and> getenv ''https_proxy'' = []"
    using None http mode by (simp add: ValidateProxySettings_def check_proxy_url_def)
  with pc env mode show ?thesis by (auto simp: proxy_config_def Let_def)
next
  case (Some q)
  then obtain v where q: "hd_Parse D q = Inr v"
    and pc: "tr_Proxy (opts getenv tr) = Some (proxy_config D getenv c (Some u) (Some v))"
    using opts http by (auto simp: HTTPTransportOptions_def parse_proxy_def Let_def split: sum.splits)
  have "ValidateProxySettings D dep quote getenv c [] = []"
    using Some q http by (simp add: ValidateProxySettings_def check_proxy_url_def)
  with pc q Some mode show ?thesis by (auto simp: proxy_config_def Let_def)
qed

definition sample_http_deps :: "string http_deps" where
  "sample_http_deps =
     \<lparr>hd_Parse = Inr, hd_String = (\<lambda>u. u),
      hd_FromEnvironment = (\<lambda>getenv.
        \<lparr>px_HTTPProxy = getenv ''HTTP_PROXY'',
         px_HTTPSProxy = (if getenv ''HTTPS_PROXY'' \<noteq> [] then getenv ''HTTPS_PROXY''
                          else getenv ''https_proxy''),
         px_NoProxy = getenv ''NO_PROXY'', px_CGI = False\<rparr>),
      hd_DefaultMaxIdleConnsPerHost = 10\<rparr>"

definition sample_proxy_Config :: Config where
  "sample_proxy_Config = zero_Config\<lparr>c_HTTPProxy := Some ''http://proxy''\<rparr>"

lemma legacy_proxy_warning_truthful_witness:
  "\<exists>opts pc. HTTPTransportOptions sample_http_deps sample_proxy_Config = Inr opts \<and>
     tr_Proxy (opts (\<lambda>_. []) \<lparr>tr_MaxIdleConnsPerHost = 0, tr_TLSClientConfig = None, tr_Proxy = None\<rparr>) = Some pc \<and>
     px_HTTPSProxy pc = ''http://proxy''"
proof -
  obtain opts :: "env \<Rightarrow> Transport \<Rightarrow> Transport"
    where opts: "HTTPTransportOptions sample_http_deps sample_proxy_Config = Inr opts"
    by (simp add: HTTPTransportOptions_def parse_proxy_def sample_http_deps_def
        sample_proxy_Config_def zero_Config_def)
  have warn: "missingHttpsProxyLegacyWarningDiag id ''http://proxy'' \<in>
      set (ValidateProxySettings sample_http_deps (\<lambda>_. []) id (\<lambda>_. []) sample_proxy_Config [])"
    by (simp add: ValidateProxySettings_def check_proxy_url_def sample_http_deps_def
        sample_proxy_Config_def zero_Config_def)
  have facts: "c_HTTPProxyMode sample_proxy_Config = HTTPProxyModeLegacy"
    "c_HTTPProxy sample_proxy_Config = Some ''http://proxy''"
    "hd_Parse sample_http_deps = Inr" "hd_String sample_http_deps = (\<lambda>u. u)"
    "px_HTTPSProxy (hd_FromEnvironment sample_http_deps (\<lambda>_. [])) = []"
    by (simp_all add: sample_http_deps_def sample_proxy_Config_def zero_Config_def)
  show ?thesis
    using legacy_proxy_warning_truthful [of sample_http_deps "\<lambda>_. []" sample_proxy_Config
        "''http://proxy''" "''http://proxy''" opts
        "\<lparr>tr_MaxIdleConnsPerHost = 0, tr_TLSClientConfig = None, tr_Proxy = None\<rparr>" id "\<lambda>_. []"] opts warn
    by (auto simp: facts)
qed

text \<open>Applying the options never lowers the transport's security settings on its own: the
  result has a TLS configuration; verification is off only if the configuration says so or it was
  off before; a minimum version that was set is kept and one that was not is TLS 1.2.\<close>

theorem HTTPTransportOptions_TLS:
  assumes "HTTPTransportOptions D c = Inr opts"
  shows "\<exists>t. tr_TLSClientConfig (opts getenv tr) = Some t \<and>
    (tls_InsecureSkipVerify t \<longleftrightarrow>
       c_Insecure c \<or> (\<exists>t0. tr_TLSClientConfig tr = Some t0 \<and> tls_InsecureSkipVerify t0)) \<and>
    tls_MinVersion t = (case tr_TLSClientConfig tr of None \<Rightarrow> VersionTLS12 | Some t0 \<Rightarrow> tls_MinVersion t0)"
  using assms
  by (auto simp: HTTPTransportOptions_def Let_def split: sum.splits option.splits)

lemma HTTPTransportOptions_TLS_witness:
  "\<exists>opts t. HTTPTransportOptions sample_http_deps (zero_Config\<lparr>c_Insecure := True\<rparr>) = Inr opts \<and>
     tr_TLSClientConfig (opts (\<lambda>_. []) \<lparr>tr_MaxIdleConnsPerHost = 0, tr_TLSClientConfig = None, tr_Proxy = None\<rparr>) = Some t \<and>
     tls_InsecureSkipVerify t \<and> tls_MinVersion t = 0x0303"
proof -
  obtain opts :: "env \<Rightarrow> Transport \<Rightarrow> Transport"
    where opts: "HTTPTransportOptions sample_http_deps (zero_Config\<lparr>c_Insecure := True\<rparr>) = Inr opts"
    by (simp add: HTTPTransportOptions_def parse_proxy_def sample_http_deps_def zero_Config_def)
  show ?thesis
    using HTTPTransportOptions_TLS [OF opts, of "\<lambda>_. []"
        "\<lparr>tr_MaxIdleConnsPerHost = 0, tr_TLSClientConfig = None, tr_Proxy = None\<rparr>"] opts
    by (auto simp: VersionTLS12_def zero_Config_def)
qed

end
