(* ===== verification/HttpLog.thy ===== *)
theory HttpLog
  imports Complex_Main Mask GoError
begin

text \<open>
  Logging of HTTP requests and responses (\<open>logging/http.go\<close>): request headers become
  attributes with the credentials taken out, bodies are read line by line up to a limit and masked,
  S3 object bodies are replaced by their size. The semantic convention functions of the telemetry
  library and the number formats of \<open>x/text\<close> are parameters.
\<close>

section \<open>Attributes\<close>

datatype attr_value = AStr string | AInt int | ABool bool | AStrs "string list"

type_synonym KeyValue = "string \<times> attr_value"

text \<open>\<open>AsStringSlice\<close> is nil for a value of another kind; only an empty string emits as one.\<close>

fun AsStringSlice :: "attr_value \<Rightarrow> string list" where
  "AsStringSlice (AStrs ss) = ss"
| "AsStringSlice _ = []"

definition Emit_empty :: "attr_value \<Rightarrow> bool" where
  "Emit_empty v \<longleftrightarrow> v = AStr []"

definition cleanUpHeaderAttributes :: "KeyValue list \<Rightarrow> KeyValue list" where
  "cleanUpHeaderAttributes attrs =
     map (\<lambda>(k, v). case AsStringSlice v of [s] \<Rightarrow> (k, AStr s) | _ \<Rightarrow> (k, v)) attrs"

definition normalizeHeaderName :: "string \<Rightarrow> string" where
  "normalizeHeaderName k =
     map (\<lambda>c. if c = CHR ''-'' then CHR ''_'' else c) (map to_lower (CanonicalHeaderKey k))"

definition requestHeaderAttributeName :: "string \<Rightarrow> string" where
  "requestHeaderAttributeName k = ''http.request.header.'' @ normalizeHeaderName k"

definition responseHeaderAttributeName :: "string \<Rightarrow> string" where
  "responseHeaderAttributeName k = ''http.response.header.'' @ normalizeHeaderName k"

definition RequestHeaderAttributeKey :: "string \<Rightarrow> string" where
  "RequestHeaderAttributeKey k = requestHeaderAttributeName k"

definition ResponseHeaderAttributeKey :: "string \<Rightarrow> string" where
  "ResponseHeaderAttributeKey k = responseHeaderAttributeName k"

section \<open>Splitting by expressions\<close>

text \<open>The leftmost match: its position and length.\<close>

fun rx_find :: "rx \<Rightarrow> string \<Rightarrow> (nat \<times> nat) option" where
  "rx_find r [] = map_option (Pair 0) (rx_first r [])"
| "rx_find r (c # s) =
     (case rx_first r (c # s) of
        Some n \<Rightarrow> Some (0, n)
      | None \<Rightarrow> map_option (\<lambda>(i, n). (Suc i, n)) (rx_find r s))"

lemma rx_find_le: "rx_find r s = Some (i, n) \<Longrightarrow> i + n \<le> length s"
proof (induction s arbitrary: i)
  case (Cons c s)
  then show ?case
    by (auto dest: rx_first_Some split: option.splits)
qed (auto dest: rx_first_Some)

text \<open>\<open>Regexp.Split(s, 2)\<close> and \<open>Regexp.Split(s, -1)\<close> for an expression without empty matches.\<close>

definition rx_Split2 :: "rx \<Rightarrow> string \<Rightarrow> string list" where
  "rx_Split2 r s = (case rx_find r s of None \<Rightarrow> [s] | Some (i, n) \<Rightarrow> [take i s, drop (i + n) s])"

function rx_Split :: "rx \<Rightarrow> string \<Rightarrow> string list" where
  "rx_Split r s =
     (case rx_find r s of
        None \<Rightarrow> [s]
      | Some (i, n) \<Rightarrow> if n = 0 then [s] else take i s # rx_Split r (drop (i + n) s))"
  by pat_completeness auto
termination
  by (relation "measure (\<lambda>(r, s). length s)") (auto dest!: rx_find_le)

declare rx_Split.simps [simp del]

text \<open>\<open>strings.SplitAfterN(s, "=", 2)\<close>.\<close>

definition SplitAfter2 :: "char \<Rightarrow> string \<Rightarrow> string list" where
  "SplitAfter2 sep s =
     (let a = takeWhile (\<lambda>c. c \<noteq> sep) s in
      if a = s then [s] else [a @ [sep], drop (length a + 1) s])"

section \<open>Request headers\<close>

text \<open>
  One component of the \<open>AWS4\<close> parameters: \<open>parts[1]\<close> panics when the component has no equals sign.
\<close>

definition auth_component :: "string \<Rightarrow> string go" where
  "auth_component component =
     (case SplitAfter2 CHR ''='' component of
        [name, val] \<Rightarrow>
          Ret (name @ (if name \<noteq> ''SignedHeaders='' \<and> name \<noteq> ''Credential='' then ''*****'' else val))
      | _ \<Rightarrow> Panic ''index out of range'')"

fun auth_components :: "string list \<Rightarrow> string \<Rightarrow> string go" where
  "auth_components [] builder = Ret builder"
| "auth_components (c # cs) builder =
     go_bind (auth_component c) (\<lambda>t.
       auth_components cs (builder @ t @ (if cs = [] then [] else '', '')))"

definition spaces_rx :: rx where "spaces_rx = Plus space_class"
definition comma_spaces_rx :: rx where "comma_spaces_rx = Seq (Lit '','') (Plus space_class)"

definition authorizationHeaderAttribute :: "string \<Rightarrow> KeyValue option go" where
  "authorizationHeaderAttribute v =
     (case rx_Split2 spaces_rx v of
        [scheme, params] \<Rightarrow>
          (if scheme = [] \<or> params = [] then Ret None
           else
             (let key = requestHeaderAttributeName ''Authorization'' in
              if HasPrefix scheme ''AWS4-'' then
                go_bind (auth_components (rx_Split comma_spaces_rx params) []) (\<lambda>b.
                go_bind (MaskAWSSensitiveValues b) (\<lambda>m. Ret (Some (key, AStr (scheme @ '' '' @ m)))))
              else Ret (Some (key, AStr (scheme @ '' '' @ replicate (length params) CHR ''*'')))))
      | _ \<Rightarrow> Ret None)"

text \<open>\<open>strconv.Atoi\<close> of a string of digits on a 64-bit platform.\<close>

definition digits_val :: "string \<Rightarrow> nat" where
  "digits_val s = foldl (\<lambda>n c. 10 * n + (of_char c - 48)) 0 s"

definition Atoi_digits :: "string \<Rightarrow> int option" where
  "Atoi_digits s = (if digits_val s < 2 ^ 63 then Some (int (digits_val s)) else None)"

definition attempt_rx :: rx where
  "attempt_rx = Seq (Lit ''attempt='') (Seq (Plus digit_class) (Lit '';''))"

text \<open>The group of the leftmost match is what lies between \<open>attempt=\<close> and the semicolon.\<close>

definition resendCountAttribute :: "string \<Rightarrow> KeyValue option" where
  "resendCountAttribute v =
     (case rx_find attempt_rx v of
        None \<Rightarrow> None
      | Some (i, n) \<Rightarrow>
          (case Atoi_digits (take (n - 9) (drop (i + 8) v)) of
             None \<Rightarrow> None
           | Some attempt \<Rightarrow> if attempt > 1 then Some (''http.resend_count'', AInt attempt) else None))"

text \<open>\<open>RequestHeader\<close> and \<open>ResponseHeader\<close> are the functions of package \<open>httpconv\<close>.\<close>

fun opt_list :: "'a option \<Rightarrow> 'a list" where
  "opt_list None = []"
| "opt_list (Some x) = [x]"

definition decomposeRequestHeaders :: "(Header \<Rightarrow> KeyValue list) \<Rightarrow> Header \<Rightarrow> KeyValue list go" where
  "decomposeRequestHeaders RequestHeader h =
     (let header = header_Del (header_Del h ''Content-Length'') ''User-Agent'';
          attempt = header_Values header ''Amz-Sdk-Request'';
          results = (case attempt of [] \<Rightarrow> [] | a # _ \<Rightarrow> opt_list (resendCountAttribute a));
          auth = header_Values header ''Authorization''
      in go_bind (case auth of [] \<Rightarrow> Ret None | a # _ \<Rightarrow> authorizationHeaderAttribute a) (\<lambda>authHeader.
         (let results = results @ opt_list authHeader;
              header = header_Del header ''Authorization'';
              securityToken = header_Values header ''X-Amz-Security-Token'';
              results = (if securityToken \<noteq> []
                         then results @ [(requestHeaderAttributeName ''X-Amz-Security-Token'', AStr ''*****'')]
                         else results);
              header = header_Del header ''X-Amz-Security-Token'';
              results = results @ RequestHeader header
          in Ret (cleanUpHeaderAttributes results))))"

definition DecomposeResponseHeaders :: "(Header \<Rightarrow> KeyValue list) \<Rightarrow> Header \<Rightarrow> KeyValue list" where
  "DecomposeResponseHeaders ResponseHeader h =
     cleanUpHeaderAttributes (ResponseHeader (header_Del h ''Content-Length''))"

section \<open>Bodies\<close>

text \<open>
  A \<open>textproto.Reader\<close>: the bytes left and the error behind them, \<open>None\<close> for \<open>io.EOF\<close>.
  \<open>ReadLine\<close> strips the line end; bytes behind the last line end are a line of their own.
\<close>

record reader =
  rd_bytes :: bytes
  rd_err :: "go_error option"

definition strip_cr :: "string \<Rightarrow> string" where
  "strip_cr l = (if l \<noteq> [] \<and> last l = CHR 0x0D then butlast l else l)"

definition ReadLine :: "bytes \<Rightarrow> (string \<times> bytes) option" where
  "ReadLine bs =
     (if bs = [] then None
      else
        (let l = takeWhile (\<lambda>c. c \<noteq> CHR 0x0A) bs in
         if length l < length bs then Some (strip_cr l, drop (length l + 1) bs) else Some (bs, [])))"

lemma ReadLine_shorter: "ReadLine bs = Some (l, rest) \<Longrightarrow> length rest < length bs"
  by (auto simp: ReadLine_def Let_def split: if_splits)

text \<open>The loop of \<open>ReadTruncatedBody\<close>: the builder, or the error of the reader.\<close>

function read_lines :: "bytes \<Rightarrow> go_error option \<Rightarrow> nat \<Rightarrow> string \<Rightarrow> go_error + string" where
  "read_lines bs err limit builder =
     (case ReadLine bs of
        None \<Rightarrow> (case err of None \<Rightarrow> Inr builder | Some e \<Rightarrow> Inl e)
      | Some (line, rest) \<Rightarrow>
          (let builder = builder @ line @ [CHR 0x0A] in
           if length builder \<ge> limit then Inr (builder @ ''[truncated...]'')
           else read_lines rest err limit builder))"
  by pat_completeness auto
termination
  by (relation "measure (\<lambda>(bs, _). length bs)") (auto dest: ReadLine_shorter)

declare read_lines.simps [simp del]

definition ReadTruncatedBody :: "reader \<Rightarrow> nat \<Rightarrow> (go_error + string) go" where
  "ReadTruncatedBody r limit =
     (case read_lines (rd_bytes r) (rd_err r) limit [] of
        Inl e \<Rightarrow> Ret (Inl e)
      | Inr body \<Rightarrow> go_bind (MaskAWSSensitiveValues body) (\<lambda>m. Ret (Inr m)))"

definition maxRequestBodyLen :: nat where "maxRequestBodyLen = 1024"
definition MaxResponseBodyLen :: nat where "MaxResponseBodyLen = 4096"

text \<open>
  \<open>formatByteSize\<close>: the size as a float, exact after \<open>float64\<close> since the divisions are by
  powers of two. The printer's formats \<open>%d\<close> and \<open>%.1f\<close> and the conversion are parameters.
\<close>

record num_format =
  nf_d :: "int \<Rightarrow> string"
  nf_f1 :: "rat \<Rightarrow> string"
  nf_float64 :: "int \<Rightarrow> rat"

fun unit_loop :: "rat \<Rightarrow> string \<Rightarrow> string list \<Rightarrow> rat \<times> string" where
  "unit_loop sizef unit [] = (sizef, unit)"
| "unit_loop sizef unit (u # us) =
     (if sizef < 1024 then (sizef, u) else unit_loop (sizef / 1024) u us)"

definition formatByteSize :: "num_format \<Rightarrow> int \<Rightarrow> string" where
  "formatByteSize P n =
     (if n \<le> 1536 then nf_d P n @ '' bytes''
      else
        (let (sizef, unit) = unit_loop (nf_float64 P n / 1024) [] [''KB'', ''MB'', ''GB''] in
         nf_f1 P sizef @ '' '' @ unit @ '' ('' @ nf_d P n @ '' bytes)''))"

definition s3BodyRedacted :: "num_format \<Rightarrow> int \<Rightarrow> string \<Rightarrow> string" where
  "s3BodyRedacted P len contentType =
     ''[Redacted: '' @ formatByteSize P len @
     (if contentType \<noteq> [] then '', Type: '' @ contentType else []) @ '']''"

datatype body = NilBody | NoBody | Body handle

record request =
  rq_Header :: Header
  rq_Body :: body
  rq_ContentLength :: int

record response =
  rs_Header :: Header
  rs_ContentLength :: int

definition outgoingLength :: "request \<Rightarrow> int" where
  "outgoingLength req =
     (if rq_Body req = NilBody \<or> rq_Body req = NoBody then 0
      else if rq_ContentLength req \<noteq> 0 then rq_ContentLength req
      else -1)"

text \<open>
  \<open>defaultRequestBodyLogger.Log\<close>: \<open>Dump\<close> is \<open>httputil.DumpRequestOut\<close>, and \<open>ReadMIMEHeader\<close>
  gives the bytes behind the header or the parse error. A missing first line is \<open>io.EOF\<close>.
\<close>

type_synonym body_result = "(go_error + KeyValue list) go"

definition defaultRequestBodyLogger_Log ::
    "(request \<Rightarrow> go_error + bytes) \<Rightarrow> (bytes \<Rightarrow> go_error + bytes) \<Rightarrow>
     request \<Rightarrow> KeyValue list \<Rightarrow> body_result" where
  "defaultRequestBodyLogger_Log Dump ReadMIMEHeader req attrs =
     (case Dump req of
        Inl err \<Rightarrow> Ret (Inl err)
      | Inr reqBytes \<Rightarrow>
          (case ReadLine reqBytes of
             None \<Rightarrow> Ret (Inl (ErrorString ''EOF''))
           | Some (_, bs) \<Rightarrow>
               (case ReadMIMEHeader bs of
                  Inl err \<Rightarrow> Ret (Inl err)
                | Inr bs \<Rightarrow>
                    go_bind (ReadTruncatedBody \<lparr>rd_bytes = bs, rd_err = None\<rparr> maxRequestBodyLen)
                      (\<lambda>r. case r of
                             Inl err \<Rightarrow> Ret (Inl err)
                           | Inr body \<Rightarrow> Ret (Inr (attrs @ [(''http.request.body'', AStr body)]))))))"

definition s3ObjectRequestBodyLogger_Log ::
    "num_format \<Rightarrow> request \<Rightarrow> KeyValue list \<Rightarrow> body_result" where
  "s3ObjectRequestBodyLogger_Log P req attrs =
     Ret (Inr (attrs @
       [(''http.request.body'',
         AStr (s3BodyRedacted P (outgoingLength req) (header_Get (rq_Header req) ''Content-Type'')))]))"

definition S3ObjectResponseBodyLogger_Log ::
    "num_format \<Rightarrow> response \<Rightarrow> KeyValue list \<Rightarrow> body_result" where
  "S3ObjectResponseBodyLogger_Log P resp attrs =
     Ret (Inr (attrs @
       [(''http.response.body'',
         AStr (s3BodyRedacted P (rs_ContentLength resp) (header_Get (rs_Header resp) ''Content-Type'')))]))"

text \<open>What the log functions take from libraries, and the operation a context names.\<close>

record http_log_deps =
  hl_ClientRequest :: "request \<Rightarrow> KeyValue list"
  hl_RequestHeader :: "Header \<Rightarrow> KeyValue list"
  hl_Dump :: "request \<Rightarrow> go_error + bytes"
  hl_ReadMIMEHeader :: "bytes \<Rightarrow> go_error + bytes"
  hl_format :: num_format

record op_context =
  oc_ServiceID :: string
  oc_OperationName :: string

definition is_s3_upload :: "op_context \<Rightarrow> bool" where
  "is_s3_upload ctx \<longleftrightarrow>
     oc_ServiceID ctx = ''S3'' \<and> (oc_OperationName ctx = ''PutObject'' \<or> oc_OperationName ctx = ''UploadPart'')"

definition requestBodyLogger ::
    "http_log_deps \<Rightarrow> op_context \<Rightarrow> request \<Rightarrow> KeyValue list \<Rightarrow> body_result" where
  "requestBodyLogger D ctx =
     (if is_s3_upload ctx then s3ObjectRequestBodyLogger_Log (hl_format D)
      else defaultRequestBodyLogger_Log (hl_Dump D) (hl_ReadMIMEHeader D))"

definition result_map :: "KeyValue list \<Rightarrow> string \<rightharpoonup> attr_value" where
  "result_map attrs = foldl (\<lambda>m (k, v). m(k \<mapsto> v)) Map.empty attrs"

definition DecomposeHTTPRequest ::
    "http_log_deps \<Rightarrow> op_context \<Rightarrow> request \<Rightarrow> (go_error + (string \<rightharpoonup> attr_value)) go" where
  "DecomposeHTTPRequest D ctx req =
     (let attributes = filter (\<lambda>(k, v). k \<noteq> ''http.flavor'' \<or> \<not> Emit_empty v) (hl_ClientRequest D req)
      in go_bind (decomposeRequestHeaders (hl_RequestHeader D) (rq_Header req)) (\<lambda>hs.
         go_bind (requestBodyLogger D ctx req (attributes @ hs)) (\<lambda>r.
           case r of Inl err \<Rightarrow> Ret (Inl err) | Inr attributes \<Rightarrow> Ret (Inr (result_map attributes)))))"

section \<open>Splitting, computed\<close>

definition is_space :: "char \<Rightarrow> bool" where
  "is_space c \<longleftrightarrow> in_class [(CHR 0x09, CHR 0x0A), (CHR 0x0C, CHR 0x0D), (CHR '' '', CHR '' '')] c"

lemma rx_first_spaces:
  "rx_first spaces_rx s =
     (case s of [] \<Rightarrow> None
      | c # t \<Rightarrow> if is_space c then Some (Suc (length (takeWhile is_space t))) else None)"
proof -
  have "is_space = in_class [(CHR 0x09, CHR 0x0A), (CHR 0x0C, CHR 0x0D), (CHR '' '', CHR '' '')]"
    by (rule ext) (simp add: is_space_def)
  then show ?thesis
    by (simp add: spaces_rx_def space_class_def Plus_def rx_first_Seq_Cls rx_first_Star_Cls
        split: list.split)
qed

lemma rx_find_spaces:
  "list_all (\<lambda>c. \<not> is_space c) a \<Longrightarrow> is_space c \<Longrightarrow>
     rx_find spaces_rx (a @ c # b) = Some (length a, Suc (length (takeWhile is_space b)))"
  by (induction a) (simp_all add: rx_first_spaces)

lemma rx_Split2_spaces:
  assumes "list_all (\<lambda>c. \<not> is_space c) a" and "b = [] \<or> \<not> is_space (hd b)"
  shows "rx_Split2 spaces_rx (a @ '' '' @ b) = [a, b]"
proof -
  have "takeWhile is_space b = []" using assms(2) by (cases b) auto
  moreover have "is_space CHR '' ''" by code_simp
  ultimately show ?thesis
    using rx_find_spaces [OF assms(1), of "CHR '' ''" b] by (simp add: rx_Split2_def)
qed

lemma rx_first_comma_spaces:
  "rx_first comma_spaces_rx s =
     (case s of [] \<Rightarrow> None
      | c # t \<Rightarrow> if c = CHR '','' then map_option Suc (rx_first spaces_rx t) else None)"
  by (simp add: comma_spaces_rx_def spaces_rx_def rx_first_Seq_Cls split: list.split)

lemma rx_find_comma_none: "list_all (\<lambda>c. \<not> is_space c) a \<Longrightarrow> rx_find comma_spaces_rx a = None"
proof (induction a)
  case (Cons c a)
  then have "rx_first spaces_rx a = None" by (cases a) (simp_all add: rx_first_spaces)
  with Cons show ?case by (simp add: rx_first_comma_spaces)
qed (simp add: rx_first_comma_spaces)

lemma rx_find_comma:
  assumes "list_all (\<lambda>c. \<not> is_space c) a" and "b = [] \<or> \<not> is_space (hd b)"
  shows "rx_find comma_spaces_rx (a @ '', '' @ b) = Some (length a, 2)"
  using assms(1)
proof (induction a)
  case Nil
  have "takeWhile is_space b = []" using assms(2) by (cases b) auto
  moreover have "is_space CHR '' ''" by code_simp
  ultimately show ?case by (simp add: rx_first_comma_spaces rx_first_spaces)
next
  case (Cons c a)
  then have "rx_first spaces_rx (a @ '', '' @ b) = None"
    by (cases a) (auto simp: rx_first_spaces is_space_def in_class_def less_eq_char_def)
  then have "rx_first comma_spaces_rx (c # a @ '', '' @ b) = None"
    by (simp add: rx_first_comma_spaces)
  with Cons show ?case by simp
qed

lemma rx_Split_comma:
  "list_all (\<lambda>c. \<not> is_space c) a \<Longrightarrow> b = [] \<or> \<not> is_space (hd b) \<Longrightarrow>
     rx_Split comma_spaces_rx (a @ '', '' @ b) = a # rx_Split comma_spaces_rx b"
  using rx_find_comma [of a b] by (subst rx_Split.simps) simp

lemma rx_Split_comma_none: "list_all (\<lambda>c. \<not> is_space c) a \<Longrightarrow> rx_Split comma_spaces_rx a = [a]"
  by (subst rx_Split.simps) (simp add: rx_find_comma_none)

text \<open>Components without white space come back from the text that joins them.\<close>

definition spaceless :: "string \<Rightarrow> bool" where
  "spaceless s \<longleftrightarrow> s \<noteq> [] \<and> list_all (\<lambda>c. \<not> is_space c) s"

lemma spaceless_hd: "spaceless s \<Longrightarrow> \<not> is_space (hd (s @ t))"
  by (cases s) (auto simp: spaceless_def)

lemma rx_Split_Join:
  "cs \<noteq> [] \<Longrightarrow> list_all spaceless cs \<Longrightarrow> rx_Split comma_spaces_rx (Join '', '' cs) = cs"
proof (induction cs rule: induct_list012)
  case (2 c)
  then show ?case by (simp add: rx_Split_comma_none spaceless_def)
next
  case (3 c d cs)
  then have "\<not> is_space (hd (Join '', '' (d # cs)))"
    using spaceless_hd [of d] by (cases cs) (auto simp: spaceless_def)
  with 3 rx_Split_comma [of c "Join '', '' (d # cs)"] show ?case by (simp add: spaceless_def)
qed simp

lemma SplitAfter2_eq: "sep \<notin> set a \<Longrightarrow> SplitAfter2 sep (a @ sep # b) = [a @ [sep], b]"
proof -
  assume "sep \<notin> set a"
  then have "takeWhile (\<lambda>c. c \<noteq> sep) (a @ sep # b) = a" by (induction a) auto
  then show ?thesis by (simp add: SplitAfter2_def)
qed

lemma SplitAfter2_none: "sep \<notin> set a \<Longrightarrow> SplitAfter2 sep a = [a]"
proof -
  assume "sep \<notin> set a"
  then have "takeWhile (\<lambda>c. c \<noteq> sep) a = a" by (induction a) auto
  then show ?thesis by (simp add: SplitAfter2_def)
qed

section \<open>Body loggers\<close>

text \<open>
  What a body logger promises: on success it appends one attribute under its key, with a text
  that is fit to be logged for the message.
\<close>

locale body_logger =
  fixes Log :: "'m \<Rightarrow> KeyValue list \<Rightarrow> body_result"
    and key :: string
    and fit :: "'m \<Rightarrow> string \<Rightarrow> bool"
  assumes Log_appends: "Log m as = Ret (Inr as') \<Longrightarrow> \<exists>b. as' = as @ [(key, AStr b)] \<and> fit m b"
begin

lemma result_body: "Log m as = Ret (Inr as') \<Longrightarrow> \<exists>b. result_map as' key = Some (AStr b) \<and> fit m b"
  by (auto dest!: Log_appends simp: result_map_def)

lemma result_others: "Log m as = Ret (Inr as') \<Longrightarrow> k \<noteq> key \<Longrightarrow> result_map as' k = result_map as k"
  by (auto dest!: Log_appends simp: result_map_def)

end

text \<open>A text that masking has gone over.\<close>

definition masked :: "string \<Rightarrow> bool" where
  "masked s \<longleftrightarrow> \<not> rx_search UniqueIDRegex s \<and> 40 \<notin> set (b64_runs s)"

lemma masked_output: "MaskAWSSensitiveValues s = Ret out \<Longrightarrow> masked out \<and> length out = length s"
  using masked_no_unique_id [of s] secret_spec_runs [of "mask_ids s"]
    starred_length [OF starred_trans [OF mask_ids_starred [of s] secret_spec_starred]]
  by (auto simp: MaskAWSSensitiveValues_eq masked_def)

lemma MaskAWSSensitiveValues_Ret: "\<exists>out. MaskAWSSensitiveValues s = Ret out"
  by (simp add: MaskAWSSensitiveValues_eq)

lemma ReadTruncatedBody_masked: "ReadTruncatedBody r limit = Ret (Inr out) \<Longrightarrow> masked out"
  using masked_output MaskAWSSensitiveValues_Ret
  by (auto simp: ReadTruncatedBody_def split: sum.splits) (metis go_bind.simps(2) go.inject(2) sum.inject(2))

interpretation default_body: body_logger "defaultRequestBodyLogger_Log Dump ReadMIMEHeader"
    "''http.request.body''" "\<lambda>req. masked" for Dump ReadMIMEHeader
proof unfold_locales
  fix m as as'
  assume l: "defaultRequestBodyLogger_Log Dump ReadMIMEHeader m as = Ret (Inr as')"
  have "\<exists>b r. ReadTruncatedBody r maxRequestBodyLen = Ret (Inr b) \<and> as' = as @ [(''http.request.body'', AStr b)]"
  proof -
    obtain bs where "go_bind (ReadTruncatedBody \<lparr>rd_bytes = bs, rd_err = None\<rparr> maxRequestBodyLen)
        (\<lambda>r. case r of Inl err \<Rightarrow> Ret (Inl err)
              | Inr body \<Rightarrow> Ret (Inr (as @ [(''http.request.body'', AStr body)]))) = Ret (Inr as')"
      using l by (auto simp: defaultRequestBodyLogger_Log_def split: sum.splits option.splits)
    then show ?thesis
      by (cases "ReadTruncatedBody \<lparr>rd_bytes = bs, rd_err = None\<rparr> maxRequestBodyLen")
         (auto split: sum.splits)
  qed
  with ReadTruncatedBody_masked show "\<exists>b. as' = as @ [(''http.request.body'', AStr b)] \<and> masked b"
    by blast
qed

interpretation s3_request_body: body_logger "s3ObjectRequestBodyLogger_Log P" "''http.request.body''"
    "\<lambda>req b. b = s3BodyRedacted P (outgoingLength req) (header_Get (rq_Header req) ''Content-Type'')" for P
  by unfold_locales (simp add: s3ObjectRequestBodyLogger_Log_def)

interpretation s3_response_body: body_logger "S3ObjectResponseBodyLogger_Log P" "''http.response.body''"
    "\<lambda>resp b. b = s3BodyRedacted P (rs_ContentLength resp) (header_Get (rs_Header resp) ''Content-Type'')" for P
  by unfold_locales (simp add: S3ObjectResponseBodyLogger_Log_def)

section \<open>Line reading\<close>

definition longest_line :: "bytes \<Rightarrow> nat" where
  "longest_line bs = Max (set (map length (Split1 CHR 0x0A bs)))"

lemma Split1_takeWhile: "hd (Split1 sep s) = takeWhile (\<lambda>c. c \<noteq> sep) s"
  by (induction s) (auto split: list.splits)

lemma Split1_drop:
  "length (takeWhile (\<lambda>c. c \<noteq> sep) s) < length s \<Longrightarrow>
     Split1 sep s = takeWhile (\<lambda>c. c \<noteq> sep) s # Split1 sep (drop (length (takeWhile (\<lambda>c. c \<noteq> sep) s) + 1) s)"
  by (induction s) (auto split: list.splits)

lemma ReadLine_length:
  assumes "ReadLine bs = Some (l, rest)"
  shows "length l \<le> longest_line bs" and "longest_line rest \<le> longest_line bs"
proof -
  let ?t = "takeWhile (\<lambda>c. c \<noteq> CHR 0x0A) bs"
  have strip: "length (strip_cr x) \<le> length x" for x by (simp add: strip_cr_def)
  have mem: "?t \<in> set (Split1 CHR 0x0A bs)"
    unfolding Split1_takeWhile [symmetric] by (rule hd_in_set) simp
  then have t: "length ?t \<le> longest_line bs" by (simp add: longest_line_def)
  have "length l \<le> longest_line bs \<and> longest_line rest \<le> longest_line bs"
  proof (cases "length ?t < length bs")
    case True
    then have "l = strip_cr ?t" "rest = drop (length ?t + 1) bs"
      using assms by (auto simp: ReadLine_def Let_def split: if_splits)
    moreover have "longest_line (drop (length ?t + 1) bs) \<le> longest_line bs"
      unfolding longest_line_def Split1_drop [OF True] by (intro Max_mono) auto
    ultimately show ?thesis using t strip [of ?t] by simp
  next
    case False
    then have tb: "?t = bs" by (metis length_takeWhile_le le_neq_implies_less takeWhile_eq_all_conv
          takeWhile_eq_take take_all_iff linorder_not_le)
    have "length bs \<le> longest_line bs" using t unfolding tb .
    moreover have "l = bs" "rest = []"
      using False assms by (auto simp: ReadLine_def Let_def split: if_splits)
    moreover have "longest_line [] = 0" by (simp add: longest_line_def)
    ultimately show ?thesis by simp
  qed
  then show "length l \<le> longest_line bs" and "longest_line rest \<le> longest_line bs" by auto
qed

lemma read_lines_result:
  "length builder < limit + longest_line bs + 16 \<Longrightarrow>
   (case read_lines bs err limit builder of
      Inl e \<Rightarrow> err = Some e
    | Inr out \<Rightarrow> length out < limit + longest_line bs + 16)" if "length builder \<le> limit"
  using that
proof (induction bs err limit builder rule: read_lines.induct)
  case (1 bs err limit builder)
  show ?case
  proof (cases "ReadLine bs")
    case None
    with "1.prems" show ?thesis by (subst read_lines.simps) (simp split: option.split)
  next
    case (Some lr)
    obtain line rest where lr: "lr = (line, rest)" by (cases lr)
    note len = ReadLine_length [OF Some [unfolded lr]]
    let ?b = "builder @ line @ [CHR 0x0A]"
    show ?thesis
    proof (cases "length ?b \<ge> limit")
      case True
      with Some lr len(1) "1.prems" show ?thesis by (subst read_lines.simps) (simp add: Let_def)
    next
      case False
      then have "case read_lines rest err limit ?b of Inl e \<Rightarrow> err = Some e
          | Inr out \<Rightarrow> length out < limit + longest_line rest + 16"
        using "1.IH" [OF Some lr [symmetric] refl False] by simp
      then have "case read_lines rest err limit ?b of Inl e \<Rightarrow> err = Some e
          | Inr out \<Rightarrow> length out < limit + longest_line bs + 16"
        using len(2) by (auto split: sum.splits)
      with Some lr False show ?thesis by (subst read_lines.simps) (simp add: Let_def)
    qed
  qed
qed

section \<open>Properties\<close>

text \<open>C14: The value of the session token never reaches the log: two requests that carry a token
  and differ in nothing else give the same attributes, whatever the telemetry library does with
  the other headers.\<close>

theorem security_token_not_logged:
  assumes "header_Values h ''X-Amz-Security-Token'' \<noteq> []" and "vs \<noteq> []"
  shows "decomposeRequestHeaders RequestHeader (h(''X-Amz-Security-Token'' \<mapsto> vs)) =
    decomposeRequestHeaders RequestHeader h"
  using assms
  by (simp add: decomposeRequestHeaders_def header_Del_def header_Values_def canonical_keys
      fun_upd_twist [of "''X-Amz-Security-Token''" "''Content-Length''"]
      fun_upd_twist [of "''X-Amz-Security-Token''" "''User-Agent''"]
      fun_upd_twist [of "''X-Amz-Security-Token''" "''Authorization''"])

definition sample_token_header :: Header where
  "sample_token_header = [''X-Amz-Security-Token'' \<mapsto> [''old''], ''Host'' \<mapsto> [''h'']]"

lemma security_token_not_logged_witness:
  "decomposeRequestHeaders (\<lambda>h. []) (sample_token_header(''X-Amz-Security-Token'' \<mapsto> [''secret''])) =
     decomposeRequestHeaders (\<lambda>h. []) sample_token_header"
  by (rule security_token_not_logged)
     (simp_all add: sample_token_header_def header_Values_def canonical_keys)

text \<open>C13: A signature of version 4 is logged as asterisks: for parameters of the usual form the
  attribute is built from the scheme, the credential and the signed headers alone, and what is
  logged of these has been masked, too. It does not depend on the signature.\<close>

theorem signature_not_logged:
  assumes "spaceless alg" and "spaceless cred" and "spaceless hdrs" and "spaceless sig"
  shows "\<exists>m. MaskAWSSensitiveValues
        (''Credential='' @ cred @ '', SignedHeaders='' @ hdrs @ '', Signature=*****'') = Ret m \<and>
      authorizationHeaderAttribute
        (''AWS4-'' @ alg @ '' '' @ ''Credential='' @ cred @ '', SignedHeaders='' @ hdrs @ '', Signature='' @ sig) =
      Ret (Some (''http.request.header.authorization'', AStr (''AWS4-'' @ alg @ '' '' @ m)))"
proof -
  let ?cs = "[''Credential='' @ cred, ''SignedHeaders='' @ hdrs, ''Signature='' @ sig]"
  let ?out = "''Credential='' @ cred @ '', SignedHeaders='' @ hdrs @ '', Signature=*****''"
  have sp: "list_all (\<lambda>c. \<not> is_space c) ''AWS4-''" "list_all (\<lambda>c. \<not> is_space c) ''Credential=''"
    "list_all (\<lambda>c. \<not> is_space c) ''SignedHeaders=''" "list_all (\<lambda>c. \<not> is_space c) ''Signature=''"
    by code_simp+
  have all: "list_all spaceless ?cs" using assms sp by (simp add: spaceless_def)
  have scheme: "list_all (\<lambda>c. \<not> is_space c) (''AWS4-'' @ alg)"
    using assms(1) sp(1) by (simp add: spaceless_def)
  have "\<not> is_space (hd (Join '', '' ?cs))" by (simp, code_simp)
  then have split: "rx_Split2 spaces_rx ((''AWS4-'' @ alg) @ '' '' @ Join '', '' ?cs) =
      [''AWS4-'' @ alg, Join '', '' ?cs]"
    by (intro rx_Split2_spaces scheme) simp
  have comp: "auth_component (''Credential='' @ cred) = Ret (''Credential='' @ cred)"
    "auth_component (''SignedHeaders='' @ hdrs) = Ret (''SignedHeaders='' @ hdrs)"
    "auth_component (''Signature='' @ sig) = Ret ''Signature=*****''"
    using SplitAfter2_eq [of "CHR ''=''" "''Credential''" cred]
      SplitAfter2_eq [of "CHR ''=''" "''SignedHeaders''" hdrs]
      SplitAfter2_eq [of "CHR ''=''" "''Signature''" sig]
    by (simp_all add: auth_component_def)
  have comps: "auth_components (rx_Split comma_spaces_rx (Join '', '' ?cs)) [] = Ret ?out"
    unfolding rx_Split_Join [OF list.distinct(2) all] using comp by simp
  obtain m where m: "MaskAWSSensitiveValues ?out = Ret m" using MaskAWSSensitiveValues_Ret by blast
  have name: "requestHeaderAttributeName ''Authorization'' = ''http.request.header.authorization''"
    by code_simp
  have "authorizationHeaderAttribute ((''AWS4-'' @ alg) @ '' '' @ Join '', '' ?cs) =
      Ret (Some (''http.request.header.authorization'', AStr (''AWS4-'' @ alg @ '' '' @ m)))"
    unfolding authorizationHeaderAttribute_def split
    using comps m by (simp add: Let_def name HasPrefix_iff)
  with m show ?thesis by simp
qed

lemma signature_not_logged_witness:
  "\<exists>m. authorizationHeaderAttribute
      ''AWS4-HMAC-SHA256 Credential=AKID/us-east-1, SignedHeaders=host, Signature=0123abcd'' =
      Ret (Some (''http.request.header.authorization'', AStr (''AWS4-HMAC-SHA256 '' @ m)))"
proof -
  have "spaceless ''HMAC-SHA256''" "spaceless ''AKID/us-east-1''" "spaceless ''host''" "spaceless ''0123abcd''"
    by code_simp+
  from signature_not_logged [OF this] show ?thesis by auto
qed




text \<open>Every successfully decomposed request has a body attribute. For S3 uploads it is the
  redacted size and content type; for every other operation it is the dumped body after masking.\<close>

theorem DecomposeHTTPRequest_body:
  assumes "DecomposeHTTPRequest D ctx req = Ret (Inr m)"
  shows "\<exists>b. m ''http.request.body'' = Some (AStr b) \<and>
    (if is_s3_upload ctx
     then b = s3BodyRedacted (hl_format D) (outgoingLength req) (header_Get (rq_Header req) ''Content-Type'')
     else \<not> rx_search UniqueIDRegex b \<and> 40 \<notin> set (b64_runs b))"
proof -
  obtain as as' where log: "requestBodyLogger D ctx req as = Ret (Inr as')" and m: "m = result_map as'"
  proof (cases "decomposeRequestHeaders (hl_RequestHeader D) (rq_Header req)")
    case (Ret hs)
    let ?as = "filter (\<lambda>(k, v). k \<noteq> ''http.flavor'' \<or> \<not> Emit_empty v) (hl_ClientRequest D req) @ hs"
    show thesis
      using assms Ret that [of ?as]
      by (cases "requestBodyLogger D ctx req ?as")
         (auto simp: DecomposeHTTPRequest_def Let_def split: sum.splits)
  qed (use assms in \<open>simp add: DecomposeHTTPRequest_def Let_def\<close>)
  show ?thesis
  proof (cases "is_s3_upload ctx")
    case True
    with log have "s3ObjectRequestBodyLogger_Log (hl_format D) req as = Ret (Inr as')"
      by (simp add: requestBodyLogger_def)
    from s3_request_body.result_body [OF this] True m show ?thesis by simp
  next
    case False
    with log have "defaultRequestBodyLogger_Log (hl_Dump D) (hl_ReadMIMEHeader D) req as = Ret (Inr as')"
      by (simp add: requestBodyLogger_def)
    from default_body.result_body [OF this] False m show ?thesis by (auto simp: masked_def)
  qed
qed

definition sample_http_log_deps :: http_log_deps where
  "sample_http_log_deps =
     \<lparr>hl_ClientRequest = (\<lambda>r. []), hl_RequestHeader = (\<lambda>h. []), hl_Dump = (\<lambda>r. Inr ''POST / HTTP/1.1''),
      hl_ReadMIMEHeader = Inr,
      hl_format = \<lparr>nf_d = (\<lambda>n. ''7''), nf_f1 = (\<lambda>x. ''1.0''), nf_float64 = of_int\<rparr>\<rparr>"

lemma DecomposeHTTPRequest_body_witness:
  "\<exists>m. DecomposeHTTPRequest sample_http_log_deps \<lparr>oc_ServiceID = ''S3'', oc_OperationName = ''PutObject''\<rparr>
       \<lparr>rq_Header = Map.empty, rq_Body = Body 0, rq_ContentLength = 7\<rparr> = Ret (Inr m) \<and>
     m ''http.request.body'' = Some (AStr ''[Redacted: 7 bytes]'')"
proof -
  obtain m where m: "DecomposeHTTPRequest sample_http_log_deps
      \<lparr>oc_ServiceID = ''S3'', oc_OperationName = ''PutObject''\<rparr>
      \<lparr>rq_Header = Map.empty, rq_Body = Body 0, rq_ContentLength = 7\<rparr> = Ret (Inr m)"
    by (simp add: DecomposeHTTPRequest_def decomposeRequestHeaders_def requestBodyLogger_def
        is_s3_upload_def s3ObjectRequestBodyLogger_Log_def header_Values_def header_Del_def)
  with DecomposeHTTPRequest_body [OF m] show ?thesis
    by (simp add: is_s3_upload_def s3BodyRedacted_def formatByteSize_def outgoingLength_def
        sample_http_log_deps_def header_Get_def header_Values_def)
qed

text \<open>\<open>formatByteSize\<close> scales a size above 1.5 KiB by the power of 1024 that its unit names as
  long as the size is below 1 TiB; from 1 TiB on it prints the size in TiB with the unit \<open>GB\<close>. The
  conversion of the size to a float is assumed exact, as it is up to \<open>2^53\<close>.\<close>

theorem formatByteSize_unit:
  assumes "1536 < n" and "nf_float64 P n = of_int n"
  shows "formatByteSize P n =
    (if n < 1024 ^ 2 then nf_f1 P (of_int n / 1024) @ '' KB''
     else if n < 1024 ^ 3 then nf_f1 P (of_int n / 1024 ^ 2) @ '' MB''
     else if n < 1024 ^ 4 then nf_f1 P (of_int n / 1024 ^ 3) @ '' GB''
     else nf_f1 P (of_int n / 1024 ^ 4) @ '' GB'') @ '' ('' @ nf_d P n @ '' bytes)''"
proof -
  have "(of_int n / 1024 :: rat) < 1024 \<longleftrightarrow> n < 1024 ^ 2"
    "(of_int n / 1024 / 1024 :: rat) < 1024 \<longleftrightarrow> n < 1024 ^ 3"
    "(of_int n / 1024 / 1024 / 1024 :: rat) < 1024 \<longleftrightarrow> n < 1024 ^ 4"
    by (simp_all add: field_simps)
  with assms show ?thesis by (auto simp: formatByteSize_def)
qed

lemma formatByteSize_unit_witness:
  "formatByteSize (hl_format sample_http_log_deps) (1024 ^ 4) = ''1.0 GB (7 bytes)''"
  using formatByteSize_unit [of "1024 ^ 4" "hl_format sample_http_log_deps"]
  by (simp add: sample_http_log_deps_def)

end
