(* ===== verification/AwsAuth.thy ===== *)
theory AwsAuth
  imports GoError
begin

text \<open>
  Finding the account ID and partition of the caller (\<open>awsauth.go\<close>). The AWS calls are a record of
  their results; every function also returns the calls it made, in order. Nil outputs and nil
  pointers are \<open>None\<close>. \<open>arn.Parse\<close> and \<open>multierror.Append\<close> are third-party parameters. Log
  output is left out: no result depends on it.
\<close>

section \<open>Calls and their results\<close>

datatype api_call = GetIAMInfo | GetUser | GetCallerIdentity | ListRoles

record account_apis =
  aa_GetIAMInfo :: "go_error + string"
  aa_GetUser :: "go_error + string option option"
  aa_GetCallerIdentity :: "go_error + string option option"
  aa_ListRoles :: "go_error + string option list option"

record ARN =
  arn_AccountID :: string
  arn_Partition :: string

record auth_deps =
  ad_arn_Parse :: "string \<Rightarrow> go_error + ARN"
  ad_multierror_Append :: "go_error option \<Rightarrow> go_error option \<Rightarrow> go_error"
  ad_Error :: "go_error \<Rightarrow> string"

text \<open>The results \<open>(accountID, partition, err)\<close> and the calls made.\<close>

type_synonym account_result = "(string \<times> string \<times> go_error option) \<times> api_call list"

text \<open>\<open>aws.ToString\<close>.\<close>

definition ToString :: "string option \<Rightarrow> string" where
  "ToString p = (case p of None \<Rightarrow> [] | Some s \<Rightarrow> s)"

definition parseAccountIDAndPartitionFromARN ::
    "auth_deps \<Rightarrow> string \<Rightarrow> string \<times> string \<times> go_error option" where
  "parseAccountIDAndPartitionFromARN D inputARN =
     (case ad_arn_Parse D inputARN of
        Inl err \<Rightarrow> ([], [], Some (ErrorString (''parsing ARN ('' @ inputARN @ ''): '' @ err_Error (ad_Error D) err)))
      | Inr arn \<Rightarrow> (arn_AccountID arn, arn_Partition arn, None))"

text \<open>The common tail: parse the ARN, and wrap an error.\<close>

definition from_arn :: "auth_deps \<Rightarrow> string \<Rightarrow> string \<Rightarrow> string \<times> string \<times> go_error option" where
  "from_arn D what arn =
     (case parseAccountIDAndPartitionFromARN D arn of
        (a, p, Some err) \<Rightarrow> ([], [], Some (WrapError what err))
      | (a, p, None) \<Rightarrow> (a, p, None))"

definition getAccountIDAndPartitionFromEC2Metadata :: "auth_deps \<Rightarrow> account_apis \<Rightarrow> account_result" where
  "getAccountIDAndPartitionFromEC2Metadata D A =
     (case aa_GetIAMInfo A of
        Inl err \<Rightarrow>
          ([], [], Some (WrapError ''retrieving account information via EC2 Metadata IAM information: '' err))
      | Inr instanceProfileArn \<Rightarrow>
          from_arn D ''retrieving account information from EC2 Metadata: '' instanceProfileArn,
      [GetIAMInfo])"

text \<open>Access errors of \<open>iam:GetUser\<close> are no errors: the credentials may be federated.\<close>

definition ignored_GetUser_error :: "go_error \<Rightarrow> bool" where
  "ignored_GetUser_error err \<longleftrightarrow>
     (case errors_As as_APIError err of
        None \<Rightarrow> False
      | Some (code, msg) \<Rightarrow> code \<in> set [''AccessDenied'', ''InvalidClientTokenId'', ''ValidationError''])"

definition getAccountIDAndPartitionFromIAMGetUser :: "auth_deps \<Rightarrow> account_apis \<Rightarrow> account_result" where
  "getAccountIDAndPartitionFromIAMGetUser D A =
     (case aa_GetUser A of
        Inl err \<Rightarrow>
          (if ignored_GetUser_error err then ([], [], None)
           else ([], [], Some (WrapError ''retrieving account information via iam:GetUser: '' err)))
      | Inr None \<Rightarrow>
          ([], [], Some (ErrorString ''retrieving account information via iam:GetUser: empty response''))
      | Inr (Some arn) \<Rightarrow> from_arn D ''retrieving account information via iam:GetUser: '' (ToString arn),
      [GetUser])"

definition getAccountIDAndPartitionFromIAMListRoles :: "auth_deps \<Rightarrow> account_apis \<Rightarrow> account_result" where
  "getAccountIDAndPartitionFromIAMListRoles D A =
     (case aa_ListRoles A of
        Inl err \<Rightarrow>
          ([], [], Some (WrapError ''retrieving account information via iam:ListRoles: '' err))
      | Inr None \<Rightarrow>
          ([], [], Some (ErrorString ''retrieving account information via iam:ListRoles: empty response''))
      | Inr (Some []) \<Rightarrow>
          ([], [], Some (ErrorString ''retrieving account information via iam:ListRoles: empty response''))
      | Inr (Some (arn # _)) \<Rightarrow>
          from_arn D ''retrieving account information via iam:ListRoles: '' (ToString arn),
      [ListRoles])"

definition getAccountIDAndPartitionFromSTSGetCallerIdentity ::
    "auth_deps \<Rightarrow> account_apis \<Rightarrow> account_result" where
  "getAccountIDAndPartitionFromSTSGetCallerIdentity D A =
     (case aa_GetCallerIdentity A of
        Inl err \<Rightarrow> ([], [], Some (WrapError ''retrieving caller identity from STS: '' err))
      | Inr None \<Rightarrow> ([], [], Some (ErrorString ''retrieving caller identity from STS: empty response''))
      | Inr (Some None) \<Rightarrow>
          ([], [], Some (ErrorString ''retrieving caller identity from STS: empty response''))
      | Inr (Some (Some arn)) \<Rightarrow> from_arn D ''retrieving caller identity from STS: '' arn,
      [GetCallerIdentity])"

section \<open>The chain\<close>

definition EC2RoleProviderName :: string where "EC2RoleProviderName = ''EC2RoleProvider''"

definition getAccountIDAndPartition :: "auth_deps \<Rightarrow> account_apis \<Rightarrow> string \<Rightarrow> account_result" where
  "getAccountIDAndPartition D A authProviderName =
     (let ((a, p, err), calls1) =
            (if authProviderName = EC2RoleProviderName
             then getAccountIDAndPartitionFromEC2Metadata D A
             else getAccountIDAndPartitionFromIAMGetUser D A)
      in if a \<noteq> [] then ((a, p, None), calls1)
      else let errs = ad_multierror_Append D None err;
               ((a, p, err), calls2) = getAccountIDAndPartitionFromSTSGetCallerIdentity D A
      in if a \<noteq> [] then ((a, p, None), calls1 @ calls2)
      else let errs = ad_multierror_Append D (Some errs) err;
               ((a, p, err), calls3) = getAccountIDAndPartitionFromIAMListRoles D A
      in if a \<noteq> [] then ((a, p, None), calls1 @ calls2 @ calls3)
      else ((a, p, Some (ad_multierror_Append D (Some errs) err)), calls1 @ calls2 @ calls3))"

text \<open>
  The specification: the sources in order of preference, each with the account and partition that
  its ARN names when there is one with a non-empty account.
\<close>

definition arn_account :: "auth_deps \<Rightarrow> string \<Rightarrow> (string \<times> string) option" where
  "arn_account D arn =
     (case ad_arn_Parse D arn of
        Inl err \<Rightarrow> None
      | Inr r \<Rightarrow> if arn_AccountID r = [] then None else Some (arn_AccountID r, arn_Partition r))"

fun api_arn :: "account_apis \<Rightarrow> api_call \<Rightarrow> string option" where
  "api_arn A GetIAMInfo = (case aa_GetIAMInfo A of Inl err \<Rightarrow> None | Inr arn \<Rightarrow> Some arn)"
| "api_arn A GetUser =
     (case aa_GetUser A of Inr (Some arn) \<Rightarrow> Some (ToString arn) | _ \<Rightarrow> None)"
| "api_arn A GetCallerIdentity = (case aa_GetCallerIdentity A of Inr (Some (Some arn)) \<Rightarrow> Some arn | _ \<Rightarrow> None)"
| "api_arn A ListRoles = (case aa_ListRoles A of Inr (Some (arn # _)) \<Rightarrow> Some (ToString arn) | _ \<Rightarrow> None)"

definition api_account :: "auth_deps \<Rightarrow> account_apis \<Rightarrow> api_call \<Rightarrow> (string \<times> string) option" where
  "api_account D A call = Option.bind (api_arn A call) (arn_account D)"

definition account_sources :: "string \<Rightarrow> api_call list" where
  "account_sources authProviderName =
     [if authProviderName = EC2RoleProviderName then GetIAMInfo else GetUser, GetCallerIdentity, ListRoles]"

text \<open>What a single source gives, in terms of the specification.\<close>

definition yields :: "account_result \<Rightarrow> (string \<times> string) option \<Rightarrow> api_call \<Rightarrow> bool" where
  "yields r acc call \<longleftrightarrow>
     snd r = [call] \<and>
     (case acc of
        None \<Rightarrow> fst (fst r) = []
      | Some (a, p) \<Rightarrow> a \<noteq> [] \<and> fst r = (a, p, None))"

lemma from_arn_yields: "yields (from_arn D what arn, [call]) (arn_account D arn) call"
  by (auto simp: yields_def from_arn_def arn_account_def parseAccountIDAndPartitionFromARN_def
      split: sum.split)

lemma yields_none: "yields (([], p, e), [call]) None call"
  by (simp add: yields_def)

lemma source_yields:
  "yields (getAccountIDAndPartitionFromEC2Metadata D A) (api_account D A GetIAMInfo) GetIAMInfo"
  "yields (getAccountIDAndPartitionFromIAMGetUser D A) (api_account D A GetUser) GetUser"
  "yields (getAccountIDAndPartitionFromSTSGetCallerIdentity D A) (api_account D A GetCallerIdentity) GetCallerIdentity"
  "yields (getAccountIDAndPartitionFromIAMListRoles D A) (api_account D A ListRoles) ListRoles"
  by (auto simp: getAccountIDAndPartitionFromEC2Metadata_def getAccountIDAndPartitionFromIAMGetUser_def
      getAccountIDAndPartitionFromSTSGetCallerIdentity_def getAccountIDAndPartitionFromIAMListRoles_def
      api_account_def yields_none from_arn_yields split: sum.split option.split list.split)

lemma yieldsE:
  assumes "yields r acc call"
  obtains a p e where "r = ((a, p, e), [call])" "acc = None" "a = []"
    | a p where "r = ((a, p, None), [call])" "acc = Some (a, p)" "a \<noteq> []"
  using assms by (cases r; cases acc) (auto simp: yields_def)

text \<open>C19: The account comes from the first source that names one: EC2 metadata for instance
  credentials and \<open>iam:GetUser\<close> otherwise, then the caller identity, then the first role. The
  result is an error exactly when no source names an account, and no source is asked after one
  that did.\<close>

theorem getAccountIDAndPartition_first_source:
  "\<exists>a p err. getAccountIDAndPartition D A name =
      ((a, p, err),
       (let n = length (takeWhile (\<lambda>call. api_account D A call = None) (account_sources name))
        in take (Suc n) (account_sources name))) \<and>
     (case first_some (api_account D A) (account_sources name) of
        Some (acc, part) \<Rightarrow> a = acc \<and> p = part \<and> err = None
      | None \<Rightarrow> a = [] \<and> err \<noteq> None)"
proof -
  let ?first = "if name = EC2RoleProviderName then GetIAMInfo else GetUser"
  let ?r1 = "if name = EC2RoleProviderName then getAccountIDAndPartitionFromEC2Metadata D A
    else getAccountIDAndPartitionFromIAMGetUser D A"
  have y1: "yields ?r1 (api_account D A ?first) ?first" using source_yields by simp
  show ?thesis
    by (rule yieldsE [OF y1]; rule yieldsE [OF source_yields(3) [of D A]];
        rule yieldsE [OF source_yields(4) [of D A]])
       (simp_all only: getAccountIDAndPartition_def account_sources_def Let_def, simp_all)
qed

end
