(* ===== verification/Resolvers.thy ===== *)
theory Resolvers
  imports GoError ConfigTypes
begin

text \<open>
  The resolvers of \<open>internal/awsconfig/resolvers.go\<close>, which ask a list of configuration sources
  for a setting. A source that does not implement the provider interface of a setting has
  \<open>None\<close> there; otherwise it has the results \<open>(value, found, err)\<close> of the call. Enumerations of
  the SDK have their named constants and a constructor for any other value.
\<close>

datatype FIPSEndpointState =
  FIPSEndpointStateUnset | FIPSEndpointStateEnabled | FIPSEndpointStateDisabled | FIPSEndpointState_other nat

datatype DualStackEndpointState =
  DualStackEndpointStateUnset | DualStackEndpointStateEnabled | DualStackEndpointStateDisabled
  | DualStackEndpointState_other nat

datatype EndpointModeState =
  EndpointModeStateUnset | EndpointModeStateIPv4 | EndpointModeStateIPv6 | EndpointModeState_other nat

type_synonym 'v answer = "'v \<times> bool \<times> go_error option"

text \<open>The sources whose dynamic type \<open>resolveCustomCABundle\<close> of the v1 shim knows, and any other.\<close>

datatype ca_bundle_source =
  LoadOptionsSource "bytes option" | EnvConfigSource string | SharedConfigSource string | OtherSource

record config_source =
  cs_UseFIPSEndpoint :: "FIPSEndpointState answer option"
  cs_UseDualStackEndpoint :: "DualStackEndpointState answer option"
  cs_EC2IMDSClientEnableState :: "ClientEnableState answer option"
  cs_EC2IMDSEndpoint :: "string answer option"
  cs_EC2IMDSEndpointMode :: "EndpointModeState answer option"
  cs_RetryMaxAttempts :: "int answer option"
  cs_CustomCABundle :: ca_bundle_source

text \<open>
  The loop all of them share: the named results keep the answer of the last provider asked, and an
  error or a found value ends the loop.
\<close>

fun resolve_loop :: "('s \<Rightarrow> 'v answer option) \<Rightarrow> 's list \<Rightarrow> 'v answer \<Rightarrow> 'v answer" where
  "resolve_loop get [] acc = acc"
| "resolve_loop get (s # ss) acc =
     (case get s of
        None \<Rightarrow> resolve_loop get ss acc
      | Some (v, found, err) \<Rightarrow>
          if err \<noteq> None \<or> found then (v, found, err) else resolve_loop get ss (v, found, err))"

definition ResolveUseFIPSEndpoint :: "config_source list \<Rightarrow> FIPSEndpointState answer" where
  "ResolveUseFIPSEndpoint configSources =
     resolve_loop cs_UseFIPSEndpoint configSources (FIPSEndpointStateUnset, False, None)"

definition ResolveUseDualStackEndpoint :: "config_source list \<Rightarrow> DualStackEndpointState answer" where
  "ResolveUseDualStackEndpoint configSources =
     resolve_loop cs_UseDualStackEndpoint configSources (DualStackEndpointStateUnset, False, None)"

definition ResolveEC2IMDSClientEnableState :: "config_source list \<Rightarrow> ClientEnableState answer" where
  "ResolveEC2IMDSClientEnableState sources =
     resolve_loop cs_EC2IMDSClientEnableState sources (ClientDefaultEnableState, False, None)"

definition ResolveEC2IMDSEndpointConfig :: "config_source list \<Rightarrow> string answer" where
  "ResolveEC2IMDSEndpointConfig configSources =
     resolve_loop cs_EC2IMDSEndpoint configSources ([], False, None)"

definition ResolveEC2IMDSEndpointModeConfig :: "config_source list \<Rightarrow> EndpointModeState answer" where
  "ResolveEC2IMDSEndpointModeConfig sources =
     resolve_loop cs_EC2IMDSEndpointMode sources (EndpointModeStateUnset, False, None)"

definition GetRetryMaxAttempts :: "config_source list \<Rightarrow> int answer" where
  "GetRetryMaxAttempts sources = resolve_loop cs_RetryMaxAttempts sources (0, False, None)"

text \<open>The texts; \<open>fmt_d\<close> is the verb \<open>%d\<close>.\<close>

fun FIPSEndpointStateString :: "(nat \<Rightarrow> string) \<Rightarrow> FIPSEndpointState \<Rightarrow> string" where
  "FIPSEndpointStateString fmt_d FIPSEndpointStateUnset = ''FIPSEndpointStateUnset''"
| "FIPSEndpointStateString fmt_d FIPSEndpointStateEnabled = ''FIPSEndpointStateEnabled''"
| "FIPSEndpointStateString fmt_d FIPSEndpointStateDisabled = ''FIPSEndpointStateDisabled''"
| "FIPSEndpointStateString fmt_d (FIPSEndpointState_other n) =
     ''unknown aws.FIPSEndpointState ('' @ fmt_d n @ '')''"

fun DualStackEndpointStateString :: "(nat \<Rightarrow> string) \<Rightarrow> DualStackEndpointState \<Rightarrow> string" where
  "DualStackEndpointStateString fmt_d DualStackEndpointStateUnset = ''DualStackEndpointStateUnset''"
| "DualStackEndpointStateString fmt_d DualStackEndpointStateEnabled = ''DualStackEndpointStateEnabled''"
| "DualStackEndpointStateString fmt_d DualStackEndpointStateDisabled = ''DualStackEndpointStateDisabled''"
| "DualStackEndpointStateString fmt_d (DualStackEndpointState_other n) =
     ''unknown aws.FIPSEndpointStateUnset ('' @ fmt_d n @ '')''"

fun EC2IMDSClientEnableStateString :: "(int \<Rightarrow> string) \<Rightarrow> ClientEnableState \<Rightarrow> string" where
  "EC2IMDSClientEnableStateString fmt_d ClientDefaultEnableState = ''ClientDefaultEnableState''"
| "EC2IMDSClientEnableStateString fmt_d ClientDisabled = ''ClientDisabled''"
| "EC2IMDSClientEnableStateString fmt_d ClientEnabled = ''ClientEnabled''"
| "EC2IMDSClientEnableStateString fmt_d (ClientEnableState_other n) =
     ''unknown imds.ClientEnableState ('' @ fmt_d n @ '')''"

fun EC2IMDSEndpointModeString :: "(nat \<Rightarrow> string) \<Rightarrow> EndpointModeState \<Rightarrow> string" where
  "EC2IMDSEndpointModeString fmt_d EndpointModeStateUnset = ''EndpointModeStateUnset''"
| "EC2IMDSEndpointModeString fmt_d EndpointModeStateIPv4 = ''EndpointModeStateIPv4''"
| "EC2IMDSEndpointModeString fmt_d EndpointModeStateIPv6 = ''EndpointModeStateIPv6''"
| "EC2IMDSEndpointModeString fmt_d (EndpointModeState_other n) =
     ''unknown imds.EndpointModeState ('' @ fmt_d n @ '')''"

section \<open>First decisive answer\<close>

text \<open>The answers in order; the first decisive one wins, else the last one counts.\<close>

definition decisive :: "'v answer \<Rightarrow> bool" where
  "decisive a \<longleftrightarrow> (case a of (v, found, err) \<Rightarrow> err \<noteq> None \<or> found)"

definition first_decisive :: "'v answer \<Rightarrow> 'v answer list \<Rightarrow> 'v answer" where
  "first_decisive zero answers =
     (case find decisive answers of Some a \<Rightarrow> a | None \<Rightarrow> last (zero # answers))"

lemma resolve_loop_first_decisive:
  "resolve_loop get ss acc = first_decisive acc (List.map_filter get ss)"
proof (induction get ss acc rule: resolve_loop.induct)
  case (2 get s ss acc)
  show ?case
  proof (cases "get s")
    case None
    with 2 show ?thesis by (simp add: List.map_filter_def)
  next
    case (Some a)
    obtain v found err where a: "a = (v, found, err)" by (cases a)
    with 2(2) [OF Some a [symmetric] refl] Some a show ?thesis
      by (auto simp: first_decisive_def decisive_def List.map_filter_def split: option.split)
  qed
qed (simp add: first_decisive_def List.map_filter_def)

text \<open>C20: Every resolver returns the first error or found value among the answers of the sources
  that provide the setting, in their order, without asking further ones; if there is none it
  returns the answer of the last provider, or the zero value when no source is a provider.\<close>

theorem resolvers_first_decisive:
  "ResolveUseFIPSEndpoint ss =
     first_decisive (FIPSEndpointStateUnset, False, None) (List.map_filter cs_UseFIPSEndpoint ss) \<and>
   ResolveUseDualStackEndpoint ss =
     first_decisive (DualStackEndpointStateUnset, False, None) (List.map_filter cs_UseDualStackEndpoint ss) \<and>
   ResolveEC2IMDSClientEnableState ss =
     first_decisive (ClientDefaultEnableState, False, None) (List.map_filter cs_EC2IMDSClientEnableState ss) \<and>
   ResolveEC2IMDSEndpointConfig ss = first_decisive ([], False, None) (List.map_filter cs_EC2IMDSEndpoint ss) \<and>
   ResolveEC2IMDSEndpointModeConfig ss =
     first_decisive (EndpointModeStateUnset, False, None) (List.map_filter cs_EC2IMDSEndpointMode ss) \<and>
   GetRetryMaxAttempts ss = first_decisive (0, False, None) (List.map_filter cs_RetryMaxAttempts ss)"
  by (simp add: ResolveUseFIPSEndpoint_def ResolveUseDualStackEndpoint_def
      ResolveEC2IMDSClientEnableState_def ResolveEC2IMDSEndpointConfig_def
      ResolveEC2IMDSEndpointModeConfig_def GetRetryMaxAttempts_def resolve_loop_first_decisive)

text \<open>The text for an unknown dual-stack state names another type.\<close>

lemma DualStackEndpointStateString_names_FIPS:
  "DualStackEndpointStateString fmt_d (DualStackEndpointState_other n) =
     ''unknown aws.FIPSEndpointStateUnset ('' @ fmt_d n @ '')''"
  by simp

end
