(* ===== verification/AwsConfig.thy ===== *)
theory AwsConfig
  imports Config_ops UserAgent Resolvers AwsAuth Endpoints
begin

text \<open>
  Resolution of the AWS configuration: \<open>aws_config.go\<close>, \<open>credentials.go\<close>, \<open>clients.go\<close>,
  \<open>endpoints.go\<close> and \<open>http_client.go\<close>. SDK objects the code only builds and passes on (load options,
  API options, credentials providers, clients, retryers) are data; what the SDK does with them
  is in the parameters of the record \<open>aws_deps\<close>. The process environment is threaded as state,
  since the code writes to it. Contexts and log output are left out: no result depends on them.
\<close>

section \<open>SDK objects\<close>

datatype PolicyDescriptorType = PolicyDescriptorType string

record assume_options =
  ao_RoleSessionName :: string
  ao_Duration :: int
  ao_ExternalID :: "string option"
  ao_Policy :: "string option"
  ao_PolicyARNs :: "PolicyDescriptorType list"
  ao_Tags :: "(string \<times> string) list"
  ao_TransitiveTagKeys :: "string list"
  ao_SourceIdentity :: "string option"

record web_options =
  wo_RoleSessionName :: string
  wo_Duration :: int
  wo_Policy :: "string option"
  wo_PolicyARNs :: "PolicyDescriptorType list"

text \<open>
  An STS client holds the credentials, region and custom endpoint it was built with, and the rest
  of the configuration. A provider that assumes a role holds the client it does so with.
\<close>

datatype provider =
    SDKProvider handle
  | StaticProvider string string string
  | AssumeRoleProvider sts_client string assume_options
  | WebIdentityRoleProvider sts_client string AssumeRoleWithWebIdentity web_options
  | CredentialsCache provider
and sts_client = STSClient (sts_Credentials: "provider option") (sts_Region: string)
    (sts_Endpoint: "string option") (sts_rest: handle)

datatype iam_client = IAMClient "provider option" string "string option" handle

record endpoint =
  ep_URL :: string
  ep_SigningRegion :: string

datatype http_client =
    ConfiguredHTTPClient handle
  | BuildableClient "env \<Rightarrow> Transport \<Rightarrow> Transport"

datatype api_option =
    APNUserAgent APNInfo
  | UserAgentAppender string
  | UserAgentFromContext
  | LogAttributeExtractor
  | RequestResponseLogger

datatype load_option =
    WithRegion string
  | WithHTTPClient http_client
  | WithAPIOptions "api_option list"
  | WithEC2IMDSClientEnableState ClientEnableState
  | WithLogConfigurationWarnings bool
  | WithClientLogMode
  | WithLogger
  | WithSharedCredentialsFiles "string list"
  | WithSharedConfigFiles "string list"
  | WithCustomCABundle "bytes option"
  | WithEC2IMDSEndpoint string
  | WithRetryMode string
  | WithEC2IMDSEndpointMode EndpointModeState
  | WithUseDualStackEndpoint DualStackEndpointState
  | WithUseFIPSEndpoint FIPSEndpointState
  | WithEndpointResolverWithOptions "string \<Rightarrow> string \<Rightarrow> go_error + endpoint"
  | WithSharedConfigProfile string
  | WithRetryMaxAttempts int
  | WithCredentialsProvider provider
  | WithEC2IMDSRegion

datatype rate_limiter = TokenRateLimit nat | RateLimitNone

datatype standard_option =
    SetBackoff handle | SetMaxAttempts int | SetMaxBackoff int | SetRateLimiter rate_limiter

text \<open>The retryer inside the shortcutter.\<close>

datatype retryer = NewStandard "standard_option list" | NewAdaptiveMode "standard_option list"

record aws_config =
  ac_Region :: string
  ac_Credentials :: "provider option"
  ac_RetryMode :: string
  ac_DefaultsMode :: string
  ac_ConfigSources :: "config_source list"
  ac_Retryer :: "retryer option"
  ac_rest :: handle

definition zero_aws_config :: aws_config where
  "zero_aws_config =
     \<lparr>ac_Region = [], ac_Credentials = None, ac_RetryMode = [], ac_DefaultsMode = [],
      ac_ConfigSources = [], ac_Retryer = None, ac_rest = 0\<rparr>"

record 'u aws_deps = "'u http_deps" +
  dp_Expand :: homedir
  dp_multierror :: "go_error list \<Rightarrow> go_error"
  dp_ReadFile :: "string \<Rightarrow> go_error + bytes"
  dp_quote :: "string \<Rightarrow> string"
  dp_Error :: "go_error \<Rightarrow> string"
  dp_SetEndpointMode :: "string \<Rightarrow> go_error + EndpointModeState"
  dp_NewEnvConfig :: "env \<Rightarrow> go_error option"
  dp_LoadDefaultConfig :: "env \<Rightarrow> load_option list \<Rightarrow> go_error + aws_config"
  dp_Retrieve :: "env \<Rightarrow> provider \<Rightarrow> go_error + string"
  dp_Build :: "builder_call list \<Rightarrow> string"
  dp_SetDefaultsMode :: "string \<Rightarrow> string"
  dp_ResolveDefaultsModeAuto :: "aws_config \<Rightarrow> string"
  dp_ModeRetryMode :: "string \<Rightarrow> string option"
  dp_auth :: auth_deps
  dp_sts_api :: "sts_client \<Rightarrow> go_error + string option option"
  dp_iam_GetUser :: "iam_client \<Rightarrow> go_error + string option option"
  dp_iam_ListRoles :: "iam_client \<Rightarrow> go_error + string option list option"
  dp_imds_GetIAMInfo :: "go_error + string"

section \<open>Clients\<close>

definition iamClient :: "aws_config \<Rightarrow> Config \<Rightarrow> iam_client" where
  "iamClient awsConfig c =
     IAMClient (ac_Credentials awsConfig) (ac_Region awsConfig)
       (if c_IamEndpoint c \<noteq> [] then Some (c_IamEndpoint c) else None) (ac_rest awsConfig)"

definition stsClient :: "aws_config \<Rightarrow> Config \<Rightarrow> sts_client" where
  "stsClient awsConfig c =
     STSClient (ac_Credentials awsConfig)
       (if c_StsRegion c \<noteq> [] then c_StsRegion c else ac_Region awsConfig)
       (if c_StsEndpoint c \<noteq> [] then Some (c_StsEndpoint c) else None) (ac_rest awsConfig)"

definition defaultHttpClient :: "('u, 'm) aws_deps_scheme \<Rightarrow> Config \<Rightarrow> go_error + http_client" where
  "defaultHttpClient D c =
     (case HTTPTransportOptions D c of Inl err \<Rightarrow> Inl err | Inr opts \<Rightarrow> Inr (BuildableClient opts))"

text \<open>The resolver of custom endpoints; services are named by the IDs of the SDK packages.\<close>

definition custom_endpoint :: "string \<Rightarrow> string \<Rightarrow> go_error + endpoint" where
  "custom_endpoint url region =
     (if url \<noteq> [] then Inr \<lparr>ep_URL = url, ep_SigningRegion = region\<rparr> else Inl EndpointNotFoundError)"

definition credentialsEndpointResolver :: "Config \<Rightarrow> string \<Rightarrow> string \<Rightarrow> go_error + endpoint" where
  "credentialsEndpointResolver c service region =
     (if service = ''IAM'' then custom_endpoint (c_IamEndpoint c) region
      else if service = ''SSO'' then custom_endpoint (c_SsoEndpoint c) region
      else if service = ''STS''
      then custom_endpoint (c_StsEndpoint c) (if c_StsRegion c \<noteq> [] then c_StsRegion c else region)
      else Inl EndpointNotFoundError)"

section \<open>Load options\<close>

definition AppendUserAgentEnvVar :: string where
  "AppendUserAgentEnvVar = ''TF_APPEND_USER_AGENT''"

definition api_options :: "('u, 'm) aws_deps_scheme \<Rightarrow> env \<Rightarrow> Config \<Rightarrow> api_option list" where
  "api_options D getenv c =
     (case c_APNInfo c of None \<Rightarrow> [] | Some apn \<Rightarrow> [APNUserAgent apn]) @
     (if c_UserAgent c \<noteq> [] then [UserAgentAppender (BuildUserAgentString (dp_Build D) (c_UserAgent c))]
      else []) @
     [UserAgentFromContext] @
     (if getenv AppendUserAgentEnvVar \<noteq> [] then [UserAgentAppender (getenv AppendUserAgentEnvVar)]
      else []) @
     (if c_SuppressDebugLog c then [] else [LogAttributeExtractor, RequestResponseLogger])"

definition imds_disabled_env :: "Config \<Rightarrow> env \<Rightarrow> env" where
  "imds_disabled_env c getenv =
     (if c_EC2MetadataServiceEnableState c = ClientEnabled
      then getenv(''AWS_EC2_METADATA_DISABLED'' := ''false'')
      else if c_EC2MetadataServiceEnableState c = ClientDisabled
      then getenv(''AWS_EC2_METADATA_DISABLED'' := ''true'')
      else getenv)"

definition option_bind :: "'e + 'a \<Rightarrow> ('a \<Rightarrow> 'e + 'b) \<Rightarrow> 'e + 'b" where
  "option_bind r f = (case r of Inl e \<Rightarrow> Inl e | Inr a \<Rightarrow> f a)"

text \<open>The options up to the endpoint mode, which is the last step that can fail.\<close>

definition load_options_until_mode ::
    "('u, 'm) aws_deps_scheme \<Rightarrow> env \<Rightarrow> Config \<Rightarrow> go_error + load_option list" where
  "load_options_until_mode D getenv c =
     option_bind
       (case c_HTTPClient c of None \<Rightarrow> defaultHttpClient D c | Some h \<Rightarrow> Inr (ConfiguredHTTPClient h))
       (\<lambda>httpClient.
     option_bind (ResolveSharedCredentialsFiles getenv (dp_Expand D) (dp_multierror D) c) (\<lambda>credFiles.
     option_bind (ResolveSharedConfigFiles getenv (dp_Expand D) (dp_multierror D) c) (\<lambda>confFiles.
     option_bind (if c_CustomCABundle c \<noteq> []
        then map_sum id (\<lambda>r. [WithCustomCABundle r])
               (CustomCABundleReader getenv (dp_Expand D) (dp_ReadFile D) c)
        else Inr []) (\<lambda>caBundle.
     option_bind (if c_EC2MetadataServiceEndpointMode c \<noteq> []
        then map_sum id (\<lambda>m. [WithEC2IMDSEndpointMode m])
               (dp_SetEndpointMode D (c_EC2MetadataServiceEndpointMode c))
        else Inr []) (\<lambda>endpointMode.
       Inr ([WithRegion (c_Region c), WithHTTPClient httpClient, WithAPIOptions (api_options D getenv c),
             WithEC2IMDSClientEnableState (c_EC2MetadataServiceEnableState c),
             WithLogConfigurationWarnings True] @
            (if c_SuppressDebugLog c then [] else [WithClientLogMode, WithLogger]) @
            (if credFiles \<noteq> [] then [WithSharedCredentialsFiles credFiles] else []) @
            (if confFiles \<noteq> [] then [WithSharedConfigFiles confFiles] else []) @
            caBundle @
            (if c_EC2MetadataServiceEndpoint c \<noteq> []
             then [WithEC2IMDSEndpoint (c_EC2MetadataServiceEndpoint c)] else []) @
            (if c_RetryMode c \<noteq> [] then [WithRetryMode (c_RetryMode c)] else []) @
            endpointMode))))))"

definition commonLoadOptions ::
    "('u, 'm) aws_deps_scheme \<Rightarrow> env \<Rightarrow> Config \<Rightarrow> env \<times> (go_error + load_option list)" where
  "commonLoadOptions D getenv c =
     (case load_options_until_mode D getenv c of
        Inl err \<Rightarrow> (getenv, Inl err)
      | Inr opts \<Rightarrow>
          (imds_disabled_env c getenv,
           Inr (opts @
             (if c_UseDualStackEndpoint c then [WithUseDualStackEndpoint DualStackEndpointStateEnabled] else []) @
             (if c_UseFIPSEndpoint c then [WithUseFIPSEndpoint FIPSEndpointStateEnabled] else []))))"

section \<open>Credentials\<close>

definition getPolicyDescriptorTypes :: "string list \<Rightarrow> PolicyDescriptorType list" where
  "getPolicyDescriptorTypes policyARNs = map PolicyDescriptorType policyARNs"

definition nonempty_ptr :: "string \<Rightarrow> string option" where
  "nonempty_ptr s = (if s \<noteq> [] then Some s else None)"

definition web_identity_options :: "AssumeRoleWithWebIdentity \<Rightarrow> web_options" where
  "web_identity_options ar =
     \<lparr>wo_RoleSessionName = wi_SessionName ar, wo_Duration = wi_Duration ar,
      wo_Policy = nonempty_ptr (wi_Policy ar),
      wo_PolicyARNs = (if wi_PolicyARNs ar \<noteq> [] then getPolicyDescriptorTypes (wi_PolicyARNs ar) else [])\<rparr>"

definition webIdentityCredentialsProvider ::
    "('u, 'm) aws_deps_scheme \<Rightarrow> env \<Rightarrow> aws_config \<Rightarrow> Config \<Rightarrow> AssumeRoleWithWebIdentity \<Rightarrow>
     provider option \<times> Diagnostics" where
  "webIdentityCredentialsProvider D getenv awsConfig c ar =
     (let client = stsClient (awsConfig\<lparr>ac_Credentials := None\<rparr>) c;
          appCreds = WebIdentityRoleProvider client (wi_RoleARN ar) ar (web_identity_options ar)
      in case dp_Retrieve D getenv appCreds of
           Inl err \<Rightarrow>
             (None, Append (dp_Error D) [] [Some (NewCannotAssumeRoleWithWebIdentityError (Some c) err)])
         | Inr _ \<Rightarrow> (Some (CredentialsCache appCreds), []))"

definition assume_role_options :: "AssumeRole \<Rightarrow> assume_options" where
  "assume_role_options ar =
     \<lparr>ao_RoleSessionName = ar_SessionName ar, ao_Duration = ar_Duration ar,
      ao_ExternalID = nonempty_ptr (ar_ExternalID ar), ao_Policy = nonempty_ptr (ar_Policy ar),
      ao_PolicyARNs = (if ar_PolicyARNs ar \<noteq> [] then getPolicyDescriptorTypes (ar_PolicyARNs ar) else []),
      ao_Tags = ar_Tags ar, ao_TransitiveTagKeys = ar_TransitiveTagKeys ar,
      ao_SourceIdentity = nonempty_ptr (ar_SourceIdentity ar)\<rparr>"

text \<open>The loop over the roles: \<open>i\<close> counts them, \<open>creds\<close> is the variable returned at the end.\<close>

fun assume_loop ::
    "('u, 'm) aws_deps_scheme \<Rightarrow> (nat \<Rightarrow> string) \<Rightarrow> env \<Rightarrow> Config \<Rightarrow> nat \<Rightarrow> nat \<Rightarrow> aws_config \<Rightarrow>
     provider option \<Rightarrow> AssumeRole list \<Rightarrow> provider option \<times> Diagnostics" where
  "assume_loop D fmt_d getenv c n_roles i awsConfig creds [] = (creds, [])"
| "assume_loop D fmt_d getenv c n_roles i awsConfig creds (ar # ars) =
     (if ar_RoleARN ar = [] then
        (None, AddError (dp_Error D) [] ''Cannot assume IAM Role''
                 (''IAM Role ARN not set in assume role '' @ fmt_d (i + 1) @ '' of '' @ fmt_d n_roles))
      else
        (let client = stsClient awsConfig c;
             appCreds = AssumeRoleProvider client (ar_RoleARN ar) (assume_role_options ar)
         in case dp_Retrieve D getenv appCreds of
              Inl err \<Rightarrow> (None, Append (dp_Error D) [] [Some (newCannotAssumeRoleError ar err)])
            | Inr _ \<Rightarrow>
                (let creds = Some (CredentialsCache appCreds)
                 in assume_loop D fmt_d getenv c n_roles (i + 1) (awsConfig\<lparr>ac_Credentials := creds\<rparr>) creds ars)))"

text \<open>A nil \<open>AssumeRole\<close> slice has no elements.\<close>

definition assume_roles :: "Config \<Rightarrow> AssumeRole list" where
  "assume_roles c = (case c_AssumeRole c of None \<Rightarrow> [] | Some ars \<Rightarrow> ars)"

definition assumeRoleCredentialsProvider ::
    "('u, 'm) aws_deps_scheme \<Rightarrow> (nat \<Rightarrow> string) \<Rightarrow> env \<Rightarrow> aws_config \<Rightarrow> Config \<Rightarrow>
     provider option \<times> Diagnostics" where
  "assumeRoleCredentialsProvider D fmt_d getenv awsConfig c =
     assume_loop D fmt_d getenv c (length (assume_roles c)) 0 awsConfig None (assume_roles c)"

text \<open>\<open>getCredentialsProvider\<close>: provider, source of the initial credentials and diagnostics. The
  result of \<open>AddWarning\<close> is not used by the code. A nil provider that is used panics.\<close>

definition profile_conflict :: "env \<Rightarrow> Config \<Rightarrow> bool" where
  "profile_conflict getenv c \<longleftrightarrow>
     c_Profile c \<noteq> [] \<and> getenv ''AWS_ACCESS_KEY_ID'' \<noteq> [] \<and> getenv ''AWS_SECRET_ACCESS_KEY'' \<noteq> []"

definition profile_conflict_text :: string where
  "profile_conflict_text =
     ''A Profile was specified along with the environment variables '' @ [CHR 0x22] @
     ''AWS_ACCESS_KEY_ID'' @ [CHR 0x22] @ '' and '' @ [CHR 0x22] @ ''AWS_SECRET_ACCESS_KEY'' @ [CHR 0x22] @
     ''. The Profile is now used instead of the environment variable credentials.''"

type_synonym creds_result = "(provider option \<times> string \<times> Diagnostics) go"

definition initial_credentials ::
    "('u, 'm) aws_deps_scheme \<Rightarrow> (nat \<Rightarrow> string) \<Rightarrow> env \<Rightarrow> Config \<Rightarrow> aws_config \<Rightarrow> creds_result" where
  "initial_credentials D fmt_d getenv c cfg =
     (case ac_Credentials cfg of
        None \<Rightarrow> Panic ''nil pointer dereference''
      | Some p \<Rightarrow>
          (case dp_Retrieve D getenv p of
             Inl err \<Rightarrow>
               (let err = (if profile_conflict getenv c
                           then WrapError (profile_conflict_text @ NL @ NL @ ''AWS Error: '') err else err)
                in Ret (None, [], Append (dp_Error D) [] [Some (NewNoValidCredentialSourcesError (Some c) err)]))
           | Inr source \<Rightarrow>
               (if assume_roles c = [] then Ret (Some p, source, [])
                else
                  (case assumeRoleCredentialsProvider D fmt_d getenv cfg c of
                     (prov, d) \<Rightarrow>
                       (let diags = Append (dp_Error D) [] (map Some d) in
                        if HasError diags then Ret (None, [], diags) else Ret (prov, source, diags))))))"

definition getCredentialsProvider ::
    "('u, 'm) aws_deps_scheme \<Rightarrow> (nat \<Rightarrow> string) \<Rightarrow> env \<Rightarrow> Config \<Rightarrow> env \<times> creds_result" where
  "getCredentialsProvider D fmt_d getenv c =
     (case commonLoadOptions D getenv c of
        (getenv, Inl err) \<Rightarrow> (getenv, Ret (None, [], AddSimpleError (dp_Error D) [] err))
      | (getenv, Inr opts) \<Rightarrow>
          (getenv,
           let opts = opts @ [WithEndpointResolverWithOptions (credentialsEndpointResolver c)]
           in case dp_NewEnvConfig D getenv of
                Some err \<Rightarrow> Ret (None, [], AddSimpleError (dp_Error D) [] err)
              | None \<Rightarrow>
                  (let opts = (if c_Profile c \<noteq> [] then opts @ [WithSharedConfigProfile (c_Profile c)] else opts)
                   in case dp_LoadDefaultConfig D getenv opts of
                        Inl err \<Rightarrow> Ret (None, [], AddSimpleError (dp_Error D) [] err)
                      | Inr cfg \<Rightarrow>
                          (case c_AssumeRoleWithWebIdentity c of
                             None \<Rightarrow> initial_credentials D fmt_d getenv c cfg
                           | Some ar \<Rightarrow>
                               (if wi_RoleARN ar = [] then
                                  Ret (None, [], AddError (dp_Error D) [] ''Assume Role With Web Identity''
                                         ''Role ARN was not set'')
                                else if wi_WebIdentityToken ar = [] \<and> wi_WebIdentityTokenFile ar = [] then
                                  Ret (None, [], AddError (dp_Error D) [] ''Assume Role With Web Identity''
                                         ''One of WebIdentityToken, WebIdentityTokenFile must be set'')
                                else
                                  (case webIdentityCredentialsProvider D getenv cfg c ar of
                                     (prov, d) \<Rightarrow>
                                       (let diags = Append (dp_Error D) [] (map Some d) in
                                        if HasError diags then Ret (None, [], diags)
                                        else initial_credentials D fmt_d getenv c
                                               (cfg\<lparr>ac_Credentials := prov\<rparr>))))))))"

section \<open>Retries\<close>

definition MaxNetworkRetryCount :: int where "MaxNetworkRetryCount = 9"

definition resolveDefaultsMode :: "('u, 'm) aws_deps_scheme \<Rightarrow> aws_config \<Rightarrow> string" where
  "resolveDefaultsMode D awsConfig =
     (let mode = dp_SetDefaultsMode D (ac_DefaultsMode awsConfig) in
      if mode = ''auto'' then dp_ResolveDefaultsModeAuto D awsConfig else mode)"

definition resolve_retry_mode :: "('u, 'm) aws_deps_scheme \<Rightarrow> aws_config \<Rightarrow> string" where
  "resolve_retry_mode D awsConfig =
     (let retryMode = ac_RetryMode awsConfig;
          retryMode = (if retryMode = []
                       then (case dp_ModeRetryMode D (resolveDefaultsMode D awsConfig) of
                               None \<Rightarrow> retryMode | Some m \<Rightarrow> m)
                       else retryMode)
      in if retryMode = [] then ''standard'' else retryMode)"

definition standard_options :: "Config \<Rightarrow> aws_config \<Rightarrow> standard_option list" where
  "standard_options c awsConfig =
     (case c_Backoff c of None \<Rightarrow> [] | Some b \<Rightarrow> [SetBackoff b]) @
     (case GetRetryMaxAttempts (ac_ConfigSources awsConfig) of
        (v, found, err) \<Rightarrow> if found \<and> v \<noteq> 0 then [SetMaxAttempts v] else []) @
     (if c_MaxBackoff c > 0 then [SetMaxBackoff (c_MaxBackoff c)] else []) @
     [SetRateLimiter (if c_TokenBucketRateLimiterCapacity c > 0
        then TokenRateLimit (nat (c_TokenBucketRateLimiterCapacity c)) else RateLimitNone)]"

definition newRetryer :: "string \<Rightarrow> standard_option list \<Rightarrow> retryer" where
  "newRetryer retryMode opts =
     (if retryMode = ''adaptive'' then NewAdaptiveMode opts else NewStandard opts)"

definition resolveRetryer :: "('u, 'm) aws_deps_scheme \<Rightarrow> Config \<Rightarrow> aws_config \<Rightarrow> aws_config" where
  "resolveRetryer D c awsConfig =
     awsConfig\<lparr>ac_Retryer :=
       Some (newRetryer (resolve_retry_mode D awsConfig) (standard_options c awsConfig))\<rparr>"

text \<open>\<open>networkErrorShortcutter.RetryDelay\<close>; \<open>inner\<close> is the method of the embedded retryer.\<close>

fun as_NetOpError :: "go_error \<Rightarrow> go_error option" where
  "as_NetOpError (NetOpError m) = Some (NetOpError m)"
| "as_NetOpError _ = None"

definition RetryDelay ::
    "(go_error \<Rightarrow> string) \<Rightarrow> (int \<Rightarrow> go_error \<Rightarrow> int \<times> go_error option) \<Rightarrow>
     int \<Rightarrow> go_error \<Rightarrow> int \<times> go_error option" where
  "RetryDelay dep inner attempt err =
     (if attempt \<ge> MaxNetworkRetryCount
      then
        (case errors_As as_NetOpError err of
           Some e \<Rightarrow>
             (if Contains_str (err_Error dep e) ''no such host'' \<or>
                 Contains_str (err_Error dep e) ''connection refused''
              then (0, Some (MaxAttemptsError attempt err))
              else inner attempt err)
         | None \<Rightarrow> inner attempt err)
      else inner attempt err)"

section \<open>GetAwsConfig\<close>

text \<open>The deprecated variable: the diagnostics and the environment after the first step.\<close>

definition deprecated_warning :: string where
  "deprecated_warning =
     ''The environment variable '' @ [CHR 0x22] @ ''AWS_METADATA_URL'' @ [CHR 0x22] @
     '' is deprecated. Use '' @ [CHR 0x22] @ ''AWS_EC2_METADATA_SERVICE_ENDPOINT'' @ [CHR 0x22] @ '' instead.''"

definition metadata_url ::
    "('u, 'm) aws_deps_scheme \<Rightarrow> env \<Rightarrow> Config \<Rightarrow> env \<times> Diagnostics" where
  "metadata_url D getenv c =
     (let metadataUrl = getenv ''AWS_METADATA_URL'';
          ec2 = getenv ''AWS_EC2_METADATA_SERVICE_ENDPOINT''
      in if metadataUrl \<noteq> [] \<and> c_EC2MetadataServiceEndpoint c = [] then
           (if ec2 = [] then getenv(''AWS_EC2_METADATA_SERVICE_ENDPOINT'' := metadataUrl) else getenv,
            AddWarning (dp_Error D) [] ''Deprecated Environment Variable''
              (if ec2 \<noteq> [] \<and> ec2 \<noteq> metadataUrl
               then deprecated_warning @ NL @
                 [CHR 0x22] @ ''AWS_EC2_METADATA_SERVICE_ENDPOINT'' @ [CHR 0x22] @ '' is set to '' @
                 dp_quote D ec2 @ '' and '' @ [CHR 0x22] @ ''AWS_METADATA_URL'' @ [CHR 0x22] @
                 '' is set to '' @ dp_quote D metadataUrl @ ''. Ignoring '' @ [CHR 0x22] @
                 ''AWS_METADATA_URL'' @ [CHR 0x22] @ ''.''
               else deprecated_warning))
         else (getenv, []))"

definition static_creds :: "Config \<Rightarrow> bool" where
  "static_creds c \<longleftrightarrow> c_AccessKey c \<noteq> [] \<or> c_SecretKey c \<noteq> [] \<or> c_Token c \<noteq> []"

definition apis_for :: "('u, 'm) aws_deps_scheme \<Rightarrow> iam_client \<Rightarrow> sts_client \<Rightarrow> account_apis" where
  "apis_for D iam sts =
     \<lparr>aa_GetIAMInfo = dp_imds_GetIAMInfo D, aa_GetUser = dp_iam_GetUser D iam,
      aa_GetCallerIdentity = dp_sts_api D sts, aa_ListRoles = dp_iam_ListRoles D iam\<rparr>"

definition caller_identity ::
    "('u, 'm) aws_deps_scheme \<Rightarrow> aws_config \<Rightarrow> Config \<Rightarrow> string \<times> string \<times> go_error option" where
  "caller_identity D awsConfig c =
     fst (getAccountIDAndPartitionFromSTSGetCallerIdentity (dp_auth D)
            (apis_for D (iamClient awsConfig c) (stsClient awsConfig c)))"

type_synonym config_result = "(aws_config \<times> Diagnostics) go"

text \<open>The last steps: assumed roles for static credentials, the retryer, and the validation.\<close>

definition validate_config ::
    "('u, 'm) aws_deps_scheme \<Rightarrow> Config \<Rightarrow> Diagnostics \<Rightarrow> aws_config \<Rightarrow> config_result" where
  "validate_config D c diags awsConfig =
     (if \<not> c_SkipCredsValidation c then
        (case caller_identity D awsConfig c of
           (_, _, Some err) \<Rightarrow>
             Ret (awsConfig, AddSimpleError (dp_Error D) diags
                    (WrapError ''validating provider credentials: '' err))
         | (_, _, None) \<Rightarrow> Ret (awsConfig, diags))
      else Ret (awsConfig, diags))"

definition finish_config ::
    "('u, 'm) aws_deps_scheme \<Rightarrow> (nat \<Rightarrow> string) \<Rightarrow> env \<Rightarrow> Config \<Rightarrow> Diagnostics \<Rightarrow> aws_config \<Rightarrow>
     config_result" where
  "finish_config D fmt_d getenv c diags awsConfig =
     (if static_creds c \<and> c_AssumeRole c \<noteq> None then
        (case assumeRoleCredentialsProvider D fmt_d getenv awsConfig c of
           (prov, d) \<Rightarrow>
             (let diags = Append (dp_Error D) diags (map Some d) in
              if HasError diags then Ret (zero_aws_config, diags)
              else validate_config D c diags (resolveRetryer D c (awsConfig\<lparr>ac_Credentials := prov\<rparr>))))
      else validate_config D c diags (resolveRetryer D c awsConfig))"

text \<open>Loading the configuration with the provider whose credentials could be retrieved.\<close>

definition load_config ::
    "('u, 'm) aws_deps_scheme \<Rightarrow> (nat \<Rightarrow> string) \<Rightarrow> env \<Rightarrow> Config \<Rightarrow> Diagnostics \<Rightarrow> provider \<Rightarrow> string \<Rightarrow>
     env \<times> config_result" where
  "load_config D fmt_d getenv c diags prov initialSource =
     (case dp_Retrieve D getenv prov of
        Inl err \<Rightarrow>
          (getenv, Ret (zero_aws_config,
             AddSimpleError (dp_Error D) diags (WrapError ''retrieving credentials: '' err)))
      | Inr _ \<Rightarrow>
          (case commonLoadOptions D getenv c of
             (getenv, Inl err) \<Rightarrow> (getenv, Ret (zero_aws_config, AddSimpleError (dp_Error D) diags err))
           | (getenv, Inr opts) \<Rightarrow>
               (getenv,
                let opts = opts @
                      (if c_Profile c \<noteq> [] then [WithSharedConfigProfile (c_Profile c)] else []) @
                      (if c_MaxRetries c \<noteq> 0 then [WithRetryMaxAttempts (c_MaxRetries c)] else []) @
                      [WithCredentialsProvider prov] @
                      (if initialSource = EC2RoleProviderName then [WithEC2IMDSRegion] else [])
                in case dp_LoadDefaultConfig D getenv opts of
                     Inl err \<Rightarrow>
                       Ret (zero_aws_config,
                         AddSimpleError (dp_Error D) diags (WrapError ''loading configuration: '' err))
                   | Inr awsConfig \<Rightarrow> finish_config D fmt_d getenv c diags awsConfig)))"

definition GetAwsConfig ::
    "('u, 'm) aws_deps_scheme \<Rightarrow> (nat \<Rightarrow> string) \<Rightarrow> env \<Rightarrow> Config \<Rightarrow> env \<times> config_result" where
  "GetAwsConfig D fmt_d getenv c =
     (case metadata_url D getenv c of
        (getenv, diags) \<Rightarrow>
          (let diags = ValidateProxySettings D (dp_Error D) (dp_quote D) getenv c diags in
           if HasError diags then (getenv, Ret (zero_aws_config, diags))
           else if static_creds c then
             load_config D fmt_d getenv c diags
               (StaticProvider (c_AccessKey c) (c_SecretKey c) (c_Token c)) []
           else
             (case getCredentialsProvider D fmt_d getenv c of
                (getenv, Panic m) \<Rightarrow> (getenv, Panic m)
              | (getenv, Ret (prov, initialSource, d)) \<Rightarrow>
                  (if HasError d then (getenv, Ret (zero_aws_config, Append (dp_Error D) diags (map Some d)))
                   else
                     (case prov of
                        None \<Rightarrow> (getenv, Panic ''nil pointer dereference'')
                      | Some p \<Rightarrow> load_config D fmt_d getenv c diags p initialSource)))))"

text \<open>
  \<open>GetAwsAccountIDAndPartition\<close>; \<open>order\<close> is the iteration order of the partition map. The zero
  \<open>Partition\<close> has the empty ID. Errors of \<open>Retrieve\<close> only leave the provider's name unknown.
\<close>

definition GetAwsAccountIDAndPartition ::
    "('u, 'm) aws_deps_scheme \<Rightarrow> (string \<times> Partition) list \<Rightarrow> env \<Rightarrow> aws_config \<Rightarrow> Config \<Rightarrow>
     (string \<times> string \<times> Diagnostics) go" where
  "GetAwsAccountIDAndPartition D order getenv awsConfig c =
     (if \<not> c_SkipCredsValidation c then
        (case caller_identity D awsConfig c of
           (_, _, Some err) \<Rightarrow>
             Ret ([], [], AddSimpleError (dp_Error D) [] (WrapError ''validating provider credentials: '' err))
         | (a, p, None) \<Rightarrow> Ret (a, p, []))
      else if \<not> c_SkipRequestingAccountId c then
        (case ac_Credentials awsConfig of
           None \<Rightarrow> Panic ''nil pointer dereference''
         | Some prov \<Rightarrow>
             (let name = (case dp_Retrieve D getenv prov of Inl err \<Rightarrow> [] | Inr source \<Rightarrow> source) in
              case fst (getAccountIDAndPartition (dp_auth D)
                     (apis_for D (iamClient awsConfig c) (stsClient awsConfig c)) name) of
                (a, p, None) \<Rightarrow> Ret (a, p, [])
              | (a, p, Some err) \<Rightarrow>
                  Ret ([], [], AddSimpleError (dp_Error D) []
                    (WrapError (''AWS account ID not previously found and failed retrieving via all available methods.'' @
                       NL @ NL @
                       ''See https://www.terraform.io/docs/providers/aws/index.html#skip_requesting_account_id for workaround and implications.'' @
                       NL @ ''Errors: '') err))))
      else
        Ret ([], (case PartitionForRegion (DefaultPartitions order) (ac_Region awsConfig) of
                    None \<Rightarrow> [] | Some p \<Rightarrow> Partition_ID p), []))"

end
