(* ===== verification/AwsConfig_props.thy ===== *)
theory AwsConfig_props
  imports AwsConfig
begin

text \<open>
  Properties of the configuration resolution of \<open>AwsConfig\<close>: the chain of assumed roles, what
  happens to diagnostics on the way, the totality of \<open>GetAwsConfig\<close>, its writes to the environment,
  and the order of the User-Agent header's parts.
\<close>

section \<open>The chain of roles\<close>

text \<open>The provider of a role, built with the credentials reached so far, and the next step.\<close>

definition role_provider :: "Config \<Rightarrow> aws_config \<Rightarrow> AssumeRole \<Rightarrow> provider" where
  "role_provider c cfg ar = AssumeRoleProvider (stsClient cfg c) (ar_RoleARN ar) (assume_role_options ar)"

definition assume_step :: "Config \<Rightarrow> aws_config \<Rightarrow> AssumeRole \<Rightarrow> aws_config" where
  "assume_step c cfg ar = cfg\<lparr>ac_Credentials := Some (CredentialsCache (role_provider c cfg ar))\<rparr>"

definition role_ok :: "('u, 'm) aws_deps_scheme \<Rightarrow> env \<Rightarrow> Config \<Rightarrow> aws_config \<Rightarrow> AssumeRole \<Rightarrow> bool" where
  "role_ok D getenv c cfg ar \<longleftrightarrow>
     ar_RoleARN ar \<noteq> [] \<and> (\<exists>source. dp_Retrieve D getenv (role_provider c cfg ar) = Inr source)"

fun chain_ok :: "('u, 'm) aws_deps_scheme \<Rightarrow> env \<Rightarrow> Config \<Rightarrow> aws_config \<Rightarrow> AssumeRole list \<Rightarrow> bool" where
  "chain_ok D getenv c cfg [] = True"
| "chain_ok D getenv c cfg (ar # ars) =
     (role_ok D getenv c cfg ar \<and> chain_ok D getenv c (assume_step c cfg ar) ars)"

text \<open>The diagnostic for a role that fails in the configuration reached so far.\<close>

definition role_failure ::
    "('u, 'm) aws_deps_scheme \<Rightarrow> (nat \<Rightarrow> string) \<Rightarrow> env \<Rightarrow> Config \<Rightarrow> nat \<Rightarrow> nat \<Rightarrow> aws_config \<Rightarrow> AssumeRole \<Rightarrow>
     Diagnostic \<Rightarrow> bool" where
  "role_failure D fmt_d getenv c n i cfg ar d \<longleftrightarrow>
     (if ar_RoleARN ar = []
      then d = ErrorDiagnostic ''Cannot assume IAM Role''
             (''IAM Role ARN not set in assume role '' @ fmt_d (i + 1) @ '' of '' @ fmt_d n)
      else (\<exists>err. dp_Retrieve D getenv (role_provider c cfg ar) = Inl err \<and> d = cannotAssumeRoleError ar err))"

lemma role_failure_error: "role_failure D fmt_d getenv c n i cfg ar d \<Longrightarrow> diag_Severity d = SeverityError"
  by (auto simp: role_failure_def split: if_splits)

lemma assume_loop_cases:
  "(chain_ok D getenv c cfg ars \<and>
     assume_loop D fmt_d getenv c n i cfg creds ars =
       (if ars = [] then creds else ac_Credentials (foldl (assume_step c) cfg ars), [])) \<or>
   (\<exists>pre ar post d. ars = pre @ ar # post \<and> chain_ok D getenv c cfg pre \<and>
     role_failure D fmt_d getenv c n (i + length pre) (foldl (assume_step c) cfg pre) ar d \<and>
     assume_loop D fmt_d getenv c n i cfg creds ars = (None, [d]))"
proof (induction ars arbitrary: i cfg creds)
  case (Cons ar ars)
  show ?case
  proof (cases "role_ok D getenv c cfg ar")
    case False
    obtain d where "role_failure D fmt_d getenv c n i cfg ar d"
      "assume_loop D fmt_d getenv c n i cfg creds (ar # ars) = (None, [d])"
    proof (cases "ar_RoleARN ar = []")
      case True
      then show thesis by (intro that) (simp_all add: role_failure_def AddError_def)
    next
      case arn: False
      with False obtain err where "dp_Retrieve D getenv (role_provider c cfg ar) = Inl err"
        by (cases "dp_Retrieve D getenv (role_provider c cfg ar)") (auto simp: role_ok_def)
      with arn show thesis
        by (intro that [of "cannotAssumeRoleError ar err"])
           (simp_all add: role_failure_def role_provider_def Let_def)
    qed
    then show ?thesis
      by (intro disjI2 exI [of _ "[]"] exI [of _ ar] exI [of _ ars] exI [of _ d]) simp
  next
    case True
    let ?cfg = "assume_step c cfg ar"
    have step: "assume_loop D fmt_d getenv c n i cfg creds (ar # ars) =
        assume_loop D fmt_d getenv c n (i + 1) ?cfg (ac_Credentials ?cfg) ars"
      using True by (auto simp: role_ok_def role_provider_def assume_step_def Let_def)
    show ?thesis
      using Cons.IH [of ?cfg "i + 1" "ac_Credentials ?cfg"]
    proof
      assume "chain_ok D getenv c ?cfg ars \<and>
        assume_loop D fmt_d getenv c n (i + 1) ?cfg (ac_Credentials ?cfg) ars =
          (if ars = [] then ac_Credentials ?cfg else ac_Credentials (foldl (assume_step c) ?cfg ars), [])"
      with True step show ?thesis by auto
    next
      assume "\<exists>pre ar' post d. ars = pre @ ar' # post \<and> chain_ok D getenv c ?cfg pre \<and>
        role_failure D fmt_d getenv c n (i + 1 + length pre) (foldl (assume_step c) ?cfg pre) ar' d \<and>
        assume_loop D fmt_d getenv c n (i + 1) ?cfg (ac_Credentials ?cfg) ars = (None, [d])"
      then obtain pre ar' post d where "ars = pre @ ar' # post" "chain_ok D getenv c ?cfg pre"
        "role_failure D fmt_d getenv c n (i + 1 + length pre) (foldl (assume_step c) ?cfg pre) ar' d"
        "assume_loop D fmt_d getenv c n (i + 1) ?cfg (ac_Credentials ?cfg) ars = (None, [d])" by blast
      with True step show ?thesis
        by (intro disjI2 exI [of _ "ar # pre"] exI [of _ ar'] exI [of _ post] exI [of _ d]) auto
    qed
  qed
qed simp

lemma assume_loop_HasError:
  "assume_loop D fmt_d getenv c n i cfg creds ars = (p, d) \<Longrightarrow>
     (HasError d \<and> p = None) \<or> (d = [] \<and> (ars \<noteq> [] \<longrightarrow> p \<noteq> None))"
proof -
  assume l: "assume_loop D fmt_d getenv c n i cfg creds ars = (p, d)"
  have some: "cfg' \<noteq> [] \<Longrightarrow> ac_Credentials (foldl (assume_step c) cfg cfg') \<noteq> None" for cfg'
    by (induction cfg' rule: rev_induct) (simp_all add: assume_step_def)
  show ?thesis
    using assume_loop_cases [of D getenv c cfg ars fmt_d n i creds] l some [of ars]
    by (auto dest: role_failure_error split: if_splits)
qed

lemma Append_single_list: "HasError d \<longleftrightarrow> HasError (Append dep [] (map Some d))"
  by (subst dg.Append_HasError) (auto simp: diags_HasError_iff)

section \<open>Diagnostics\<close>

lemma initial_credentials_result:
  assumes "initial_credentials D fmt_d getenv c cfg = Ret (p, src, d)"
  shows "(HasError d \<and> p = None) \<or> (d = [] \<and> p \<noteq> None)"
proof -
  obtain p0 where p0: "ac_Credentials cfg = Some p0"
    using assms by (auto simp: initial_credentials_def split: option.splits)
  show ?thesis
  proof (cases "dp_Retrieve D getenv p0")
    case (Inl err)
    with assms p0 show ?thesis by (auto simp: initial_credentials_def Let_def)
  next
    case (Inr s)
    obtain q e where q: "assumeRoleCredentialsProvider D fmt_d getenv cfg c = (q, e)" by fastforce
    have "(HasError e \<and> q = None) \<or> (e = [] \<and> (assume_roles c \<noteq> [] \<longrightarrow> q \<noteq> None))"
      using assume_loop_HasError q by (fastforce simp: assumeRoleCredentialsProvider_def)
    with Inr q assms show ?thesis
      by (cases "assume_roles c = []")
         (auto simp: initial_credentials_def p0 Let_def Append_single_list [symmetric] split: if_splits)
  qed
qed

lemma webIdentity_result:
  "webIdentityCredentialsProvider D getenv cfg c ar = (p, d) \<Longrightarrow>
     (HasError d \<and> p = None) \<or> (d = [] \<and> p \<noteq> None)"
  by (auto simp: webIdentityCredentialsProvider_def Let_def split: sum.splits)

lemma getCredentialsProvider_result:
  assumes "getCredentialsProvider D fmt_d getenv c = (getenv', Ret (p, src, d))"
  shows "(HasError d \<and> p = None) \<or> (d = [] \<and> p \<noteq> None)"
proof -
  note R = initial_credentials_result
  show ?thesis
    using assms
    by (auto simp: getCredentialsProvider_def Let_def Append_single_list [symmetric]
        split: prod.splits sum.splits option.splits if_splits
        dest!: R dest: webIdentity_result)
qed

section \<open>Sample libraries\<close>

text \<open>Concrete parameters: the loaded configuration takes its region and provider from the options.\<close>

definition sample_load :: "load_option list \<Rightarrow> aws_config" where
  "sample_load opts =
     zero_aws_config
       \<lparr>ac_Region := concat (map (\<lambda>opt. case opt of WithRegion r \<Rightarrow> r | _ \<Rightarrow> []) opts),
        ac_Credentials := Some (last (SDKProvider 0 #
          concat (map (\<lambda>opt. case opt of WithCredentialsProvider p \<Rightarrow> [p] | _ \<Rightarrow> []) opts)))\<rparr>"

definition sample_auth :: auth_deps where
  "sample_auth =
     \<lparr>ad_arn_Parse = (\<lambda>s. Inr \<lparr>arn_AccountID = s, arn_Partition = ''aws''\<rparr>),
      ad_multierror_Append = (\<lambda>a b. ErrorString ''errors''), ad_Error = (\<lambda>e. ''foreign'')\<rparr>"

definition sample_aws_deps :: "string aws_deps" where
  "sample_aws_deps =
     \<lparr>hd_Parse = hd_Parse sample_http_deps, hd_String = hd_String sample_http_deps,
      hd_FromEnvironment = hd_FromEnvironment sample_http_deps, hd_DefaultMaxIdleConnsPerHost = 10,
      dp_Expand = Inr, dp_multierror = JoinError, dp_ReadFile = Inr, dp_quote = id,
      dp_Error = (\<lambda>e. ''foreign''), dp_SetEndpointMode = (\<lambda>s. Inr EndpointModeStateIPv4),
      dp_NewEnvConfig = (\<lambda>e. None), dp_LoadDefaultConfig = (\<lambda>e opts. Inr (sample_load opts)),
      dp_Retrieve = (\<lambda>e p. Inr ''source''),
      dp_Build = (\<lambda>cs. Join '' '' (map call_text cs)), dp_SetDefaultsMode = id,
      dp_ResolveDefaultsModeAuto = (\<lambda>cfg. ''standard''), dp_ModeRetryMode = (\<lambda>m. Some ''standard''),
      dp_auth = sample_auth, dp_sts_api = (\<lambda>c. Inr (Some (Some ''123456789012''))),
      dp_iam_GetUser = (\<lambda>c. Inr None), dp_iam_ListRoles = (\<lambda>c. Inr None),
      dp_imds_GetIAMInfo = Inr ''123456789012''\<rparr>"

section \<open>GetAwsConfig\<close>

definition loads_credentials :: "('u, 'm) aws_deps_scheme \<Rightarrow> bool" where
  "loads_credentials D \<longleftrightarrow>
     (\<forall>getenv opts cfg. dp_LoadDefaultConfig D getenv opts = Inr cfg \<longrightarrow> ac_Credentials cfg \<noteq> None)"

lemma getCredentialsProvider_Ret:
  assumes "loads_credentials D"
  shows "\<exists>getenv' p src d. getCredentialsProvider D fmt_d getenv c = (getenv', Ret (p, src, d))"
proof -
  have init: "ac_Credentials cfg \<noteq> None \<Longrightarrow>
      \<exists>p src d. initial_credentials D fmt_d genv c cfg = Ret (p, src, d)" for genv cfg
    by (auto simp: initial_credentials_def Let_def split: sum.split prod.split)
  have web: "\<not> HasError (Append (dp_Error D) [] (map Some d)) \<Longrightarrow>
      webIdentityCredentialsProvider D genv cfg c ar = (p, d) \<Longrightarrow> p \<noteq> None" for genv cfg ar p d
    using webIdentity_result [of D genv cfg c ar p d] by (auto simp: Append_single_list [symmetric])
  show ?thesis
    using assms init web
    by (auto simp: getCredentialsProvider_def loads_credentials_def Let_def
        split: prod.split sum.split option.split)
qed

text \<open>What the last steps guarantee.\<close>

definition good_result :: "Config \<Rightarrow> config_result \<Rightarrow> bool" where
  "good_result c r \<longleftrightarrow>
     (case r of
        Panic m \<Rightarrow> False
      | Ret (cfg, ds) \<Rightarrow>
          (if HasError ds
           then cfg = zero_aws_config \<or>
             (c_SkipCredsValidation c = False \<and>
              (\<exists>ds0 dep err. ds = AddSimpleError dep ds0 (WrapError ''validating provider credentials: '' err)))
           else ac_Retryer cfg \<noteq> None))"

lemma validate_config_good:
  "\<not> HasError ds \<Longrightarrow> ac_Retryer cfg \<noteq> None \<Longrightarrow> good_result c (validate_config D c ds cfg)"
  by (auto simp: good_result_def validate_config_def split: prod.split option.split)

lemma resolveRetryer_Some: "ac_Retryer (resolveRetryer D c cfg) \<noteq> None"
  by (simp add: resolveRetryer_def)

lemma zero_config_good: "HasError ds \<Longrightarrow> good_result c (Ret (zero_aws_config, ds))"
  by (simp add: good_result_def)

lemma finish_config_good: "\<not> HasError ds \<Longrightarrow> good_result c (finish_config D fmt_d getenv c ds cfg)"
  by (auto simp: finish_config_def Let_def intro!: validate_config_good zero_config_good
      resolveRetryer_Some split: prod.split)

lemma load_config_good:
  "\<not> HasError ds \<Longrightarrow> good_result c (snd (load_config D fmt_d getenv c ds p src))"
  by (simp add: load_config_def Let_def zero_config_good finish_config_good split: sum.split prod.split)

lemma GetAwsConfig_good:
  assumes "loads_credentials D"
  shows "good_result c (snd (GetAwsConfig D fmt_d getenv c))"
proof -
  obtain genv ds where m: "metadata_url D getenv c = (genv, ds)" by fastforce
  let ?ds = "ValidateProxySettings D (dp_Error D) (dp_quote D) genv c ds"
  show ?thesis
  proof (cases "HasError ?ds \<or> static_creds c")
    case True
    then show ?thesis
      using zero_config_good [of ?ds c] load_config_good [of ?ds c]
      by (auto simp: GetAwsConfig_def m Let_def)
  next
    case False
    obtain e' p src d where g: "getCredentialsProvider D fmt_d genv c = (e', Ret (p, src, d))"
      using getCredentialsProvider_Ret [OF assms] by blast
    show ?thesis
    proof (cases "HasError d")
      case True
      then have "HasError (Append (dp_Error D) ?ds (map Some d))"
        by (subst dg.Append_HasError) (auto simp: diags_HasError_iff)
      with True False g show ?thesis by (simp add: GetAwsConfig_def m Let_def zero_config_good)
    next
      case no: False
      with getCredentialsProvider_result [OF g] obtain p' where "p = Some p'" by auto
      with no False g load_config_good [of ?ds c] show ?thesis by (simp add: GetAwsConfig_def m Let_def)
    qed
  qed
qed

section \<open>The User-Agent header\<close>

text \<open>
  Middleware added behind the build step's end runs in the order of the API options, each calling
  the next; the logging options do not touch the header.
\<close>

fun api_option_handler ::
    "(builder_call list \<Rightarrow> string) \<Rightarrow> UserAgentProducts option \<Rightarrow> api_option \<Rightarrow>
     'r build_handler \<Rightarrow> 'r build_handler" where
  "api_option_handler build ctx (APNUserAgent apn) next = apnUserAgentMiddleware build apn next"
| "api_option_handler build ctx (UserAgentAppender ua) next = userAgentMiddleware ua next"
| "api_option_handler build ctx UserAgentFromContext next = userAgentFromContextMiddleware build ctx next"
| "api_option_handler build ctx _ next = next"

definition build_step ::
    "(builder_call list \<Rightarrow> string) \<Rightarrow> UserAgentProducts option \<Rightarrow> api_option list \<Rightarrow>
     'r build_handler \<Rightarrow> 'r build_handler" where
  "build_step build ctx opts final = foldr (api_option_handler build ctx) opts final"

fun option_header ::
    "(builder_call list \<Rightarrow> string) \<Rightarrow> UserAgentProducts option \<Rightarrow> api_option \<Rightarrow> Header \<Rightarrow> Header" where
  "option_header build ctx (APNUserAgent apn) h = prependUserAgentHeader h (APN_BuildUserAgentString build apn)"
| "option_header build ctx (UserAgentAppender ua) h = appendUserAgentHeader h ua"
| "option_header build ctx UserAgentFromContext h =
     (let v = BuildFromContext build ctx in if v \<noteq> [] then appendUserAgentHeader h v else h)"
| "option_header build ctx _ h = h"

lemma build_step_header:
  "build_step build ctx opts final (Some h) =
     final (Some (foldl (\<lambda>h opt. option_header build ctx opt h) h opts))"
proof (induction opts arbitrary: h)
  case (Cons opt opts)
  then show ?case
    by (cases opt) (simp_all add: build_step_def apnUserAgentMiddleware_def userAgentMiddleware_def
        userAgentFromContextMiddleware_def with_request_def)
qed (simp add: build_step_def)

text \<open>The header holds parts, none of them empty, joined by spaces.\<close>

definition ua_parts :: "string list \<Rightarrow> Header \<Rightarrow> bool" where
  "ua_parts ps h \<longleftrightarrow> header_Get h ''User-Agent'' = Join '' '' ps \<and> [] \<notin> set ps"

lemma Join_snoc: "ps \<noteq> [] \<Longrightarrow> Join sep (ps @ [v]) = Join sep ps @ sep @ v"
  by (induction sep ps rule: Join.induct) auto

lemma Join_Nil_iff: "[] \<notin> set ps \<Longrightarrow> Join sep ps = [] \<longleftrightarrow> ps = []"
  by (induction sep ps rule: Join.induct) auto

lemma ua_parts_append: "ua_parts ps h \<Longrightarrow> v \<noteq> [] \<Longrightarrow> ua_parts (ps @ [v]) (appendUserAgentHeader h v)"
  by (cases "ps = []") (auto simp: ua_parts_def Get_append Join_snoc Join_Nil_iff)

lemma ua_parts_prepend: "ua_parts ps h \<Longrightarrow> v \<noteq> [] \<Longrightarrow> ua_parts (v # ps) (prependUserAgentHeader h v)"
  by (cases ps) (auto simp: ua_parts_def Get_prepend Join_Nil_iff)

lemma ua_parts_initial: "ua_parts (if header_Get h ''User-Agent'' = [] then [] else [header_Get h ''User-Agent'']) h"
  by (auto simp: ua_parts_def)

text \<open>The parts that the configuration, the context and the environment contribute.\<close>

definition nonempty :: "string \<Rightarrow> string list" where
  "nonempty s = (if s = [] then [] else [s])"

definition expected_user_agent ::
    "('u, 'm) aws_deps_scheme \<Rightarrow> env \<Rightarrow> Config \<Rightarrow> UserAgentProducts option \<Rightarrow> string \<Rightarrow> string list" where
  "expected_user_agent D getenv c ctx sdk =
     (case c_APNInfo c of None \<Rightarrow> [] | Some apn \<Rightarrow> [APN_BuildUserAgentString (dp_Build D) apn]) @
     nonempty sdk @
     (if c_UserAgent c = [] then [] else [BuildUserAgentString (dp_Build D) (c_UserAgent c)]) @
     nonempty (BuildFromContext (dp_Build D) ctx) @
     nonempty (getenv AppendUserAgentEnvVar)"

lemma api_options_header:
  assumes "\<And>apn. c_APNInfo c = Some apn \<Longrightarrow> APN_BuildUserAgentString (dp_Build D) apn \<noteq> []"
    and "c_UserAgent c \<noteq> [] \<Longrightarrow> BuildUserAgentString (dp_Build D) (c_UserAgent c) \<noteq> []"
  shows "ua_parts (expected_user_agent D getenv c ctx (header_Get h ''User-Agent''))
    (foldl (\<lambda>h opt. option_header (dp_Build D) ctx opt h) h (api_options D getenv c))"
proof -
  let ?run = "foldl (\<lambda>h opt. option_header (dp_Build D) ctx opt h)"
  let ?sdk = "nonempty (header_Get h ''User-Agent'')"
  let ?apn = "case c_APNInfo c of None \<Rightarrow> [] | Some apn \<Rightarrow> [APN_BuildUserAgentString (dp_Build D) apn]"
  let ?ua = "if c_UserAgent c = [] then [] else [BuildUserAgentString (dp_Build D) (c_UserAgent c)]"
  let ?ctx = "nonempty (BuildFromContext (dp_Build D) ctx)"
  let ?env = "nonempty (getenv AppendUserAgentEnvVar)"
  have 1: "ua_parts (?apn @ ?sdk)
      (?run h (case c_APNInfo c of None \<Rightarrow> [] | Some apn \<Rightarrow> [APNUserAgent apn]))"
    using ua_parts_initial [of h] assms(1)
    by (auto simp: nonempty_def intro: ua_parts_prepend split: option.split)
  have 2: "ua_parts ps g \<Longrightarrow> ua_parts (ps @ ?ua) (?run g
      (if c_UserAgent c \<noteq> [] then [UserAgentAppender (BuildUserAgentString (dp_Build D) (c_UserAgent c))] else []))"
    for ps g using assms(2) by (auto intro: ua_parts_append)
  have 3: "ua_parts ps g \<Longrightarrow> ua_parts (ps @ ?ctx) (?run g [UserAgentFromContext])" for ps g
    by (auto simp: nonempty_def Let_def intro: ua_parts_append)
  have 4: "ua_parts ps g \<Longrightarrow> ua_parts (ps @ ?env) (?run g
      (if getenv AppendUserAgentEnvVar \<noteq> [] then [UserAgentAppender (getenv AppendUserAgentEnvVar)] else []))"
    for ps g by (auto simp: nonempty_def intro: ua_parts_append)
  have 5: "?run g (if c_SuppressDebugLog c then [] else [LogAttributeExtractor, RequestResponseLogger]) = g"
    for g by simp
  show ?thesis
    unfolding api_options_def foldl_append 5 expected_user_agent_def
    using 4 [OF 3 [OF 2 [OF 1]]] by simp
qed

section \<open>Properties\<close>

text \<open>C21: Role assumption is a chain: each role is assumed by an STS client that holds the
  cached credentials of the role before it (the first one those of the loaded configuration), and
  the result is the cached provider of the last role. It succeeds exactly when every role has an
  ARN and could be retrieved; otherwise the result is nil with one diagnostic about the first role
  that failed, and no later role is tried.\<close>

theorem assume_role_chain:
  "(chain_ok D getenv c cfg (assume_roles c) \<and>
    assumeRoleCredentialsProvider D fmt_d getenv cfg c =
      (if assume_roles c = [] then None
       else ac_Credentials (foldl (assume_step c) cfg (assume_roles c)), [])) \<or>
   (\<exists>pre ar post d. assume_roles c = pre @ ar # post \<and> chain_ok D getenv c cfg pre \<and>
      role_failure D fmt_d getenv c (length (assume_roles c)) (length pre)
        (foldl (assume_step c) cfg pre) ar d \<and>
      assumeRoleCredentialsProvider D fmt_d getenv cfg c = (None, [d]))"
  unfolding assumeRoleCredentialsProvider_def
  using assume_loop_cases [of D getenv c cfg "assume_roles c" fmt_d "length (assume_roles c)" 0 None]
  by simp

text \<open>C24: \<open>getCredentialsProvider\<close> returns either an error and no provider or a provider and no
  diagnostics at all: the warning about a profile that conflicts with credentials of the
  environment never reaches the caller, because the code drops the result of \<open>AddWarning\<close>.\<close>

theorem getCredentialsProvider_no_warnings:
  "case getCredentialsProvider D fmt_d getenv c of
     (getenv', Panic m) \<Rightarrow> True
   | (getenv', Ret (p, src, d)) \<Rightarrow> if HasError d then p = None else d = [] \<and> p \<noteq> None"
  using getCredentialsProvider_result [of D fmt_d getenv c]
  by (auto split: prod.split go.split)

text \<open>C22: If the SDK always loads a configuration with credentials, \<open>GetAwsConfig\<close> never panics; a
  result without an error has a retryer, and a result with an error is the zero configuration
  unless it is the failed validation of the credentials.\<close>

theorem GetAwsConfig_total:
  assumes "loads_credentials D"
  shows "\<exists>getenv' cfg ds. GetAwsConfig D fmt_d getenv c = (getenv', Ret (cfg, ds)) \<and>
    (if HasError ds
     then cfg = zero_aws_config \<or>
       (c_SkipCredsValidation c = False \<and>
        (\<exists>ds0 dep err. ds = AddSimpleError dep ds0 (WrapError ''validating provider credentials: '' err)))
     else ac_Retryer cfg \<noteq> None)"
proof -
  obtain e r where g: "GetAwsConfig D fmt_d getenv c = (e, r)" by fastforce
  with GetAwsConfig_good [OF assms, of c fmt_d getenv] have "good_result c r" by simp
  then obtain cfg ds where "r = Ret (cfg, ds)" by (auto simp: good_result_def split: go.splits)
  with g \<open>good_result c r\<close> show ?thesis unfolding good_result_def by (simp only: go.case prod.case) blast
qed

lemma sample_loads_credentials: "loads_credentials sample_aws_deps"
  by (auto simp: loads_credentials_def sample_aws_deps_def sample_load_def)

lemma GetAwsConfig_total_witness:
  "\<exists>getenv' cfg ds. GetAwsConfig sample_aws_deps (\<lambda>n. ''1'') (\<lambda>k. []) zero_Config = (getenv', Ret (cfg, ds))"
  using GetAwsConfig_total [OF sample_loads_credentials] by blast

lemmas sample_evaluation = commonLoadOptions_def load_options_until_mode_def option_bind_def
  defaultHttpClient_def HTTPTransportOptions_def parse_proxy_def zero_Config_def sample_aws_deps_def
  sample_http_deps_def ResolveSharedCredentialsFiles_def ResolveSharedConfigFiles_def FilePaths_def Let_def
  sample_load_def zero_aws_config_def assume_roles_def api_options_def

lemma profile_warning_lost_example:
  "snd (getCredentialsProvider sample_aws_deps (\<lambda>n. ''1'') (\<lambda>k. ''set'') (zero_Config\<lparr>c_Profile := ''p''\<rparr>)) =
     Ret (Some (SDKProvider 0), ''source'', []) \<and>
   profile_conflict (\<lambda>k. ''set'') (zero_Config\<lparr>c_Profile := ''p''\<rparr>)"
  by (simp add: sample_evaluation getCredentialsProvider_def initial_credentials_def profile_conflict_def)

text \<open>C25: With static credentials and an \<open>AssumeRole\<close> slice that is empty but not nil, a successful
  \<open>GetAwsConfig\<close> returns a configuration without any credentials provider: the nil result of the
  empty role loop replaces the static provider.\<close>

theorem static_credentials_lost:
  assumes "static_creds c" and "c_AssumeRole c = Some []"
    and "GetAwsConfig D fmt_d getenv c = (getenv', Ret (cfg, ds))" and "\<not> HasError ds"
  shows "ac_Credentials cfg = None"
proof -
  obtain e1 d1 where m: "metadata_url D getenv c = (e1, d1)" by fastforce
  let ?ds = "ValidateProxySettings D (dp_Error D) (dp_quote D) e1 c d1"
  let ?p = "StaticProvider (c_AccessKey c) (c_SecretKey c) (c_Token c)"
  have "\<not> HasError ?ds" using assms(3,4) m by (auto simp: GetAwsConfig_def Let_def split: if_splits)
  with assms m have l: "load_config D fmt_d e1 c ?ds ?p [] = (getenv', Ret (cfg, ds))"
    by (simp add: GetAwsConfig_def Let_def)
  have "ac_Credentials (resolveRetryer D c (cfg'\<lparr>ac_Credentials := None\<rparr>)) = None" for cfg'
    by (simp add: resolveRetryer_def)
  with l assms(1,2,4) show ?thesis
    by (auto simp: load_config_def Let_def finish_config_def assumeRoleCredentialsProvider_def
        assume_roles_def validate_config_def split: sum.splits prod.splits if_splits option.splits)
qed

definition sample_static_Config :: Config where
  "sample_static_Config =
     zero_Config\<lparr>c_AccessKey := ''key'', c_SecretKey := ''secret'', c_AssumeRole := Some [],
       c_SkipCredsValidation := True\<rparr>"

lemma static_credentials_lost_witness:
  "\<exists>getenv' cfg. GetAwsConfig sample_aws_deps (\<lambda>n. ''1'') (\<lambda>k. []) sample_static_Config =
     (getenv', Ret (cfg, [])) \<and> ac_Credentials cfg = None"
proof -
  obtain e cfg where g: "GetAwsConfig sample_aws_deps (\<lambda>n. ''1'') (\<lambda>k. []) sample_static_Config = (e, Ret (cfg, []))"
    by (simp add: GetAwsConfig_def metadata_url_def ValidateProxySettings_def check_proxy_url_def
        static_creds_def load_config_def finish_config_def assumeRoleCredentialsProvider_def
        validate_config_def sample_evaluation sample_static_Config_def)
  have "ac_Credentials cfg = None"
    by (rule static_credentials_lost [OF _ _ g])
       (simp_all add: sample_static_Config_def static_creds_def zero_Config_def)
  with g show ?thesis by blast
qed

lemma commonLoadOptions_env:
  "fst (commonLoadOptions D e c) k = e k \<or>
   (k = ''AWS_EC2_METADATA_DISABLED'' \<and> fst (commonLoadOptions D e c) k = imds_disabled_env c e k)"
  by (auto simp: commonLoadOptions_def imds_disabled_env_def split: sum.split)

text \<open>The values that \<open>GetAwsConfig\<close> can leave in a variable.\<close>

definition allowed_env :: "env \<Rightarrow> Config \<Rightarrow> string \<Rightarrow> string set" where
  "allowed_env getenv c k =
     (if k = ''AWS_EC2_METADATA_DISABLED'' then {getenv k, imds_disabled_env c getenv k}
      else if k = ''AWS_EC2_METADATA_SERVICE_ENDPOINT'' \<and> getenv k = [] \<and> c_EC2MetadataServiceEndpoint c = []
      then {getenv ''AWS_METADATA_URL''}
      else {getenv k})"

lemma allowed_env_step:
  "e k \<in> allowed_env getenv c k \<Longrightarrow> fst (commonLoadOptions D e c) k \<in> allowed_env getenv c k"
  using commonLoadOptions_env [of D e c k] by (auto simp: allowed_env_def imds_disabled_env_def)

lemma metadata_url_env: "fst (metadata_url D getenv c) k \<in> allowed_env getenv c k"
  by (auto simp: metadata_url_def allowed_env_def Let_def)

lemma load_config_env:
  "e k \<in> allowed_env getenv c k \<Longrightarrow> fst (load_config D fmt_d e c ds p src) k \<in> allowed_env getenv c k"
  using allowed_env_step [of e k getenv c D] by (auto simp: load_config_def split: sum.split prod.split)

lemma getCredentialsProvider_env:
  "e k \<in> allowed_env getenv c k \<Longrightarrow> fst (getCredentialsProvider D fmt_d e c) k \<in> allowed_env getenv c k"
  using allowed_env_step [of e k getenv c D]
  by (auto simp: getCredentialsProvider_def split: sum.split prod.split)


text \<open>The parts of the User-Agent header come in a fixed order whatever subset of them is set:
  the APN product, what the SDK put there, the configured products, those of the context, and the
  value of \<open>TF_APPEND_USER_AGENT\<close>. Empty values leave no trace.\<close>

theorem user_agent_order:
  assumes "\<And>apn. c_APNInfo c = Some apn \<Longrightarrow> APN_BuildUserAgentString (dp_Build D) apn \<noteq> []"
    and "c_UserAgent c \<noteq> [] \<Longrightarrow> BuildUserAgentString (dp_Build D) (c_UserAgent c) \<noteq> []"
  shows "\<exists>h'. build_step (dp_Build D) ctx (api_options D getenv c) final (Some h) = final (Some h') \<and>
    header_Get h' ''User-Agent'' =
      Join '' '' (expected_user_agent D getenv c ctx (header_Get h ''User-Agent''))"
  using api_options_header [OF assms, of getenv ctx h] by (auto simp: build_step_header ua_parts_def)

definition sample_ua_Config :: Config where
  "sample_ua_Config =
     zero_Config\<lparr>c_APNInfo := Some \<lparr>apn_PartnerName = ''partner'', apn_Products = []\<rparr>,
       c_UserAgent := [\<lparr>p_Name = ''first'', p_Version = ''1.0'', p_Comment = []\<rparr>]\<rparr>"

lemma user_agent_order_witness:
  "\<exists>h'. build_step (dp_Build sample_aws_deps) None
        (api_options sample_aws_deps (\<lambda>k. if k = AppendUserAgentEnvVar then ''env/2'' else []) sample_ua_Config)
        (\<lambda>h. Inr h) (Some [''User-Agent'' \<mapsto> [''sdk'']]) = Inr (Some h') \<and>
     header_Get h' ''User-Agent'' = ''APN/1.0 partner/1.0 sdk first/1.0 env/2''"
proof -
  let ?env = "\<lambda>k. if k = AppendUserAgentEnvVar then ''env/2'' else []"
  have b: "dp_Build sample_aws_deps = (\<lambda>cs. Join '' '' (map call_text cs))"
    by (simp add: sample_aws_deps_def)
  have apn: "c_APNInfo sample_ua_Config = Some \<lparr>apn_PartnerName = ''partner'', apn_Products = []\<rparr>"
    and ua: "c_UserAgent sample_ua_Config = [\<lparr>p_Name = ''first'', p_Version = ''1.0'', p_Comment = []\<rparr>]"
    by (simp_all add: sample_ua_Config_def)
  have t1: "APN_BuildUserAgentString (dp_Build sample_aws_deps) \<lparr>apn_PartnerName = ''partner'', apn_Products = []\<rparr> =
      ''APN/1.0 partner/1.0''"
    unfolding b by code_simp
  have t2: "BuildUserAgentString (dp_Build sample_aws_deps) (c_UserAgent sample_ua_Config) = ''first/1.0''"
    unfolding b ua by code_simp
  have e: "expected_user_agent sample_aws_deps ?env sample_ua_Config None
      (header_Get [''User-Agent'' \<mapsto> [''sdk'']] ''User-Agent'') =
      [''APN/1.0 partner/1.0'', ''sdk'', ''first/1.0'', ''env/2'']"
    using apn ua t1 t2
    by (simp add: expected_user_agent_def nonempty_def BuildFromContext_def header_Get_def header_Values_def
        canonical_keys)
  show ?thesis
    using user_agent_order [of sample_ua_Config sample_aws_deps None ?env "\<lambda>h. Inr h"
        "[''User-Agent'' \<mapsto> [''sdk'']]"] t1 t2 apn
    unfolding e by auto
qed

section \<open>Network errors\<close>



end
