(* ===== verification/V1Shim.thy ===== *)
theory V1Shim
  imports Config_ops UserAgent Resolvers
begin

text \<open>
  The shim for the AWS SDK v1 (\<open>v2/awsv1shim\<close>): the credentials cache over a provider of the SDK v2
  (\<open>credentials.go\<close>), the limited writer that captures a response body for the log (\<open>logger.go\<close>),
  and the session with its handlers (\<open>session.go\<close>, \<open>resolvers.go\<close>, \<open>http_client.go\<close>).
\<close>

section \<open>Credentials\<close>

text \<open>Times are nanoseconds; \<open>HasKeys\<close> and \<open>Expired\<close> are methods of the SDK, the latter of the clock.\<close>

record v2_credentials =
  vc_AccessKeyID :: string
  vc_SecretAccessKey :: string
  vc_SessionToken :: string
  vc_Source :: string
  vc_CanExpire :: bool
  vc_Expires :: int
  vc_AccountID :: string

record creds_deps =
  cd_HasKeys :: "v2_credentials \<Rightarrow> bool"
  cd_Expired :: "int \<Rightarrow> v2_credentials \<Rightarrow> bool"

record v1_value =
  vv_AccessKeyID :: string
  vv_SecretAccessKey :: string
  vv_SessionToken :: string
  vv_ProviderName :: string

definition zero_v1_value :: v1_value where
  "zero_v1_value = \<lparr>vv_AccessKeyID = [], vv_SecretAccessKey = [], vv_SessionToken = [], vv_ProviderName = []\<rparr>"

text \<open>The state is the atomic value \<open>v2creds\<close>, nil before the first store.\<close>

type_synonym creds_state = "v2_credentials option"

definition RetrieveWithContext ::
    "go_error + v2_credentials \<Rightarrow> creds_state \<Rightarrow> creds_state \<times> v1_value \<times> go_error option" where
  "RetrieveWithContext answer st =
     (case answer of
        Inl err \<Rightarrow> (st, zero_v1_value, Some err)
      | Inr v2creds \<Rightarrow>
          (Some v2creds,
           \<lparr>vv_AccessKeyID = vc_AccessKeyID v2creds, vv_SecretAccessKey = vc_SecretAccessKey v2creds,
            vv_SessionToken = vc_SessionToken v2creds,
            vv_ProviderName = ''v2Credentials('' @ vc_Source v2creds @ '')''\<rparr>, None))"

definition stored_credentials :: "creds_deps \<Rightarrow> int \<Rightarrow> creds_state \<Rightarrow> v2_credentials option" where
  "stored_credentials D now st =
     (case st of
        None \<Rightarrow> None
      | Some c \<Rightarrow> if cd_HasKeys D c \<and> \<not> cd_Expired D now c then Some c else None)"

text \<open>The clock is read in \<open>credentials()\<close> and again by \<open>Expired\<close>, at \<open>t2\<close>.\<close>

definition IsExpired :: "creds_deps \<Rightarrow> int \<Rightarrow> int \<Rightarrow> creds_state \<Rightarrow> bool" where
  "IsExpired D t1 t2 st =
     (case stored_credentials D t1 st of Some c \<Rightarrow> cd_Expired D t2 c | None \<Rightarrow> True)"

text \<open>The zero time is \<open>None\<close>.\<close>

definition ExpiresAt :: "creds_deps \<Rightarrow> int \<Rightarrow> creds_state \<Rightarrow> int option" where
  "ExpiresAt D now st =
     (case stored_credentials D now st of Some c \<Rightarrow> Some (vc_Expires c) | None \<Rightarrow> None)"

text \<open>\<open>Retrieve\<close> asks with the background context; \<open>NewCredentials\<close> is a function of the SDK.\<close>

definition Retrieve ::
    "go_error + v2_credentials \<Rightarrow> creds_state \<Rightarrow> creds_state \<times> v1_value \<times> go_error option" where
  "Retrieve answer st = RetrieveWithContext answer st"

definition newV2Credentials :: "('p \<times> creds_state \<Rightarrow> 'c) \<Rightarrow> 'p \<Rightarrow> 'c" where
  "newV2Credentials NewCredentials v2provider = NewCredentials (v2provider, None)"

text \<open>States reachable by retrievals, with the answers the provider gave so far, latest first.\<close>

inductive cred_run :: "(go_error + v2_credentials) list \<Rightarrow> creds_state \<Rightarrow> bool" where
  cred_start: "cred_run [] None"
| cred_retrieve: "cred_run as st \<Longrightarrow> cred_run (a # as) (fst (RetrieveWithContext a st))"

inductive_cases cred_run_ConsE: "cred_run (a # as) st"
inductive_cases cred_run_NilE: "cred_run [] st"

fun last_success :: "(go_error + v2_credentials) list \<Rightarrow> v2_credentials option" where
  "last_success [] = None"
| "last_success (Inr c # as) = Some c"
| "last_success (Inl e # as) = last_success as"

lemma cred_run_state: "cred_run as st \<Longrightarrow> st = last_success as"
proof (induction rule: cred_run.induct)
  case (cred_retrieve as st a)
  then show ?case by (cases a) (simp_all add: RetrieveWithContext_def)
qed simp

text \<open>C36: After any run of retrievals, the provider counts as expired exactly when none succeeded
  or the credentials of the last success lack keys or have expired: a failed retrieval keeps the
  credentials of the last success, and they expire by the clock alone. Expiry is assumed to be
  final, as it is for a fixed time.\<close>

theorem v2CredentialsProvider_expiry:
  assumes "cred_run as st" and "t1 \<le> t2"
    and "\<And>c t t'. t \<le> t' \<Longrightarrow> cd_Expired D t c \<Longrightarrow> cd_Expired D t' c"
  shows "IsExpired D t1 t2 st \<longleftrightarrow>
    (case last_success as of
       None \<Rightarrow> True
     | Some c \<Rightarrow> \<not> cd_HasKeys D c \<or> cd_Expired D t2 c)"
  using cred_run_state [OF assms(1)] assms(3) [OF assms(2)]
  by (auto simp: IsExpired_def stored_credentials_def split: option.splits)

definition sample_creds_deps :: creds_deps where
  "sample_creds_deps =
     \<lparr>cd_HasKeys = (\<lambda>c. vc_AccessKeyID c \<noteq> [] \<and> vc_SecretAccessKey c \<noteq> []),
      cd_Expired = (\<lambda>now c. vc_Expires c \<le> now)\<rparr>"

definition sample_v2_credentials :: v2_credentials where
  "sample_v2_credentials =
     \<lparr>vc_AccessKeyID = ''k'', vc_SecretAccessKey = ''s'', vc_SessionToken = [], vc_Source = ''x'',
      vc_CanExpire = True, vc_Expires = 5, vc_AccountID = []\<rparr>"

lemma v2CredentialsProvider_expiry_witness:
  "\<exists>st. cred_run [Inl (ErrorString ''e''), Inr sample_v2_credentials] st \<and>
     \<not> IsExpired sample_creds_deps 3 4 st \<and> IsExpired sample_creds_deps 3 5 st"
proof -
  have r: "cred_run [Inl (ErrorString ''e''), Inr sample_v2_credentials] (Some sample_v2_credentials)"
    using cred_retrieve [OF cred_retrieve [OF cred_start, of "Inr sample_v2_credentials"],
        of "Inl (ErrorString ''e'')"]
    by (simp add: RetrieveWithContext_def)
  have "IsExpired sample_creds_deps 3 t (Some sample_v2_credentials) \<longleftrightarrow> 5 \<le> t" if "3 \<le> t" for t
    using v2CredentialsProvider_expiry [OF r that, of sample_creds_deps]
    by (simp add: sample_creds_deps_def sample_v2_credentials_def)
  with r show ?thesis by auto
qed

section \<open>Writers\<close>

text \<open>One \<open>Read\<close> through \<open>io.TeeReader\<close>: what it returns, and the writer afterwards.\<close>

definition tee_read ::
    "('w \<Rightarrow> bytes \<Rightarrow> 'w \<times> nat \<times> go_error option) \<Rightarrow> 'w \<Rightarrow> bytes \<times> go_error option \<Rightarrow> 'w \<times> bytes \<times> go_error option" where
  "tee_read Write w r =
     (case r of
        (p, err) \<Rightarrow>
          if p = [] then (w, p, err)
          else (case Write w p of
                  (w', n, Some werr) \<Rightarrow> (w', take n p, Some werr)
                | (w', n, None) \<Rightarrow> (w', p, err)))"

text \<open>What a tee reader relies on: the writer takes every write whole and reports no error.\<close>

locale tee_writer =
  fixes Write :: "'w \<Rightarrow> bytes \<Rightarrow> 'w \<times> nat \<times> go_error option"
  assumes Write_whole: "\<exists>w'. Write w p = (w', length p, None)"
begin

lemma tee_read_transparent: "snd (tee_read Write w r) = r"
  using Write_whole [of w "fst r"] by (cases r) (auto simp: tee_read_def)

lemma tee_read_writer: "fst (tee_read Write w (p, err)) = (if p = [] then w else fst (Write w p))"
  using Write_whole [of w p] by (auto simp: tee_read_def)

end

text \<open>\<open>bytes.Buffer\<close>.\<close>

definition buffer_Write :: "bytes \<Rightarrow> bytes \<Rightarrow> bytes \<times> nat \<times> go_error option" where
  "buffer_Write b p = (b @ p, length p, None)"

text \<open>\<open>limitedWriter.Write\<close> over an underlying writer.\<close>

record 'w limitedWriter =
  lw_W :: 'w
  lw_N :: int

definition limitWriter :: "'w \<Rightarrow> int \<Rightarrow> 'w limitedWriter" where
  "limitWriter w n = \<lparr>lw_W = w, lw_N = n\<rparr>"

definition limited_Write ::
    "('w \<Rightarrow> bytes \<Rightarrow> 'w \<times> nat \<times> go_error option) \<Rightarrow> 'w limitedWriter \<Rightarrow> bytes \<Rightarrow>
     'w limitedWriter \<times> nat \<times> go_error option" where
  "limited_Write Write w p =
     (if lw_N w \<le> 0 then (w, length p, None)
      else if int (length p) > lw_N w then
        (case Write (lw_W w) (take (nat (lw_N w)) p) of
           (u, n, err) \<Rightarrow> (w\<lparr>lw_W := u, lw_N := lw_N w - int n\<rparr>, length p, err))
      else
        (case Write (lw_W w) p of
           (u, n, err) \<Rightarrow> (w\<lparr>lw_W := u, lw_N := lw_N w - int n\<rparr>, n, err)))"

interpretation buffer: tee_writer buffer_Write
  by unfold_locales (simp add: buffer_Write_def)

interpretation limited: tee_writer "limited_Write buffer_Write"
  by unfold_locales (simp add: limited_Write_def buffer_Write_def)

text \<open>Reading a body to its end: the reads of the source in order, each through the tee.\<close>

fun tee_reads ::
    "bytes limitedWriter \<Rightarrow> (bytes \<times> go_error option) list \<Rightarrow>
     bytes limitedWriter \<times> (bytes \<times> go_error option) list" where
  "tee_reads w [] = (w, [])"
| "tee_reads w (r # rs) =
     (let (w1, out) = tee_read (limited_Write buffer_Write) w r; (w2, outs) = tee_reads w1 rs in (w2, out # outs))"

lemma limited_Write_buffer:
  "fst (limited_Write buffer_Write w p) =
     w\<lparr>lw_W := lw_W w @ take (nat (lw_N w)) p, lw_N := lw_N w - int (length (take (nat (lw_N w)) p))\<rparr>"
  by (auto simp: limited_Write_def buffer_Write_def)

lemma tee_reads_result:
  "tee_reads w rs = (w', outs) \<Longrightarrow>
     outs = rs \<and> lw_W w' = lw_W w @ take (nat (lw_N w)) (concat (map fst rs))"
proof (induction rs arbitrary: w w' outs)
  case (Cons r rs)
  obtain p err where r: "r = (p, err)" by (cases r)
  obtain w1 out where w1: "tee_read (limited_Write buffer_Write) w r = (w1, out)" by (cases "tee_read (limited_Write buffer_Write) w r")
  obtain w2 outs' where w2: "tee_reads w1 rs = (w2, outs')" by (cases "tee_reads w1 rs")
  have out: "out = r" using limited.tee_read_transparent [of w r] w1 by simp
  have "w1 = (if p = [] then w else fst (limited_Write buffer_Write w p))"
    using limited.tee_read_writer [of w p err] w1 r by simp
  then have W1: "lw_W w1 = lw_W w @ take (nat (lw_N w)) p"
    and N1: "nat (lw_N w1) = nat (lw_N w) - length p"
    by (auto simp: limited_Write_buffer)
  from Cons.IH [OF w2] have "outs' = rs"
    "lw_W w2 = lw_W w1 @ take (nat (lw_N w1)) (concat (map fst rs))" by auto
  with Cons.prems w1 w2 out W1 N1 r show ?case by auto
qed simp

text \<open>Capturing a response body for the log is invisible to the SDK: every read through the
  tee returns what the source returned, errors included, however the body is cut into reads; and
  the buffer ends up with the first \<open>n\<close> bytes of the body.\<close>

theorem response_capture:
  "\<exists>w. tee_reads (limitWriter [] n) rs = (w, rs) \<and> lw_W w = take (nat n) (concat (map fst rs))"
proof -
  obtain w outs where t: "tee_reads (limitWriter [] n) rs = (w, outs)" by fastforce
  with tee_reads_result [OF t] show ?thesis by (simp add: limitWriter_def)
qed

end
