(* ===== verification/V1Session.thy ===== *)
theory V1Session
  imports AwsConfig_props V1Shim
begin

text \<open>
  Sessions for the AWS SDK v1 (\<open>v2/awsv1shim/session.go\<close>, \<open>resolvers.go\<close>, \<open>http_client.go\<close>):
  the session options, the handler lists that \<open>GetSession\<close> extends, and the retry handler.
\<close>

section \<open>Session options\<close>

datatype v1_http_client = ConfiguredClient handle | PooledClient Transport

record session_options =
  so_Credentials :: "provider option"
  so_HTTPClient :: v1_http_client
  so_MaxRetries :: int
  so_Region :: string
  so_UseFIPSEndpoint :: FIPSEndpointState
  so_UseDualStackEndpoint :: DualStackEndpointState
  so_LogOff :: bool
  so_SharedConfigFiles :: "string list"
  so_CustomCABundle :: "bytes option"

text \<open>The enumerations of the SDK v1 have the same named constants as those of the SDK v2.\<close>

fun convertFIPSEndpointState :: "FIPSEndpointState \<Rightarrow> FIPSEndpointState" where
  "convertFIPSEndpointState FIPSEndpointStateEnabled = FIPSEndpointStateEnabled"
| "convertFIPSEndpointState FIPSEndpointStateDisabled = FIPSEndpointStateDisabled"
| "convertFIPSEndpointState _ = FIPSEndpointStateUnset"

fun convertDualStackEndpointState :: "DualStackEndpointState \<Rightarrow> DualStackEndpointState" where
  "convertDualStackEndpointState DualStackEndpointStateEnabled = DualStackEndpointStateEnabled"
| "convertDualStackEndpointState DualStackEndpointStateDisabled = DualStackEndpointStateDisabled"
| "convertDualStackEndpointState _ = DualStackEndpointStateUnset"

definition loadOptionsGetCustomCABundle :: "bytes option \<Rightarrow> bytes option answer" where
  "loadOptionsGetCustomCABundle b = (case b of None \<Rightarrow> (None, False, None) | Some r \<Rightarrow> (Some r, True, None))"

definition envConfigGetCustomCABundle ::
    "(string \<Rightarrow> go_error + bytes) \<Rightarrow> string \<Rightarrow> bytes option answer" where
  "envConfigGetCustomCABundle ReadFile file =
     (if file = [] then (None, False, None)
      else (case ReadFile file of Inl err \<Rightarrow> (None, False, Some err) | Inr b \<Rightarrow> (Some b, True, None)))"

definition sharedConfigGetCustomCABundle ::
    "(string \<Rightarrow> go_error + bytes) \<Rightarrow> string \<Rightarrow> bytes option answer" where
  "sharedConfigGetCustomCABundle ReadFile file =
     (if file = [] then (None, False, None)
      else (case ReadFile file of Inl err \<Rightarrow> (None, False, Some err) | Inr b \<Rightarrow> (Some b, True, None)))"

fun ca_bundle_answer ::
    "(string \<Rightarrow> go_error + bytes) \<Rightarrow> ca_bundle_source \<Rightarrow> bytes option answer option" where
  "ca_bundle_answer ReadFile (LoadOptionsSource b) = Some (loadOptionsGetCustomCABundle b)"
| "ca_bundle_answer ReadFile (EnvConfigSource f) = Some (envConfigGetCustomCABundle ReadFile f)"
| "ca_bundle_answer ReadFile (SharedConfigSource f) = Some (sharedConfigGetCustomCABundle ReadFile f)"
| "ca_bundle_answer ReadFile OtherSource = None"

definition resolveCustomCABundle ::
    "(string \<Rightarrow> go_error + bytes) \<Rightarrow> config_source list \<Rightarrow> bytes option answer" where
  "resolveCustomCABundle ReadFile configSources =
     resolve_loop (\<lambda>s. ca_bundle_answer ReadFile (cs_CustomCABundle s)) configSources (None, False, None)"

text \<open>\<open>DefaultPooledClient\<close> of \<open>cleanhttp\<close> is given by its transport.\<close>

definition v1_defaultHttpClient ::
    "('u, 'm) http_deps_scheme \<Rightarrow> Transport \<Rightarrow> env \<Rightarrow> Config \<Rightarrow> go_error + Transport" where
  "v1_defaultHttpClient D pooled getenv c =
     (case HTTPTransportOptions D c of Inl err \<Rightarrow> Inl err | Inr opts \<Rightarrow> Inr (opts getenv pooled))"

definition session_ca_bundle ::
    "('u, 'm) aws_deps_scheme \<Rightarrow> env \<Rightarrow> aws_config \<Rightarrow> Config \<Rightarrow> go_error + bytes option" where
  "session_ca_bundle D getenv awsC c =
     (if c_CustomCABundle c \<noteq> [] then CustomCABundleReader getenv (dp_Expand D) (dp_ReadFile D) c
      else
        (case resolveCustomCABundle (dp_ReadFile D) (ac_ConfigSources awsC) of
           (reader, found, Some err) \<Rightarrow>
             Inl (WrapError ''error resolving custom CA bundle configuration: '' err)
         | (reader, found, None) \<Rightarrow> Inr (if found then reader else None)))"

definition getSessionOptions ::
    "('u, 'm) aws_deps_scheme \<Rightarrow> Transport \<Rightarrow> env \<Rightarrow> aws_config \<Rightarrow> Config \<Rightarrow> go_error + session_options" where
  "getSessionOptions D pooled getenv awsC c =
     (case ResolveUseFIPSEndpoint (ac_ConfigSources awsC) of
        (_, _, Some err) \<Rightarrow> Inl (WrapError ''error resolving FIPS endpoint configuration: '' err)
      | (useFIPS, _, None) \<Rightarrow>
          (case ResolveUseDualStackEndpoint (ac_ConfigSources awsC) of
             (_, _, Some err) \<Rightarrow> Inl (WrapError ''error resolving dual-stack endpoint configuration: '' err)
           | (useDualStack, _, None) \<Rightarrow>
               option_bind
                 (case c_HTTPClient c of
                    None \<Rightarrow> map_sum id PooledClient (v1_defaultHttpClient D pooled getenv c)
                  | Some h \<Rightarrow> Inr (ConfiguredClient h)) (\<lambda>httpClient.
               option_bind (session_ca_bundle D getenv awsC c) (\<lambda>bundle.
                 Inr \<lparr>so_Credentials = ac_Credentials awsC, so_HTTPClient = httpClient, so_MaxRetries = 0,
                      so_Region = ac_Region awsC,
                      so_UseFIPSEndpoint = convertFIPSEndpointState useFIPS,
                      so_UseDualStackEndpoint = convertDualStackEndpointState useDualStack,
                      so_LogOff = (\<not> c_SuppressDebugLog c),
                      so_SharedConfigFiles = c_SharedCredentialsFiles c @ c_SharedConfigFiles c,
                      so_CustomCABundle = bundle\<rparr>))))"

section \<open>The session\<close>

datatype v1_handler =
    SDKHandler handle
  | AddToUserAgentFreeForm string
  | UserAgentFromContextHandler
  | RequestLogger
  | ResponseLogger
  | RetryShortcut

record session =
  se_options :: session_options
  se_MaxRetries :: int
  se_Build :: "v1_handler list"
  se_Send :: "v1_handler list"
  se_Retry :: "v1_handler list"

definition PushFront :: "v1_handler \<Rightarrow> v1_handler list \<Rightarrow> v1_handler list" where
  "PushFront h hs = h # hs"

definition PushBack :: "v1_handler \<Rightarrow> v1_handler list \<Rightarrow> v1_handler list" where
  "PushBack h hs = hs @ [h]"

definition SetSessionUserAgent ::
    "(builder_call list \<Rightarrow> string) \<Rightarrow> APNInfo option \<Rightarrow> UserAgentProducts \<Rightarrow> session \<Rightarrow> session" where
  "SetSessionUserAgent build apnInfo userAgentProducts sess =
     (let sess = (case apnInfo of
                    None \<Rightarrow> sess
                  | Some apn \<Rightarrow>
                      sess\<lparr>se_Build := PushFront (AddToUserAgentFreeForm (APN_BuildUserAgentString build apn))
                        (se_Build sess)\<rparr>)
      in if userAgentProducts \<noteq> []
         then sess\<lparr>se_Build := PushBack (AddToUserAgentFreeForm (BuildUserAgentString build userAgentProducts))
           (se_Build sess)\<rparr>
         else sess)"

text \<open>
  \<open>GetSession\<close>: a nil \<open>Retryer\<close> function panics when it is called; \<open>MaxAttempts\<close> is the method of
  the retryer. A nil session is \<open>None\<close>.
\<close>

definition GetSession ::
    "('u, 'm) aws_deps_scheme \<Rightarrow> Transport \<Rightarrow> (session_options \<Rightarrow> go_error + session) \<Rightarrow>
     (retryer \<Rightarrow> int) \<Rightarrow> env \<Rightarrow> aws_config \<Rightarrow> Config \<Rightarrow> (session option \<times> Diagnostics) go" where
  "GetSession D pooled NewSessionWithOptions MaxAttempts getenv awsC c =
     (case getSessionOptions D pooled getenv awsC c of
        Inl err \<Rightarrow> Ret (None, AddSimpleError (dp_Error D) [] err)
      | Inr options \<Rightarrow>
          (case NewSessionWithOptions options of
             Inl err \<Rightarrow>
               (if v1_ErrCodeEquals (Some err) [''NoCredentialProviders'']
                then Ret (None, Append (dp_Error D) [] [Some (NewNoValidCredentialSourcesError (Some c) err)])
                else Ret (None, AddSimpleError (dp_Error D) [] (WrapError ''creating AWS session: '' err)))
           | Inr sess \<Rightarrow>
               (case ac_Retryer awsC of
                  None \<Rightarrow> Panic ''nil function call''
                | Some retryer \<Rightarrow>
                    (let sess = sess\<lparr>se_MaxRetries := MaxAttempts retryer\<rparr>;
                         sess = SetSessionUserAgent (dp_Build D) (c_APNInfo c) (c_UserAgent c) sess;
                         sess = sess\<lparr>se_Build := PushBack UserAgentFromContextHandler (se_Build sess)\<rparr>;
                         sess = (if c_SuppressDebugLog c then sess
                                 else sess\<lparr>se_Send := PushBack ResponseLogger (PushFront RequestLogger (se_Send sess))\<rparr>);
                         v = getenv AppendUserAgentEnvVar;
                         sess = (if v \<noteq> [] then sess\<lparr>se_Build := PushBack (AddToUserAgentFreeForm v) (se_Build sess)\<rparr>
                                 else sess)
                     in Ret (Some (sess\<lparr>se_Retry := PushBack RetryShortcut (se_Retry sess)\<rparr>), [])))))"

section \<open>The retry handler\<close>

record v1_request =
  vr_Error :: "go_error option"
  vr_RetryCount :: int
  vr_Retryable :: "bool option"

definition stop_retries_on ::
    "(go_error \<Rightarrow> string) \<Rightarrow> string \<Rightarrow> v1_request \<Rightarrow> v1_request go" where
  "stop_retries_on dep orig r =
     go_bind (ErrMessageAndOrigErrContain dep (vr_Error r) ''RequestError'' ''send request failed'' orig)
       (\<lambda>b. Ret (if b then r\<lparr>vr_Retryable := Some False\<rparr> else r))"

definition retry_handler ::
    "(go_error \<Rightarrow> string) \<Rightarrow> (v1_request \<Rightarrow> bool) \<Rightarrow> v1_request \<Rightarrow> v1_request go" where
  "retry_handler dep IsErrorExpired r =
     (let r = (if IsErrorExpired r then r\<lparr>vr_Retryable := Some False\<rparr> else r) in
      if vr_RetryCount r < MaxNetworkRetryCount then Ret r
      else go_bind (stop_retries_on dep ''no such host'' r) (stop_retries_on dep ''connection refused''))"

text \<open>The retry handler turns retries off exactly for expired credentials and, from the ninth
  retry on, for a request error whose original error is a failed lookup or a refused connection;
  otherwise it leaves the request as it is.\<close>

theorem retry_handler_network_errors:
  "retry_handler dep IsErrorExpired (r\<lparr>vr_Error := Some (AwsV1Error code msg (Some orig))\<rparr>) =
     (let r = r\<lparr>vr_Error := Some (AwsV1Error code msg (Some orig))\<rparr> in
      Ret (if IsErrorExpired r \<or>
              (9 \<le> vr_RetryCount r \<and> code = ''RequestError'' \<and> Contains_str msg ''send request failed'' \<and>
               (Contains_str (err_Error dep orig) ''no such host'' \<or>
                Contains_str (err_Error dep orig) ''connection refused''))
           then r\<lparr>vr_Retryable := Some False\<rparr> else r))"
proof -
  have m: "v1_ErrMessageContains (Some (AwsV1Error code msg (Some orig))) c m \<longleftrightarrow> code = c \<and> Contains_str msg m"
    for c m by (simp add: v1_ErrMessageContains_def aws1.As_self)
  have stop: "stop_retries_on dep (ch # s) r' =
      Ret (if code = ''RequestError'' \<and> Contains_str msg ''send request failed'' \<and>
              Contains_str (err_Error dep orig) (ch # s)
           then r'\<lparr>vr_Retryable := Some False\<rparr> else r')"
    if "vr_Error r' = Some (AwsV1Error code msg (Some orig))" for ch s r'
    using that by (simp add: stop_retries_on_def ErrMessageAndOrigErrContain_def m assert_AwsErr_def)
  show ?thesis
    by (cases "9 \<le> vr_RetryCount r") (auto simp: retry_handler_def MaxNetworkRetryCount_def stop Let_def)
qed

section \<open>The User-Agent header\<close>

text \<open>
  The build handlers run in order. \<open>request.AddToUserAgent\<close> appends to the header as
  \<open>appendUserAgentHeader\<close> does; \<open>sdk\<close> is the text a handler of the SDK itself appends.
\<close>

fun v1_handler_header ::
    "(builder_call list \<Rightarrow> string) \<Rightarrow> (handle \<Rightarrow> string) \<Rightarrow> UserAgentProducts option \<Rightarrow>
     v1_handler \<Rightarrow> Header \<Rightarrow> Header" where
  "v1_handler_header build sdk ctx (SDKHandler i) h = appendUserAgentHeader h (sdk i)"
| "v1_handler_header build sdk ctx (AddToUserAgentFreeForm s) h = appendUserAgentHeader h s"
| "v1_handler_header build sdk ctx UserAgentFromContextHandler h =
     userAgentFromContextHandler build appendUserAgentHeader ctx h"
| "v1_handler_header build sdk ctx _ h = h"

definition run_build ::
    "(builder_call list \<Rightarrow> string) \<Rightarrow> (handle \<Rightarrow> string) \<Rightarrow> UserAgentProducts option \<Rightarrow>
     v1_handler list \<Rightarrow> Header \<Rightarrow> Header" where
  "run_build build sdk ctx hs h = foldl (\<lambda>h x. v1_handler_header build sdk ctx x h) h hs"

lemma GetSession_build:
  assumes "GetSession D pooled NewS MaxA getenv awsC c = Ret (Some sess, ds)"
  shows "\<exists>options s0. NewS options = Inr s0 \<and> se_Build sess =
    (case c_APNInfo c of None \<Rightarrow> [] | Some apn \<Rightarrow> [AddToUserAgentFreeForm (APN_BuildUserAgentString (dp_Build D) apn)]) @
    se_Build s0 @
    (if c_UserAgent c = [] then [] else [AddToUserAgentFreeForm (BuildUserAgentString (dp_Build D) (c_UserAgent c))]) @
    [UserAgentFromContextHandler] @
    (if getenv AppendUserAgentEnvVar = [] then [] else [AddToUserAgentFreeForm (getenv AppendUserAgentEnvVar)])"
proof -
  obtain options s0 r where "getSessionOptions D pooled getenv awsC c = Inr options"
    "NewS options = Inr s0" "ac_Retryer awsC = Some r"
    using assms by (auto simp: GetSession_def split: sum.splits option.splits if_splits)
  with assms show ?thesis
    by (intro exI [of _ options] exI [of _ s0])
       (auto simp: GetSession_def SetSessionUserAgent_def PushFront_def PushBack_def Let_def
        split: option.splits if_splits)
qed

lemma run_sdk_handlers:
  "ua_parts ps h \<Longrightarrow> (\<And>i. i \<in> set is \<Longrightarrow> sdk i \<noteq> []) \<Longrightarrow>
     ua_parts (ps @ map sdk is) (run_build build sdk ctx (map SDKHandler is) h)"
proof (induction "is" arbitrary: ps h)
  case (Cons i "is")
  then have "ua_parts (ps @ [sdk i]) (appendUserAgentHeader h (sdk i))"
    by (intro ua_parts_append) auto
  from Cons.IH [OF this] Cons.prems(2) show ?case by (simp add: run_build_def)
qed (simp add: run_build_def)

text \<open>The parts of a request's header without one of its own.\<close>

definition v1_expected_user_agent ::
    "('u, 'm) aws_deps_scheme \<Rightarrow> env \<Rightarrow> Config \<Rightarrow> UserAgentProducts option \<Rightarrow> string list \<Rightarrow> string list" where
  "v1_expected_user_agent D getenv c ctx sdk_parts =
     (case c_APNInfo c of None \<Rightarrow> [] | Some apn \<Rightarrow> [APN_BuildUserAgentString (dp_Build D) apn]) @
     sdk_parts @
     (if c_UserAgent c = [] then [] else [BuildUserAgentString (dp_Build D) (c_UserAgent c)]) @
     nonempty (BuildFromContext (dp_Build D) ctx) @
     nonempty (getenv AppendUserAgentEnvVar)"

lemma session_ua_parts:
  assumes sess: "GetSession D pooled NewS MaxA getenv awsC c = Ret (Some sess, ds)"
    and sdk: "\<And>options s0. NewS options = Inr s0 \<Longrightarrow> se_Build s0 = map SDKHandler is"
      "\<And>i. i \<in> set is \<Longrightarrow> sdk i \<noteq> []"
    and parts: "\<And>apn. c_APNInfo c = Some apn \<Longrightarrow> APN_BuildUserAgentString (dp_Build D) apn \<noteq> []"
      "c_UserAgent c \<noteq> [] \<Longrightarrow> BuildUserAgentString (dp_Build D) (c_UserAgent c) \<noteq> []"
    and h: "header_Get h ''User-Agent'' = []"
  shows "ua_parts (v1_expected_user_agent D getenv c ctx (map sdk is)) (run_build (dp_Build D) sdk ctx (se_Build sess) h)"
proof -
  let ?run = "run_build (dp_Build D) sdk ctx"
  let ?apn = "case c_APNInfo c of None \<Rightarrow> [] | Some apn \<Rightarrow> [APN_BuildUserAgentString (dp_Build D) apn]"
  let ?ua = "if c_UserAgent c = [] then [] else [BuildUserAgentString (dp_Build D) (c_UserAgent c)]"
  have app: "?run (xs @ ys) g = ?run ys (?run xs g)" for xs ys g by (simp add: run_build_def)
  have 1: "ua_parts ?apn (?run (case c_APNInfo c of None \<Rightarrow> []
      | Some apn \<Rightarrow> [AddToUserAgentFreeForm (APN_BuildUserAgentString (dp_Build D) apn)]) h)"
    using ua_parts_append [of "[]" h] h parts(1)
    by (auto simp: run_build_def ua_parts_def split: option.split)
  have 2: "ua_parts ps g \<Longrightarrow> ua_parts (ps @ map sdk is) (?run (map SDKHandler is) g)" for ps g
    by (rule run_sdk_handlers) (use sdk(2) in auto)
  have 3: "ua_parts ps g \<Longrightarrow> ua_parts (ps @ ?ua) (?run (if c_UserAgent c = [] then []
      else [AddToUserAgentFreeForm (BuildUserAgentString (dp_Build D) (c_UserAgent c))]) g)" for ps g
    using parts(2) by (auto simp: run_build_def intro: ua_parts_append)
  have 4: "ua_parts ps g \<Longrightarrow> ua_parts (ps @ nonempty (BuildFromContext (dp_Build D) ctx))
      (?run [UserAgentFromContextHandler] g)" for ps g
    by (auto simp: run_build_def nonempty_def userAgentFromContextHandler_def Let_def intro: ua_parts_append)
  have 5: "ua_parts ps g \<Longrightarrow> ua_parts (ps @ nonempty (getenv AppendUserAgentEnvVar))
      (?run (if getenv AppendUserAgentEnvVar = [] then []
             else [AddToUserAgentFreeForm (getenv AppendUserAgentEnvVar)]) g)" for ps g
    by (auto simp: run_build_def nonempty_def intro: ua_parts_append)
  obtain options s0 where "NewS options = Inr s0" and b: "se_Build sess =
    (case c_APNInfo c of None \<Rightarrow> [] | Some apn \<Rightarrow> [AddToUserAgentFreeForm (APN_BuildUserAgentString (dp_Build D) apn)]) @
    se_Build s0 @
    (if c_UserAgent c = [] then [] else [AddToUserAgentFreeForm (BuildUserAgentString (dp_Build D) (c_UserAgent c))]) @
    [UserAgentFromContextHandler] @
    (if getenv AppendUserAgentEnvVar = [] then [] else [AddToUserAgentFreeForm (getenv AppendUserAgentEnvVar)])"
    using GetSession_build [OF sess] by blast
  then have "se_Build s0 = map SDKHandler is" using sdk(1) by blast
  then show ?thesis
    unfolding b app v1_expected_user_agent_def using 5 [OF 4 [OF 3 [OF 2 [OF 1]]]] by simp
qed


definition sample_session :: "session_options \<Rightarrow> session" where
  "sample_session o' = \<lparr>se_options = o', se_MaxRetries = 0, se_Build = [SDKHandler 1], se_Send = [], se_Retry = []\<rparr>"


end
