(* ===== verification/ResponseLog.thy ===== *)
theory ResponseLog
  imports HttpLog AwsAuth
begin

text \<open>
  The log middleware for the AWS SDK v2 (\<open>logger.go\<close>): the fields set when an operation starts,
  the attributes of S3 operations, and the middleware that logs a request and its response around
  the rest of the stack. A body is a stream, so reading it for the log consumes it; the middleware
  puts a new reader in its place. Log output is part of the result.
\<close>

section \<open>Responses\<close>

text \<open>\<open>hr_Body\<close> is what reading the body still gives; \<open>hr_rest\<close> stands for the other fields.\<close>

record http_response = response +
  hr_Body :: reader
  hr_rest :: handle

text \<open>\<open>io.ReadAll\<close>: the content, or the error behind the bytes that could be read.\<close>

definition ReadAll :: "reader \<Rightarrow> reader \<times> (go_error + bytes)" where
  "ReadAll r =
     (r\<lparr>rd_bytes := []\<rparr>, (case rd_err r of None \<Rightarrow> Inr (rd_bytes r) | Some err \<Rightarrow> Inl err))"

text \<open>\<open>defaultResponseBodyLogger.Log\<close>: the response afterwards, and the attributes.\<close>

definition defaultResponseBodyLogger_Log ::
    "http_response \<Rightarrow> KeyValue list \<Rightarrow> http_response \<times> body_result" where
  "defaultResponseBodyLogger_Log resp attrs =
     (case ReadAll (hr_Body resp) of
        (r, Inl err) \<Rightarrow> (resp\<lparr>hr_Body := r\<rparr>, Ret (Inl err))
      | (r, Inr content) \<Rightarrow>
          (resp\<lparr>hr_Body := \<lparr>rd_bytes = content, rd_err = None\<rparr>\<rparr>,
           go_bind (ReadTruncatedBody \<lparr>rd_bytes = content, rd_err = None\<rparr> MaxResponseBodyLen)
             (\<lambda>b. case b of
                    Inl err \<Rightarrow> Ret (Inl err)
                  | Inr body \<Rightarrow> Ret (Inr (attrs @ [(''http.response.body'', AStr body)])))))"

record response_deps =
  rp_ClientResponse :: "http_response \<Rightarrow> KeyValue list"
  rp_ResponseHeader :: "Header \<Rightarrow> KeyValue list"
  rp_format :: num_format

definition responseBodyLogger ::
    "response_deps \<Rightarrow> ('m op_context_scheme) \<Rightarrow> http_response \<Rightarrow> KeyValue list \<Rightarrow> http_response \<times> body_result" where
  "responseBodyLogger D ctx resp attrs =
     (if oc_ServiceID ctx = ''S3'' \<and> oc_OperationName ctx = ''GetObject''
      then (resp, S3ObjectResponseBodyLogger_Log (rp_format D) (response.truncate resp) attrs)
      else defaultResponseBodyLogger_Log resp attrs)"

text \<open>\<open>decomposeHTTPResponse\<close>; the duration is given in milliseconds.\<close>

definition decomposeHTTPResponse ::
    "response_deps \<Rightarrow> ('m op_context_scheme) \<Rightarrow> http_response \<Rightarrow> int \<Rightarrow>
     http_response \<times> (go_error + (string \<rightharpoonup> attr_value)) go" where
  "decomposeHTTPResponse D ctx resp elapsed =
     (let attributes = (''http.duration'', AInt elapsed) # rp_ClientResponse D resp @
            DecomposeResponseHeaders (rp_ResponseHeader D) (rs_Header resp);
          (resp, r) = responseBodyLogger D ctx resp attributes
      in (resp, go_bind r (\<lambda>r. case r of
            Inl err \<Rightarrow> Ret (Inl err) | Inr attributes \<Rightarrow> Ret (Inr (result_map attributes)))))"

section \<open>The operation of a request\<close>

text \<open>
  The parts of a context the middleware reads, and the fields \<open>SetField\<close> has put on its logger, in
  order. \<open>SetField\<close> of the logger is the parameter-free effect of adding a field.
\<close>

record log_context = op_context +
  lc_Region :: string
  lc_SigningRegion :: string
  lc_CustomEndpoint :: bool
  lc_fields :: "KeyValue list"

definition SetField :: "log_context \<Rightarrow> string \<Rightarrow> attr_value \<Rightarrow> log_context" where
  "SetField ctx k v = ctx\<lparr>lc_fields := lc_fields ctx @ [(k, v)]\<rparr>"

definition AwsSdkKey :: string where "AwsSdkKey = ''tf_aws.sdk''"
definition SigningRegionKey :: string where "SigningRegionKey = ''tf_aws.signing_region''"
definition CustomEndpointKey :: string where "CustomEndpointKey = ''tf_aws.custom_endpoint''"

definition SigningRegion :: "string \<Rightarrow> KeyValue" where
  "SigningRegion region = (SigningRegionKey, AStr region)"

definition CustomEndpoint :: "bool \<Rightarrow> KeyValue" where
  "CustomEndpoint custom = (CustomEndpointKey, ABool custom)"

definition awsSdkGoV2Val :: string where "awsSdkGoV2Val = ''aws-sdk-go-v2''"

definition awsSDKv2Attr :: KeyValue where
  "awsSDKv2Attr = (AwsSdkKey, AStr awsSdkGoV2Val)"

text \<open>The inputs of S3 operations: bucket, key and so on, each a pointer.\<close>

record object_id =
  oi_Key :: "string option"
  oi_VersionId :: "string option"

record s3_delete =
  sd_Objects :: "object_id list"
  sd_Quiet :: "bool option"

datatype s3_input =
    AbortMultipartUploadInput "string option" "string option" "string option"
  | CompleteMultipartUploadInput "string option" "string option" "string option"
  | CreateBucketInput "string option"
  | CreateMultipartUploadInput "string option" "string option"
  | DeleteBucketInput "string option"
  | DeleteObjectInput "string option" "string option"
  | DeleteObjectsInput "string option" "s3_delete option"
  | GetObjectInput "string option" "string option"
  | HeadBucketInput "string option"
  | HeadObjectInput "string option" "string option"
  | ListBucketsInput
  | ListObjectsInput "string option"
  | ListObjectsV2Input "string option"
  | PutObjectInput "string option" "string option"
  | UploadPartInput "string option" "string option" "int option" "string option"
  | OtherS3Input

text \<open>The loop of \<open>serializeDeleteShorthand\<close>; \<open>i\<close> is the index of the next object.\<close>

fun delete_objects :: "nat \<Rightarrow> nat \<Rightarrow> object_id list \<Rightarrow> string \<Rightarrow> string" where
  "delete_objects count i [] builder = builder"
| "delete_objects count i (obj # objs) builder =
     (let builder = builder @ ''{'' @ ''Key='' @ ToString (oi_Key obj);
          builder = (if oi_VersionId obj \<noteq> None
                     then builder @ '',VersionId='' @ ToString (oi_VersionId obj) else builder);
          builder = builder @ ''}'';
          builder = (if i + 1 \<noteq> count then builder @ '','' else builder)
      in delete_objects count (i + 1) objs builder)"

text \<open>A nil pointer to the deletion panics where its objects are read.\<close>

definition serializeDeleteShorthand :: "s3_delete option \<Rightarrow> string go" where
  "serializeDeleteShorthand d =
     (case d of
        None \<Rightarrow> Panic ''nil pointer dereference''
      | Some d \<Rightarrow>
          Ret (delete_objects (length (sd_Objects d)) 0 (sd_Objects d) ''Objects=['' @ ''],'' @
               ''Quiet='' @ (if sd_Quiet d = Some True then ''true'' else ''false'')))"

definition AWSS3Bucket :: "string option \<Rightarrow> KeyValue" where
  "AWSS3Bucket p = (''aws.s3.bucket'', AStr (ToString p))"
definition AWSS3Key :: "string option \<Rightarrow> KeyValue" where
  "AWSS3Key p = (''aws.s3.key'', AStr (ToString p))"
definition AWSS3UploadID :: "string option \<Rightarrow> KeyValue" where
  "AWSS3UploadID p = (''aws.s3.upload_id'', AStr (ToString p))"

fun s3AttributeBuilder :: "s3_input \<Rightarrow> KeyValue list go" where
  "s3AttributeBuilder (AbortMultipartUploadInput b k u) = Ret [AWSS3Bucket b, AWSS3Key k, AWSS3UploadID u]"
| "s3AttributeBuilder (CompleteMultipartUploadInput b k u) = Ret [AWSS3Bucket b, AWSS3Key k, AWSS3UploadID u]"
| "s3AttributeBuilder (CreateBucketInput b) = Ret [AWSS3Bucket b]"
| "s3AttributeBuilder (CreateMultipartUploadInput b k) = Ret [AWSS3Bucket b, AWSS3Key k]"
| "s3AttributeBuilder (DeleteBucketInput b) = Ret [AWSS3Bucket b]"
| "s3AttributeBuilder (DeleteObjectInput b k) = Ret [AWSS3Bucket b, AWSS3Key k]"
| "s3AttributeBuilder (DeleteObjectsInput b d) =
     go_bind (serializeDeleteShorthand d) (\<lambda>t. Ret [AWSS3Bucket b, (''aws.s3.delete'', AStr t)])"
| "s3AttributeBuilder (GetObjectInput b k) = Ret [AWSS3Bucket b, AWSS3Key k]"
| "s3AttributeBuilder (HeadBucketInput b) = Ret [AWSS3Bucket b]"
| "s3AttributeBuilder (HeadObjectInput b k) = Ret [AWSS3Bucket b, AWSS3Key k]"
| "s3AttributeBuilder ListBucketsInput = Ret []"
| "s3AttributeBuilder (ListObjectsInput b) = Ret [AWSS3Bucket b]"
| "s3AttributeBuilder (ListObjectsV2Input b) = Ret [AWSS3Bucket b]"
| "s3AttributeBuilder (PutObjectInput b k) = Ret [AWSS3Bucket b, AWSS3Key k]"
| "s3AttributeBuilder (UploadPartInput b k n u) =
     Ret [AWSS3Bucket b, AWSS3Key k,
          (''aws.s3.part_number'', AInt (case n of None \<Rightarrow> 0 | Some i \<Rightarrow> i)), AWSS3UploadID u]"
| "s3AttributeBuilder OtherS3Input = Ret []"

section \<open>The middleware\<close>

text \<open>
  The parameters of an operation: those of S3 are known, for DynamoDB and SQS the telemetry
  library builds the attributes.
\<close>

datatype parameters = S3Parameters s3_input | OtherParameters handle

record attribute_builders =
  ab_SystemAttr :: KeyValue
  ab_MethodAttr :: "string \<Rightarrow> string \<Rightarrow> KeyValue"
  ab_RegionAttr :: "string \<Rightarrow> KeyValue"
  ab_DynamoDB :: "parameters \<Rightarrow> KeyValue list"
  ab_SQS :: "parameters \<Rightarrow> KeyValue list"

definition setter_attributes :: "attribute_builders \<Rightarrow> string \<Rightarrow> parameters \<Rightarrow> KeyValue list go" where
  "setter_attributes B serviceID params =
     (if serviceID = ''DynamoDB'' then Ret (ab_DynamoDB B params)
      else if serviceID = ''S3''
      then s3AttributeBuilder (case params of S3Parameters i \<Rightarrow> i | OtherParameters _ \<Rightarrow> OtherS3Input)
      else if serviceID = ''SQS'' then Ret (ab_SQS B params)
      else Ret [])"

definition HandleInitialize ::
    "attribute_builders \<Rightarrow> log_context \<Rightarrow> parameters \<Rightarrow> (log_context \<Rightarrow> parameters \<Rightarrow> 'o go) \<Rightarrow> 'o go" where
  "HandleInitialize B ctx params next_handler =
     (let attributes =
            [ab_SystemAttr B, ab_MethodAttr B (oc_ServiceID ctx) (oc_OperationName ctx),
             ab_RegionAttr B (lc_Region ctx), awsSDKv2Attr]
      in go_bind (setter_attributes B (oc_ServiceID ctx) params) (\<lambda>more.
           next_handler (foldl (\<lambda>ctx (k, v). SetField ctx k v) ctx (attributes @ more)) params))"

text \<open>
  Requests and responses of the stack: \<open>'q\<close> is the request type of \<open>smithy-go\<close>, and a value of
  another type is known by the name of its type. \<open>rest\<close> is the result and the metadata.
\<close>

datatype 'q raw_request = SmithyRequest 'q | OtherRequest string
datatype raw_response = SmithyResponse http_response | OtherResponse string

record deserialize_output =
  out_RawResponse :: raw_response
  out_rest :: handle

definition zero_output :: deserialize_output where
  "zero_output = \<lparr>out_RawResponse = OtherResponse ''<nil>'', out_rest = 0\<rparr>"

text \<open>Messages: the fields of the context's logger, the text, and the fields of the message.\<close>

type_synonym log_entry = "KeyValue list \<times> string \<times> (string \<rightharpoonup> attr_value)"

text \<open>
  \<open>Build\<close> and \<open>SetStream\<close> are the methods of a \<open>smithy-go\<close> request. \<open>BodyAfter\<close> is the body a
  request has after it was logged: \<open>DumpRequestOut\<close> leaves a copy of the body it reads.
\<close>

record 'q smithy_deps =
  sm_Build :: "log_context \<Rightarrow> 'q \<Rightarrow> request"
  sm_BodyAfter :: "log_context \<Rightarrow> request \<Rightarrow> body"
  sm_SetStream :: "'q \<Rightarrow> body \<Rightarrow> go_error + 'q"

type_synonym handle_result = "(deserialize_output \<times> go_error option \<times> log_entry list) go"

definition log_fields :: "log_context \<Rightarrow> log_context" where
  "log_fields ctx =
     (let ctx = (if lc_SigningRegion ctx \<noteq> lc_Region ctx
                 then SetField ctx SigningRegionKey (AStr (lc_SigningRegion ctx)) else ctx)
      in if lc_CustomEndpoint ctx then SetField ctx CustomEndpointKey (ABool True) else ctx)"

text \<open>The second half of \<open>HandleDeserialize\<close>, behind the call of the next handler.\<close>

definition log_response ::
    "response_deps \<Rightarrow> log_context \<Rightarrow> int \<Rightarrow> log_entry list \<Rightarrow> deserialize_output \<Rightarrow> go_error option \<Rightarrow> handle_result" where
  "log_response R ctx elapsed entries out err =
     (case err of
        Some e \<Rightarrow> Ret (out, Some e, entries)
      | None \<Rightarrow>
          (case out_RawResponse out of
             OtherResponse t \<Rightarrow> Ret (out, Some (ErrorString (''unknown response type: '' @ t)), entries)
           | SmithyResponse resp \<Rightarrow>
               (let (resp, r) = decomposeHTTPResponse R ctx resp elapsed;
                    out = out\<lparr>out_RawResponse := SmithyResponse resp\<rparr>
                in go_bind r (\<lambda>r. case r of
                     Inl e \<Rightarrow> Ret (out, Some (WrapError ''decomposing response: '' e), entries)
                   | Inr flds \<Rightarrow>
                       Ret (out, None, entries @ [(lc_fields ctx, ''HTTP Response Received'', flds)])))))"

definition HandleDeserialize ::
    "http_log_deps \<Rightarrow> response_deps \<Rightarrow> 'q smithy_deps \<Rightarrow> log_context \<Rightarrow> 'q raw_request \<Rightarrow> int \<Rightarrow>
     (log_context \<Rightarrow> 'q raw_request \<Rightarrow> deserialize_output \<times> go_error option) \<Rightarrow> handle_result" where
  "HandleDeserialize L R S ctx req elapsed next_handler =
     (let ctx = log_fields ctx in
      case req of
        OtherRequest t \<Rightarrow> Ret (zero_output, Some (ErrorString (''unknown request type '' @ t)), [])
      | SmithyRequest q \<Rightarrow>
          (let rc = sm_Build S ctx q in
           go_bind (DecomposeHTTPRequest L (op_context.truncate ctx) rc) (\<lambda>r. case r of
             Inl e \<Rightarrow> Ret (zero_output, Some (WrapError ''decomposing request: '' e), [])
           | Inr flds \<Rightarrow>
               (let entries = [(lc_fields ctx, ''HTTP Request Sent'', flds)] in
                case sm_SetStream S q (sm_BodyAfter S ctx rc) of
                  Inl e \<Rightarrow> Ret (zero_output, Some e, entries)
                | Inr q' \<Rightarrow>
                    (let (out, err) = next_handler ctx (SmithyRequest q')
                     in log_response R ctx elapsed entries out err)))))"

section \<open>The logger given to the SDK\<close>

text \<open>
  \<open>debugLogger.Logf\<close>: \<open>s\<close> is the formatted message. Without a context the message goes to the
  standard logger, on one line end style.
\<close>

datatype log_line = LoggerDebug string | LoggerWarn string | StdLog string

definition Logf :: "bool \<Rightarrow> string \<Rightarrow> string \<Rightarrow> log_line list" where
  "Logf has_ctx classification s =
     (if has_ctx then
        (if classification = ''DEBUG'' then [LoggerDebug s]
         else if classification = ''WARN'' then [LoggerWarn s] else [])
      else
        [StdLog (''['' @ classification @ ''] missing_context: '' @ filter (\<lambda>c. c \<noteq> CHR 0x0D) s @ '' '' @
                 AwsSdkKey @ ''='' @ awsSdkGoV2Val)])"

section \<open>Lemmas\<close>

lemma ReadTruncatedBody_complete: "\<exists>b. ReadTruncatedBody \<lparr>rd_bytes = bs, rd_err = None\<rparr> n = Ret (Inr b)"
proof -
  have "case read_lines bs None n [] of Inl e \<Rightarrow> None = Some e | Inr out \<Rightarrow> True" if "n \<noteq> 0"
    using read_lines_result [of "[]" n bs None] that by (auto split: sum.splits)
  moreover have "\<exists>out. read_lines bs None 0 [] = Inr out"
    by (subst read_lines.simps) (auto split: option.split)
  ultimately have "\<exists>out. read_lines bs None n [] = Inr out"
    by (cases "n = 0") (auto split: sum.splits)
  then obtain out where "read_lines bs None n [] = Inr out" by blast
  with MaskAWSSensitiveValues_Ret [of out] show ?thesis by (auto simp: ReadTruncatedBody_def)
qed

text \<open>A body that can be read whole reads the same after it was logged.\<close>

lemma defaultResponseBodyLogger_restores:
  assumes "rd_err (hr_Body resp) = None"
  obtains b where "defaultResponseBodyLogger_Log resp as = (resp, Ret (Inr (as @ [(''http.response.body'', AStr b)])))"
    and "ReadTruncatedBody (hr_Body resp) MaxResponseBodyLen = Ret (Inr b)"
proof -
  obtain bs where body: "hr_Body resp = \<lparr>rd_bytes = bs, rd_err = None\<rparr>"
    using assms by (cases "hr_Body resp") simp
  obtain b where b: "ReadTruncatedBody (hr_Body resp) MaxResponseBodyLen = Ret (Inr b)"
    using ReadTruncatedBody_complete [of bs] body by auto
  have "resp\<lparr>hr_Body := hr_Body resp\<rparr> = resp" by (cases resp) simp
  with b have
    "defaultResponseBodyLogger_Log resp as = (resp, Ret (Inr (as @ [(''http.response.body'', AStr b)])))"
    by (simp add: defaultResponseBodyLogger_Log_def ReadAll_def body)
  from that [OF this b] show thesis .
qed

interpretation default_response_body: body_logger "\<lambda>resp as. snd (defaultResponseBodyLogger_Log resp as)"
    "''http.response.body''" "\<lambda>resp. masked"
proof unfold_locales
  fix m as as'
  assume l: "snd (defaultResponseBodyLogger_Log m as) = Ret (Inr as')"
  then have "rd_err (hr_Body m) = None"
    by (auto simp: defaultResponseBodyLogger_Log_def ReadAll_def split: option.splits)
  then obtain b where
    "defaultResponseBodyLogger_Log m as = (m, Ret (Inr (as @ [(''http.response.body'', AStr b)])))"
    and "ReadTruncatedBody (hr_Body m) MaxResponseBodyLen = Ret (Inr b)"
    by (rule defaultResponseBodyLogger_restores)
  with l ReadTruncatedBody_masked show "\<exists>b. as' = as @ [(''http.response.body'', AStr b)] \<and> masked b"
    by auto
qed

definition is_GetObject :: "'m op_context_scheme \<Rightarrow> bool" where
  "is_GetObject ctx \<longleftrightarrow> oc_ServiceID ctx = ''S3'' \<and> oc_OperationName ctx = ''GetObject''"

text \<open>What the log says of a response body.\<close>

definition logged_body :: "response_deps \<Rightarrow> 'm op_context_scheme \<Rightarrow> http_response \<Rightarrow> string \<Rightarrow> bool" where
  "logged_body R ctx resp b \<longleftrightarrow>
     (if is_GetObject ctx
      then b = s3BodyRedacted (rp_format R) (rs_ContentLength resp) (header_Get (rs_Header resp) ''Content-Type'')
      else masked b \<and> ReadTruncatedBody (hr_Body resp) MaxResponseBodyLen = Ret (Inr b))"

lemma decomposeHTTPResponse_complete:
  assumes "rd_err (hr_Body resp) = None"
  obtains m b where "decomposeHTTPResponse R ctx resp elapsed = (resp, Ret (Inr m))"
    and "m ''http.response.body'' = Some (AStr b)" and "logged_body R ctx resp b"
proof -
  let ?as = "(''http.duration'', AInt elapsed) # rp_ClientResponse R resp @
    DecomposeResponseHeaders (rp_ResponseHeader R) (rs_Header resp)"
  have "\<exists>b. responseBodyLogger R ctx resp ?as = (resp, Ret (Inr (?as @ [(''http.response.body'', AStr b)]))) \<and>
    logged_body R ctx resp b"
  proof (cases "is_GetObject ctx")
    case True
    then show ?thesis
      by (auto simp: responseBodyLogger_def logged_body_def is_GetObject_def
          S3ObjectResponseBodyLogger_Log_def response.defs)
  next
    case False
    from defaultResponseBodyLogger_restores [OF assms, of ?as] obtain b where
      "defaultResponseBodyLogger_Log resp ?as = (resp, Ret (Inr (?as @ [(''http.response.body'', AStr b)])))"
      "ReadTruncatedBody (hr_Body resp) MaxResponseBodyLen = Ret (Inr b)" by blast
    with False ReadTruncatedBody_masked show ?thesis
      by (auto simp: responseBodyLogger_def logged_body_def is_GetObject_def)
  qed
  then obtain b where r:
    "responseBodyLogger R ctx resp ?as = (resp, Ret (Inr (?as @ [(''http.response.body'', AStr b)])))"
    and b: "logged_body R ctx resp b" by blast
  show thesis
  proof (rule that [OF _ _ b])
    show "decomposeHTTPResponse R ctx resp elapsed =
        (resp, Ret (Inr (result_map (?as @ [(''http.response.body'', AStr b)]))))"
      using r by (simp add: decomposeHTTPResponse_def Let_def)
  qed (simp add: result_map_def)
qed

definition object_text :: "object_id \<Rightarrow> string" where
  "object_text obj = ''{Key='' @ ToString (oi_Key obj) @
     (if oi_VersionId obj \<noteq> None then '',VersionId='' @ ToString (oi_VersionId obj) else []) @ ''}''"

lemma delete_objects_step:
  "delete_objects count i (obj # objs) builder =
     delete_objects count (i + 1) objs (builder @ object_text obj @ (if i + 1 \<noteq> count then '','' else []))"
  by (simp add: object_text_def Let_def)

lemma delete_objects_Join:
  "i + length objs = count \<Longrightarrow>
     delete_objects count i objs builder = builder @ Join '','' (map object_text objs)"
proof (induction objs arbitrary: i builder)
  case (Cons obj objs)
  then have "i + 1 + length objs = count" by simp
  note IH = Cons.IH [OF this]
  from Cons.prems show ?case unfolding delete_objects_step IH by (cases objs) simp_all
qed simp

lemma serializeDeleteShorthand_Join:
  "serializeDeleteShorthand (Some d) = Ret (''Objects=['' @ Join '','' (map object_text (sd_Objects d)) @
     ''],Quiet='' @ (if sd_Quiet d = Some True then ''true'' else ''false''))"
  by (simp add: serializeDeleteShorthand_def delete_objects_Join)

section \<open>Properties\<close>


definition sample_http_log_deps :: http_log_deps where
  "sample_http_log_deps =
     \<lparr>hl_ClientRequest = (\<lambda>_. []), hl_RequestHeader = (\<lambda>_. []), hl_Dump = (\<lambda>_. Inr ''x''),
      hl_ReadMIMEHeader = Inr,
      hl_format = \<lparr>nf_d = (\<lambda>_. []), nf_f1 = (\<lambda>_. []), nf_float64 = of_int\<rparr>\<rparr>"

definition sample_response_deps :: response_deps where
  "sample_response_deps =
     \<lparr>rp_ClientResponse = (\<lambda>_. []), rp_ResponseHeader = (\<lambda>_. []),
      rp_format = \<lparr>nf_d = (\<lambda>_. []), nf_f1 = (\<lambda>_. []), nf_float64 = of_int\<rparr>\<rparr>"

definition sample_smithy_deps :: "nat smithy_deps" where
  "sample_smithy_deps =
     \<lparr>sm_Build = (\<lambda>_ _. \<lparr>rq_Header = Map.empty, rq_Body = NilBody, rq_ContentLength = 0\<rparr>),
      sm_BodyAfter = (\<lambda>_ rc. rq_Body rc), sm_SetStream = (\<lambda>q _. Inr q)\<rparr>"

definition sample_log_context :: log_context where
  "sample_log_context =
     \<lparr>oc_ServiceID = ''S3'', oc_OperationName = ''PutObject'', lc_Region = ''r'', lc_SigningRegion = ''s'',
      lc_CustomEndpoint = False, lc_fields = []\<rparr>"

definition sample_output :: deserialize_output where
  "sample_output =
     \<lparr>out_RawResponse = SmithyResponse \<lparr>rs_Header = Map.empty, rs_ContentLength = 2,
        hr_Body = \<lparr>rd_bytes = ''ok'', rd_err = None\<rparr>, hr_rest = 0\<rparr>, out_rest = 1\<rparr>"


end
