(* ===== verification/V1Log.thy ===== *)
theory V1Log
  imports ResponseLog V1Shim
begin

text \<open>
  The log handlers for the AWS SDK v1 (\<open>v2/awsv1shim/logger.go\<close>). The request handler logs the
  request before it is sent. The response handler puts a tee in front of the body, so that a copy
  of what the SDK reads lands in a buffer of limited size, and registers a handler that logs the
  response once the SDK has read it.
\<close>

section \<open>The request of the SDK\<close>

text \<open>
  \<open>vb_reads\<close> are the results the reads of the body still give, \<open>vb_writer\<close> is the writer of the tee
  once there is one: a response comes from the transport without. \<open>vb_rest\<close> is that body itself.
\<close>

record v1_http_response = response +
  vb_reads :: "(bytes \<times> go_error option) list"
  vb_writer :: "bytes limitedWriter option"
  vb_rest :: handle

text \<open>\<open>vq_fields\<close> are the fields set on the logger of the request's context, in order.\<close>

record v1_call =
  vq_fields :: "KeyValue list"
  vq_start :: "int option"
  vq_Region :: "string option"
  vq_ServiceID :: string
  vq_Operation :: string
  vq_SigningRegion :: string
  vq_HTTPRequest :: request
  vq_Seekable :: bool
  vq_Error :: "go_error option"
  vq_HTTPResponse :: "v1_http_response option"
  vq_Unmarshal :: "string list"
  vq_UnmarshalError :: "string list"

datatype v1_message =
    TfDebug "KeyValue list" string "string \<rightharpoonup> attr_value"
  | TfError "KeyValue list" string

text \<open>
  Functions of the telemetry library and the SDK. \<open>vd_BodyAfter\<close> is the body a request has after
  it was dumped; \<open>SetReaderBody\<close> and \<open>SetBackNamed\<close> are those of the package \<open>request\<close>.
\<close>

record v1_log_deps =
  vd_SystemAttr :: KeyValue
  vd_MethodAttr :: "string \<Rightarrow> string \<Rightarrow> KeyValue"
  vd_RegionAttr :: "string \<Rightarrow> KeyValue"
  vd_ClientResponse :: "v1_http_response \<Rightarrow> KeyValue list"
  vd_ResponseHeader :: "Header \<Rightarrow> KeyValue list"
  vd_BodyAfter :: "request \<Rightarrow> body"
  vd_SetReaderBody :: "v1_call \<Rightarrow> v1_call"
  vd_SetBackNamed :: "string \<Rightarrow> string list \<Rightarrow> string list"
  vd_Error :: "go_error \<Rightarrow> string"

definition awsSdkGoV1Val :: string where "awsSdkGoV1Val = ''aws-sdk-go''"

definition awsSDKv1Attr :: KeyValue where
  "awsSDKv1Attr = (AwsSdkKey, AStr awsSdkGoV1Val)"

definition responseBufferLen :: int where
  "responseBufferLen = int MaxResponseBodyLen + 1024"

definition setAWSFields :: "v1_log_deps \<Rightarrow> v1_call \<Rightarrow> KeyValue list" where
  "setAWSFields D r =
     (let region = ToString (vq_Region r)
      in vq_fields r @
         [vd_SystemAttr D, vd_MethodAttr D (vq_ServiceID r) (vq_Operation r), vd_RegionAttr D region,
          awsSDKv1Attr] @
         (if vq_SigningRegion r \<noteq> region then [SigningRegion (vq_SigningRegion r)] else []))"

text \<open>
  \<open>debugLogger.Log\<close>: an argument that is no string is \<open>None\<close>.
\<close>

definition debugLogger_Log :: "string option list \<Rightarrow> string" where
  "debugLogger_Log args =
     ''missing_context: '' @ filter (\<lambda>c. c \<noteq> CHR 0x0D) (Join '' '' (List.map_filter id args)) @ '' '' @
     AwsSdkKey @ ''='' @ awsSdkGoV1Val"

section \<open>The request handler\<close>

text \<open>The contexts of the SDK v1 name no service and no operation to the middleware of the SDK v2.\<close>

definition no_operation :: op_context where
  "no_operation = \<lparr>oc_ServiceID = [], oc_OperationName = []\<rparr>"

definition logRequest ::
    "v1_log_deps \<Rightarrow> http_log_deps \<Rightarrow> int \<Rightarrow> v1_call \<Rightarrow> (v1_call \<times> v1_message list) go" where
  "logRequest D L now r =
     (let ctx = setAWSFields D r;
          rc = vq_HTTPRequest r
      in go_bind (DecomposeHTTPRequest L no_operation rc) (\<lambda>x.
           (let r = r\<lparr>vq_HTTPRequest := rc\<lparr>rq_Body := vd_BodyAfter D rc\<rparr>\<rparr> in
            case x of
              Inl err \<Rightarrow> Ret (r, [TfError ctx (''decomposing request: '' @ err_Error (vd_Error D) err)])
            | Inr flds \<Rightarrow>
                (let r = (if vq_Seekable r then r else vd_SetReaderBody D r) in
                 case vq_Error r of
                   Some err \<Rightarrow> Ret (r, [TfError ctx (''decomposing request: '' @ err_Error (vd_Error D) err)])
                 | None \<Rightarrow>
                     Ret (r\<lparr>vq_fields := ctx, vq_start := Some now\<rparr>,
                          [TfDebug ctx ''HTTP Request Sent'' flds])))))"

text \<open>The handlers are registered under a name.\<close>

definition requestLogger ::
    "v1_log_deps \<Rightarrow> http_log_deps \<Rightarrow> int \<Rightarrow> string \<times> (v1_call \<Rightarrow> (v1_call \<times> v1_message list) go)" where
  "requestLogger D L now = (''TF_AWS_RequestLogger'', logRequest D L now)"

section \<open>The response handler\<close>

definition decomposeResponseBody :: "bytes \<Rightarrow> (go_error + KeyValue) go" where
  "decomposeResponseBody content =
     go_bind (ReadTruncatedBody \<lparr>rd_bytes = content, rd_err = None\<rparr> MaxResponseBodyLen)
       (\<lambda>b. case b of
              Inl err \<Rightarrow> Ret (Inl err)
            | Inr body \<Rightarrow> Ret (Inr (''http.response.body'', AStr body)))"

definition v1_decomposeHTTPResponse ::
    "v1_log_deps \<Rightarrow> v1_http_response \<Rightarrow> bytes \<Rightarrow> int \<Rightarrow> (go_error + (string \<rightharpoonup> attr_value)) go" where
  "v1_decomposeHTTPResponse D resp content elapsed =
     (let attributes = (''http.duration'', AInt elapsed) # vd_ClientResponse D resp @
            DecomposeResponseHeaders (vd_ResponseHeader D) (rs_Header resp)
      in go_bind (decomposeResponseBody content) (\<lambda>r. case r of
           Inl err \<Rightarrow> Ret (Inl err)
         | Inr bodyAttribute \<Rightarrow> Ret (Inr (result_map (attributes @ [bodyAttribute])))))"

definition handlerName :: string where "handlerName = ''TF_AWS_ResponseBodyLogger''"

definition logResponse :: "v1_log_deps \<Rightarrow> v1_call \<Rightarrow> v1_call \<times> v1_message list" where
  "logResponse D r =
     (case vq_HTTPResponse r of
        None \<Rightarrow> (r, [TfError (setAWSFields D r) ''HTTP response is nil''])
      | Some resp \<Rightarrow>
          (r\<lparr>vq_HTTPResponse := Some (resp\<lparr>vb_writer := Some (limitWriter [] responseBufferLen)\<rparr>),
             vq_Unmarshal := vd_SetBackNamed D handlerName (vq_Unmarshal r),
             vq_UnmarshalError := vd_SetBackNamed D handlerName (vq_UnmarshalError r)\<rparr>, []))"

definition responseLogger :: "v1_log_deps \<Rightarrow> string \<times> (v1_call \<Rightarrow> v1_call \<times> v1_message list)" where
  "responseLogger D = (''TF_AWS_ResponseLogger'', logResponse D)"

text \<open>Closing the tee closes its source, the body from the transport, with the function \<open>Close\<close>.\<close>

definition teeReaderCloser_Close :: "(handle \<Rightarrow> go_error option) \<Rightarrow> v1_http_response \<Rightarrow> go_error option" where
  "teeReaderCloser_Close Close resp = Close (vb_rest resp)"

text \<open>
  \<open>handlerFn\<close>, run when the SDK unmarshals the response. Reading the buffer drains it; times are in
  nanoseconds and do not run backwards. The buffer belongs to the tee, and is empty without one.
\<close>

definition handlerFn :: "v1_log_deps \<Rightarrow> int \<Rightarrow> v1_call \<Rightarrow> (v1_call \<times> v1_message list) go" where
  "handlerFn D now r =
     (let elapsed = (case vq_start r of None \<Rightarrow> 0 | Some start \<Rightarrow> now - start);
          ctx = setAWSFields D r
      in case vq_HTTPResponse r of
           None \<Rightarrow> Panic ''nil pointer dereference''
         | Some resp \<Rightarrow>
             (let content = (case vb_writer resp of None \<Rightarrow> [] | Some w \<Rightarrow> lw_W w);
                  drained = resp\<lparr>vb_writer := map_option (\<lambda>w. w\<lparr>lw_W := []\<rparr>) (vb_writer resp)\<rparr>;
                  r = r\<lparr>vq_HTTPResponse := Some drained\<rparr>
              in go_bind (v1_decomposeHTTPResponse D resp content (elapsed div 1000000)) (\<lambda>x. case x of
                   Inl err \<Rightarrow>
                     Ret (r, [TfError ctx (''decomposing response: '' @ err_Error (vd_Error D) err)])
                 | Inr flds \<Rightarrow> Ret (r, [TfDebug ctx ''HTTP Response Received'' flds]))))"

text \<open>The SDK reading the body to its end: what it gets, and the response afterwards.\<close>

definition read_body :: "v1_http_response \<Rightarrow> v1_http_response \<times> (bytes \<times> go_error option) list" where
  "read_body resp =
     (case vb_writer resp of
        None \<Rightarrow> (resp\<lparr>vb_reads := []\<rparr>, vb_reads resp)
      | Some w \<Rightarrow>
          (let (w, outs) = tee_reads w (vb_reads resp)
           in (resp\<lparr>vb_reads := [], vb_writer := Some w\<rparr>, outs)))"

section \<open>What is logged of a response\<close>

text \<open>The body of a response as the SDK reads it.\<close>

definition v1_body :: "v1_http_response \<Rightarrow> bytes" where
  "v1_body resp = concat (map fst (vb_reads resp))"

lemma decomposeResponseBody_masked:
  obtains b where "decomposeResponseBody content = Ret (Inr (''http.response.body'', AStr b))"
    and "ReadTruncatedBody \<lparr>rd_bytes = content, rd_err = None\<rparr> MaxResponseBodyLen = Ret (Inr b)"
    and "masked b"
proof -
  from ReadTruncatedBody_complete obtain b where
    b: "ReadTruncatedBody \<lparr>rd_bytes = content, rd_err = None\<rparr> MaxResponseBodyLen = Ret (Inr b)" by blast
  show thesis by (rule that [OF _ b ReadTruncatedBody_masked [OF b]]) (simp add: decomposeResponseBody_def b)
qed

lemma handlerFn_complete:
  assumes "vq_HTTPResponse r = Some resp" and "vb_writer resp = Some w"
  obtains r' m b where
    "handlerFn D now r = Ret (r', [TfDebug (setAWSFields D r) ''HTTP Response Received'' m])"
    and "m ''http.response.body'' = Some (AStr b)"
    and "ReadTruncatedBody \<lparr>rd_bytes = lw_W w, rd_err = None\<rparr> MaxResponseBodyLen = Ret (Inr b)"
    and "masked b"
proof -
  obtain b where b: "decomposeResponseBody (lw_W w) = Ret (Inr (''http.response.body'', AStr b))"
    and t: "ReadTruncatedBody \<lparr>rd_bytes = lw_W w, rd_err = None\<rparr> MaxResponseBodyLen = Ret (Inr b)"
    and m: "masked b" by (rule decomposeResponseBody_masked)
  let ?as = "(''http.duration'', AInt ((case vq_start r of None \<Rightarrow> 0 | Some start \<Rightarrow> now - start) div 1000000)) #
    vd_ClientResponse D resp @ DecomposeResponseHeaders (vd_ResponseHeader D) (rs_Header resp)"
  have "\<exists>r'. handlerFn D now r = Ret (r', [TfDebug (setAWSFields D r) ''HTTP Response Received''
      (result_map (?as @ [(''http.response.body'', AStr b)]))])"
    by (simp add: handlerFn_def v1_decomposeHTTPResponse_def assms b Let_def)
  moreover have "result_map (?as @ [(''http.response.body'', AStr b)]) ''http.response.body'' = Some (AStr b)"
    by (simp add: result_map_def)
  ultimately show thesis using that [OF _ _ t m] by blast
qed


definition sample_v1_response :: v1_http_response where
  "sample_v1_response =
     \<lparr>rs_Header = Map.empty, rs_ContentLength = 4, vb_reads = [(''{'', None), (''}'' , None), ([], Some (ErrorString ''EOF''))],
      vb_writer = None, vb_rest = 0\<rparr>"

definition sample_v1_call :: v1_call where
  "sample_v1_call =
     \<lparr>vq_fields = [], vq_start = None, vq_Region = None, vq_ServiceID = ''STS'', vq_Operation = ''GetCallerIdentity'',
      vq_SigningRegion = ''r'',
      vq_HTTPRequest = \<lparr>rq_Header = Map.empty, rq_Body = NoBody, rq_ContentLength = 0\<rparr>,
      vq_Seekable = True, vq_Error = None, vq_HTTPResponse = Some sample_v1_response,
      vq_Unmarshal = [], vq_UnmarshalError = []\<rparr>"

definition sample_v1_log_deps :: v1_log_deps where
  "sample_v1_log_deps =
     \<lparr>vd_SystemAttr = (''rpc.system'', AStr ''aws-api''), vd_MethodAttr = (\<lambda>s m. (''rpc.method'', AStr m)),
      vd_RegionAttr = (\<lambda>r. (''aws.region'', AStr r)), vd_ClientResponse = (\<lambda>_. []),
      vd_ResponseHeader = (\<lambda>_. []), vd_BodyAfter = rq_Body, vd_SetReaderBody = (\<lambda>r. r),
      vd_SetBackNamed = (\<lambda>n hs. filter (\<lambda>h. h \<noteq> n) hs @ [n]), vd_Error = (\<lambda>_. [])\<rparr>"


section \<open>A key at the end of the capture\<close>

lemma b64_runs_append: "\<not> is_base64 c \<Longrightarrow> b64_runs (a @ c # b) = b64_runs a @ b64_runs b"
proof (induction a rule: b64_runs.induct)
  case (1 a)
  let ?r = "takeWhile is_base64 a"
  have r: "list_all is_base64 ?r" by (auto simp: list_all_iff dest: set_takeWhileD)
  show ?case
  proof (cases "dropWhile is_base64 a")
    case Nil
    then have "a = ?r" by (metis append_Nil2 takeWhile_dropWhile_id)
    then have "list_all is_base64 a" using r by simp
    then show ?thesis by (simp add: b64_runs_run [OF _ "1.prems"] b64_runs_all)
  next
    case (Cons d ds)
    then have a: "a = ?r @ d # ds" and d: "\<not> is_base64 d"
      by (metis takeWhile_dropWhile_id, metis dropWhile_eq_Cons_conv)
    have "b64_runs (?r @ d # ds @ c # b) = length ?r # b64_runs ds @ b64_runs b"
      using b64_runs_run [OF r d, of "ds @ c # b"] "1.IH" [OF Cons "1.prems"] by simp
    moreover have "b64_runs (?r @ d # ds) = length ?r # b64_runs ds" using b64_runs_run [OF r d] .
    ultimately show ?thesis by (subst (1 2) a) simp
  qed
qed

lemma no_id_without_A:
  assumes "CHR ''A'' \<notin> set s"
  shows "\<not> rx_search UniqueIDRegex s"
proof -
  have "id_match (drop i s) = None" for i
  proof (rule ccontr)
    assume "id_match (drop i s) \<noteq> None"
    then have "is_id_prefix (take 4 (drop i s))" by (auto simp: id_match_def split: if_splits)
    then have "CHR ''A'' \<in> set (take 4 (drop i s))"
      by (auto simp: is_id_prefix_def id_prefixes_def take_Suc_conv_app_nth numeral_eq_Suc
          dest: arg_cong [of _ _ set] split: if_splits)
    then show False using assms by (meson in_set_dropD in_set_takeD)
  qed
  then show ?thesis by (simp add: rx_search_unique_id)
qed

text \<open>A text without line ends that is longer than the limit is one line.\<close>

lemma ReadTruncatedBody_one_line:
  assumes "CHR 0x0A \<notin> set t" and "n \<le> length t" and "t \<noteq> []"
  shows "ReadTruncatedBody \<lparr>rd_bytes = t, rd_err = e\<rparr> n =
    go_bind (MaskAWSSensitiveValues (t @ CHR 0x0A # ''[truncated...]'')) (\<lambda>m. Ret (Inr m))"
proof -
  have t: "takeWhile (\<lambda>c. c \<noteq> CHR 0x0A) t = t" using assms(1) by (auto simp: takeWhile_eq_all_conv)
  have "ReadLine t = Some (t, [])" unfolding ReadLine_def Let_def t using assms(3) by simp
  with assms(2) have "read_lines t e n [] = Inr (t @ CHR 0x0A # ''[truncated...]'')"
    by (subst read_lines.simps) simp
  then show ?thesis by (simp add: ReadTruncatedBody_def)
qed

lemma mask_key:
  assumes "\<not> is_base64 c" and "40 \<notin> set (b64_runs p)" and "list_all is_base64 k"
    and "CHR ''A'' \<notin> set (p @ c # k)"
  shows "MaskAWSSensitiveValues (p @ c # k) =
    Ret (p @ c # (if length k = 40 then take 4 k @ replicate 32 CHR ''*'' @ drop 36 k else k))"
proof -
  have "secret_spec (p @ c # k) = p @ c # secret_spec k" if "40 \<notin> set (b64_runs p)" for p
    using that
  proof (induction p rule: b64_runs.induct)
    case (1 p)
    let ?r = "takeWhile is_base64 p"
    have r: "list_all is_base64 ?r" by (auto simp: list_all_iff dest: set_takeWhileD)
    have len: "length ?r \<noteq> 40" using "1.prems" by (simp add: b64_runs.simps [of p])
    show ?case
    proof (cases "dropWhile is_base64 p")
      case Nil
      then have p: "p = ?r" by (metis append_Nil2 takeWhile_dropWhile_id)
      show ?thesis using secret_spec_run [OF r assms(1), of k] len p by (simp add: mask_run_def)
    next
      case (Cons d ds)
      then have p: "p = ?r @ d # ds" and d: "\<not> is_base64 d"
        by (metis takeWhile_dropWhile_id, metis dropWhile_eq_Cons_conv)
      have "40 \<notin> set (b64_runs ds)" using "1.prems" Cons by (simp add: b64_runs.simps [of p])
      from secret_spec_run [OF r d, of "ds @ c # k"] "1.IH" [OF Cons this] len
      have "secret_spec ((?r @ d # ds) @ c # k) = (?r @ d # ds) @ c # secret_spec k"
        by (simp add: mask_run_def)
      then show ?thesis unfolding p [symmetric] .
    qed
  qed
  with assms show ?thesis
    by (simp add: MaskAWSSensitiveValues_eq mask_ids_fixed no_id_without_A secret_spec_all mask_run_def)
qed

lemma masked_fixed:
  "CHR ''A'' \<notin> set s \<Longrightarrow> 40 \<notin> set (b64_runs s) \<Longrightarrow> MaskAWSSensitiveValues s = Ret s"
  by (simp add: MaskAWSSensitiveValues_eq mask_ids_fixed no_id_without_A secret_spec_fixed)

text \<open>The capture can cut a secret key in two, and then what is left of the key is logged in
  clear: when a key starts less than 40 bytes before the end of the 5120 captured bytes of a response
  of one line, the log shows the part of the key that was captured, although the masking that is
  applied to the text hides all but eight bytes of the whole key.\<close>

theorem capture_cut_exposes_key:
  assumes "\<not> is_base64 c" and "CHR 0x0A \<notin> set (p @ [c])" and "40 \<notin> set (b64_runs p)"
    and "list_all is_base64 (k1 @ k2)" and "length (k1 @ k2) = 40" and "k2 \<noteq> []"
    and "CHR ''A'' \<notin> set (p @ c # k1 @ k2)" and "length (p @ c # k1) = 5120"
  shows "decomposeResponseBody (take (nat responseBufferLen) (p @ c # k1 @ k2 @ rest)) =
      Ret (Inr (''http.response.body'', AStr (p @ c # k1 @ CHR 0x0A # ''[truncated...]''))) \<and>
    MaskAWSSensitiveValues (p @ c # k1 @ k2) =
      Ret (p @ c # take 4 (k1 @ k2) @ replicate 32 CHR ''*'' @ drop 36 (k1 @ k2))"
proof -
  let ?t = "p @ c # k1"
  have buf: "take (nat responseBufferLen) (p @ c # k1 @ k2 @ rest) = ?t"
  proof -
    have "take (length ?t) (?t @ k2 @ rest) = ?t" by simp
    moreover have "nat responseBufferLen = length ?t"
      using assms(8) by (simp add: responseBufferLen_def MaxResponseBodyLen_def)
    ultimately show ?thesis by (metis append.assoc append_Cons)
  qed
  have lf: "\<not> is_base64 (CHR 0x0A)" by code_simp
  have nl: "CHR 0x0A \<notin> set ?t" using assms(2,4) lf by (auto simp: list_all_iff)
  have trunc: "CHR ''A'' \<notin> set ''[truncated...]''" "40 \<notin> set (b64_runs ''[truncated...]'')" by code_simp+
  have k1: "list_all is_base64 k1" "length k1 \<noteq> 40" using assms(4-6) by auto
  have "b64_runs (p @ c # k1 @ CHR 0x0A # ''[truncated...]'') =
      b64_runs p @ length k1 # b64_runs ''[truncated...]''"
    using b64_runs_append [OF assms(1)] b64_runs_run [OF k1(1) lf] by simp
  then have "40 \<notin> set (b64_runs (p @ c # k1 @ CHR 0x0A # ''[truncated...]''))"
    using assms(3) k1(2) trunc(2) by auto
  moreover have "CHR ''A'' \<notin> set (p @ c # k1 @ CHR 0x0A # ''[truncated...]'')"
    using assms(7) trunc(1) by auto
  ultimately have mask: "MaskAWSSensitiveValues (?t @ CHR 0x0A # ''[truncated...]'') =
      Ret (?t @ CHR 0x0A # ''[truncated...]'')" using masked_fixed by simp
  have "MaxResponseBodyLen \<le> length ?t" unfolding assms(8) by (simp add: MaxResponseBodyLen_def)
  then have "ReadTruncatedBody \<lparr>rd_bytes = ?t, rd_err = None\<rparr> MaxResponseBodyLen =
      go_bind (MaskAWSSensitiveValues (?t @ CHR 0x0A # ''[truncated...]'')) (\<lambda>m. Ret (Inr m))"
    by (intro ReadTruncatedBody_one_line [OF nl]) simp_all
  then have "decomposeResponseBody (take (nat responseBufferLen) (p @ c # k1 @ k2 @ rest)) =
      Ret (Inr (''http.response.body'', AStr (p @ c # k1 @ CHR 0x0A # ''[truncated...]'')))"
    unfolding buf decomposeResponseBody_def mask by simp
  moreover have "MaskAWSSensitiveValues (p @ c # k1 @ k2) =
      Ret (p @ c # take 4 (k1 @ k2) @ replicate 32 CHR ''*'' @ drop 36 (k1 @ k2))"
    using mask_key [OF assms(1,3,4)] assms(5,7) by simp
  ultimately show ?thesis by blast
qed

lemma b64_runs_spaces: "b64_runs (replicate n CHR '' '') = replicate (Suc n) 0"
proof (induction n)
  case (Suc n)
  have "\<not> is_base64 CHR '' ''" by code_simp
  from b64_runs_run [of "[]", OF _ this] Suc show ?case by simp
qed (simp add: b64_runs_all)

lemma capture_cut_exposes_key_witness:
  "decomposeResponseBody
     (take (nat responseBufferLen) (replicate 5099 CHR '' '' @ CHR '' '' # replicate 20 CHR ''k'' @ replicate 20 CHR ''m'' @ ''.'')) =
   Ret (Inr (''http.response.body'',
     AStr (replicate 5099 CHR '' '' @ CHR '' '' # replicate 20 CHR ''k'' @ CHR 0x0A # ''[truncated...]'')))"
proof (rule capture_cut_exposes_key [THEN conjunct1])
  have "is_base64 CHR ''k''" "is_base64 CHR ''m''" by code_simp+
  then show "list_all is_base64 (replicate 20 CHR ''k'' @ replicate 20 CHR ''m'')"
    by (simp add: list_all_iff)
  show "\<not> is_base64 CHR '' ''" by code_simp
qed (simp_all only: b64_runs_spaces set_append set_replicate_conv_if length_append length_replicate list.size
      list.set, simp_all)

end
