(* ===== verification/Loggers.thy ===== *)
theory Loggers
  imports Prelude
begin

text \<open>
  The loggers of package \<open>logging\<close> (\<open>logger.go\<close>, \<open>context.go\<close>, \<open>null_logger.go\<close>, \<open>tf_logger.go\<close>,
  \<open>hc_logger.go\<close>). They pass messages on to \<open>tflog\<close> and \<open>hclog\<close>, whose functions are parameters;
  what they write is a list of records of type \<open>'o\<close>. A logger is found through the context it was
  registered in.
\<close>

section \<open>Loggers and contexts\<close>

datatype level = Warn | Info | Debug | Trace

datatype logger = NullLogger | TfLogger string | HcLogger

text \<open>The value under the logger key, and everything else a context carries.\<close>

record 'c go_context =
  gc_logger :: "logger option"
  gc_rest :: 'c

type_synonym 'v fields = "(string \<times> 'v) list"

text \<open>\<open>'h\<close> is the logger type of \<open>hclog\<close>, whose arguments alternate keys and values.\<close>

datatype 'v arg = Key string | Val 'v

record ('c, 'h, 'v, 'o) log_lib =
  ll_tf :: "level \<Rightarrow> 'c \<Rightarrow> string \<Rightarrow> 'v fields list \<Rightarrow> 'o list"
  ll_tf_Subsystem :: "level \<Rightarrow> 'c \<Rightarrow> string \<Rightarrow> string \<Rightarrow> 'v fields list \<Rightarrow> 'o list"
  ll_tf_NewSubsystem :: "'c \<Rightarrow> string \<Rightarrow> 'c"
  ll_tf_SetField :: "'c \<Rightarrow> string \<Rightarrow> 'v \<Rightarrow> 'c"
  ll_tf_SubsystemSetField :: "'c \<Rightarrow> string \<Rightarrow> string \<Rightarrow> 'v \<Rightarrow> 'c"
  ll_tf_MaskAllFieldValuesRegexes :: "'c \<Rightarrow> 'c"
  ll_hc_FromContext :: "'c \<Rightarrow> 'h"
  ll_hc_WithContext :: "'c \<Rightarrow> 'h \<Rightarrow> 'c"
  ll_hc_Named :: "'h \<Rightarrow> string \<Rightarrow> 'h"
  ll_hc_With :: "'h \<Rightarrow> string \<Rightarrow> 'v \<Rightarrow> 'h"
  ll_hc_log :: "level \<Rightarrow> 'h \<Rightarrow> string \<Rightarrow> 'v arg list \<Rightarrow> 'o list"

definition RegisterLogger :: "'c go_context \<Rightarrow> logger \<Rightarrow> 'c go_context" where
  "RegisterLogger ctx logger = ctx\<lparr>gc_logger := Some logger\<rparr>"

text \<open>The context of a test (\<open>internal/test/context.go\<close>): \<open>ctx\<close> is the one of \<open>testing\<close>, \<open>name\<close> the test's name.\<close>

definition test_Context :: "'c go_context \<Rightarrow> string \<Rightarrow> 'c go_context" where
  "test_Context ctx name = RegisterLogger ctx (TfLogger name)"

definition RetrieveLogger :: "'c go_context \<Rightarrow> logger" where
  "RetrieveLogger ctx = (case gc_logger ctx of None \<Rightarrow> NullLogger | Some l \<Rightarrow> l)"

definition NewTfLogger :: "'c go_context \<Rightarrow> 'c go_context \<times> logger" where
  "NewTfLogger ctx = (ctx, TfLogger [])"

definition NewHcLogger :: "('c, 'h, 'v, 'o) log_lib \<Rightarrow> 'c go_context \<Rightarrow> 'h \<Rightarrow> 'c go_context \<times> logger" where
  "NewHcLogger L ctx l = (ctx\<lparr>gc_rest := ll_hc_WithContext L (gc_rest ctx) l\<rparr>, HcLogger)"

text \<open>\<open>flattenFields\<close>; each map is the list of its entries in the order of \<open>range\<close>.\<close>

fun flatten_map :: "'v fields \<Rightarrow> 'v arg list \<Rightarrow> 'v arg list" where
  "flatten_map [] f = f"
| "flatten_map ((k, v) # m) f = flatten_map m (f @ [Key k, Val v])"

fun flatten_maps :: "'v fields list \<Rightarrow> 'v arg list \<Rightarrow> 'v arg list" where
  "flatten_maps [] f = f"
| "flatten_maps (m # ms) f = flatten_maps ms (flatten_map m f)"

definition flattenFields :: "'v fields list \<Rightarrow> 'v arg list" where
  "flattenFields flds = flatten_maps flds []"

text \<open>The methods \<open>Warn\<close>, \<open>Info\<close>, \<open>Debug\<close> and \<open>Trace\<close> of each logger differ in the level alone.\<close>

definition NullLogger_Log :: "level \<Rightarrow> 'c go_context \<Rightarrow> string \<Rightarrow> 'v fields list \<Rightarrow> 'o list" where [simp]:
  "NullLogger_Log lvl ctx msg flds = []"

definition NullLogger_SetField :: "'c go_context \<Rightarrow> string \<Rightarrow> 'v \<Rightarrow> 'c go_context" where [simp]:
  "NullLogger_SetField ctx k v = ctx"

definition NullLogger_SubLogger :: "'c go_context \<Rightarrow> string \<Rightarrow> 'c go_context \<times> logger" where [simp]:
  "NullLogger_SubLogger ctx name = (ctx, NullLogger)"

definition TfLogger_Log ::
    "('c, 'h, 'v, 'o) log_lib \<Rightarrow> string \<Rightarrow> level \<Rightarrow> 'c go_context \<Rightarrow> string \<Rightarrow> 'v fields list \<Rightarrow> 'o list" where [simp]:
  "TfLogger_Log L l lvl ctx msg flds =
     (if l = [] then ll_tf L lvl (gc_rest ctx) msg flds
      else ll_tf_Subsystem L lvl (gc_rest ctx) l msg flds)"

definition TfLogger_SetField ::
    "('c, 'h, 'v, 'o) log_lib \<Rightarrow> string \<Rightarrow> 'c go_context \<Rightarrow> string \<Rightarrow> 'v \<Rightarrow> 'c go_context" where [simp]:
  "TfLogger_SetField L l ctx k v =
     ctx\<lparr>gc_rest := (if l = [] then ll_tf_SetField L (gc_rest ctx) k v
                      else ll_tf_SubsystemSetField L (gc_rest ctx) l k v)\<rparr>"

definition TfLogger_SubLogger ::
    "('c, 'h, 'v, 'o) log_lib \<Rightarrow> 'c go_context \<Rightarrow> string \<Rightarrow> 'c go_context \<times> logger" where [simp]:
  "TfLogger_SubLogger L ctx name =
     (ctx\<lparr>gc_rest := ll_tf_NewSubsystem L (gc_rest ctx) name\<rparr>, TfLogger name)"

definition HcLogger_Log ::
    "('c, 'h, 'v, 'o) log_lib \<Rightarrow> level \<Rightarrow> 'c go_context \<Rightarrow> string \<Rightarrow> 'v fields list \<Rightarrow> 'o list" where [simp]:
  "HcLogger_Log L lvl ctx msg flds =
     ll_hc_log L lvl (ll_hc_FromContext L (gc_rest ctx)) msg (flattenFields flds)"

definition HcLogger_SetField ::
    "('c, 'h, 'v, 'o) log_lib \<Rightarrow> 'c go_context \<Rightarrow> string \<Rightarrow> 'v \<Rightarrow> 'c go_context" where [simp]:
  "HcLogger_SetField L ctx k v =
     ctx\<lparr>gc_rest := ll_hc_WithContext L (gc_rest ctx) (ll_hc_With L (ll_hc_FromContext L (gc_rest ctx)) k v)\<rparr>"

definition HcLogger_SubLogger ::
    "('c, 'h, 'v, 'o) log_lib \<Rightarrow> 'c go_context \<Rightarrow> string \<Rightarrow> 'c go_context \<times> logger" where [simp]:
  "HcLogger_SubLogger L ctx name =
     (ctx\<lparr>gc_rest := ll_hc_WithContext L (gc_rest ctx) (ll_hc_Named L (ll_hc_FromContext L (gc_rest ctx)) name)\<rparr>,
      HcLogger)"

text \<open>A call through the interface \<open>Logger\<close> runs the method of the value's type.\<close>

fun Log :: "('c, 'h, 'v, 'o) log_lib \<Rightarrow> logger \<Rightarrow> level \<Rightarrow> 'c go_context \<Rightarrow> string \<Rightarrow> 'v fields list \<Rightarrow> 'o list" where
  "Log L NullLogger = NullLogger_Log"
| "Log L (TfLogger l) = TfLogger_Log L l"
| "Log L HcLogger = HcLogger_Log L"

fun logger_SetField :: "('c, 'h, 'v, 'o) log_lib \<Rightarrow> logger \<Rightarrow> 'c go_context \<Rightarrow> string \<Rightarrow> 'v \<Rightarrow> 'c go_context" where
  "logger_SetField L NullLogger = NullLogger_SetField"
| "logger_SetField L (TfLogger l) = TfLogger_SetField L l"
| "logger_SetField L HcLogger = HcLogger_SetField L"

fun SubLogger :: "('c, 'h, 'v, 'o) log_lib \<Rightarrow> logger \<Rightarrow> 'c go_context \<Rightarrow> string \<Rightarrow> 'c go_context \<times> logger" where
  "SubLogger L NullLogger = NullLogger_SubLogger"
| "SubLogger L (TfLogger l) = TfLogger_SubLogger L"
| "SubLogger L HcLogger = HcLogger_SubLogger L"

text \<open>
  The first lines of \<open>GetAwsConfig\<close>: the context that is returned to the caller, and the context and
  logger everything in the function logs with. A nil logger in the configuration is \<open>None\<close>.
\<close>

definition configCommonLogging :: "('c, 'h, 'v, 'o) log_lib \<Rightarrow> 'c go_context \<Rightarrow> 'c go_context" where
  "configCommonLogging L ctx = ctx\<lparr>gc_rest := ll_tf_MaskAllFieldValuesRegexes L (gc_rest ctx)\<rparr>"

definition loggerName :: string where [simp]: "loggerName = ''aws-base''"

definition config_logging ::
    "('c, 'h, 'v, 'o) log_lib \<Rightarrow> logger option \<Rightarrow> 'c go_context \<Rightarrow> 'c go_context \<times> 'c go_context \<times> logger" where
  "config_logging L c_Logger ctx =
     (let logger = (case c_Logger of None \<Rightarrow> NullLogger | Some l \<Rightarrow> l);
          ctx = configCommonLogging L (RegisterLogger ctx logger);
          (baseCtx, logger) = SubLogger L logger ctx loggerName;
          baseCtx = RegisterLogger baseCtx logger
      in (ctx, baseCtx, logger))"

text \<open>
  The first lines of \<open>GetAwsAccountIDAndPartition\<close> and of \<open>GetSession\<close> for the SDK v1: the context they go on with.
\<close>

definition account_logging ::
    "('c, 'h, 'v, 'o) log_lib \<Rightarrow> logger option \<Rightarrow> 'c go_context \<Rightarrow> 'c go_context" where
  "account_logging L c_Logger ctx =
     (let logger = (case c_Logger of None \<Rightarrow> NullLogger | Some l \<Rightarrow> l);
          ctx = configCommonLogging L ctx;
          (ctx, logger) = SubLogger L logger ctx loggerName
      in RegisterLogger ctx logger)"

definition v1_loggerName :: string where "v1_loggerName = ''aws-base-v1''"

definition session_logging ::
    "('c, 'h, 'v, 'o) log_lib \<Rightarrow> logger option \<Rightarrow> 'c go_context \<Rightarrow> 'c go_context" where
  "session_logging L c_Logger ctx =
     (let logger = (case c_Logger of None \<Rightarrow> NullLogger | Some l \<Rightarrow> l);
          (ctx, logger) = SubLogger L logger ctx v1_loggerName
      in RegisterLogger ctx logger)"

section \<open>The contract of a logger\<close>

text \<open>
  What the callers rely on: setting fields and opening a sub-logger change what the logging library
  keeps in a context, and leave the registered logger alone.
\<close>

locale logger_contract =
  fixes set_field :: "'c go_context \<Rightarrow> string \<Rightarrow> 'v \<Rightarrow> 'c go_context"
    and sub_logger :: "'c go_context \<Rightarrow> string \<Rightarrow> 'c go_context \<times> logger"
  assumes set_field_keeps: "gc_logger (set_field ctx k v) = gc_logger ctx"
    and sub_logger_keeps: "gc_logger (fst (sub_logger ctx name)) = gc_logger ctx"
begin

lemma set_fields_keep: "gc_logger (foldl (\<lambda>ctx (k, v). set_field ctx k v) ctx kvs) = gc_logger ctx"
  by (induction kvs arbitrary: ctx) (auto simp: set_field_keeps)

lemma retrieve_after_fields:
  "RetrieveLogger (foldl (\<lambda>ctx (k, v). set_field ctx k v) (RegisterLogger ctx l) kvs) = l"
  by (simp add: RetrieveLogger_def set_fields_keep RegisterLogger_def)

lemma retrieve_after_sub: "RetrieveLogger (fst (sub_logger ctx name)) = RetrieveLogger ctx"
  by (simp add: RetrieveLogger_def sub_logger_keeps)

end

interpretation logger: logger_contract "logger_SetField L l" "SubLogger L l" for L l
proof
  show "gc_logger (logger_SetField L l ctx k v) = gc_logger ctx" for ctx k v by (cases l) simp_all
  show "gc_logger (fst (SubLogger L l ctx name)) = gc_logger ctx" for ctx name by (cases l) simp_all
qed

section \<open>Properties\<close>

text \<open>\<open>flattenFields\<close> loses no entry and keeps keys and values paired.\<close>

fun pair_up :: "'v arg list \<Rightarrow> 'v fields option" where
  "pair_up [] = Some []"
| "pair_up (Key k # Val v # rest) = map_option ((#) (k, v)) (pair_up rest)"
| "pair_up _ = None"

lemma flatten_map_eq: "flatten_map m f = f @ concat (map (\<lambda>(k, v). [Key k, Val v]) m)"
  by (induction m f rule: flatten_map.induct) simp_all

lemma flatten_maps_eq: "flatten_maps ms f = f @ concat (map (\<lambda>(k, v). [Key k, Val v]) (concat ms))"
  by (induction ms f rule: flatten_maps.induct) (simp_all add: flatten_map_eq)

lemma pair_up_pairs: "pair_up (concat (map (\<lambda>(k, v). [Key k, Val v]) m)) = Some m"
  by (induction m) auto

lemma flattenFields_pairs: "pair_up (flattenFields flds) = Some (concat flds)"
  by (simp add: flattenFields_def flatten_maps_eq pair_up_pairs)

text \<open>The Terraform logger of the other entry points: messages go to the subsystem each of them opens.\<close>

lemma sub_logging_subsystem:
  "RetrieveLogger (account_logging L (Some (TfLogger root)) ctx) = TfLogger loggerName"
  "RetrieveLogger (session_logging L (Some (TfLogger root)) ctx) = TfLogger v1_loggerName"
  by (simp_all add: account_logging_def session_logging_def RetrieveLogger_def RegisterLogger_def TfLogger_SubLogger_def)


end
