(* ===== verification/Generator.thy ===== *)
theory Generator
  imports Complex_Main EndpointsData HttpHeader "HOL-Library.List_Lexorder" "HOL-Library.Multiset"
begin

text \<open>
  The generator of the partition table (\<open>internal/generate/endpoints/main.go\<close>) and its output
  buffer (\<open>internal/generate/common/generator.go\<close>): reading the endpoints document, whose objects
  are Go maps and so come in any order, sorting what was read, naming the constants, and writing
  the formatted text. Fetching the document, \<open>go/format\<close> and the template engine are parameters.
\<close>

section \<open>The document\<close>

text \<open>Decoded JSON; the entries of an object are in the order in which \<open>range\<close> visits them.\<close>

datatype any =
    AnyMap "(string \<times> any) list"
  | AnySlice "any list"
  | AnyString string
  | AnyFloat rat
  | AnyOther

record RegionDatum =
  rd_ID :: string
  rd_Description :: string

record ServiceDatum =
  sd_ID :: string

record PartitionDatum =
  pd_ID :: string
  pd_Name :: string
  pd_DNSSuffix :: string
  pd_RegionRegex :: string
  pd_Regions :: "RegionDatum list"
  pd_Services :: "ServiceDatum list"

definition str_field :: "(string \<times> any) list \<Rightarrow> string \<Rightarrow> string" where
  "str_field m k = (case map_of m k of Some (AnyString s) \<Rightarrow> s | _ \<Rightarrow> [])"

definition map_field :: "(string \<times> any) list \<Rightarrow> string \<Rightarrow> (string \<times> any) list" where
  "map_field m k = (case map_of m k of Some (AnyMap m') \<Rightarrow> m' | _ \<Rightarrow> [])"

definition region_datum :: "string \<times> any \<Rightarrow> RegionDatum" where
  "region_datum e =
     \<lparr>rd_ID = fst e,
      rd_Description = (case snd e of AnyMap r \<Rightarrow> str_field r ''description'' | _ \<Rightarrow> [])\<rparr>"

definition service_datum :: "string \<times> any \<Rightarrow> ServiceDatum" where
  "service_datum e = \<lparr>sd_ID = fst e\<rparr>"

text \<open>One element of the partitions; anything but an object is skipped.\<close>

fun partition_data :: "any list \<Rightarrow> PartitionDatum list" where
  "partition_data [] = []"
| "partition_data (AnyMap m # ps) =
     \<lparr>pd_ID = str_field m ''partition'', pd_Name = str_field m ''partitionName'',
      pd_DNSSuffix = str_field m ''dnsSuffix'', pd_RegionRegex = str_field m ''regionRegex'',
      pd_Regions = map region_datum (map_field m ''regions''),
      pd_Services = map service_datum (map_field m ''services'')\<rparr> # partition_data ps"
| "partition_data (_ # ps) = partition_data ps"

text \<open>\<open>sort.SliceStable\<close> by an ID; strings are compared byte by byte.\<close>

definition SliceStable :: "('a \<Rightarrow> string) \<Rightarrow> 'a list \<Rightarrow> 'a list" where
  "SliceStable ID xs = sort_key ID xs"

definition sort_regions :: "PartitionDatum \<Rightarrow> PartitionDatum" where
  "sort_regions p = p\<lparr>pd_Regions := SliceStable rd_ID (pd_Regions p)\<rparr>"

definition sort_services :: "PartitionDatum \<Rightarrow> PartitionDatum" where
  "sort_services p = p\<lparr>pd_Services := SliceStable sd_ID (pd_Services p)\<rparr>"

text \<open>
  From the document to the data of the template; \<open>Fatalf\<close> ends the program with a message, in which
  \<open>fmt_d\<close> prints the version cut to an integer.
\<close>

definition template_data :: "(int \<Rightarrow> string) \<Rightarrow> (string \<times> any) list \<Rightarrow> string + PartitionDatum list" where
  "template_data fmt_d target =
     (case map_of target ''version'' of
        Some (AnyFloat v) \<Rightarrow>
          (if v \<noteq> 3
           then Inl (''unsupported endpoints document version: '' @ fmt_d (if v \<ge> 0 then floor v else ceiling v))
           else
             (let ps = (case map_of target ''partitions'' of Some (AnySlice ps) \<Rightarrow> partition_data ps | _ \<Rightarrow> []);
                  ps = SliceStable pd_ID ps;
                  ps = map sort_regions ps
              in Inr (map sort_services ps)))
      | _ \<Rightarrow> Inl ''can't parse endpoints document version'')"

text \<open>
  \<open>decodeFromReader\<close>: the values the decoder finds in the stream are decoded into one map, until the
  end of the stream (\<open>None\<close>) or an error. An object adds its entries to the map, which keeps the other
  keys it has, and null makes the map nil; for any other value the decoder reports an error.
\<close>

datatype json_value = JObject "(string \<times> any) list" | JNull | JMismatch string

fun set_key :: "(string \<times> any) list \<Rightarrow> string \<times> any \<Rightarrow> (string \<times> any) list" where
  "set_key [] e = [e]"
| "set_key (e' # m) e = (if fst e' = fst e then e # m else e' # set_key m e)"

fun decodeFromReader ::
    "json_value list \<Rightarrow> string option \<Rightarrow> (string \<times> any) list \<Rightarrow> (string \<times> any) list \<times> string option" where
  "decodeFromReader [] err target = (target, err)"
| "decodeFromReader (JObject v # vs) err target = decodeFromReader vs err (foldl set_key target v)"
| "decodeFromReader (JNull # vs) err target = decodeFromReader vs err []"
| "decodeFromReader (JMismatch e # vs) err target = (target, Some e)"

lemma set_key_map_of: "map_of (set_key m e) = (map_of m)(fst e \<mapsto> snd e)"
  by (induction m) (auto simp: fun_eq_iff)

lemma set_key_keys: "set (map fst (set_key m e)) = insert (fst e) (set (map fst m))"
  by (induction m) auto

lemma set_key_distinct: "distinct (map fst m) \<Longrightarrow> distinct (map fst (set_key m e))"
proof (induction m)
  case (Cons e' m)
  then have "fst e' \<notin> set (map fst (set_key m e))" if "fst e' \<noteq> fst e"
    using that unfolding set_key_keys by simp
  with Cons show ?case by (cases "fst e' = fst e") simp_all
qed simp

text \<open>Decoding keeps the keys of the target distinct, as they are in a map.\<close>

lemma decodeFromReader_distinct:
  "distinct (map fst target) \<Longrightarrow> distinct (map fst (fst (decodeFromReader vs err target)))"
proof (induction vs err target rule: decodeFromReader.induct)
  case (2 v vs err target)
  have "distinct (map fst (foldl set_key m v))" if "distinct (map fst m)" for m
    using that by (induction v arbitrary: m) (simp_all add: set_key_distinct)
  with 2 show ?case by simp
qed simp_all

section \<open>Names of constants\<close>

text \<open>
  \<open>FirstUpper\<close>: \<open>DecodeUpper\<close> gives the length of the first rune of a text and its upper case, for a
  rune beyond ASCII.
\<close>

definition FirstUpper :: "(string \<Rightarrow> nat \<times> string) \<Rightarrow> string \<Rightarrow> string" where
  "FirstUpper DecodeUpper s =
     (case s of
        [] \<Rightarrow> []
      | c # cs \<Rightarrow>
          if (of_char c :: nat) < 128 then to_upper c # cs
          else (case DecodeUpper s of (n, u) \<Rightarrow> u @ drop n s))"

definition IDToTitle :: "(string \<Rightarrow> nat \<times> string) \<Rightarrow> string \<Rightarrow> string" where
  "IDToTitle DecodeUpper s =
     (let parts = Split1 CHR ''-'' s;
          parts = (if length parts = 1 then Split1 CHR ''.'' s else parts)
      in Join [] (map (FirstUpper DecodeUpper) parts))"

section \<open>The destination\<close>

record fileDestination =
  fd_formatter :: "(bytes \<Rightarrow> string + bytes) option"
  fd_buffer :: bytes
  fd_append :: bool
  fd_filename :: string

definition NewGoFileDestination :: "(bytes \<Rightarrow> string + bytes) \<Rightarrow> string \<Rightarrow> fileDestination" where
  "NewGoFileDestination Source filename =
     \<lparr>fd_formatter = Some Source, fd_buffer = [], fd_append = False, fd_filename = filename\<rparr>"

definition NewUnformattedFileDestination :: "string \<Rightarrow> fileDestination" where
  "NewUnformattedFileDestination filename =
     \<lparr>fd_formatter = None, fd_buffer = [], fd_append = False, fd_filename = filename\<rparr>"

definition WriteBytes :: "fileDestination \<Rightarrow> bytes \<Rightarrow> fileDestination" where
  "WriteBytes d body = d\<lparr>fd_buffer := fd_buffer d @ body\<rparr>"

definition format_body :: "fileDestination \<Rightarrow> bytes \<Rightarrow> string + bytes" where
  "format_body d body =
     (case fd_formatter d of
        None \<Rightarrow> Inr body
      | Some f \<Rightarrow>
          (case f body of
             Inl err \<Rightarrow> Inl (''formatting parsed template:'' @ [CHR 0x0A] @ body @ [CHR 0x0A] @ err)
           | Inr b \<Rightarrow> Inr b))"

text \<open>\<open>Parse\<close> and \<open>Execute\<close> are those of \<open>text/template\<close>, with the function map and the data applied.\<close>

definition parseTemplate :: "(string \<Rightarrow> string + 't) \<Rightarrow> ('t \<Rightarrow> string + bytes) \<Rightarrow> string \<Rightarrow> string + bytes" where
  "parseTemplate Parse Execute templateBody =
     (case Parse templateBody of
        Inl err \<Rightarrow> Inl (''parsing function template: '' @ err)
      | Inr tmpl \<Rightarrow>
          (case Execute tmpl of Inl err \<Rightarrow> Inl (''executing template: '' @ err) | Inr b \<Rightarrow> Inr b))"

definition WriteTemplate ::
    "(string \<Rightarrow> string + 't) \<Rightarrow> ('t \<Rightarrow> string + bytes) \<Rightarrow> fileDestination \<Rightarrow> string \<Rightarrow>
     fileDestination \<times> string option" where
  "WriteTemplate Parse Execute d templateBody =
     (case parseTemplate Parse Execute templateBody of
        Inl err \<Rightarrow> (d, Some err)
      | Inr body \<Rightarrow>
          (case format_body d body of Inl err \<Rightarrow> (d, Some err) | Inr body \<Rightarrow> (WriteBytes d body, None)))"

definition WriteTemplateSet ::
    "('t \<Rightarrow> string + bytes) \<Rightarrow> fileDestination \<Rightarrow> 't \<Rightarrow> fileDestination \<times> string option" where
  "WriteTemplateSet Execute d templates =
     (case Execute templates of
        Inl err \<Rightarrow> (d, Some (''executing template: '' @ err))
      | Inr body \<Rightarrow>
          (case format_body d body of Inl err \<Rightarrow> (d, Some err) | Inr body \<Rightarrow> (WriteBytes d body, None)))"

text \<open>\<open>MkdirAll\<close> gives the error, if any; \<open>Dir\<close> is \<open>path.Dir\<close>.\<close>

definition CreateDirectories ::
    "(string \<Rightarrow> string option) \<Rightarrow> (string \<Rightarrow> string) \<Rightarrow> fileDestination \<Rightarrow> string option" where
  "CreateDirectories MkdirAll Dir d =
     (case MkdirAll (Dir (fd_filename d)) of
        None \<Rightarrow> None
      | Some err \<Rightarrow> Some (''creating target directory '' @ Dir (fd_filename d) @ '': '' @ err))"

text \<open>
  \<open>Write\<close> to a file system; \<open>O_TRUNC\<close> drops the old content, \<open>O_APPEND\<close> keeps it. Opening can fail,
  and writing can end early with an error.
\<close>

record file_ops =
  fo_Open :: "string \<Rightarrow> string option"
  fo_WriteString :: "string \<Rightarrow> bytes \<Rightarrow> nat \<times> string option"

definition Write_file ::
    "file_ops \<Rightarrow> (string \<rightharpoonup> bytes) \<Rightarrow> fileDestination \<Rightarrow> (string \<rightharpoonup> bytes) \<times> string option" where
  "Write_file F files d =
     (case fo_Open F (fd_filename d) of
        Some err \<Rightarrow> (files, Some (''opening file ('' @ fd_filename d @ ''): '' @ err))
      | None \<Rightarrow>
          (let old = (if fd_append d then (case files (fd_filename d) of None \<Rightarrow> [] | Some b \<Rightarrow> b) else [])
           in case fo_WriteString F (fd_filename d) (fd_buffer d) of
                (n, Some err) \<Rightarrow>
                  (files(fd_filename d \<mapsto> old @ take n (fd_buffer d)),
                   Some (''writing to file ('' @ fd_filename d @ ''): '' @ err))
              | (n, None) \<Rightarrow> (files(fd_filename d \<mapsto> old @ fd_buffer d), None)))"

text \<open>\<open>main\<close>, from the decoded document on: the files afterwards and the message of \<open>Fatalf\<close>.\<close>

definition main ::
    "(int \<Rightarrow> string) \<Rightarrow> (bytes \<Rightarrow> string + bytes) \<Rightarrow> (string \<Rightarrow> string + 't) \<Rightarrow>
     (PartitionDatum list \<Rightarrow> 't \<Rightarrow> string + bytes) \<Rightarrow> string \<Rightarrow> file_ops \<Rightarrow>
     (string \<rightharpoonup> bytes) \<Rightarrow> (string \<times> any) list \<Rightarrow> (string \<rightharpoonup> bytes) \<times> string option" where
  "main fmt_d Source Parse Execute tmpl F files target =
     (case template_data fmt_d target of
        Inl err \<Rightarrow> (files, Some err)
      | Inr td \<Rightarrow>
          (case WriteTemplate Parse (Execute td) (NewGoFileDestination Source ''endpoints_gen.go'') tmpl of
             (d, Some err) \<Rightarrow> (files, Some (''error generating endpoint resolver: '' @ err))
           | (d, None) \<Rightarrow>
               (case Write_file F files d of
                  (files, Some err) \<Rightarrow> (files, Some (''generating file (endpoints_gen.go): '' @ err))
                | (files, None) \<Rightarrow> (files, None))))"

section \<open>Documents that differ in the order of their objects\<close>

inductive same_any :: "any \<Rightarrow> any \<Rightarrow> bool" where
  same_map: "distinct (map fst m) \<Longrightarrow> mset m2 = mset m' \<Longrightarrow>
     list_all2 (\<lambda>e e'. fst e = fst e' \<and> same_any (snd e) (snd e')) m m2 \<Longrightarrow> same_any (AnyMap m) (AnyMap m')"
| same_slice: "list_all2 same_any xs ys \<Longrightarrow> same_any (AnySlice xs) (AnySlice ys)"
| same_string: "same_any (AnyString s) (AnyString s)"
| same_float: "same_any (AnyFloat v) (AnyFloat v)"
| same_other: "same_any AnyOther AnyOther"
monos list.rel_mono_strong

inductive_cases same_mapE: "same_any (AnyMap m) a"
inductive_simps same_simps:
  "same_any (AnyString s) a" "same_any (AnySlice xs) a" "same_any (AnyFloat v) a" "same_any AnyOther a"
  "same_any (AnyMap m) (AnyString s)" "same_any (AnyMap m) (AnySlice s)"
  "same_any (AnyMap m) (AnyFloat v)" "same_any (AnyMap m) AnyOther"

definition same_entry :: "string \<times> any \<Rightarrow> string \<times> any \<Rightarrow> bool" where
  "same_entry e e' \<longleftrightarrow> fst e = fst e' \<and> same_any (snd e) (snd e')"

lemma same_mapD:
  assumes "same_any (AnyMap m) (AnyMap m')"
  obtains m2 where "distinct (map fst m)" "distinct (map fst m')" "mset m2 = mset m'" "list_all2 same_entry m m2"
proof -
  from assms obtain m2 where m2: "distinct (map fst m)" "mset m2 = mset m'" "list_all2 same_entry m m2"
    by (auto elim!: same_mapE simp: same_entry_def [abs_def])
  then have "map fst m = map fst m2" by (auto simp: list_all2_conv_all_nth same_entry_def intro!: nth_equalityI)
  then have "distinct (map fst m2)" using m2(1) by simp
  then have "distinct (map fst m')" using m2(2) by (metis mset_eq_imp_distinct_iff mset_map)
  with m2 that show thesis by blast
qed

lemma list_all2_map_of: "list_all2 same_entry m m2 \<Longrightarrow> rel_option same_any (map_of m k) (map_of m2 k)"
  by (induction m m2 rule: list_all2_induct) (auto simp: same_entry_def)

lemma same_lookup:
  assumes "same_any (AnyMap m) (AnyMap m')"
  shows "rel_option same_any (map_of m k) (map_of m' k)"
proof -
  from assms obtain m2 where m2: "distinct (map fst m')" "mset m2 = mset m'" "list_all2 same_entry m m2"
    by (rule same_mapD)
  then have "distinct (map fst m2)" by (metis mset_eq_imp_distinct_iff mset_map)
  then have "map_of m2 = map_of m'"
    using m2(1,2) by (metis map_of_inject_set mset_eq_setD)
  then show ?thesis using list_all2_map_of [OF m2(3), of k] by simp
qed

lemma same_str_field: "same_any (AnyMap m) (AnyMap m') \<Longrightarrow> str_field m k = str_field m' k"
  using same_lookup [of m m' k]
  by (cases rule: option.rel_cases) (auto simp: str_field_def elim: same_any.cases)

lemma same_map_field:
  assumes "same_any (AnyMap m) (AnyMap m')"
  shows "same_any (AnyMap (map_field m k)) (AnyMap (map_field m' k))"
proof -
  have nil: "same_any (AnyMap []) (AnyMap [])" by (rule same_map) auto
  show ?thesis using same_lookup [OF assms, of k] nil
    by (cases rule: option.rel_cases) (auto simp: map_field_def same_simps split: any.split)
qed

section \<open>Sorting\<close>

lemma SliceStable_cong:
  assumes "mset xs = mset ys" and "distinct (map ID xs)"
  shows "SliceStable ID xs = SliceStable ID ys"
proof -
  have "distinct (map ID ys)" using assms by (metis mset_eq_imp_distinct_iff mset_map)
  with assms show ?thesis unfolding SliceStable_def
    by (intro map_sorted_distinct_set_unique [of ID])
       (auto simp: distinct_map inj_on_def dest: mset_eq_setD)
qed

lemma map_insort_key: "(\<And>x. f (g x) = f x) \<Longrightarrow> map g (insort_key f x xs) = insort_key f (g x) (map g xs)"
  by (induction xs) auto

lemma map_SliceStable: "(\<And>x. ID (g x) = ID x) \<Longrightarrow> map g (SliceStable ID xs) = SliceStable ID (map g xs)"
  unfolding SliceStable_def by (induction xs) (simp_all add: map_insort_key)

lemma same_region_data:
  assumes "same_any (AnyMap m) (AnyMap m')"
  shows "SliceStable rd_ID (map region_datum m) = SliceStable rd_ID (map region_datum m')"
    and "SliceStable sd_ID (map service_datum m) = SliceStable sd_ID (map service_datum m')"
proof -
  from assms obtain m2 where d: "distinct (map fst m)" and m2: "mset m2 = mset m'" "list_all2 same_entry m m2"
    by (rule same_mapD)
  have "region_datum e = region_datum e'" "service_datum e = service_datum e'" if "same_entry e e'" for e e'
    using that by (auto simp: same_entry_def region_datum_def service_datum_def same_str_field same_simps
        split: any.split)
  with m2(2) have eq: "map region_datum m = map region_datum m2" "map service_datum m = map service_datum m2"
    by (induction rule: list_all2_induct) auto
  have "mset (map region_datum m) = mset (map region_datum m')"
    "mset (map service_datum m) = mset (map service_datum m')"
    unfolding eq using m2(1) by (metis mset_map)+
  moreover have "map rd_ID (map region_datum m) = map fst m" "map sd_ID (map service_datum m) = map fst m"
    by (simp_all add: region_datum_def service_datum_def)
  ultimately show "SliceStable rd_ID (map region_datum m) = SliceStable rd_ID (map region_datum m')"
    and "SliceStable sd_ID (map service_datum m) = SliceStable sd_ID (map service_datum m')"
    using d by (metis SliceStable_cong)+
qed

section \<open>The order of the document does not matter\<close>

definition sorted_datum :: "PartitionDatum \<Rightarrow> PartitionDatum" where
  "sorted_datum p = sort_services (sort_regions p)"

lemma sorted_datum_eq:
  "sorted_datum p = p\<lparr>pd_Regions := SliceStable rd_ID (pd_Regions p), pd_Services := SliceStable sd_ID (pd_Services p)\<rparr>"
  by (simp add: sorted_datum_def sort_services_def sort_regions_def)

lemma same_partition_data:
  "list_all2 same_any ps ps' \<Longrightarrow> map sorted_datum (partition_data ps) = map sorted_datum (partition_data ps')"
proof (induction ps ps' rule: list_all2_induct)
  case (Cons p ps p' ps')
  then show ?case
    by (cases p; cases p')
      (auto simp: same_simps sorted_datum_eq same_str_field [of _ _ "''partition''"]
        same_str_field [of _ _ "''partitionName''"] same_str_field [of _ _ "''dnsSuffix''"]
        same_str_field [of _ _ "''regionRegex''"] intro!: same_region_data same_map_field)
qed simp

text \<open>The partitions of the template's data: sorted by ID, with their parts sorted.\<close>

lemma sorted_partitions:
  "map (sort_services \<circ> sort_regions) (SliceStable pd_ID ps) = SliceStable pd_ID (map sorted_datum ps)"
proof -
  have "map (sort_services \<circ> sort_regions) (SliceStable pd_ID ps) = map sorted_datum (SliceStable pd_ID ps)"
    by (simp add: sorted_datum_def)
  also have "\<dots> = SliceStable pd_ID (map sorted_datum ps)"
    by (rule map_SliceStable) (simp add: sorted_datum_eq)
  finally show ?thesis .
qed

lemma template_data_same:
  assumes "same_any (AnyMap d) (AnyMap d')"
  shows "template_data fmt_d d = template_data fmt_d d'"
proof -
  have parts: "map sorted_datum (case map_of d ''partitions'' of Some (AnySlice ps) \<Rightarrow> partition_data ps | _ \<Rightarrow> []) =
      map sorted_datum (case map_of d' ''partitions'' of Some (AnySlice ps) \<Rightarrow> partition_data ps | _ \<Rightarrow> [])"
    using same_lookup [OF assms, of "''partitions''"]
    by (cases rule: option.rel_cases) (auto simp: same_simps same_partition_data split: any.split)
  show ?thesis using same_lookup [OF assms, of "''version''"]
    by (cases rule: option.rel_cases)
      (auto simp: template_data_def Let_def sorted_partitions parts same_simps split: any.split)
qed

section \<open>The table as a document\<close>

text \<open>\<open>rx_text\<close> writes an expression the way the document does.\<close>

definition partition_doc :: "(rx \<Rightarrow> string) \<Rightarrow> Partition \<Rightarrow> any" where
  "partition_doc rx_text p = AnyMap
     [(''partition'', AnyString (pt_id p)), (''partitionName'', AnyString (pt_name p)),
      (''dnsSuffix'', AnyString (pt_dnsSuffix p)), (''regionRegex'', AnyString (rx_text (pt_regionRegex p))),
      (''regions'', AnyMap (map (\<lambda>(k, r). (k, AnyMap [(''description'', AnyString (rg_description r))])) (pt_regions p))),
      (''services'', AnyMap (map (\<lambda>(k, s). (k, AnyOther)) (pt_services p)))]"

definition table_doc :: "(rx \<Rightarrow> string) \<Rightarrow> (string \<times> any) list" where
  "table_doc rx_text =
     [(''version'', AnyFloat 3), (''partitions'', AnySlice (map (partition_doc rx_text \<circ> snd) partitions))]"

definition table_datum :: "(rx \<Rightarrow> string) \<Rightarrow> Partition \<Rightarrow> PartitionDatum" where
  "table_datum rx_text p =
     \<lparr>pd_ID = pt_id p, pd_Name = pt_name p, pd_DNSSuffix = pt_dnsSuffix p,
      pd_RegionRegex = rx_text (pt_regionRegex p),
      pd_Regions = map (\<lambda>(k, r). \<lparr>rd_ID = k, rd_Description = rg_description r\<rparr>) (pt_regions p),
      pd_Services = map (\<lambda>(k, s). \<lparr>sd_ID = k\<rparr>) (pt_services p)\<rparr>"

lemma partition_data_table:
  "partition_data (map (partition_doc rx_text) ps) = map (table_datum rx_text) ps"
  by (induction ps)
    (simp_all add: partition_doc_def table_datum_def str_field_def map_field_def region_datum_def
      service_datum_def comp_def split_beta)

text \<open>Strictly ascending lists, checked by neighbours.\<close>

definition ascending :: "string list \<Rightarrow> bool" where
  "ascending ks \<longleftrightarrow> successively (<) ks"

lemma ascending_sorted: "ascending ks \<Longrightarrow> sorted ks \<and> distinct ks"
proof -
  assume "ascending ks"
  then have "sorted_wrt (<) ks" by (simp add: ascending_def successively_conv_sorted_wrt)
  then show ?thesis by (simp add: strict_sorted_iff)
qed

definition ordered_partition :: "Partition \<Rightarrow> bool" where
  "ordered_partition p \<longleftrightarrow> ascending (map fst (pt_regions p)) \<and> ascending (map fst (pt_services p))"

lemma sorted_table_datum: "ordered_partition p \<Longrightarrow> sorted_datum (table_datum rx_text p) = table_datum rx_text p"
  by (auto simp: ordered_partition_def sorted_datum_eq table_datum_def SliceStable_def comp_def split_beta
      dest!: ascending_sorted intro!: sort_key_id_if_sorted)

lemma partitions_ascending: "ascending (map (pt_id \<circ> snd) partitions)"
  by code_simp

lemma aws_ordered: "ordered_partition aws_partition"
  by code_simp

lemma aws_cn_ordered: "ordered_partition aws_cn_partition"
  by code_simp

lemma aws_eusc_ordered: "ordered_partition aws_eusc_partition"
  by code_simp

lemma aws_iso_ordered: "ordered_partition aws_iso_partition"
  by code_simp

lemma aws_iso_b_ordered: "ordered_partition aws_iso_b_partition"
  by code_simp

lemma aws_iso_e_ordered: "ordered_partition aws_iso_e_partition"
  by code_simp

lemma aws_iso_f_ordered: "ordered_partition aws_iso_f_partition"
  by code_simp

lemma aws_us_gov_ordered: "ordered_partition aws_us_gov_partition"
  by code_simp


lemma partitions_ordered: "list_all ordered_partition (map snd partitions)"
  by (simp add: partitions_def aws_ordered aws_cn_ordered aws_eusc_ordered aws_iso_ordered aws_iso_b_ordered
      aws_iso_e_ordered aws_iso_f_ordered aws_us_gov_ordered)

lemma template_data_table:
  "template_data fmt_d (table_doc rx_text) = Inr (map (table_datum rx_text \<circ> snd) partitions)"
proof -
  have "map (sort_services \<circ> sort_regions) (SliceStable pd_ID (map (table_datum rx_text) (map snd partitions))) =
      SliceStable pd_ID (map sorted_datum (map (table_datum rx_text) (map snd partitions)))"
    by (rule sorted_partitions)
  also have "map sorted_datum (map (table_datum rx_text) (map snd partitions)) = map (table_datum rx_text) (map snd partitions)"
    using partitions_ordered by (simp add: list_all_iff sorted_table_datum)
  also have "SliceStable pd_ID (map (table_datum rx_text) (map snd partitions)) = map (table_datum rx_text) (map snd partitions)"
  proof -
    have "map pd_ID (map (table_datum rx_text) (map snd partitions)) = map (pt_id \<circ> snd) partitions"
      by (simp add: table_datum_def)
    then have "sorted (map pd_ID (map (table_datum rx_text) (map snd partitions)))"
      using ascending_sorted [OF partitions_ascending] by (simp only:)
    then show ?thesis unfolding SliceStable_def by (rule sort_key_id_if_sorted)
  qed
  finally show ?thesis
    using partition_data_table [of rx_text "map snd partitions"]
    by (simp add: template_data_def table_doc_def comp_def)
qed

text \<open>The order of the documents is no part of their meaning, so a document means itself.\<close>

lemma same_refl_map:
  "distinct (map fst m) \<Longrightarrow> (\<And>e. e \<in> set m \<Longrightarrow> same_any (snd e) (snd e)) \<Longrightarrow> same_any (AnyMap m) (AnyMap m)"
  by (rule same_map [of _ m]) (auto simp: list_all2_same)

lemma same_partition_doc: "ordered_partition p \<Longrightarrow> same_any (partition_doc rx_text p) (partition_doc rx_text p)"
proof -
  assume "ordered_partition p"
  then have "distinct (map fst (pt_regions p))" "distinct (map fst (pt_services p))"
    using ascending_sorted by (auto simp: ordered_partition_def)
  then show ?thesis unfolding partition_doc_def
    by (intro same_refl_map) (auto simp: comp_def split_beta same_simps intro!: same_refl_map)
qed

lemma same_table_doc: "same_any (AnyMap (table_doc rx_text)) (AnyMap (table_doc rx_text))"
  using partitions_ordered
  by (intro same_refl_map)
    (auto simp: table_doc_def same_simps list_all2_map1 list_all2_map2 list_all2_same list_all_iff
      intro!: same_partition_doc)

text \<open>So does a document with its entries in the reverse order.\<close>

lemma same_rev_table_doc: "same_any (AnyMap (rev (table_doc rx_text))) (AnyMap (table_doc rx_text))"
proof -
  obtain m2 where m2: "distinct (map fst (table_doc rx_text))" "mset m2 = mset (table_doc rx_text)"
      "list_all2 same_entry (table_doc rx_text) m2"
    using same_table_doc by (rule same_mapD)
  then have "list_all2 same_entry (rev (table_doc rx_text)) (rev m2)" by simp
  with m2 show ?thesis
    by (intro same_map [of _ "rev m2"]) (simp_all add: same_entry_def [abs_def] rev_map [symmetric])
qed

section \<open>Properties\<close>

text \<open>The generator is deterministic and agrees with the table in the repository: whatever order
  Go's maps give to the objects of the endpoints document, the data it hands to the template are the
  entries of the generated table in the order of the file, each partition with its regions and
  services, when the document says what the table says.\<close>

theorem generator_reproduces_table:
  assumes "same_any (AnyMap d) (AnyMap (table_doc rx_text))"
  shows "template_data fmt_d d = Inr (map (table_datum rx_text \<circ> snd) partitions)"
  using template_data_same [OF assms] template_data_table by simp

lemma generator_reproduces_table_witness:
  "template_data (\<lambda>_. []) (rev (table_doc (\<lambda>_. ''rx''))) =
     Inr (map (table_datum (\<lambda>_. ''rx'') \<circ> snd) partitions)"
  by (rule generator_reproduces_table) (rule same_rev_table_doc)

text \<open>The names of the constants the generator declares for the table's partitions and regions
  are pairwise distinct, and none depends on the treatment of runes beyond ASCII, so that the
  generated file declares each constant once.\<close>

theorem generated_names_distinct:
  "distinct (map (\<lambda>k. IDToTitle DecodeUpper k @ ''PartitionID'') partition_ids @
     map (\<lambda>k. IDToTitle DecodeUpper k @ ''RegionID'') region_ids)"
  by code_simp

text \<open>
  A run of the generator writes no other file, leaves the table alone when the document, the template
  or the formatter fails, and otherwise replaces it by the formatted text.
\<close>

lemma generator_main_result:
  assumes "main fmt_d Source Parse Execute tmpl F files target = (files', err)"
  shows "(\<forall>f. f \<noteq> ''endpoints_gen.go'' \<longrightarrow> files' f = files f) \<and>
    (case template_data fmt_d target of
       Inl e \<Rightarrow> err = Some e \<and> files' = files
     | Inr td \<Rightarrow>
         (case parseTemplate Parse (Execute td) tmpl of
            Inl e \<Rightarrow> err \<noteq> None \<and> files' = files
          | Inr body \<Rightarrow>
              (case Source body of
                 Inl e \<Rightarrow> err \<noteq> None \<and> files' = files
               | Inr out \<Rightarrow> err = None \<longrightarrow> files' ''endpoints_gen.go'' = Some out)))"
  using assms
  by (auto simp: main_def WriteTemplate_def format_body_def NewGoFileDestination_def Write_file_def
      WriteBytes_def Let_def split: sum.splits option.splits prod.splits)

end
