(* ===== verification/GenCommand.thy ===== *)
theory GenCommand
  imports Generator
begin

text \<open>
  The generator as a command (\<open>internal/generate/endpoints/main.go\<close>): flags and arguments, the
  messages on the two output streams (\<open>internal/generate/common/generator.go\<close>), the download of the
  document, and the exit status. A step of the command is a function on the state of the process; it
  either goes on with a value or ends the process with a status.
\<close>

section \<open>The process\<close>

record process =
  ps_stdout :: bytes
  ps_stderr :: bytes
  ps_files :: "string \<rightharpoonup> bytes"
  ps_bodies :: nat

datatype 'a step = Exit nat | Value 'a

definition andThen :: "(process \<Rightarrow> 'a step \<times> process) \<Rightarrow> ('a \<Rightarrow> process \<Rightarrow> 'b step \<times> process) \<Rightarrow> process \<Rightarrow> 'b step \<times> process" where
  "andThen f g s = (case f s of (Exit n, s) \<Rightarrow> (Exit n, s) | (Value a, s) \<Rightarrow> g a s)"

lemma andThen_simps [simp]:
  "f s = (Exit n, s') \<Longrightarrow> andThen f g s = (Exit n, s')"
  "f s = (Value a, s') \<Longrightarrow> andThen f g s = g a s'"
  by (simp_all add: andThen_def)

section \<open>Messages\<close>

text \<open>The argument is the formatted message.\<close>

definition output_to :: "string \<Rightarrow> bytes \<Rightarrow> bytes" where
  "output_to message w = w @ message @ NL"

definition Infof :: "string \<Rightarrow> process \<Rightarrow> process" where
  "Infof message s = s\<lparr>ps_stdout := output_to message (ps_stdout s)\<rparr>"

definition Errorf :: "string \<Rightarrow> process \<Rightarrow> process" where
  "Errorf message s = s\<lparr>ps_stderr := output_to message (ps_stderr s)\<rparr>"

definition Warnf :: "string \<Rightarrow> process \<Rightarrow> process" where
  "Warnf message s = Errorf message s"

definition Fatalf :: "string \<Rightarrow> process \<Rightarrow> 'a step \<times> process" where
  "Fatalf message s = (Exit 1, Errorf message s)"

definition usage :: "process \<Rightarrow> process" where
  "usage s =
     (let s = s\<lparr>ps_stderr := ps_stderr s @ ''Usage:'' @ NL\<rparr>
      in s\<lparr>ps_stderr := ps_stderr s @ [CHR 0x09] @ ''main.go <aws-sdk-go-v2-endpoints-json-url>'' @ NL @ NL\<rparr>)"

text \<open>
  \<open>flag.Parse\<close> where no flag is defined: the first argument that is no flag ends the flags, so does
  \<open>--\<close>, and every flag ends the process, a request for help with status 0.
\<close>

definition flag_failure :: "string \<Rightarrow> process \<Rightarrow> 'a step \<times> process" where
  "flag_failure message s = (Exit 2, usage (Errorf message s))"

definition flag_Parse :: "string list \<Rightarrow> process \<Rightarrow> string list step \<times> process" where
  "flag_Parse args s =
     (case args of
        [] \<Rightarrow> (Value [], s)
      | a # rest \<Rightarrow>
          if length a < 2 \<or> hd a \<noteq> CHR ''-'' then (Value args, s)
          else if a = ''--'' then (Value rest, s)
          else
            (let name = (if a ! 1 = CHR ''-'' then drop 2 a else drop 1 a)
             in if name = [] \<or> hd name = CHR ''-'' \<or> hd name = CHR ''='' then flag_failure (''bad flag syntax: '' @ a) s
                else
                  (let name = takeWhile (\<lambda>c. c \<noteq> CHR ''='') name
                   in if name = ''help'' \<or> name = ''h'' then (Exit 0, usage s)
                      else flag_failure (''flag provided but not defined: -'' @ name) s)))"

section \<open>The document\<close>

text \<open>
  \<open>http.Get\<close> gives an error or a response, whose body is open until it is closed. The body is the
  values the JSON decoder finds in it and the error, if any, that ends it before the end of the stream.
\<close>

definition http_Get ::
    "(string \<Rightarrow> string + (json_value list \<times> string option)) \<Rightarrow> string \<Rightarrow> process \<Rightarrow>
     (string + (json_value list \<times> string option)) \<times> process" where
  "http_Get Get url s =
     (case Get url of
        Inl err \<Rightarrow> (Inl err, s)
      | Inr body \<Rightarrow> (Inr body, s\<lparr>ps_bodies := Suc (ps_bodies s)\<rparr>))"

definition Close_body :: "process \<Rightarrow> process" where
  "Close_body s = s\<lparr>ps_bodies := ps_bodies s - 1\<rparr>"

definition readHTTPJSON ::
    "(string \<Rightarrow> string + (json_value list \<times> string option)) \<Rightarrow> string \<Rightarrow> (string \<times> any) list \<Rightarrow> process \<Rightarrow>
     ((string \<times> any) list \<times> string option) \<times> process" where
  "readHTTPJSON Get url to s =
     (case http_Get Get url s of
        (Inl err, s) \<Rightarrow> ((to, Some err), s)
      | (Inr (vs, err), s) \<Rightarrow> (decodeFromReader vs err to, Close_body s))"

section \<open>The command\<close>

text \<open>What the command uses of code outside the repository, and the embedded template.\<close>

record 't gen_deps =
  gd_Get :: "string \<Rightarrow> string + (json_value list \<times> string option)"
  gd_fmt_d :: "int \<Rightarrow> string"
  gd_Source :: "bytes \<Rightarrow> string + bytes"
  gd_Parse :: "string \<Rightarrow> string + 't"
  gd_Execute :: "PartitionDatum list \<Rightarrow> 't \<Rightarrow> string + bytes"
  gd_tmpl :: string
  gd_files :: file_ops

definition generate_table :: "'t gen_deps \<Rightarrow> (string \<times> any) list \<Rightarrow> process \<Rightarrow> unit step \<times> process" where
  "generate_table G target s =
     (case main (gd_fmt_d G) (gd_Source G) (gd_Parse G) (gd_Execute G) (gd_tmpl G) (gd_files G) (ps_files s) target of
        (files, Some message) \<Rightarrow> Fatalf message (s\<lparr>ps_files := files\<rparr>)
      | (files, None) \<Rightarrow> (Value (), s\<lparr>ps_files := files\<rparr>))"

definition generate_from :: "'t gen_deps \<Rightarrow> string \<Rightarrow> process \<Rightarrow> unit step \<times> process" where
  "generate_from G inputURL s =
     (case readHTTPJSON (gd_Get G) inputURL [] (Infof ''Generating endpoints/endpoints_gen.go'' s) of
        ((target, Some err), s) \<Rightarrow> Fatalf (''error reading JSON from '' @ inputURL @ '': '' @ err) s
      | ((target, None), s) \<Rightarrow> generate_table G target s)"

definition endpoints_command :: "'t gen_deps \<Rightarrow> string list \<Rightarrow> process \<Rightarrow> unit step \<times> process" where
  "endpoints_command G argv =
     andThen (flag_Parse argv)
       (\<lambda>args. case args of [] \<Rightarrow> (\<lambda>s. (Exit 2, usage s)) | inputURL # _ \<Rightarrow> generate_from G inputURL)"

text \<open>Returning from \<open>main\<close> ends the process with status 0.\<close>

definition exit_status :: "unit step \<Rightarrow> nat" where
  "exit_status r = (case r of Exit n \<Rightarrow> n | Value _ \<Rightarrow> 0)"

section \<open>What a run of the command can do\<close>

abbreviation table_file :: string where "table_file \<equiv> ''endpoints_gen.go''"

text \<open>The document at a URL, and the text of the table for a document, when every step succeeds.\<close>

definition document_at :: "'t gen_deps \<Rightarrow> string \<Rightarrow> (string \<times> any) list option" where
  "document_at G url =
     (case gd_Get G url of
        Inl _ \<Rightarrow> None
      | Inr (vs, err) \<Rightarrow> (case decodeFromReader vs err [] of (doc, None) \<Rightarrow> Some doc | _ \<Rightarrow> None))"

definition table_text :: "'t gen_deps \<Rightarrow> (string \<times> any) list \<Rightarrow> bytes option" where
  "table_text G doc =
     (case template_data (gd_fmt_d G) doc of
        Inl _ \<Rightarrow> None
      | Inr td \<Rightarrow>
          (case parseTemplate (gd_Parse G) (gd_Execute G td) (gd_tmpl G) of
             Inl _ \<Rightarrow> None
           | Inr body \<Rightarrow> (case gd_Source G body of Inl _ \<Rightarrow> None | Inr out \<Rightarrow> Some out)))"

text \<open>What is in the file after writing a text, and whether all went well.\<close>

definition written :: "file_ops \<Rightarrow> bytes \<Rightarrow> (string \<rightharpoonup> bytes) \<Rightarrow> (string \<rightharpoonup> bytes) \<times> bool" where
  "written F out files =
     (case fo_Open F table_file of
        Some _ \<Rightarrow> (files, False)
      | None \<Rightarrow>
          (case fo_WriteString F table_file out of
             (n, Some _) \<Rightarrow> (files(table_file \<mapsto> take n out), False)
           | (_, None) \<Rightarrow> (files(table_file \<mapsto> out), True)))"

definition main_spec :: "'t gen_deps \<Rightarrow> (string \<times> any) list \<Rightarrow> (string \<rightharpoonup> bytes) \<Rightarrow> (string \<rightharpoonup> bytes) \<times> bool" where
  "main_spec G doc files = (case table_text G doc of None \<Rightarrow> (files, False) | Some out \<Rightarrow> written (gd_files G) out files)"

lemma main_refines:
  "map_prod id (\<lambda>err. err = None)
     (main (gd_fmt_d G) (gd_Source G) (gd_Parse G) (gd_Execute G) (gd_tmpl G) (gd_files G) files doc) =
   main_spec G doc files"
  by (simp add: main_spec_def table_text_def written_def main_def WriteTemplate_def format_body_def
      NewGoFileDestination_def Write_file_def WriteBytes_def Let_def
      split: sum.splits option.splits prod.splits)

text \<open>The state a run ends in: the notice on one stream, one line on the other unless all went well.\<close>

definition announced :: "process \<Rightarrow> process" where
  "announced s = s\<lparr>ps_stdout := ps_stdout s @ ''Generating endpoints/'' @ table_file @ NL\<rparr>"

definition run_ends :: "process \<Rightarrow> (string \<rightharpoonup> bytes) \<times> bool \<Rightarrow> unit step \<times> process \<Rightarrow> bool" where
  "run_ends s result out \<longleftrightarrow>
     (case result of
        (files, True) \<Rightarrow> out = (Value (), (announced s)\<lparr>ps_files := files\<rparr>)
      | (files, False) \<Rightarrow>
          (\<exists>message. out = (Exit 1, (announced s)\<lparr>ps_files := files, ps_stderr := ps_stderr s @ message @ NL\<rparr>)))"

lemma Infof_announced: "Infof ''Generating endpoints/endpoints_gen.go'' s = announced s"
  by (simp add: announced_def Infof_def output_to_def)

lemma announced_sel [simp]:
  "ps_files (announced s) = ps_files s" "ps_stderr (announced s) = ps_stderr s" "ps_bodies (announced s) = ps_bodies s"
  by (simp_all add: announced_def)

lemma Fatalf_ends: "run_ends s (files, False) (Fatalf message ((announced s)\<lparr>ps_files := files\<rparr>))"
  by (auto simp: run_ends_def Fatalf_def Errorf_def output_to_def)

lemma Fatalf_early_ends: "run_ends s (ps_files s, False) (Fatalf message (announced s))"
proof -
  have eq: "(announced s)\<lparr>ps_files := ps_files s\<rparr> = announced s" by (rule process.equality) simp_all
  show ?thesis using Fatalf_ends [of s "ps_files s" message] unfolding eq .
qed

lemma generate_table_ends: "run_ends s (main_spec G doc (ps_files s)) (generate_table G doc (announced s))"
  using Fatalf_ends main_refines [of G "ps_files s" doc, symmetric]
  by (auto simp: generate_table_def run_ends_def split: prod.splits option.splits)

lemma readHTTPJSON_eq:
  "readHTTPJSON Get url to s =
     (case Get url of Inl err \<Rightarrow> ((to, Some err), s) | Inr (vs, err) \<Rightarrow> (decodeFromReader vs err to, s))"
  by (auto simp: readHTTPJSON_def http_Get_def Close_body_def split: sum.splits)

lemma generate_from_ends:
  "run_ends s (case document_at G url of None \<Rightarrow> (ps_files s, False) | Some doc \<Rightarrow> main_spec G doc (ps_files s))
     (generate_from G url s)"
  by (auto simp: generate_from_def Infof_announced readHTTPJSON_eq document_at_def
      intro: generate_table_ends Fatalf_early_ends split: sum.splits prod.splits option.splits)

lemma usage_appends:
  "usage s = s\<lparr>ps_stderr := ps_stderr s @ ''Usage:'' @ NL @ [CHR 0x09] @ ''main.go <aws-sdk-go-v2-endpoints-json-url>'' @ NL @ NL\<rparr>"
  by (simp add: usage_def Let_def)

text \<open>A run that ends before the download: the usage, after a message or not.\<close>

definition usage_shown :: "process \<Rightarrow> unit step \<times> process \<Rightarrow> bool" where
  "usage_shown s out \<longleftrightarrow>
     out = (Exit 0, usage s) \<or> out = (Exit 2, usage s) \<or> (\<exists>message. out = (Exit 2, usage (Errorf message s)))"

lemma endpoints_command_no_flag:
  "length url < 2 \<or> hd url \<noteq> CHR ''-'' \<Longrightarrow> endpoints_command G (url # rest) s = generate_from G url s"
  by (simp add: endpoints_command_def flag_Parse_def)

lemma endpoints_command_terminator:
  "endpoints_command G (''--'' # url # rest) s = generate_from G url s"
  by (simp add: endpoints_command_def flag_Parse_def)

lemma flag_Parse_flag:
  assumes "2 \<le> length a" "hd a = CHR ''-''" "a \<noteq> ''--''"
  obtains "flag_Parse (a # rest) s = (Exit 0, usage s)"
  | message where "flag_Parse (a # rest) s = (Exit 2, usage (Errorf message s))"
proof -
  define name where "name = (if a ! 1 = CHR ''-'' then drop 2 a else drop 1 a)"
  have "flag_Parse (a # rest) s =
      (if name = [] \<or> hd name = CHR ''-'' \<or> hd name = CHR ''='' then flag_failure (''bad flag syntax: '' @ a) s
       else
         (let name = takeWhile (\<lambda>c. c \<noteq> CHR ''='') name
          in if name = ''help'' \<or> name = ''h'' then (Exit 0, usage s)
             else flag_failure (''flag provided but not defined: -'' @ name) s))"
    unfolding flag_Parse_def name_def using assms by (simp only: list.case Let_def not_less) simp
  then show thesis using that unfolding Let_def flag_failure_def by (metis (no_types))
qed

lemma endpoints_command_usage:
  assumes "argv = [] \<or> argv = [''--''] \<or> (2 \<le> length (hd argv) \<and> hd (hd argv) = CHR ''-'' \<and> hd argv \<noteq> ''--'')"
  shows "usage_shown s (endpoints_command G argv s)"
proof (cases "argv = [] \<or> argv = [''--'']")
  case True
  then show ?thesis by (auto simp: endpoints_command_def flag_Parse_def usage_shown_def)
next
  case False
  then obtain a rest where argv: "argv = a # rest" by (cases argv) auto
  with False assms have "2 \<le> length a" "hd a = CHR ''-''" "a \<noteq> ''--''" by auto
  then show ?thesis
    by (rule flag_Parse_flag [of a rest s]) (auto simp: endpoints_command_def usage_shown_def argv)
qed

section \<open>Properties\<close>


lemma decode_document:
  assumes "distinct (map fst d)"
  shows "decodeFromReader [JObject d] None [] = (d, None)"
proof -
  have "foldl set_key m d = m @ d" if "distinct (map fst (m @ d))" for m
    using that
  proof (induction d arbitrary: m)
    case (Cons e d)
    have "set_key m e = m @ [e]" if "fst e \<notin> set (map fst m)" for m :: "(string \<times> any) list"
      using that by (induction m) auto
    with Cons.prems Cons.IH [of "m @ [e]"] show ?case by simp
  qed simp
  from this [of "[]"] assms show ?thesis by simp
qed


definition sample_gen_deps :: "string gen_deps" where
  "sample_gen_deps =
     \<lparr>gd_Get = (\<lambda>url. Inr ([JObject (rev (table_doc (\<lambda>_. ''rx'')))], None)), gd_fmt_d = (\<lambda>_. []),
      gd_Source = Inr, gd_Parse = Inr, gd_Execute = (\<lambda>td t. Inr (t @ concat (map pd_ID td))), gd_tmpl = ''ids: '',
      gd_files = \<lparr>fo_Open = (\<lambda>_. None), fo_WriteString = (\<lambda>_ out. (length out, None))\<rparr>\<rparr>"


end
