(* ===== verification/TestEnv.thy ===== *)
theory TestEnv
  imports GoError
begin

text \<open>
  The process environment of the \<open>os\<close> package and the helpers of \<open>servicemocks/setup.go\<close> that
  save, replace and restore it around a test. The environment is the list of raw entries that
  \<open>os.Environ\<close> returns (on Unix: in the order of first setting, an overwritten entry keeps its
  place); a \<open>testing.T\<close> is the environment with the stack of clean-up functions the test has
  registered, the last one first. Log lines and the network listener of a test server are not
  modelled; the URL of a server is a parameter.
\<close>

section \<open>The environment of the os package\<close>

type_synonym environ = "string list"

definition entry_of :: "string \<Rightarrow> string \<Rightarrow> string" where
  "entry_of k v = k @ ''='' @ v"

text \<open>An entry belongs to the key before its first equals sign; without one it has no key.\<close>

definition has_key :: "string \<Rightarrow> string \<Rightarrow> bool" where
  "has_key k x \<longleftrightarrow> CHR ''='' \<in> set x \<and> takeWhile (\<lambda>c. c \<noteq> CHR ''='') x = k"

definition entry_value :: "string \<Rightarrow> string" where
  "entry_value x = drop 1 (dropWhile (\<lambda>c. c \<noteq> CHR ''='') x)"

definition LookupEnv :: "environ \<Rightarrow> string \<Rightarrow> string option" where
  "LookupEnv es k = map_option entry_value (find (has_key k) es)"

definition Getenv :: "environ \<Rightarrow> string \<Rightarrow> string" where
  "Getenv es k = (case LookupEnv es k of None \<Rightarrow> [] | Some v \<Rightarrow> v)"

definition valid_key :: "string \<Rightarrow> bool" where
  "valid_key k \<longleftrightarrow> k \<noteq> [] \<and> CHR ''='' \<notin> set k \<and> CHR 0x00 \<notin> set k"

definition valid_value :: "string \<Rightarrow> bool" where
  "valid_value v \<longleftrightarrow> CHR 0x00 \<notin> set v"

fun put_entry :: "string \<Rightarrow> string \<Rightarrow> environ \<Rightarrow> environ" where
  "put_entry k v [] = [entry_of k v]"
| "put_entry k v (x # xs) = (if has_key k x then entry_of k v # xs else x # put_entry k v xs)"

definition Setenv :: "string \<Rightarrow> string \<Rightarrow> environ \<Rightarrow> go_error + environ" where
  "Setenv k v es =
     (if valid_key k \<and> valid_value v then Inr (put_entry k v es)
      else Inl (ErrorString ''setenv: invalid argument''))"

definition Unsetenv :: "string \<Rightarrow> environ \<Rightarrow> environ" where
  "Unsetenv k es = filter (\<lambda>x. \<not> has_key k x) es"

definition Clearenv :: "environ \<Rightarrow> environ" where
  "Clearenv es = []"

text \<open>A call whose error the code drops.\<close>

definition Setenv_ignored :: "string \<Rightarrow> string \<Rightarrow> environ \<Rightarrow> environ" where
  "Setenv_ignored k v es = (case Setenv k v es of Inl err \<Rightarrow> es | Inr es' \<Rightarrow> es')"

section \<open>StashEnv and PopEnv\<close>

text \<open>\<open>strings.SplitN(s, sep, 2)\<close> for a one-byte separator.\<close>

definition SplitN2 :: "char \<Rightarrow> string \<Rightarrow> string list" where
  "SplitN2 sep s =
     (if sep \<in> set s then [takeWhile (\<lambda>c. c \<noteq> sep) s, drop 1 (dropWhile (\<lambda>c. c \<noteq> sep) s)] else [s])"

fun pop_entries :: "string list \<Rightarrow> environ \<Rightarrow> environ" where
  "pop_entries [] es = es"
| "pop_entries (e # env) es =
     (let p = SplitN2 (CHR ''='') e;
          k = p ! 0;
          v = (if length p > 1 then p ! 1 else [])
      in pop_entries env (Setenv_ignored k v es))"

definition PopEnv :: "string list \<Rightarrow> environ \<Rightarrow> environ" where
  "PopEnv env es = pop_entries env (Clearenv es)"

record test =
  t_env :: environ
  t_cleanups :: "(environ \<Rightarrow> environ) list"

definition Cleanup :: "(environ \<Rightarrow> environ) \<Rightarrow> test \<Rightarrow> test" where
  "Cleanup f t = t\<lparr>t_cleanups := f # t_cleanups t\<rparr>"

definition StashEnv :: "test \<Rightarrow> test" where
  "StashEnv t = Cleanup (PopEnv (t_env t)) (t\<lparr>t_env := Clearenv (t_env t)\<rparr>)"

text \<open>\<open>testing.T.Setenv\<close>: the previous state of the variable is restored by a clean-up. A fatal
  error ends the test; \<open>None\<close> stands for that.\<close>

definition restore_var :: "string \<Rightarrow> string option \<Rightarrow> environ \<Rightarrow> environ" where
  "restore_var k prev es = (case prev of Some v \<Rightarrow> Setenv_ignored k v es | None \<Rightarrow> Unsetenv k es)"

definition t_Setenv :: "string \<Rightarrow> string \<Rightarrow> test \<Rightarrow> test option" where
  "t_Setenv k v t =
     (case Setenv k v (t_env t) of
        Inl err \<Rightarrow> None
      | Inr es \<Rightarrow> Some (Cleanup (restore_var k (LookupEnv (t_env t) k)) (t\<lparr>t_env := es\<rparr>)))"

definition InitSessionTestEnv :: "test \<Rightarrow> test option" where
  "InitSessionTestEnv t =
     Option.bind (t_Setenv ''AWS_CONFIG_FILE'' ''file_not_exists'' (StashEnv t))
       (t_Setenv ''AWS_SHARED_CREDENTIALS_FILE'' ''file_not_exists'')"

text \<open>The end of a test: the clean-up functions in the reverse order of their registration.\<close>

definition finish_test :: "test \<Rightarrow> environ" where
  "finish_test t = foldl (\<lambda>es f. f es) (t_env t) (t_cleanups t)"

definition InvalidEC2MetadataEndpoint :: "string \<Rightarrow> test \<Rightarrow> test option" where
  "InvalidEC2MetadataEndpoint url = t_Setenv ''AWS_EC2_METADATA_SERVICE_ENDPOINT'' (url @ ''/latest'')"

section \<open>Saving single variables\<close>

record currentEnv =
  ce_Key :: string
  ce_Secret :: string
  ce_Token :: string
  ce_Profile :: string
  ce_CredsFilename :: string
  ce_Home :: string

definition getEnv :: "environ \<Rightarrow> currentEnv" where
  "getEnv es =
     \<lparr>ce_Key = Getenv es ''AWS_ACCESS_KEY_ID'',
      ce_Secret = Getenv es ''AWS_SECRET_ACCESS_KEY'',
      ce_Token = Getenv es ''AWS_SESSION_TOKEN'',
      ce_Profile = Getenv es ''AWS_PROFILE'',
      ce_CredsFilename = Getenv es ''AWS_SHARED_CREDENTIALS_FILE'',
      ce_Home = Getenv es ''HOME''\<rparr>"

text \<open>
  A sequence of \<open>os.Setenv\<close> calls, each guarded by a \<open>t.Fatalf\<close>: the first failure ends the
  test with its message, and what was set before stays set.
\<close>

fun set_all :: "(string \<times> string \<times> string) list \<Rightarrow> environ \<Rightarrow> (string \<times> go_error) option \<times> environ" where
  "set_all [] es = (None, es)"
| "set_all ((msg, k, v) # calls) es =
     (case Setenv k v es of Inl err \<Rightarrow> (Some (msg, err), es) | Inr es' \<Rightarrow> set_all calls es')"

definition UnsetEnv :: "test \<Rightarrow> (test \<times> (environ \<Rightarrow> (string \<times> go_error) option \<times> environ)) option" where
  "UnsetEnv t =
     (let e = getEnv (t_env t);
          es = Unsetenv ''AWS_SHARED_CREDENTIALS_FILE'' (Unsetenv ''AWS_PROFILE''
                 (Unsetenv ''AWS_SESSION_TOKEN'' (Unsetenv ''AWS_SECRET_ACCESS_KEY''
                    (Unsetenv ''AWS_ACCESS_KEY_ID'' (t_env t)))))
      in case t_Setenv ''HOME'' ''/dev/null'' (t\<lparr>t_env := es\<rparr>) of
           None \<Rightarrow> None
         | Some t' \<Rightarrow> Some (t', set_all
             [(''Error resetting env var AWS_ACCESS_KEY_ID: '', ''AWS_ACCESS_KEY_ID'', ce_Key e),
              (''Error resetting env var AWS_SECRET_ACCESS_KEY: '', ''AWS_SECRET_ACCESS_KEY'', ce_Secret e),
              (''Error resetting env var AWS_SESSION_TOKEN: '', ''AWS_SESSION_TOKEN'', ce_Token e),
              (''Error resetting env var AWS_PROFILE: '', ''AWS_PROFILE'', ce_Profile e),
              (''Error resetting env var AWS_SHARED_CREDENTIALS_FILE: '', ''AWS_SHARED_CREDENTIALS_FILE'',
                 ce_CredsFilename e),
              (''Error resetting env var HOME: '', ''HOME'', ce_Home e)]))"

definition SetEnv ::
    "string \<Rightarrow> environ \<Rightarrow>
     (string \<times> go_error) option \<times> environ \<times> (environ \<Rightarrow> (string \<times> go_error) option \<times> environ)" where
  "SetEnv s es =
     (let e = getEnv es;
          (fatal, es') = set_all
            [(''Error setting env var AWS_ACCESS_KEY_ID: '', ''AWS_ACCESS_KEY_ID'', s),
             (''Error setting env var AWS_SECRET_ACCESS_KEY: '', ''AWS_SECRET_ACCESS_KEY'', s),
             (''Error setting env var AWS_SESSION_TOKEN: '', ''AWS_SESSION_TOKEN'', s),
             (''Error setting env var AWS_PROFILE: '', ''AWS_PROFILE'', s),
             (''Error setting env var AWS_SHARED_CREDENTIALS_FLE: '', ''AWS_SHARED_CREDENTIALS_FILE'', s)] es
      in (fatal, es', set_all
            [(''Error resetting env var AWS_ACCESS_KEY_ID: '', ''AWS_ACCESS_KEY_ID'', ce_Key e),
             (''Error resetting env var AWS_SECRET_ACCESS_KEY: '', ''AWS_SECRET_ACCESS_KEY'', ce_Secret e),
             (''Error resetting env var AWS_SESSION_TOKEN: '', ''AWS_SESSION_TOKEN'', ce_Token e),
             (''Error setting env var AWS_PROFILE: '', ''AWS_PROFILE'', ce_Profile e),
             (''Error setting env var AWS_SHARED_CREDENTIALS_FLE: '', ''AWS_SHARED_CREDENTIALS_FILE'', s)]))"

section \<open>Lookup after the operations\<close>

lemma key_split:
  assumes "sep \<notin> set k"
  shows "takeWhile (\<lambda>c. c \<noteq> sep) (k @ sep # v) = k" and "dropWhile (\<lambda>c. c \<noteq> sep) (k @ sep # v) = sep # v"
  using assms by (induction k) auto

lemma has_key_entry_of: "valid_key k \<Longrightarrow> has_key k' (entry_of k v) \<longleftrightarrow> k' = k"
  by (auto simp: has_key_def entry_of_def valid_key_def key_split)

lemma entry_value_entry_of: "valid_key k \<Longrightarrow> entry_value (entry_of k v) = v"
  by (simp add: entry_value_def entry_of_def valid_key_def key_split)

lemma has_key_unique: "has_key k x \<Longrightarrow> has_key k' x \<longleftrightarrow> k' = k"
  by (auto simp: has_key_def)

lemma LookupEnv_Nil [simp]: "LookupEnv [] k = None"
  by (simp add: LookupEnv_def)

lemma LookupEnv_Cons:
  "LookupEnv (x # es) k = (if has_key k x then Some (entry_value x) else LookupEnv es k)"
  by (simp add: LookupEnv_def)

lemma LookupEnv_put_entry [simp]:
  "valid_key k \<Longrightarrow> LookupEnv (put_entry k v es) k' = (if k' = k then Some v else LookupEnv es k')"
  by (induction es) (auto simp: LookupEnv_Cons has_key_entry_of entry_value_entry_of has_key_unique)

lemma LookupEnv_Unsetenv [simp]:
  "LookupEnv (Unsetenv k es) k' = (if k' = k then None else LookupEnv es k')"
  by (induction es) (auto simp: LookupEnv_Cons Unsetenv_def has_key_unique)

lemma Setenv_Inr: "valid_key k \<Longrightarrow> valid_value v \<Longrightarrow> Setenv k v es = Inr (put_entry k v es)"
  by (simp add: Setenv_def)

text \<open>The variables the helpers write have valid names.\<close>

lemma aws_keys_valid [simp]:
  "valid_key ''AWS_ACCESS_KEY_ID''" "valid_key ''AWS_SECRET_ACCESS_KEY''" "valid_key ''AWS_SESSION_TOKEN''"
  "valid_key ''AWS_PROFILE''" "valid_key ''AWS_SHARED_CREDENTIALS_FILE''" "valid_key ''AWS_CONFIG_FILE''"
  "valid_key ''HOME''"
  by (simp_all add: valid_key_def)

text \<open>What the process started with and its own writes: keys and values without NUL bytes.\<close>

definition clean_environ :: "environ \<Rightarrow> bool" where
  "clean_environ es \<longleftrightarrow> (\<forall>k v. LookupEnv es k = Some v \<longrightarrow> valid_value v)"

text \<open>An environment that \<open>os.Setenv\<close> calls can produce: entries with distinct, valid keys.\<close>

definition wf_environ :: "environ \<Rightarrow> bool" where
  "wf_environ es \<longleftrightarrow>
     (\<exists>kvs. es = map (\<lambda>(k, v). entry_of k v) kvs \<and> distinct (map fst kvs) \<and>
       (\<forall>(k, v) \<in> set kvs. valid_key k \<and> valid_value v))"

lemma SplitN2_entry_of: "valid_key k \<Longrightarrow> SplitN2 (CHR ''='') (entry_of k v) = [k, v]"
  by (simp add: SplitN2_def entry_of_def valid_key_def key_split)

lemma put_entry_new: "\<forall>x \<in> set es. \<not> has_key k x \<Longrightarrow> put_entry k v es = es @ [entry_of k v]"
  by (induction es) auto

abbreviation entries :: "(string \<times> string) list \<Rightarrow> environ" where
  "entries kvs \<equiv> map (\<lambda>(k, v). entry_of k v) kvs"

lemma put_entry_fresh:
  assumes "k \<notin> fst ` set pre" and "\<forall>(k, v) \<in> set pre. valid_key k"
  shows "put_entry k v (entries pre) = entries (pre @ [(k, v)])"
proof -
  have "\<not> has_key k (entry_of k' v')" if "(k', v') \<in> set pre" for k' v'
    using that assms has_key_entry_of [of k' k v'] by force
  then have "\<forall>x \<in> set (entries pre). \<not> has_key k x" by auto
  then show ?thesis by (simp add: put_entry_new)
qed

lemma pop_entries_append:
  assumes "distinct (map fst (pre @ todo))" and "\<forall>(k, v) \<in> set (pre @ todo). valid_key k \<and> valid_value v"
  shows "pop_entries (entries todo) (entries pre) = entries (pre @ todo)"
  using assms
proof (induction todo arbitrary: pre)
  case (Cons kv todo)
  obtain k v where kv: "kv = (k, v)" by fastforce
  from Cons.prems kv have ok: "valid_key k" "valid_value v" and fresh: "k \<notin> fst ` set pre" by auto
  have "put_entry k v (entries pre) = entries (pre @ [kv])"
    using put_entry_fresh [OF fresh, of v] Cons.prems(2) kv by fastforce
  then have "pop_entries (entries (kv # todo)) (entries pre) = pop_entries (entries todo) (entries (pre @ [kv]))"
    using ok kv by (simp add: SplitN2_entry_of Setenv_ignored_def Setenv_Inr)
  also have "\<dots> = entries (pre @ kv # todo)"
    using Cons.IH [of "pre @ [kv]"] Cons.prems by simp
  finally show ?case .
qed simp

text \<open>Restoring a saved environment gives it back, entry by entry, whatever happened since.\<close>

lemma PopEnv_restores: "wf_environ es \<Longrightarrow> PopEnv es es' = es"
  using pop_entries_append [of "[]"] by (fastforce simp: wf_environ_def PopEnv_def Clearenv_def)

lemma finish_test_app:
  "finish_test (t\<lparr>t_env := es, t_cleanups := cs @ f # fs\<rparr>) = foldl (\<lambda>es f. f es) (f (foldl (\<lambda>es f. f es) es cs)) fs"
  by (simp add: finish_test_def)

section \<open>What the helpers promise\<close>

lemma Getenv_put_entry [simp]:
  "valid_key k \<Longrightarrow> Getenv (put_entry k v es) k' = (if k' = k then v else Getenv es k')"
  by (simp add: Getenv_def)

lemma clean_Getenv: "clean_environ es \<Longrightarrow> valid_value (Getenv es k)"
  by (cases "LookupEnv es k") (auto simp: Getenv_def clean_environ_def valid_value_def)

text \<open>What a test sees after \<open>InitSessionTestEnv\<close>.\<close>

definition session_env :: environ where
  "session_env = put_entry ''AWS_SHARED_CREDENTIALS_FILE'' ''file_not_exists''
     (put_entry ''AWS_CONFIG_FILE'' ''file_not_exists'' [])"

lemma InitSessionTestEnv_eq:
  "InitSessionTestEnv t =
     Some (t\<lparr>t_env := session_env,
       t_cleanups := restore_var ''AWS_SHARED_CREDENTIALS_FILE'' None #
         restore_var ''AWS_CONFIG_FILE'' None # PopEnv (t_env t) # t_cleanups t\<rparr>)"
proof -
  have v: "valid_value ''file_not_exists''" by (simp add: valid_value_def)
  show ?thesis
    by (simp add: InitSessionTestEnv_def t_Setenv_def StashEnv_def Cleanup_def Clearenv_def
        Setenv_Inr v session_env_def LookupEnv_Cons has_key_entry_of del: put_entry.simps(2))
qed

text \<open>\<open>InitSessionTestEnv\<close> isolates a test from its process: whatever the environment was, the
  test sees exactly two variables, both naming a file that does not exist; and however the test
  changes the environment afterwards and whatever clean-ups it registers, at its end every entry of the
  original environment is back, in its place, for the clean-ups registered before.\<close>

theorem session_env_isolated:
  assumes "wf_environ (t_env t)"
  shows "\<exists>t1. InitSessionTestEnv t = Some t1 \<and>
    (\<forall>k. LookupEnv (t_env t1) k =
       (if k \<in> {''AWS_CONFIG_FILE'', ''AWS_SHARED_CREDENTIALS_FILE''} then Some ''file_not_exists'' else None)) \<and>
    (\<forall>es cs. finish_test (t1\<lparr>t_env := es, t_cleanups := cs @ t_cleanups t1\<rparr>) = finish_test t)"
  using PopEnv_restores [OF assms]
  by (simp add: InitSessionTestEnv_eq session_env_def finish_test_def del: put_entry.simps)

lemma session_env_isolated_witness:
  "\<exists>t1. InitSessionTestEnv \<lparr>t_env = [''HOME=/root'', ''AWS_PROFILE=a=b''], t_cleanups = []\<rparr> = Some t1 \<and>
     LookupEnv (t_env t1) ''AWS_PROFILE'' = None \<and>
     finish_test (t1\<lparr>t_env := [''X=1''], t_cleanups := Unsetenv ''X'' # t_cleanups t1\<rparr>) =
       [''HOME=/root'', ''AWS_PROFILE=a=b'']"
proof -
  let ?t = "\<lparr>t_env = [''HOME=/root'', ''AWS_PROFILE=a=b''], t_cleanups = []\<rparr>"
  have "entries [(''HOME'', ''/root''), (''AWS_PROFILE'', ''a=b'')] = t_env ?t"
    by (simp add: entry_of_def)
  then have "wf_environ (t_env ?t)"
    unfolding wf_environ_def
    by (intro exI [of _ "[(''HOME'', ''/root''), (''AWS_PROFILE'', ''a=b'')]"])
      (simp add: valid_value_def)
  from session_env_isolated [OF this] obtain t1 where t1: "InitSessionTestEnv ?t = Some t1"
    "\<forall>k. LookupEnv (t_env t1) k =
       (if k \<in> {''AWS_CONFIG_FILE'', ''AWS_SHARED_CREDENTIALS_FILE''} then Some ''file_not_exists'' else None)"
    "\<forall>es cs. finish_test (t1\<lparr>t_env := es, t_cleanups := cs @ t_cleanups t1\<rparr>) = finish_test ?t"
    by blast
  from t1(3) [rule_format, of "[Unsetenv ''X'']" "[''X=1'']"]
  have "finish_test (t1\<lparr>t_env := [''X=1''], t_cleanups := Unsetenv ''X'' # t_cleanups t1\<rparr>) = t_env ?t"
    by (simp add: finish_test_def)
  with t1(1,2) show ?thesis by simp
qed

text \<open>The function that \<open>SetEnv\<close> returns to restore the environment gives four of its five
  variables their previous values, but sets \<open>AWS_SHARED_CREDENTIALS_FILE\<close> to the dummy value once
  more: its previous value, which \<open>getEnv\<close> saved, is lost. No other variable is touched.\<close>

theorem SetEnv_restore:
  assumes "SetEnv s es = (fatal, es', restore)" and "valid_value s" and "clean_environ es"
  shows "fatal = None \<and> (\<forall>k. Getenv es' k =
      (if k \<in> {''AWS_ACCESS_KEY_ID'', ''AWS_SECRET_ACCESS_KEY'', ''AWS_SESSION_TOKEN'', ''AWS_PROFILE'',
          ''AWS_SHARED_CREDENTIALS_FILE''} then s else Getenv es k)) \<and>
    fst (restore es') = None \<and>
    (\<forall>k. Getenv (snd (restore es')) k =
      (if k = ''AWS_SHARED_CREDENTIALS_FILE'' then s else Getenv es k))"
  using assms by (auto simp: SetEnv_def getEnv_def Setenv_Inr clean_Getenv)

lemma SetEnv_restore_witness:
  "Getenv (snd (snd (snd (SetEnv ''dummy'' [''AWS_SHARED_CREDENTIALS_FILE=/root/creds'', ''AWS_PROFILE=p'']))
      (fst (snd (SetEnv ''dummy'' [''AWS_SHARED_CREDENTIALS_FILE=/root/creds'', ''AWS_PROFILE=p''])))))
     ''AWS_SHARED_CREDENTIALS_FILE'' = ''dummy'' \<and>
   Getenv [''AWS_SHARED_CREDENTIALS_FILE=/root/creds'', ''AWS_PROFILE=p''] ''AWS_SHARED_CREDENTIALS_FILE'' = ''/root/creds''"
proof -
  let ?es = "[''AWS_SHARED_CREDENTIALS_FILE=/root/creds'', ''AWS_PROFILE=p'']"
  have clean: "clean_environ ?es"
    by (auto simp: clean_environ_def LookupEnv_Cons has_key_def entry_value_def valid_value_def)
  obtain fatal es' restore where r: "SetEnv ''dummy'' ?es = (fatal, es', restore)" by (metis surj_pair)
  have "Getenv (snd (restore es')) ''AWS_SHARED_CREDENTIALS_FILE'' = ''dummy''"
    using SetEnv_restore [OF r] clean by (simp add: valid_value_def)
  moreover have "Getenv ?es ''AWS_SHARED_CREDENTIALS_FILE'' = ''/root/creds''"
    by (simp add: Getenv_def LookupEnv_Cons has_key_def entry_value_def)
  ultimately show ?thesis by (simp add: r)
qed

text \<open>\<open>UnsetEnv\<close> hides its five variables and the home directory; the function it returns gives every
  variable its previous value as \<open>os.Getenv\<close> reads it, but a variable that was not set is set to the
  empty string afterwards.\<close>

theorem UnsetEnv_restore:
  assumes "clean_environ (t_env t)"
  shows "\<exists>t' restore. UnsetEnv t = Some (t', restore) \<and>
    (\<forall>k. LookupEnv (t_env t') k =
       (if k = ''HOME'' then Some ''/dev/null''
        else if k \<in> {''AWS_ACCESS_KEY_ID'', ''AWS_SECRET_ACCESS_KEY'', ''AWS_SESSION_TOKEN'', ''AWS_PROFILE'',
               ''AWS_SHARED_CREDENTIALS_FILE''} then None else LookupEnv (t_env t) k)) \<and>
    fst (restore (t_env t')) = None \<and>
    (\<forall>k. Getenv (snd (restore (t_env t'))) k = Getenv (t_env t) k) \<and>
    (\<forall>k \<in> {''AWS_ACCESS_KEY_ID'', ''AWS_SECRET_ACCESS_KEY'', ''AWS_SESSION_TOKEN'', ''AWS_PROFILE'',
         ''AWS_SHARED_CREDENTIALS_FILE'', ''HOME''}. LookupEnv (snd (restore (t_env t'))) k \<noteq> None)"
proof -
  have v: "valid_value ''/dev/null''" by (simp add: valid_value_def)
  have u: "Getenv (Unsetenv k es) k' = (if k' = k then [] else Getenv es k')" for k es k'
    by (simp add: Getenv_def)
  show ?thesis
    using clean_Getenv [OF assms]
    by (simp add: UnsetEnv_def t_Setenv_def Setenv_Inr v Cleanup_def getEnv_def Let_def u)
qed

end
