(* ===== verification/MockServer.thy ===== *)
theory MockServer
  imports TestEnv HttpHeader "HOL-Library.List_Lexorder"
begin

text \<open>
  The mock API servers of \<open>servicemocks/mock.go\<close>: the part of \<open>net/http.ResponseWriter\<close> their
  handlers use, form encoding (\<open>url.Values\<close>), the data of a mocked endpoint and the handler
  functions. A handler is a function of the request, the time as the response prints it, and the
  writer; log lines are left out. What the listener does with the response afterwards (such as
  dropping the body of the answer to a HEAD request) is not modelled.
\<close>

section \<open>The response writer of net/http\<close>

definition header_Set :: "Header \<Rightarrow> string \<Rightarrow> string \<Rightarrow> Header" where
  "header_Set h k v = h(CanonicalHeaderKey k \<mapsto> [v])"

definition header_Add :: "Header \<Rightarrow> string \<Rightarrow> string \<Rightarrow> Header" where
  "header_Add h k v = h(CanonicalHeaderKey k \<mapsto> header_Values h k @ [v])"

text \<open>The status comes with the header as it was when it was written.\<close>

record response_writer =
  rw_header :: Header
  rw_informational :: "int list"
  rw_status :: "(int \<times> Header) option"
  rw_body :: string

definition fresh_writer :: response_writer where
  "fresh_writer = \<lparr>rw_header = Map.empty, rw_informational = [], rw_status = None, rw_body = []\<rparr>"

definition Header_update :: "(Header \<Rightarrow> Header) \<Rightarrow> response_writer \<Rightarrow> response_writer" where
  "Header_update f w = w\<lparr>rw_header := f (rw_header w)\<rparr>"

definition WriteHeader :: "int \<Rightarrow> response_writer \<Rightarrow> response_writer go" where
  "WriteHeader code w =
     (case rw_status w of
        Some _ \<Rightarrow> Ret w
      | None \<Rightarrow>
          (if code < 100 \<or> 999 < code then Panic ''invalid WriteHeader code''
           else if 100 \<le> code \<and> code \<le> 199 \<and> code \<noteq> 101
           then Ret (w\<lparr>rw_informational := rw_informational w @ [code]\<rparr>)
           else Ret (w\<lparr>rw_status := Some (code, rw_header w)\<rparr>)))"

definition bodyAllowedForStatus :: "int \<Rightarrow> bool" where
  "bodyAllowedForStatus status \<longleftrightarrow> \<not> (100 \<le> status \<and> status \<le> 199) \<and> status \<noteq> 204 \<and> status \<noteq> 304"

definition Write :: "string \<Rightarrow> response_writer \<Rightarrow> response_writer" where
  "Write s w =
     (let w = (case rw_status w of None \<Rightarrow> w\<lparr>rw_status := Some (200, rw_header w)\<rparr> | Some _ \<Rightarrow> w)
      in case rw_status w of
           Some (status, _) \<Rightarrow> if bodyAllowedForStatus status then w\<lparr>rw_body := rw_body w @ s\<rparr> else w
         | None \<Rightarrow> w)"

definition Fprintln :: "string \<Rightarrow> response_writer \<Rightarrow> response_writer" where
  "Fprintln s w = Write (s @ [CHR 0x0A]) w"

section \<open>Form encoding\<close>

text \<open>\<open>url.Values\<close> is a map from keys to value lists; here the list of its entries.\<close>

type_synonym url_values = "(string \<times> string list) list"

fun values_Set :: "string \<Rightarrow> string \<Rightarrow> url_values \<Rightarrow> url_values" where
  "values_Set k v [] = [(k, [v])]"
| "values_Set k v ((k', ws) # vs) = (if k' = k then (k, [v]) # vs else (k', ws) # values_Set k v vs)"

definition hex_digit :: "nat \<Rightarrow> char" where
  "hex_digit n = ''0123456789ABCDEF'' ! n"

definition unreserved :: "char \<Rightarrow> bool" where
  "unreserved c \<longleftrightarrow> is_upper c \<or> is_lower c \<or> is_digit c \<or> c \<in> set ''-_.~''"

definition escape_byte :: "char \<Rightarrow> string" where
  "escape_byte c =
     (if unreserved c then [c]
      else if c = CHR '' '' then ''+''
      else [CHR ''%'', hex_digit (of_char c div 16), hex_digit (of_char c mod 16)])"

definition QueryEscape :: "string \<Rightarrow> string" where
  "QueryEscape s = concat (map escape_byte s)"

definition values_of :: "url_values \<Rightarrow> string \<Rightarrow> string list" where
  "values_of vs k = (case map_of vs k of None \<Rightarrow> [] | Some ws \<Rightarrow> ws)"

definition form_pairs :: "url_values \<Rightarrow> (string \<times> string) list" where
  "form_pairs vs = concat (map (\<lambda>k. map (Pair k) (values_of vs k)) (sort (map fst vs)))"

definition Encode :: "url_values \<Rightarrow> string" where
  "Encode vs = Join ''&'' (map (\<lambda>(k, v). QueryEscape k @ ''='' @ QueryEscape v) (form_pairs vs))"

section \<open>Mocked endpoints\<close>

record MockRequest =
  mq_Method :: string
  mq_Uri :: string
  mq_Body :: string

record MockResponse =
  mr_StatusCode :: int
  mr_Body :: string
  mr_ContentType :: string

record MockEndpoint =
  me_Request :: MockRequest
  me_Response :: MockResponse

record MetadataResponse =
  md_Uri :: string
  md_Body :: string

text \<open>A request as the handlers read it; reading the body may fail.\<close>

record server_request =
  rq_Method :: string
  rq_RequestURI :: string
  rq_Body :: "go_error + string"

fun answer_endpoints ::
    "MockEndpoint list \<Rightarrow> string \<Rightarrow> server_request \<Rightarrow> string \<Rightarrow> response_writer \<Rightarrow> response_writer go" where
  "answer_endpoints [] date r requestBody w = WriteHeader 400 w"
| "answer_endpoints (e # endpoints) date r requestBody w =
     (if rq_Method r = mq_Method (me_Request e) \<and> rq_RequestURI r = mq_Uri (me_Request e) \<and>
         requestBody = mq_Body (me_Request e)
      then
        (let w = Header_update (\<lambda>h. header_Set h ''Content-Type'' (mr_ContentType (me_Response e))) w;
             w = Header_update (\<lambda>h. header_Set h ''X-Amzn-Requestid'' ''1b206dd1-f9a8-11e5-becf-051c60f11c4a'') w;
             w = Header_update (\<lambda>h. header_Set h ''Date'' date) w
         in go_bind (WriteHeader (mr_StatusCode (me_Response e)) w)
              (\<lambda>w. Ret (Fprintln (mr_Body (me_Response e)) w)))
      else answer_endpoints endpoints date r requestBody w)"

definition MockAwsApiServer ::
    "(go_error \<Rightarrow> string) \<Rightarrow> MockEndpoint list \<Rightarrow> string \<Rightarrow> server_request \<Rightarrow> response_writer \<Rightarrow> response_writer go" where
  "MockAwsApiServer Err endpoints date r w =
     (case rq_Body r of
        Inl err \<Rightarrow>
          go_bind (WriteHeader 500 w)
            (\<lambda>w. Ret (Write (''Error reading from HTTP Request Body: '' @ Err err) w))
      | Inr requestBody \<Rightarrow> answer_endpoints endpoints date r requestBody w)"

fun answer_metadata ::
    "MetadataResponse list \<Rightarrow> server_request \<Rightarrow> response_writer \<Rightarrow> response_writer go" where
  "answer_metadata [] r w = WriteHeader 400 w"
| "answer_metadata (e # responses) r w =
     (if rq_RequestURI r = md_Uri e then Ret (Fprintln (md_Body e) w) else answer_metadata responses r w)"

definition AwsMetadataApiMock ::
    "MetadataResponse list \<Rightarrow> server_request \<Rightarrow> response_writer \<Rightarrow> response_writer go" where
  "AwsMetadataApiMock responses r w =
     (let w = Header_update (\<lambda>h. header_Set h ''Content-Type'' ''text/plain'') w;
          w = Header_update (\<lambda>h. header_Add h ''Server'' ''MockEC2'') w
      in answer_metadata responses r w)"

text \<open>The environment variables the two metadata mocks write when they start.\<close>

definition AwsMetadataApiMock_env :: "string \<Rightarrow> environ \<Rightarrow> environ" where
  "AwsMetadataApiMock_env url = Setenv_ignored ''AWS_EC2_METADATA_SERVICE_ENDPOINT'' url"

definition EcsCredentialsApiMock_env :: "string \<Rightarrow> environ \<Rightarrow> environ" where
  "EcsCredentialsApiMock_env url = Setenv_ignored ''AWS_CONTAINER_CREDENTIALS_FULL_URI'' (url @ ''/creds'')"

section \<open>Decoding a form\<close>

definition hex_val :: "char \<Rightarrow> nat" where
  "hex_val c = (if is_digit c then of_char c - 48 else of_char c - 55)"

fun QueryUnescape :: "string \<Rightarrow> string" where
  "QueryUnescape [] = []"
| "QueryUnescape (c # s) =
     (if c = CHR ''+'' then CHR '' '' # QueryUnescape s
      else if c = CHR ''%'' then
        (case s of a # b # s' \<Rightarrow> char_of (16 * hex_val a + hex_val b) # QueryUnescape s' | _ \<Rightarrow> [])
      else c # QueryUnescape s)"

definition decode_pair :: "string \<Rightarrow> string \<times> string" where
  "decode_pair p = (case SplitN2 (CHR ''='') p of
     [k, v] \<Rightarrow> (QueryUnescape k, QueryUnescape v) | _ \<Rightarrow> (QueryUnescape p, []))"

definition decode_form :: "string \<Rightarrow> (string \<times> string) list" where
  "decode_form s = (if s = [] then [] else map decode_pair (Split1 (CHR ''&'') s))"

lemma hex_digit_props:
  assumes "n < 16"
  shows "hex_val (hex_digit n) = n" and "hex_digit n \<noteq> CHR ''&''" and "hex_digit n \<noteq> CHR ''=''"
proof -
  have "list_all (\<lambda>n. hex_val (hex_digit n) = n \<and> hex_digit n \<noteq> CHR ''&'' \<and> hex_digit n \<noteq> CHR ''='') [0..<16]"
    by code_simp
  with assms show "hex_val (hex_digit n) = n" and "hex_digit n \<noteq> CHR ''&''" and "hex_digit n \<noteq> CHR ''=''"
    by (simp_all add: list_all_iff)
qed

lemma byte_halves: "of_char c div 16 < (16 :: nat)" "of_char c mod 16 < (16 :: nat)"
  using nat_of_char_less_256 [of c] by linarith+

lemma QueryUnescape_escape_byte: "QueryUnescape (escape_byte c @ s) = c # QueryUnescape s"
proof (cases "unreserved c")
  case True
  then have "c \<noteq> CHR ''+''" "c \<noteq> CHR ''%''"
    by (auto simp: unreserved_def is_upper_def is_lower_def is_digit_def)
  with True show ?thesis by (simp add: escape_byte_def)
next
  case False
  have "16 * (of_char c div 16) + of_char c mod 16 = (of_char c :: nat)" by simp
  with False show ?thesis
    using byte_halves [of c] by (simp add: escape_byte_def hex_digit_props)
qed

lemma QueryUnescape_QueryEscape [simp]: "QueryUnescape (QueryEscape s) = s"
  by (induction s) (simp_all add: QueryEscape_def QueryUnescape_escape_byte)

lemma unreserved_safe: "\<not> unreserved (CHR ''&'')" "\<not> unreserved (CHR ''='')"
  by (simp_all add: unreserved_def is_upper_def is_lower_def is_digit_def)

lemma escape_byte_safe:
  assumes "x \<in> {CHR ''&'', CHR ''=''}"
  shows "x \<notin> set (escape_byte c)"
proof (cases "unreserved c")
  case True
  with assms unreserved_safe show ?thesis by (auto simp: escape_byte_def)
next
  case False
  with assms hex_digit_props [OF byte_halves(1), of c] hex_digit_props [OF byte_halves(2), of c]
  show ?thesis by (auto simp: escape_byte_def)
qed

lemma QueryEscape_safe: "x \<in> {CHR ''&'', CHR ''=''} \<Longrightarrow> x \<notin> set (QueryEscape s)"
  using escape_byte_safe by (auto simp: QueryEscape_def)

lemma decode_pair_encoded: "decode_pair (QueryEscape k @ ''='' @ QueryEscape v) = (k, v)"
  using QueryEscape_safe [of "CHR ''=''" k]
  by (simp add: decode_pair_def SplitN2_def key_split)

lemma Split1_Join:
  "ps \<noteq> [] \<Longrightarrow> \<forall>p \<in> set ps. sep \<notin> set p \<Longrightarrow> Split1 sep (Join [sep] ps) = ps"
  by (induction "[sep]" ps rule: Join.induct) (auto simp: Split1_no_sep Split1_append)

lemma Join_empty: "\<forall>p \<in> set ps. p \<noteq> [] \<Longrightarrow> Join sep ps = [] \<longleftrightarrow> ps = []"
  by (induction sep ps rule: Join.induct) auto

text \<open>A form decodes to its pairs, in the order of their keys.\<close>

lemma decode_form_Encode: "decode_form (Encode vs) = form_pairs vs"
proof -
  let ?ps = "map (\<lambda>(k, v). QueryEscape k @ ''='' @ QueryEscape v) (form_pairs vs)"
  have ne: "\<forall>p \<in> set ?ps. p \<noteq> []" by auto
  have amp: "\<forall>p \<in> set ?ps. CHR ''&'' \<notin> set p" using QueryEscape_safe by fastforce
  have "map decode_pair ?ps = form_pairs vs"
    by (simp add: comp_def case_prod_beta decode_pair_encoded [simplified])
  then show ?thesis
    using Split1_Join [OF _ amp] Join_empty [OF ne, of "''&''"] by (auto simp: Encode_def decode_form_def)
qed

section \<open>When two forms are the same\<close>

definition wf_values :: "url_values \<Rightarrow> bool" where
  "wf_values vs \<longleftrightarrow> distinct (map fst vs) \<and> (\<forall>(k, ws) \<in> set vs. ws \<noteq> [])"

definition pair_values :: "(string \<times> string) list \<Rightarrow> string \<Rightarrow> string list" where
  "pair_values ps k = map snd (filter (\<lambda>p. fst p = k) ps)"

lemma pair_values_other: "k \<notin> set ks \<Longrightarrow> pair_values (concat (map (\<lambda>k. map (Pair k) (f k)) ks)) k = []"
  by (induction ks) (auto simp: pair_values_def filter_empty_conv)

lemma pair_values_concat:
  "distinct ks \<Longrightarrow> k \<in> set ks \<Longrightarrow> pair_values (concat (map (\<lambda>k. map (Pair k) (f k)) ks)) k = f k"
proof (induction ks)
  case (Cons x ks)
  have app: "pair_values (ps @ qs) k = pair_values ps k @ pair_values qs k" for ps qs
    by (simp add: pair_values_def)
  have here: "pair_values (map (Pair x) (f x)) k = (if x = k then f x else [])"
    by (simp add: pair_values_def filter_map comp_def)
  show ?case using Cons pair_values_other [of k ks f] by (auto simp: app here)
qed simp

lemma pair_values_form: "distinct (map fst vs) \<Longrightarrow> pair_values (form_pairs vs) k = values_of vs k"
proof (cases "k \<in> fst ` set vs")
  case True
  assume "distinct (map fst vs)"
  with True show ?thesis by (simp add: form_pairs_def pair_values_concat)
next
  case False
  then have "values_of vs k = []" by (simp add: values_of_def map_of_eq_None_iff [THEN iffD2])
  with False show ?thesis by (simp add: form_pairs_def pair_values_other)
qed

lemma map_of_values: "wf_values vs \<Longrightarrow> map_of vs k = (if values_of vs k = [] then None else Some (values_of vs k))"
  by (auto simp: values_of_def wf_values_def dest: map_of_SomeD split: option.split)

lemma sort_eq_if_set_eq: "distinct xs \<Longrightarrow> distinct ys \<Longrightarrow> set xs = set ys \<Longrightarrow> sort xs = sort (ys :: 'a :: linorder list)"
  by (intro sorted_distinct_set_unique) simp_all

lemma Encode_cong: "distinct (map fst vs) \<Longrightarrow> distinct (map fst ws) \<Longrightarrow> map_of vs = map_of ws \<Longrightarrow> Encode vs = Encode ws"
proof -
  assume d: "distinct (map fst vs)" "distinct (map fst ws)" and m: "map_of vs = map_of ws"
  have "fst ` set vs = fst ` set ws" using m dom_map_of_conv_image_fst [of vs] dom_map_of_conv_image_fst [of ws] by simp
  with d have "sort (map fst vs) = sort (map fst ws)" by (intro sort_eq_if_set_eq) simp_all
  moreover have "values_of vs = values_of ws" using m by (simp add: values_of_def fun_eq_iff)
  ultimately show ?thesis by (simp add: Encode_def form_pairs_def)
qed

text \<open>Two forms have the same encoding exactly when they are the same map.\<close>

lemma Encode_eq_iff:
  assumes "wf_values vs" and "wf_values ws"
  shows "Encode vs = Encode ws \<longleftrightarrow> map_of vs = map_of ws"
proof
  assume "Encode vs = Encode ws"
  then have "form_pairs vs = form_pairs ws" by (metis decode_form_Encode)
  then have "values_of vs k = values_of ws k" for k
    using pair_values_form [of vs k] pair_values_form [of ws k] assms by (simp add: wf_values_def)
  then show "map_of vs = map_of ws"
    by (simp add: fun_eq_iff map_of_values [OF assms(1)] map_of_values [OF assms(2)])
qed (use assms Encode_cong in \<open>auto simp: wf_values_def\<close>)

lemma map_of_values_Set [simp]: "map_of (values_Set k v vs) = (map_of vs)(k \<mapsto> [v])"
  by (induction vs) (auto simp: fun_eq_iff)

lemma keys_values_Set [simp]: "fst ` set (values_Set k v vs) = insert k (fst ` set vs)"
proof (induction vs)
  case (Cons x vs)
  then show ?case by (cases x; cases "fst x = k") (simp_all add: insert_commute)
qed simp

lemma wf_values_Set [simp]: "wf_values vs \<Longrightarrow> wf_values (values_Set k v vs)"
proof (induction vs)
  case (Cons x vs)
  obtain k' ws where x: "x = (k', ws)" by fastforce
  have "wf_values vs" using Cons.prems by (auto simp: wf_values_def)
  with Cons.IH have "wf_values (values_Set k v vs)" by simp
  with Cons.prems show ?case using keys_values_Set [of k v vs] by (auto simp: wf_values_def x)
qed (simp add: wf_values_def)

text \<open>The values a function overrides from a Go map; the iteration order is any.\<close>

definition set_options :: "(string \<times> string) list \<Rightarrow> url_values \<Rightarrow> url_values" where
  "set_options options vs = foldl (\<lambda>vs (k, v). values_Set k v vs) vs options"

lemma wf_set_options: "wf_values vs \<Longrightarrow> wf_values (set_options options vs)"
  by (induction options arbitrary: vs) (auto simp: set_options_def)

lemma map_of_set_options:
  "distinct (map fst options) \<Longrightarrow>
   map_of (set_options options vs) = map_of vs ++ (\<lambda>k. map_option (\<lambda>v. [v]) (map_of options k))"
proof (induction options arbitrary: vs)
  case (Cons o' os)
  obtain k v where o': "o' = (k, v)" by fastforce
  have none: "map_of os k = None" using Cons.prems o' by (simp add: map_of_eq_None_iff)
  have "map_of (set_options (o' # os) vs) = map_of (set_options os (values_Set k v vs))"
    by (simp add: set_options_def o')
  also have "\<dots> = (map_of vs)(k \<mapsto> [v]) ++ (\<lambda>k. map_option (\<lambda>v. [v]) (map_of os k))"
    using Cons by simp
  finally show ?case using none by (auto simp: o' fun_eq_iff map_add_def split: option.split)
qed (simp add: set_options_def fun_eq_iff map_add_def)

section \<open>Routes\<close>

lemma find_unique:
  "(\<And>e e'. e \<in> set es \<Longrightarrow> e' \<in> set es \<Longrightarrow> P e \<Longrightarrow> P e' \<Longrightarrow> e = e') \<Longrightarrow>
   find P es = Some e \<longleftrightarrow> e \<in> set es \<and> P e"
  by (induction es) auto

lemma find_unique_set:
  assumes "set es = set es'" and "inj_on f (set es)" and "\<And>e. P e \<longleftrightarrow> f e = y"
  shows "find P es = find P es'"
proof -
  have u: "\<And>e e'. e \<in> set es \<Longrightarrow> e' \<in> set es \<Longrightarrow> P e \<Longrightarrow> P e' \<Longrightarrow> e = e'"
    using assms(2,3) by (auto dest: inj_onD)
  have "find P es = Some e \<longleftrightarrow> find P es' = Some e" for e
    using find_unique [of es P e] find_unique [of es' P e] u assms(1) by simp
  then show ?thesis by (metis not_Some_eq)
qed

text \<open>What the servers have in common: they answer with the first route that a request hits.\<close>

locale first_route =
  fixes serve :: "'e list \<Rightarrow> 'a"
    and hits :: "'e \<Rightarrow> bool"
    and answer :: "'e \<Rightarrow> 'a"
    and miss :: 'a
  assumes serve_Nil: "serve [] = miss"
    and serve_Cons: "serve (e # es) = (if hits e then answer e else serve es)"
begin

lemma serve_find: "serve es = (case find hits es of None \<Rightarrow> miss | Some e \<Rightarrow> answer e)"
  by (induction es) (simp_all add: serve_Nil serve_Cons)

text \<open>Routes that differ in what a request is compared with can come in any order.\<close>

lemma serve_order:
  assumes "set es = set es'" and "inj_on f (set es)" and "\<And>e. hits e \<longleftrightarrow> f e = y"
  shows "serve es = serve es'"
  by (simp add: serve_find find_unique_set [OF assms])

end

definition matches_request :: "server_request \<Rightarrow> string \<Rightarrow> MockEndpoint \<Rightarrow> bool" where
  "matches_request r body e \<longleftrightarrow> me_Request e = \<lparr>mq_Method = rq_Method r, mq_Uri = rq_RequestURI r, mq_Body = body\<rparr>"

interpretation api_routes: first_route
  "\<lambda>es. answer_endpoints es date r body w" "matches_request r body"
  "\<lambda>e. answer_endpoints [e] date r body w" "WriteHeader 400 w" for date r body w
  by unfold_locales (auto simp: matches_request_def)

interpretation metadata_routes: first_route
  "\<lambda>es. answer_metadata es r w" "\<lambda>e. rq_RequestURI r = md_Uri e"
  "\<lambda>e. Ret (Fprintln (md_Body e) w)" "WriteHeader 400 w" for r w
  by unfold_locales simp_all

text \<open>As long as the mocked requests differ, the order of the endpoints does not matter.\<close>

lemma mock_endpoints_order_irrelevant:
  assumes "set es = set es'" and "inj_on me_Request (set es)"
  shows "MockAwsApiServer Err es date r w = MockAwsApiServer Err es' date r w"
  using api_routes.serve_order [OF assms, of r _ _ date w]
  by (simp add: MockAwsApiServer_def matches_request_def split: sum.split)

lemma metadata_order_irrelevant:
  assumes "set es = set es'" and "inj_on md_Uri (set es)"
  shows "AwsMetadataApiMock es r w = AwsMetadataApiMock es' r w"
  using metadata_routes.serve_order [OF assms, of r "rq_RequestURI r"]
  by (simp add: AwsMetadataApiMock_def eq_commute)

end
