(* ===== verification/MockData.thy ===== *)
theory MockData
  imports MockServer
begin

text \<open>
  The data of \<open>servicemocks/mock.go\<close>: the credentials and response bodies of the mocked services,
  the mocked endpoints of STS and of the EC2 metadata service, and the endpoints whose request takes
  options. A raw string of several lines is the list of its lines. The ECS and SSO mocks answer with
  fixed text around the time, which is a parameter.
\<close>

definition unlines :: "string list \<Rightarrow> string" where
  "unlines ls = Join [CHR 0x0A] ls"

section \<open>Constants\<close>

definition MockEc2MetadataAccessKey :: string where
  "MockEc2MetadataAccessKey = ''Ec2MetadataAccessKey''"

definition MockEc2MetadataSecretKey :: string where
  "MockEc2MetadataSecretKey = ''Ec2MetadataSecretKey''"

definition MockEc2MetadataSessionToken :: string where
  "MockEc2MetadataSessionToken = ''Ec2MetadataSessionToken''"

definition MockEcsCredentialsAccessKey :: string where
  "MockEcsCredentialsAccessKey = ''EcsCredentialsAccessKey''"

definition MockEcsCredentialsSecretKey :: string where
  "MockEcsCredentialsSecretKey = ''EcsCredentialsSecretKey''"

definition MockEcsCredentialsSessionToken :: string where
  "MockEcsCredentialsSessionToken = ''EcsCredentialsSessionToken''"

definition MockEnvAccessKey :: string where
  "MockEnvAccessKey = ''EnvAccessKey''"

definition MockEnvSecretKey :: string where
  "MockEnvSecretKey = ''EnvSecretKey''"

definition MockEnvSessionToken :: string where
  "MockEnvSessionToken = ''EnvSessionToken''"

definition MockStaticAccessKey :: string where
  "MockStaticAccessKey = ''StaticAccessKey''"

definition MockStaticSecretKey :: string where
  "MockStaticSecretKey = ''StaticSecretKey''"

definition MockStsAssumeRoleAccessKey :: string where
  "MockStsAssumeRoleAccessKey = ''AssumeRoleAccessKey''"

definition MockStsAssumeRoleArn :: string where
  "MockStsAssumeRoleArn = ''arn:aws:iam::555555555555:role/AssumeRole''"

definition MockStsAssumeRoleArn2 :: string where
  "MockStsAssumeRoleArn2 = ''arn:aws:iam::555555555555:role/AssumeRole2''"

definition MockStsAssumeRoleExternalId :: string where
  "MockStsAssumeRoleExternalId = ''AssumeRoleExternalId''"

definition MockStsAssumeRoleInvalidResponseBodyInvalidClientTokenId :: string where
  "MockStsAssumeRoleInvalidResponseBodyInvalidClientTokenId = unlines
     [''<ErrorResponse xmlns=\"https://sts.amazonaws.com/doc/2011-06-15/\">'',
      ''<Error>'',
      ''  <Type>Sender</Type>'',
      ''  <Code>InvalidClientTokenId</Code>'',
      ''  <Message>The security token included in the request is invalid.</Message>'',
      ''</Error>'',
      ''<RequestId>4d0cf5ec-892a-4d3f-84e4-30e9987d9bdd</RequestId>'',
      ''</ErrorResponse>'']"

definition MockStsAssumeRolePolicy :: string where
  "MockStsAssumeRolePolicy = unlines
     [''{'',
      ''  \"Version\": \"2012-10-17\",'',
      ''  \"Statement\": {'',
      ''    \"Effect\": \"Allow\",'',
      ''    \"Action\": \"*\",'',
      ''    \"Resource\": \"*\",'',
      ''  }'',
      ''}'']"

definition MockStsAssumeRolePolicyArn :: string where
  "MockStsAssumeRolePolicyArn = ''arn:aws:iam::555555555555:policy/AssumeRolePolicy1''"

definition MockStsAssumeRoleSecretKey :: string where
  "MockStsAssumeRoleSecretKey = ''AssumeRoleSecretKey''"

definition MockStsAssumeRoleSessionName :: string where
  "MockStsAssumeRoleSessionName = ''AssumeRoleSessionName''"

definition MockStsAssumeRoleSessionName2 :: string where
  "MockStsAssumeRoleSessionName2 = ''AssumeRoleSessionName2''"

definition MockStsAssumeRoleSessionToken :: string where
  "MockStsAssumeRoleSessionToken = ''AssumeRoleSessionToken''"

definition MockStsAssumeRoleSourceIdentity :: string where
  "MockStsAssumeRoleSourceIdentity = ''AssumeRoleSourceIdentity''"

definition MockStsAssumeRoleTagKey :: string where
  "MockStsAssumeRoleTagKey = ''AssumeRoleTagKey''"

definition MockStsAssumeRoleTagValue :: string where
  "MockStsAssumeRoleTagValue = ''AssumeRoleTagValue''"

definition MockStsAssumeRoleTransitiveTagKey :: string where
  "MockStsAssumeRoleTransitiveTagKey = ''AssumeRoleTagKey''"

definition MockStsAssumeRoleValidResponseBody :: string where
  "MockStsAssumeRoleValidResponseBody = unlines
     [''<AssumeRoleResponse xmlns=\"https://sts.amazonaws.com/doc/2011-06-15/\">'',
      ''<AssumeRoleResult>'',
      ''  <AssumedRoleUser>'',
      ''    <Arn>arn:aws:sts::555555555555:assumed-role/role/AssumeRoleSessionName</Arn>'',
      ''    <AssumedRoleId>ARO123EXAMPLE123:AssumeRoleSessionName</AssumedRoleId>'',
      ''  </AssumedRoleUser>'',
      ''  <Credentials>'',
      ''    <AccessKeyId>AssumeRoleAccessKey</AccessKeyId>'',
      ''    <SecretAccessKey>AssumeRoleSecretKey</SecretAccessKey>'',
      ''    <SessionToken>AssumeRoleSessionToken</SessionToken>'',
      ''    <Expiration>2099-12-31T23:59:59Z</Expiration>'',
      ''  </Credentials>'',
      ''</AssumeRoleResult>'',
      ''<ResponseMetadata>'',
      ''  <RequestId>01234567-89ab-cdef-0123-456789abcdef</RequestId>'',
      ''</ResponseMetadata>'',
      ''</AssumeRoleResponse>'']"

definition MockStsAssumeRoleWithWebIdentityAccessKey :: string where
  "MockStsAssumeRoleWithWebIdentityAccessKey = ''AssumeRoleWithWebIdentityAccessKey''"

definition MockStsAssumeRoleWithWebIdentityArn :: string where
  "MockStsAssumeRoleWithWebIdentityArn = ''arn:aws:iam::666666666666:role/WebIdentityToken''"

definition MockStsAssumeRoleWithWebIdentitySecretKey :: string where
  "MockStsAssumeRoleWithWebIdentitySecretKey = ''AssumeRoleWithWebIdentitySecretKey''"

definition MockStsAssumeRoleWithWebIdentitySessionName :: string where
  "MockStsAssumeRoleWithWebIdentitySessionName = ''AssumeRoleWithWebIdentitySessionName''"

definition MockStsAssumeRoleWithWebIdentitySessionToken :: string where
  "MockStsAssumeRoleWithWebIdentitySessionToken = ''AssumeRoleWithWebIdentitySessionToken''"

definition MockStsAssumeRoleWithWebIdentityValidResponseBody :: string where
  "MockStsAssumeRoleWithWebIdentityValidResponseBody = unlines
     [''<AssumeRoleWithWebIdentityResponse xmlns=\"https://sts.amazonaws.com/doc/2011-06-15/\">'',
      ''<AssumeRoleWithWebIdentityResult>'',
      ''  <SubjectFromWebIdentityToken>amzn1.account.AF6RHO7KZU5XRVQJGXK6HB56KR2A</SubjectFromWebIdentityToken>'',
      ''  <Audience>client.6666666666666666666.6666@apps.example.com</Audience>'',
      ''  <AssumedRoleUser>'',
      ''    <Arn>arn:aws:sts::666666666666:assumed-role/FederatedWebIdentityRole/AssumeRoleWithWebIdentitySessionName</Arn>'',
      ''    <AssumedRoleId>ARO123EXAMPLE123:AssumeRoleWithWebIdentitySessionName</AssumedRoleId>'',
      ''  </AssumedRoleUser>'',
      ''  <Credentials>'',
      ''    <SessionToken>AssumeRoleWithWebIdentitySessionToken</SessionToken>'',
      ''    <SecretAccessKey>AssumeRoleWithWebIdentitySecretKey</SecretAccessKey>'',
      ''    <Expiration>2099-12-31T23:59:59Z</Expiration>'',
      ''    <AccessKeyId>AssumeRoleWithWebIdentityAccessKey</AccessKeyId>'',
      ''  </Credentials>'',
      ''  <Provider>www.amazon.com</Provider>'',
      ''</AssumeRoleWithWebIdentityResult>'',
      ''<ResponseMetadata>'',
      ''  <RequestId>01234567-89ab-cdef-0123-456789abcdef</RequestId>'',
      ''</ResponseMetadata>'',
      ''</AssumeRoleWithWebIdentityResponse>'']"

definition MockStsAssumeRoleWithWebIdentityAlternateArn :: string where
  "MockStsAssumeRoleWithWebIdentityAlternateArn = ''arn:aws:iam::666666666666:role/Alternate''"

definition MockStsAssumeRoleWithWebIdentityAlternateSessionName :: string where
  "MockStsAssumeRoleWithWebIdentityAlternateSessionName = ''AssumeRoleWithWebIdentityAlternateSessionName''"

definition MockStsGetCallerIdentityAccountID :: string where
  "MockStsGetCallerIdentityAccountID = ''222222222222''"

definition MockStsGetCallerIdentityInvalidResponseBodyAccessDenied :: string where
  "MockStsGetCallerIdentityInvalidResponseBodyAccessDenied = unlines
     [''<ErrorResponse xmlns=\"https://sts.amazonaws.com/doc/2011-06-15/\">'',
      ''<Error>'',
      ''  <Type>Sender</Type>'',
      ''  <Code>AccessDenied</Code>'',
      ''  <Message>User: arn:aws:iam::123456789012:user/Bob is not authorized to perform: sts:GetCallerIdentity</Message>'',
      ''</Error>'',
      ''<RequestId>01234567-89ab-cdef-0123-456789abcdef</RequestId>'',
      ''</ErrorResponse>'']"

definition MockStsGetCallerIdentityValidResponseBodyExpiredToken :: string where
  "MockStsGetCallerIdentityValidResponseBodyExpiredToken = unlines
     [''<ErrorResponse xmlns=\"https://sts.amazonaws.com/doc/2011-06-15/\">'',
      ''<Error>'',
      ''  <Type>Sender</Type>'',
      ''  <Code>ExpiredToken</Code>'',
      ''  <Message>The security token included in the request is expired</Message>'',
      ''</Error>'',
      ''<ResponseMetadata>'',
      ''  <RequestId>01234567-89ab-cdef-0123-456789abcdef</RequestId>'',
      ''</ResponseMetadata>'',
      ''</ErrorResponse>'']"

definition MockStsGetCallerIdentityInvalidResponseBodyExpiredToken :: string where
  "MockStsGetCallerIdentityInvalidResponseBodyExpiredToken = unlines
     [''<ErrorResponse xmlns=\"https://sts.amazonaws.com/doc/2011-06-15/\">'',
      ''<Error>'',
      ''  <Type>Sender</Type>'',
      ''  <Code>ExpiredToken</Code>'',
      ''  <Message>The security token included in the request is expired</Message>'',
      ''</Error>'',
      ''<RequestId>01234567-89ab-cdef-0123-456789abcdef</RequestId>'',
      ''</ErrorResponse>'']"

definition MockStsGetCallerIdentityValidResponseBodyExpiredTokenException :: string where
  "MockStsGetCallerIdentityValidResponseBodyExpiredTokenException = unlines
     [''<ErrorResponse xmlns=\"https://sts.amazonaws.com/doc/2011-06-15/\">'',
      ''<Error>'',
      ''  <Type>Sender</Type>'',
      ''  <Code>ExpiredTokenException</Code>'',
      ''  <Message>The security token included in the request is expired</Message>'',
      ''</Error>'',
      ''<ResponseMetadata>'',
      ''  <RequestId>01234567-89ab-cdef-0123-456789abcdef</RequestId>'',
      ''</ResponseMetadata>'',
      ''</ErrorResponse>'']"

definition MockStsGetCallerIdentityInvalidResponseBodyExpiredTokenException :: string where
  "MockStsGetCallerIdentityInvalidResponseBodyExpiredTokenException = unlines
     [''<ErrorResponse xmlns=\"https://sts.amazonaws.com/doc/2011-06-15/\">'',
      ''<Error>'',
      ''  <Type>Sender</Type>'',
      ''  <Code>ExpiredTokenException</Code>'',
      ''  <Message>The security token included in the request is expired</Message>'',
      ''</Error>'',
      ''<RequestId>01234567-89ab-cdef-0123-456789abcdef</RequestId>'',
      ''</ErrorResponse>'']"

definition MockStsGetCallerIdentityValidResponseBodyRequestExpired :: string where
  "MockStsGetCallerIdentityValidResponseBodyRequestExpired = unlines
     [''<ErrorResponse xmlns=\"https://sts.amazonaws.com/doc/2011-06-15/\">'',
      ''<Error>'',
      ''  <Type>Sender</Type>'',
      ''  <Code>RequestExpired</Code>'',
      ''  <Message>The security token included in the request is expired</Message>'',
      ''</Error>'',
      ''<ResponseMetadata>'',
      ''  <RequestId>01234567-89ab-cdef-0123-456789abcdef</RequestId>'',
      ''</ResponseMetadata>'',
      ''</ErrorResponse>'']"

definition MockStsGetCallerIdentityInvalidResponseBodyRequestExpired :: string where
  "MockStsGetCallerIdentityInvalidResponseBodyRequestExpired = unlines
     [''<ErrorResponse xmlns=\"https://sts.amazonaws.com/doc/2011-06-15/\">'',
      ''<Error>'',
      ''  <Type>Sender</Type>'',
      ''  <Code>RequestExpired</Code>'',
      ''  <Message>The security token included in the request is expired</Message>'',
      ''</Error>'',
      ''<RequestId>01234567-89ab-cdef-0123-456789abcdef</RequestId>'',
      ''</ErrorResponse>'']"

definition MockStsGetCallerIdentityPartition :: string where
  "MockStsGetCallerIdentityPartition = ''aws''"

definition MockStsGetCallerIdentityValidResponseBody :: string where
  "MockStsGetCallerIdentityValidResponseBody = unlines
     [''<GetCallerIdentityResponse xmlns=\"https://sts.amazonaws.com/doc/2011-06-15/\">'',
      ''  <GetCallerIdentityResult>'',
      ''    <Arn>arn:aws:iam::222222222222:user/Alice</Arn>'',
      ''    <UserId>AKIAI44QH8DHBEXAMPLE</UserId>'',
      ''    <Account>222222222222</Account>'',
      ''  </GetCallerIdentityResult>'',
      ''  <ResponseMetadata>'',
      ''    <RequestId>01234567-89ab-cdef-0123-456789abcdef</RequestId>'',
      ''  </ResponseMetadata>'',
      ''</GetCallerIdentityResponse>'']"

definition MockStsGetCallerIdentityValidAssumedRoleResponseBody :: string where
  "MockStsGetCallerIdentityValidAssumedRoleResponseBody = unlines
     [''<GetCallerIdentityResponse xmlns=\"https://sts.amazonaws.com/doc/2011-06-15/\">'',
      ''  <GetCallerIdentityResult>'',
      ''    <Arn>arn:aws:sts::555555555555:assumed-role/role/AssumeRoleSessionName</Arn>'',
      ''    <UserId>ARO123EXAMPLE123:AssumeRoleSessionName</UserId>'',
      ''    <Account>555555555555</Account>'',
      ''  </GetCallerIdentityResult>'',
      ''  <ResponseMetadata>'',
      ''    <RequestId>01234567-89ab-cdef-0123-456789abcdef</RequestId>'',
      ''  </ResponseMetadata>'',
      ''</GetCallerIdentityResponse>'']"

definition MockWebIdentityToken :: string where
  "MockWebIdentityToken = ''WebIdentityToken''"

definition MockSsoAccessKeyID :: string where
  "MockSsoAccessKeyID = ''SSO_AKID''"

definition MockSsoSecretAccessKey :: string where
  "MockSsoSecretAccessKey = ''SSO_SECRET_KEY''"

definition MockSsoSessionToken :: string where
  "MockSsoSessionToken = ''SSO_SESSION_TOKEN''"

section \<open>The endpoints of STS\<close>

definition MockStsAssumeRoleInvalidEndpointInvalidClientTokenId :: MockEndpoint where
  "MockStsAssumeRoleInvalidEndpointInvalidClientTokenId =
     \<lparr>me_Request = \<lparr>mq_Method = ''POST'', mq_Uri = ''/'', mq_Body = Encode
        [(''Action'', [''AssumeRole'']),
         (''DurationSeconds'', [''900'']),
         (''RoleArn'', [MockStsAssumeRoleArn]),
         (''RoleSessionName'', [MockStsAssumeRoleSessionName]),
         (''Version'', [''2011-06-15''])]\<rparr>,
      me_Response = \<lparr>mr_StatusCode = 403,
        mr_Body = MockStsAssumeRoleInvalidResponseBodyInvalidClientTokenId,
        mr_ContentType = ''text/xml''\<rparr>\<rparr>"

definition MockStsAssumeRoleValidEndpoint :: MockEndpoint where
  "MockStsAssumeRoleValidEndpoint =
     \<lparr>me_Request = \<lparr>mq_Method = ''POST'', mq_Uri = ''/'', mq_Body = Encode
        [(''Action'', [''AssumeRole'']),
         (''DurationSeconds'', [''900'']),
         (''RoleArn'', [MockStsAssumeRoleArn]),
         (''RoleSessionName'', [MockStsAssumeRoleSessionName]),
         (''Version'', [''2011-06-15''])]\<rparr>,
      me_Response = \<lparr>mr_StatusCode = 200,
        mr_Body = MockStsAssumeRoleValidResponseBody,
        mr_ContentType = ''text/xml''\<rparr>\<rparr>"

definition MockStsAssumeRoleWithWebIdentityValidEndpoint :: MockEndpoint where
  "MockStsAssumeRoleWithWebIdentityValidEndpoint =
     \<lparr>me_Request = \<lparr>mq_Method = ''POST'', mq_Uri = ''/'', mq_Body = Encode
        [(''Action'', [''AssumeRoleWithWebIdentity'']),
         (''RoleArn'', [MockStsAssumeRoleWithWebIdentityArn]),
         (''RoleSessionName'', [MockStsAssumeRoleWithWebIdentitySessionName]),
         (''Version'', [''2011-06-15'']),
         (''WebIdentityToken'', [MockWebIdentityToken])]\<rparr>,
      me_Response = \<lparr>mr_StatusCode = 200,
        mr_Body = MockStsAssumeRoleWithWebIdentityValidResponseBody,
        mr_ContentType = ''text/xml''\<rparr>\<rparr>"

definition MockStsGetCallerIdentityInvalidEndpointAccessDenied :: MockEndpoint where
  "MockStsGetCallerIdentityInvalidEndpointAccessDenied =
     \<lparr>me_Request = \<lparr>mq_Method = ''POST'', mq_Uri = ''/'', mq_Body = Encode
        [(''Action'', [''GetCallerIdentity'']),
         (''Version'', [''2011-06-15''])]\<rparr>,
      me_Response = \<lparr>mr_StatusCode = 403,
        mr_Body = MockStsGetCallerIdentityInvalidResponseBodyAccessDenied,
        mr_ContentType = ''text/xml''\<rparr>\<rparr>"

definition MockStsGetCallerIdentityInvalidBodyExpiredToken :: MockEndpoint where
  "MockStsGetCallerIdentityInvalidBodyExpiredToken =
     \<lparr>me_Request = \<lparr>mq_Method = ''POST'', mq_Uri = ''/'', mq_Body = Encode
        [(''Action'', [''GetCallerIdentity'']),
         (''Version'', [''2011-06-15''])]\<rparr>,
      me_Response = \<lparr>mr_StatusCode = 403,
        mr_Body = MockStsGetCallerIdentityInvalidResponseBodyExpiredToken,
        mr_ContentType = ''text/xml''\<rparr>\<rparr>"

definition MockStsGetCallerIdentityValidBodyExpiredToken :: MockEndpoint where
  "MockStsGetCallerIdentityValidBodyExpiredToken =
     \<lparr>me_Request = \<lparr>mq_Method = ''POST'', mq_Uri = ''/'', mq_Body = Encode
        [(''Action'', [''GetCallerIdentity'']),
         (''Version'', [''2011-06-15''])]\<rparr>,
      me_Response = \<lparr>mr_StatusCode = 403,
        mr_Body = MockStsGetCallerIdentityValidResponseBodyExpiredToken,
        mr_ContentType = ''text/xml''\<rparr>\<rparr>"

definition MockStsGetCallerIdentityInvalidBodyExpiredTokenException :: MockEndpoint where
  "MockStsGetCallerIdentityInvalidBodyExpiredTokenException =
     \<lparr>me_Request = \<lparr>mq_Method = ''POST'', mq_Uri = ''/'', mq_Body = Encode
        [(''Action'', [''GetCallerIdentity'']),
         (''Version'', [''2011-06-15''])]\<rparr>,
      me_Response = \<lparr>mr_StatusCode = 403,
        mr_Body = MockStsGetCallerIdentityInvalidResponseBodyExpiredTokenException,
        mr_ContentType = ''text/xml''\<rparr>\<rparr>"

definition MockStsGetCallerIdentityValidBodyExpiredTokenException :: MockEndpoint where
  "MockStsGetCallerIdentityValidBodyExpiredTokenException =
     \<lparr>me_Request = \<lparr>mq_Method = ''POST'', mq_Uri = ''/'', mq_Body = Encode
        [(''Action'', [''GetCallerIdentity'']),
         (''Version'', [''2011-06-15''])]\<rparr>,
      me_Response = \<lparr>mr_StatusCode = 403,
        mr_Body = MockStsGetCallerIdentityValidResponseBodyExpiredTokenException,
        mr_ContentType = ''text/xml''\<rparr>\<rparr>"

definition MockStsGetCallerIdentityInvalidBodyRequestExpired :: MockEndpoint where
  "MockStsGetCallerIdentityInvalidBodyRequestExpired =
     \<lparr>me_Request = \<lparr>mq_Method = ''POST'', mq_Uri = ''/'', mq_Body = Encode
        [(''Action'', [''GetCallerIdentity'']),
         (''Version'', [''2011-06-15''])]\<rparr>,
      me_Response = \<lparr>mr_StatusCode = 403,
        mr_Body = MockStsGetCallerIdentityInvalidResponseBodyRequestExpired,
        mr_ContentType = ''text/xml''\<rparr>\<rparr>"

definition MockStsGetCallerIdentityValidBodyRequestExpired :: MockEndpoint where
  "MockStsGetCallerIdentityValidBodyRequestExpired =
     \<lparr>me_Request = \<lparr>mq_Method = ''POST'', mq_Uri = ''/'', mq_Body = Encode
        [(''Action'', [''GetCallerIdentity'']),
         (''Version'', [''2011-06-15''])]\<rparr>,
      me_Response = \<lparr>mr_StatusCode = 403,
        mr_Body = MockStsGetCallerIdentityValidResponseBodyRequestExpired,
        mr_ContentType = ''text/xml''\<rparr>\<rparr>"

definition MockStsGetCallerIdentityValidEndpoint :: MockEndpoint where
  "MockStsGetCallerIdentityValidEndpoint =
     \<lparr>me_Request = \<lparr>mq_Method = ''POST'', mq_Uri = ''/'', mq_Body = Encode
        [(''Action'', [''GetCallerIdentity'']),
         (''Version'', [''2011-06-15''])]\<rparr>,
      me_Response = \<lparr>mr_StatusCode = 200,
        mr_Body = MockStsGetCallerIdentityValidResponseBody,
        mr_ContentType = ''text/xml''\<rparr>\<rparr>"

definition MockStsGetCallerIdentityValidAssumedRoleEndpoint :: MockEndpoint where
  "MockStsGetCallerIdentityValidAssumedRoleEndpoint =
     \<lparr>me_Request = \<lparr>mq_Method = ''POST'', mq_Uri = ''/'', mq_Body = Encode
        [(''Action'', [''GetCallerIdentity'']),
         (''Version'', [''2011-06-15''])]\<rparr>,
      me_Response = \<lparr>mr_StatusCode = 200,
        mr_Body = MockStsGetCallerIdentityValidAssumedRoleResponseBody,
        mr_ContentType = ''text/xml''\<rparr>\<rparr>"

section \<open>Responses of IAM\<close>

definition Ec2metadata_iamInfoEndpoint_expectedAccountID :: string where
  "Ec2metadata_iamInfoEndpoint_expectedAccountID = ''000000000000''"

definition Ec2metadata_iamInfoEndpoint_expectedPartition :: string where
  "Ec2metadata_iamInfoEndpoint_expectedPartition = ''aws''"

definition IamResponse_GetUser_valid :: string where
  "IamResponse_GetUser_valid = unlines
     [''<GetUserResponse xmlns=\"https://iam.amazonaws.com/doc/2010-05-08/\">'',
      ''  <GetUserResult>'',
      ''    <User>'',
      ''      <UserId>AIDACKCEVSQ6C2EXAMPLE</UserId>'',
      ''      <Path>/division_abc/subdivision_xyz/</Path>'',
      ''      <UserName>Bob</UserName>'',
      ''      <Arn>arn:aws:iam::111111111111:user/division_abc/subdivision_xyz/Bob</Arn>'',
      ''      <CreateDate>2013-10-02T17:01:44Z</CreateDate>'',
      ''      <PasswordLastUsed>2014-10-10T14:37:51Z</PasswordLastUsed>'',
      ''    </User>'',
      ''  </GetUserResult>'',
      ''  <ResponseMetadata>'',
      ''    <RequestId>7a62c49f-347e-4fc4-9331-6e8eEXAMPLE</RequestId>'',
      ''  </ResponseMetadata>'',
      ''</GetUserResponse>'']"

definition IamResponse_GetUser_valid_expectedAccountID :: string where
  "IamResponse_GetUser_valid_expectedAccountID = ''111111111111''"

definition IamResponse_GetUser_valid_expectedPartition :: string where
  "IamResponse_GetUser_valid_expectedPartition = ''aws''"

definition IamResponse_GetUser_unauthorized :: string where
  "IamResponse_GetUser_unauthorized = unlines
     [''<ErrorResponse xmlns=\"https://iam.amazonaws.com/doc/2010-05-08/\">'',
      ''  <Error>'',
      ''    <Type>Sender</Type>'',
      ''    <Code>AccessDenied</Code>'',
      ''    <Message>User: arn:aws:iam::123456789012:user/Bob is not authorized to perform: iam:GetUser on resource: arn:aws:iam::123456789012:user/Bob</Message>'',
      ''  </Error>'',
      ''  <RequestId>7a62c49f-347e-4fc4-9331-6e8eEXAMPLE</RequestId>'',
      ''</ErrorResponse>'']"

definition IamResponse_GetUser_federatedFailure :: string where
  "IamResponse_GetUser_federatedFailure = unlines
     [''<ErrorResponse xmlns=\"https://iam.amazonaws.com/doc/2010-05-08/\">'',
      ''  <Error>'',
      ''    <Type>Sender</Type>'',
      ''    <Code>ValidationError</Code>'',
      ''    <Message>Must specify userName when calling with non-User credentials</Message>'',
      ''  </Error>'',
      ''  <RequestId>7a62c49f-347e-4fc4-9331-6e8eEXAMPLE</RequestId>'',
      ''</ErrorResponse>'']"

definition IamResponse_ListRoles_valid :: string where
  "IamResponse_ListRoles_valid = unlines
     [''<ListRolesResponse xmlns=\"https://iam.amazonaws.com/doc/2010-05-08/\">'',
      ''  <ListRolesResult>'',
      ''    <IsTruncated>true</IsTruncated>'',
      ''    <Marker>AWceSSsKsazQ4IEplT9o4hURCzBs00iavlEvEXAMPLE</Marker>'',
      ''    <Roles>'',
      ''      <member>'',
      ''        <Path>/</Path>'',
      ''        <AssumeRolePolicyDocument>%7B%22Version%22%3A%222008-10-17%22%2C%22Statement%22%3A%5B%7B%22Sid%22%3A%22%22%2C%22Effect%22%3A%22Allow%22%2C%22Principal%22%3A%7B%22Service%22%3A%22ec2.amazonaws.com%22%7D%2C%22Action%22%3A%22sts%3AAssumeRole%22%7D%5D%7D</AssumeRolePolicyDocument>'',
      ''        <RoleId>AROACKCEVSQ6C2EXAMPLE</RoleId>'',
      ''        <RoleName>elasticbeanstalk-role</RoleName>'',
      ''        <Arn>arn:aws:iam::444444444444:role/elasticbeanstalk-role</Arn>'',
      ''        <CreateDate>2013-10-02T17:01:44Z</CreateDate>'',
      ''      </member>'',
      ''    </Roles>'',
      ''  </ListRolesResult>'',
      ''  <ResponseMetadata>'',
      ''    <RequestId>7a62c49f-347e-4fc4-9331-6e8eEXAMPLE</RequestId>'',
      ''  </ResponseMetadata>'',
      ''</ListRolesResponse>'']"

definition IamResponse_ListRoles_valid_expectedAccountID :: string where
  "IamResponse_ListRoles_valid_expectedAccountID = ''444444444444''"

definition IamResponse_ListRoles_valid_expectedPartition :: string where
  "IamResponse_ListRoles_valid_expectedPartition = ''aws''"

definition IamResponse_ListRoles_unauthorized :: string where
  "IamResponse_ListRoles_unauthorized = unlines
     [''<ErrorResponse xmlns=\"https://iam.amazonaws.com/doc/2010-05-08/\">'',
      ''  <Error>'',
      ''    <Type>Sender</Type>'',
      ''    <Code>AccessDenied</Code>'',
      ''    <Message>User: arn:aws:iam::123456789012:user/Bob is not authorized to perform: iam:ListRoles on resource: arn:aws:iam::123456789012:role/</Message>'',
      ''  </Error>'',
      ''  <RequestId>7a62c49f-347e-4fc4-9331-6e8eEXAMPLE</RequestId>'',
      ''</ErrorResponse>'']"

section \<open>Endpoints whose request takes options\<close>

definition MockStsAssumeRoleValidEndpointWithOptions :: "(string \<times> string) list \<Rightarrow> MockEndpoint" where
  "MockStsAssumeRoleValidEndpointWithOptions options =
     (let urlValues = set_options options
        [(''Action'', [''AssumeRole'']),
         (''DurationSeconds'', [''900'']),
         (''RoleArn'', [MockStsAssumeRoleArn]),
         (''RoleSessionName'', [MockStsAssumeRoleSessionName]),
         (''Version'', [''2011-06-15''])]
      in \<lparr>me_Request = \<lparr>mq_Method = ''POST'', mq_Uri = ''/'', mq_Body = Encode urlValues\<rparr>,
          me_Response = \<lparr>mr_StatusCode = 200,
            mr_Body = MockStsAssumeRoleValidResponseBody,
            mr_ContentType = ''text/xml''\<rparr>\<rparr>)"

definition MockStsAssumeRoleWithWebIdentityValidWithOptions :: "(string \<times> string) list \<Rightarrow> MockEndpoint" where
  "MockStsAssumeRoleWithWebIdentityValidWithOptions options =
     (let urlValues = set_options options
        [(''Action'', [''AssumeRoleWithWebIdentity'']),
         (''RoleArn'', [MockStsAssumeRoleWithWebIdentityArn]),
         (''RoleSessionName'', [MockStsAssumeRoleWithWebIdentitySessionName]),
         (''Version'', [''2011-06-15'']),
         (''WebIdentityToken'', [MockWebIdentityToken])]
      in \<lparr>me_Request = \<lparr>mq_Method = ''POST'', mq_Uri = ''/'', mq_Body = Encode urlValues\<rparr>,
          me_Response = \<lparr>mr_StatusCode = 200,
            mr_Body = MockStsAssumeRoleWithWebIdentityValidResponseBody,
            mr_ContentType = ''text/xml''\<rparr>\<rparr>)"

section \<open>The EC2 metadata service\<close>

definition Ec2metadata_instanceIdEndpoint :: MetadataResponse where
  "Ec2metadata_instanceIdEndpoint =
     \<lparr>md_Uri = ''/latest/meta-data/instance-id'', md_Body = ''mock-instance-id''\<rparr>"

definition Ec2metadata_securityCredentialsEndpoints :: "MetadataResponse list" where
  "Ec2metadata_securityCredentialsEndpoints =
     [\<lparr>md_Uri = ''/latest/api/token'', md_Body = ''Ec2MetadataApiToken''\<rparr>,
      \<lparr>md_Uri = ''/latest/meta-data/iam/security-credentials/'', md_Body = ''test_role''\<rparr>,
      \<lparr>md_Uri = ''/latest/meta-data/iam/security-credentials/test_role'',
       md_Body = unlines
         [''{'',
          [CHR 0x09] @ ''\"Code\": \"Success\",'',
          [CHR 0x09] @ ''\"LastUpdated\": \"2015-12-11T17:17:25Z\",'',
          [CHR 0x09] @ ''\"Type\": \"AWS-HMAC\",'',
          [CHR 0x09] @ ''\"AccessKeyId\": \"Ec2MetadataAccessKey\",'',
          [CHR 0x09] @ ''\"SecretAccessKey\": \"Ec2MetadataSecretKey\",'',
          [CHR 0x09] @ ''\"Token\": \"Ec2MetadataSessionToken\"'',
          ''}'']\<rparr>]"

definition Ec2metadata_iamInfoEndpoint :: MetadataResponse where
  "Ec2metadata_iamInfoEndpoint =
     \<lparr>md_Uri = ''/latest/meta-data/iam/info'',
      md_Body = unlines
        [''{'',
         [CHR 0x09] @ ''\"Code\": \"Success\",'',
         [CHR 0x09] @ ''\"LastUpdated\": \"2016-03-17T12:27:32Z\",'',
         [CHR 0x09] @ ''\"InstanceProfileArn\": \"arn:aws:iam::000000000000:instance-profile/my-instance-profile\",'',
         [CHR 0x09] @ ''\"InstanceProfileId\": \"AIPAABCDEFGHIJKLMN123\"'',
         ''}'']\<rparr>"

definition Ec2metadata_instanceIdentityEndpoint :: "(string \<Rightarrow> string) \<Rightarrow> string \<Rightarrow> MetadataResponse" where
  "Ec2metadata_instanceIdentityEndpoint quote region =
     \<lparr>md_Uri = ''/latest/dynamic/instance-identity/document'',
      md_Body = unlines
        [''{'',
         [CHR 0x09] @ ''\"version\": \"2017-09-30\",'',
         [CHR 0x09] @ ''\"instanceId\": \"mock-instance-id\",'',
         [CHR 0x09] @ ''\"region\": '' @ quote region,
         ''}'']\<rparr>"

section \<open>The ECS and SSO mocks\<close>

text \<open>\<open>json.Encoder\<close> on a map of strings: the keys in order, a final newline. The strings of the
  sources are printable ASCII; a quote, a backslash and the characters of HTML are escaped.\<close>

definition json_char :: "char \<Rightarrow> string" where
  "json_char c =
     (if c \<in> {CHR 0x22, CHR 0x5C} then [CHR 0x5C, c]
      else if c = CHR ''<'' then [CHR 0x5C] @ ''u003c''
      else if c = CHR ''>'' then [CHR 0x5C] @ ''u003e''
      else if c = CHR ''&'' then [CHR 0x5C] @ ''u0026''
      else [c])"

definition json_string :: "string \<Rightarrow> string" where
  "json_string s = [CHR 0x22] @ concat (map json_char s) @ [CHR 0x22]"

definition Encode_json :: "(string \<times> string) list \<Rightarrow> string" where
  "Encode_json kvs =
     ''{'' @ Join '','' (map (\<lambda>k. json_string k @ '':'' @
        json_string (case map_of kvs k of Some v \<Rightarrow> v | None \<Rightarrow> [])) (sort (map fst kvs))) @ ''}'' @ [CHR 0x0A]"

definition EcsCredentialsApiMock :: "string \<Rightarrow> server_request \<Rightarrow> response_writer \<Rightarrow> response_writer go" where
  "EcsCredentialsApiMock now r w =
     (let w = Header_update (\<lambda>h. header_Set h ''Content-Type'' ''application/json'') w;
          w = Header_update (\<lambda>h. header_Add h ''Server'' ''MockECS'') w
      in if rq_RequestURI r = ''/creds''
         then Ret (Write (Encode_json
            [(''AccessKeyId'', MockEcsCredentialsAccessKey),
             (''Expiration'', now),
             (''RoleArn'', ''arn:aws:iam::000000000000:role/EcsCredentials''),
             (''SecretAccessKey'', MockEcsCredentialsSecretKey),
             (''Token'', MockEcsCredentialsSessionToken)]) w)
         else WriteHeader 400 w)"

text \<open>The expiration is the decimal number of milliseconds the \<open>%d\<close> verb prints.\<close>

definition ssoCredentialsResponse :: "string \<Rightarrow> string" where
  "ssoCredentialsResponse expiration = unlines
     [''{'',
      [CHR 0x09] @ ''\"roleCredentials\": {'',
      [CHR 0x09] @ ''  \"accessKeyId\": \"SSO_AKID\",'',
      [CHR 0x09] @ ''  \"secretAccessKey\": \"SSO_SECRET_KEY\",'',
      [CHR 0x09] @ ''  \"sessionToken\": \"SSO_SESSION_TOKEN\",'',
      [CHR 0x09] @ ''  \"expiration\": '' @ expiration,
      [CHR 0x09] @ ''}'',
      ''}'']"

definition SsoCredentialsApiMock :: "string \<Rightarrow> server_request \<Rightarrow> response_writer \<Rightarrow> response_writer go" where
  "SsoCredentialsApiMock expiration r w = Ret (Write (ssoCredentialsResponse expiration) w)"

section \<open>What a mocked endpoint answers\<close>

definition assume_role_form :: url_values where
  "assume_role_form =
     [(''Action'', [''AssumeRole'']),
      (''DurationSeconds'', [''900'']),
      (''RoleArn'', [MockStsAssumeRoleArn]),
      (''RoleSessionName'', [MockStsAssumeRoleSessionName]),
      (''Version'', [''2011-06-15''])]"

lemma wf_assume_role_form: "wf_values assume_role_form"
  by (simp add: wf_values_def assume_role_form_def)

lemma single_endpoint_answer:
  assumes "rq_Method r = mq_Method (me_Request e)" and "rq_RequestURI r = mq_Uri (me_Request e)"
    and "rq_Body r = Inr body" and "mr_StatusCode (me_Response e) = 200"
  shows "\<exists>w. MockAwsApiServer Err [e] date r fresh_writer = Ret w \<and>
    (if body = mq_Body (me_Request e)
     then \<exists>h. rw_status w = Some (200, h) \<and> rw_body w = mr_Body (me_Response e) @ [CHR 0x0A] \<and>
       header_Get h ''Content-Type'' = mr_ContentType (me_Response e)
     else rw_status w = Some (400, Map.empty) \<and> rw_body w = [])"
proof -
  have k: "CanonicalHeaderKey ''X-Amzn-Requestid'' = ''X-Amzn-Requestid''" "CanonicalHeaderKey ''Date'' = ''Date''"
    by code_simp+
  show ?thesis
    using assms by (simp add: MockAwsApiServer_def fresh_writer_def WriteHeader_def Let_def Header_update_def
        Fprintln_def Write_def bodyAllowedForStatus_def header_Set_def header_Get_def header_Values_def k canonical_keys)
qed

text \<open>The mock endpoint for role assumption with options answers a request exactly when the form
  in the request's body holds, whatever the order of its fields, the default parameters overridden by
  the options, and no other field: then with status 200 and the credentials document, otherwise with
  status 400 and no body. So neither the iteration order of the options map nor the order in which a
  client fills its form can change a test's outcome.\<close>

theorem assume_role_mock_answers:
  assumes "distinct (map fst options)" and "wf_values vs"
    and "rq_Method r = ''POST''" and "rq_RequestURI r = ''/''" and "rq_Body r = Inr (Encode vs)"
  shows "\<exists>w. MockAwsApiServer Err [MockStsAssumeRoleValidEndpointWithOptions options] date r fresh_writer = Ret w \<and>
    (if map_of vs = map_of assume_role_form ++ (\<lambda>k. map_option (\<lambda>v. [v]) (map_of options k))
     then \<exists>h. rw_status w = Some (200, h) \<and> rw_body w = MockStsAssumeRoleValidResponseBody @ [CHR 0x0A] \<and>
       header_Get h ''Content-Type'' = ''text/xml''
     else rw_status w = Some (400, Map.empty) \<and> rw_body w = [])"
proof -
  let ?e = "MockStsAssumeRoleValidEndpointWithOptions options"
  have body: "mq_Body (me_Request ?e) = Encode (set_options options assume_role_form)"
    by (simp add: MockStsAssumeRoleValidEndpointWithOptions_def assume_role_form_def)
  have same: "Encode vs = mq_Body (me_Request ?e) \<longleftrightarrow>
      map_of vs = map_of assume_role_form ++ (\<lambda>k. map_option (\<lambda>v. [v]) (map_of options k))"
    unfolding body map_of_set_options [OF assms(1), of assume_role_form, symmetric]
    by (rule Encode_eq_iff [OF assms(2) wf_set_options [OF wf_assume_role_form]])
  have m: "rq_Method r = mq_Method (me_Request ?e)" "rq_RequestURI r = mq_Uri (me_Request ?e)"
    and st: "mr_StatusCode (me_Response ?e) = 200"
    and resp: "mr_Body (me_Response ?e) = MockStsAssumeRoleValidResponseBody" "mr_ContentType (me_Response ?e) = ''text/xml''"
    using assms(3,4) by (simp_all add: MockStsAssumeRoleValidEndpointWithOptions_def)
  show ?thesis using single_endpoint_answer [OF m assms(5) st, of Err date] unfolding same resp .
qed

lemma assume_role_mock_answers_witness:
  "\<exists>w h. MockAwsApiServer (\<lambda>_. [])
       [MockStsAssumeRoleValidEndpointWithOptions [(''RoleArn'', MockStsAssumeRoleArn2), (''ExternalId'', ''x y'')]]
       ''now'' \<lparr>rq_Method = ''POST'', rq_RequestURI = ''/'', rq_Body = Inr (Encode
         [(''Version'', [''2011-06-15'']), (''RoleArn'', [MockStsAssumeRoleArn2]),
          (''ExternalId'', [''x y'']), (''Action'', [''AssumeRole'']), (''DurationSeconds'', [''900'']),
          (''RoleSessionName'', [MockStsAssumeRoleSessionName])])\<rparr> fresh_writer = Ret w \<and>
     rw_status w = Some (200, h)"
proof -
  let ?opts = "[(''RoleArn'', MockStsAssumeRoleArn2), (''ExternalId'', ''x y'')]"
  let ?vs = "[(''Version'', [''2011-06-15'']), (''RoleArn'', [MockStsAssumeRoleArn2]),
          (''ExternalId'', [''x y'']), (''Action'', [''AssumeRole'']), (''DurationSeconds'', [''900'']),
          (''RoleSessionName'', [MockStsAssumeRoleSessionName])]"
  have "map_of ?vs = map_of assume_role_form ++ (\<lambda>k. map_option (\<lambda>v. [v]) (map_of ?opts k))"
    by (auto simp: assume_role_form_def map_add_def fun_eq_iff)
  moreover have "wf_values ?vs" by (simp add: wf_values_def)
  ultimately show ?thesis
    using assume_role_mock_answers [of ?opts ?vs "\<lparr>rq_Method = ''POST'', rq_RequestURI = ''/'', rq_Body = Inr (Encode ?vs)\<rparr>"
        "\<lambda>_. []" "''now''"] by fastforce
qed

text \<open>Without options the endpoint is the plain one.\<close>

lemma no_options_endpoint: "MockStsAssumeRoleValidEndpointWithOptions [] = MockStsAssumeRoleValidEndpoint"
  by (simp add: MockStsAssumeRoleValidEndpointWithOptions_def MockStsAssumeRoleValidEndpoint_def set_options_def)

text \<open>All caller identity endpoints have one request, so of several of them in a server only the first
  ever answers.\<close>

lemma caller_identity_shadowed:
  assumes "e \<in> {MockStsGetCallerIdentityInvalidEndpointAccessDenied, MockStsGetCallerIdentityInvalidBodyExpiredToken,
      MockStsGetCallerIdentityValidEndpoint, MockStsGetCallerIdentityValidAssumedRoleEndpoint}"
    and "e' \<in> {MockStsGetCallerIdentityInvalidEndpointAccessDenied, MockStsGetCallerIdentityInvalidBodyExpiredToken,
      MockStsGetCallerIdentityValidEndpoint, MockStsGetCallerIdentityValidAssumedRoleEndpoint}"
  shows "MockAwsApiServer Err (e # e' # es) date r w = MockAwsApiServer Err (e # es) date r w"
proof -
  have "me_Request e = me_Request e'"
    using assms by (auto simp: MockStsGetCallerIdentityInvalidEndpointAccessDenied_def
        MockStsGetCallerIdentityInvalidBodyExpiredToken_def MockStsGetCallerIdentityValidEndpoint_def
        MockStsGetCallerIdentityValidAssumedRoleEndpoint_def)
  then show ?thesis by (auto simp: MockAwsApiServer_def split: sum.split)
qed

text \<open>The expectations the tests compare with are those in the documents.\<close>

lemma unlines_member: "l \<in> set ls \<Longrightarrow> Contains_str (unlines ls) l"
proof (induction ls)
  case (Cons x ls)
  show ?case
  proof (cases "l = x")
    case True
    then show ?thesis by (cases ls) (auto simp: unlines_def Contains_str_iff intro: exI [of _ "[]"])
  next
    case False
    with Cons obtain a b where "unlines ls = a @ l @ b" by (auto simp: Contains_str_iff)
    moreover from False Cons.prems have "unlines (x # ls) = x @ [CHR 0x0A] @ unlines ls"
      by (cases ls) (simp_all add: unlines_def)
    ultimately show ?thesis by (auto simp: Contains_str_iff intro: exI [of _ "x @ CHR 0x0A # a"])
  qed
qed simp

lemma fixtures_consistent:
  "Contains_str MockStsAssumeRoleValidResponseBody
     (''    <AccessKeyId>'' @ MockStsAssumeRoleAccessKey @ ''</AccessKeyId>'')"
  "Contains_str MockStsAssumeRoleValidResponseBody
     (''    <SecretAccessKey>'' @ MockStsAssumeRoleSecretKey @ ''</SecretAccessKey>'')"
  "Contains_str MockStsAssumeRoleValidResponseBody
     (''    <SessionToken>'' @ MockStsAssumeRoleSessionToken @ ''</SessionToken>'')"
  "Contains_str MockStsGetCallerIdentityValidResponseBody
     (''    <Arn>arn:'' @ MockStsGetCallerIdentityPartition @ '':iam::'' @ MockStsGetCallerIdentityAccountID @ '':user/Alice</Arn>'')"
  "Contains_str IamResponse_GetUser_valid
     (''      <Arn>arn:'' @ IamResponse_GetUser_valid_expectedPartition @ '':iam::'' @
      IamResponse_GetUser_valid_expectedAccountID @ '':user/division_abc/subdivision_xyz/Bob</Arn>'')"
  "Contains_str IamResponse_ListRoles_valid
     (''        <Arn>arn:'' @ IamResponse_ListRoles_valid_expectedPartition @ '':iam::'' @
      IamResponse_ListRoles_valid_expectedAccountID @ '':role/elasticbeanstalk-role</Arn>'')"
  unfolding MockStsAssumeRoleValidResponseBody_def MockStsGetCallerIdentityValidResponseBody_def
    IamResponse_GetUser_valid_def IamResponse_ListRoles_valid_def
  by (rule unlines_member; simp add: MockStsAssumeRoleAccessKey_def MockStsAssumeRoleSecretKey_def
      MockStsAssumeRoleSessionToken_def MockStsGetCallerIdentityPartition_def MockStsGetCallerIdentityAccountID_def
      IamResponse_GetUser_valid_expectedPartition_def IamResponse_GetUser_valid_expectedAccountID_def
      IamResponse_ListRoles_valid_expectedPartition_def IamResponse_ListRoles_valid_expectedAccountID_def)+

end
