(* ===== verification/TestHelpers.thy ===== *)
theory TestHelpers
  imports Config_ops TestEnv
begin

text \<open>
  The helpers of \<open>internal/test\<close> that check HTTP clients and diagnostics. A check is the list of the
  failures it reports (\<open>t.Errorf\<close>) up to the first fatal one (\<open>t.Fatalf\<close>); it passes when the list is
  empty. The table of proxy configurations is the source's; the package \<open>golang.org/x/net/http/httpproxy\<close>,
  whose proxy function the transport calls, is a parameter with its documented behaviour as a
  hypothesis.
\<close>

section \<open>Diagnostics\<close>

datatype diag_failure = NotExpected Diagnostics | WrongCount nat nat

definition expectDiagsCount :: "Diagnostics \<Rightarrow> nat \<Rightarrow> diag_failure list" where
  "expectDiagsCount diags c = (if diags_Count diags \<noteq> c then [WrongCount c (diags_Count diags)] else [])"

fun err_loop :: "Diagnostics \<Rightarrow> (go_error \<Rightarrow> bool) \<Rightarrow> bool" where
  "err_loop [] ev = False"
| "err_loop (d # ds) ev =
     (case diag_Err d of Some e \<Rightarrow> if ev e then True else err_loop ds ev | None \<Rightarrow> err_loop ds ev)"

definition expectDiagsContainsErr :: "Diagnostics \<Rightarrow> (go_error \<Rightarrow> bool) \<Rightarrow> bool" where
  "expectDiagsContainsErr diags ev = err_loop (diags_Errors diag_Severity diags) ev"

definition expectDiagsContainsDiagFunc :: "Diagnostics \<Rightarrow> (Diagnostic \<Rightarrow> bool) \<Rightarrow> bool" where
  "expectDiagsContainsDiagFunc diags dv = list_ex dv diags"

definition ExpectNoDiags :: "Diagnostics \<Rightarrow> diag_failure list" where
  "ExpectNoDiags diags = expectDiagsCount diags 0"

definition ExpectErrDiagValidator :: "(go_error \<Rightarrow> bool) \<Rightarrow> Diagnostics \<Rightarrow> diag_failure list" where
  "ExpectErrDiagValidator ev diags =
     (if \<not> expectDiagsContainsErr diags ev then [NotExpected diags] else expectDiagsCount diags 1)"

definition ExpectDiagValidator :: "(Diagnostic \<Rightarrow> bool) \<Rightarrow> Diagnostics \<Rightarrow> diag_failure list" where
  "ExpectDiagValidator dv diags =
     (if \<not> expectDiagsContainsDiagFunc diags dv then [NotExpected diags] else expectDiagsCount diags 1)"

lemma err_loop_iff: "err_loop ds ev \<longleftrightarrow> (\<exists>d \<in> set ds. \<exists>e. diag_Err d = Some e \<and> ev e)"
  by (induction ds) (auto split: option.split)

text \<open>The error check accepts exactly one diagnostic: a single error that carries an accepted error.\<close>

lemma ExpectErrDiagValidator_passes:
  "ExpectErrDiagValidator ev diags = [] \<longleftrightarrow>
     (\<exists>d e. diags = [d] \<and> diag_Severity d = SeverityError \<and> diag_Err d = Some e \<and> ev e)"
proof -
  have "expectDiagsContainsErr diags ev \<longleftrightarrow>
      (\<exists>d \<in> set diags. diag_Severity d = SeverityError \<and> (\<exists>e. diag_Err d = Some e \<and> ev e))"
    by (auto simp: expectDiagsContainsErr_def err_loop_iff diags_Errors_filter)
  moreover have "expectDiagsCount diags 1 = [] \<longleftrightarrow> (\<exists>d. diags = [d])"
    by (auto simp: expectDiagsCount_def diags_Count_def length_Suc_conv)
  ultimately show ?thesis by (auto simp: ExpectErrDiagValidator_def)
qed

lemma ExpectDiagValidator_passes:
  "ExpectDiagValidator dv diags = [] \<longleftrightarrow> (\<exists>d. diags = [d] \<and> dv d)"
  by (auto simp: ExpectDiagValidator_def expectDiagsContainsDiagFunc_def list_ex_iff expectDiagsCount_def
      diags_Count_def length_Suc_conv)

section \<open>The transport\<close>

text \<open>The fields of \<open>http.Transport\<close> that only the basic check reads; the duration of a timeout is an
  integer.\<close>

record full_transport = Transport +
  tr_MaxIdleConns :: int
  tr_IdleConnTimeout :: int
  tr_TLSHandshakeTimeout :: int
  tr_ExpectContinueTimeout :: int
  tr_ForceAttemptHTTP2 :: bool
  tr_DisableKeepAlives :: bool

record awshttp_defaults =
  dt_MaxIdleConns :: int
  dt_MaxIdleConnsPerHost :: int
  dt_IdleConnTimeout :: int
  dt_TLSHandleshakeTimeout :: int
  dt_ExpectContinueTimeout :: int

definition failure :: "bool \<Rightarrow> string \<Rightarrow> string list" where
  "failure bad what = (if bad then [what] else [])"

text \<open>The names of the fields that differ from what the check expects; a nil TLS configuration is a
  nil dereference.\<close>

definition HTTPClientConfigurationTest_basic :: "awshttp_defaults \<Rightarrow> full_transport \<Rightarrow> string list go" where
  "HTTPClientConfigurationTest_basic dt transport =
     (let fs = failure (tr_MaxIdleConns transport \<noteq> dt_MaxIdleConns dt) ''MaxIdleConns'' @
          failure (tr_MaxIdleConnsPerHost transport \<noteq> dt_MaxIdleConnsPerHost dt) ''MaxIdleConnsPerHost'' @
          failure (tr_IdleConnTimeout transport \<noteq> dt_IdleConnTimeout dt) ''IdleConnTimeout'' @
          failure (tr_TLSHandshakeTimeout transport \<noteq> dt_TLSHandleshakeTimeout dt) ''TLSHandshakeTimeout'' @
          failure (tr_ExpectContinueTimeout transport \<noteq> dt_ExpectContinueTimeout dt) ''ExpectContinueTimeout'' @
          failure (\<not> tr_ForceAttemptHTTP2 transport) ''ForceAttemptHTTP2'' @
          failure (tr_DisableKeepAlives transport) ''DisableKeepAlives''
      in case tr_TLSClientConfig transport of
           None \<Rightarrow> Panic ''nil pointer dereference''
         | Some tlsConfig \<Rightarrow>
             Ret (fs @ failure (tls_MinVersion tlsConfig \<noteq> VersionTLS12) ''MinVersion'' @
                  failure (tls_InsecureSkipVerify tlsConfig) ''InsecureSkipVerify''))"

definition HTTPClientConfigurationTest_insecureHTTPS :: "'t Transport_scheme \<Rightarrow> string list go" where
  "HTTPClientConfigurationTest_insecureHTTPS transport =
     (case tr_TLSClientConfig transport of
        None \<Rightarrow> Panic ''nil pointer dereference''
      | Some tlsConfig \<Rightarrow> Ret (failure (\<not> tls_InsecureSkipVerify tlsConfig) ''InsecureSkipVerify''))"

text \<open>The transport of the SDK's client before the options: the SDK's defaults.\<close>

definition default_transport :: "awshttp_defaults \<Rightarrow> full_transport \<Rightarrow> bool" where
  "default_transport dt tr \<longleftrightarrow>
     tr_MaxIdleConns tr = dt_MaxIdleConns dt \<and> tr_IdleConnTimeout tr = dt_IdleConnTimeout dt \<and>
     tr_TLSHandshakeTimeout tr = dt_TLSHandleshakeTimeout dt \<and>
     tr_ExpectContinueTimeout tr = dt_ExpectContinueTimeout dt \<and> tr_ForceAttemptHTTP2 tr \<and>
     \<not> tr_DisableKeepAlives tr \<and>
     (\<forall>t. tr_TLSClientConfig tr = Some t \<longrightarrow> tls_MinVersion t = VersionTLS12 \<and> \<not> tls_InsecureSkipVerify t)"

lemma HTTPTransportOptions_result:
  assumes "HTTPTransportOptions D c = Inr opts"
  obtains pc t where "opts getenv tr =
      tr\<lparr>tr_MaxIdleConnsPerHost := hd_DefaultMaxIdleConnsPerHost D, tr_TLSClientConfig := Some t, tr_Proxy := Some pc\<rparr>"
    and "tls_InsecureSkipVerify t \<longleftrightarrow>
      c_Insecure c \<or> (\<exists>t0. tr_TLSClientConfig tr = Some t0 \<and> tls_InsecureSkipVerify t0)"
    and "tls_MinVersion t = (case tr_TLSClientConfig tr of None \<Rightarrow> VersionTLS12 | Some t0 \<Rightarrow> tls_MinVersion t0)"
proof -
  obtain hp sp where "opts getenv tr = tr\<lparr>tr_MaxIdleConnsPerHost := hd_DefaultMaxIdleConnsPerHost D,
      tr_TLSClientConfig := Some (let tls = (case tr_TLSClientConfig tr of
             None \<Rightarrow> \<lparr>tls_MinVersion = VersionTLS12, tls_InsecureSkipVerify = False\<rparr> | Some t \<Rightarrow> t)
           in if c_Insecure c then tls\<lparr>tls_InsecureSkipVerify := True\<rparr> else tls),
      tr_Proxy := Some (proxy_config D getenv c hp sp)\<rparr>"
    using assms by (cases "c_Insecure c"; auto simp: HTTPTransportOptions_def Let_def split: sum.splits)
  from this that show thesis
    by (cases "tr_TLSClientConfig tr") (auto simp: Let_def)
qed

text \<open>The options keep the SDK's defaults: both checks pass on what they make of the default transport.\<close>

lemma transport_checks_pass:
  assumes def: "default_transport dt tr" and idle: "dt_MaxIdleConnsPerHost dt = hd_DefaultMaxIdleConnsPerHost D"
    and opts: "HTTPTransportOptions D c = Inr opts"
  shows "\<not> c_Insecure c \<Longrightarrow> HTTPClientConfigurationTest_basic dt (opts getenv tr) = Ret []"
    and "c_Insecure c \<Longrightarrow> HTTPClientConfigurationTest_insecureHTTPS (opts getenv tr) = Ret []"
proof -
  obtain pc t where r: "opts getenv tr =
      tr\<lparr>tr_MaxIdleConnsPerHost := hd_DefaultMaxIdleConnsPerHost D, tr_TLSClientConfig := Some t, tr_Proxy := Some pc\<rparr>"
    and t: "tls_InsecureSkipVerify t \<longleftrightarrow>
      c_Insecure c \<or> (\<exists>t0. tr_TLSClientConfig tr = Some t0 \<and> tls_InsecureSkipVerify t0)"
      "tls_MinVersion t = (case tr_TLSClientConfig tr of None \<Rightarrow> VersionTLS12 | Some t0 \<Rightarrow> tls_MinVersion t0)"
    using HTTPTransportOptions_result [OF opts] by blast
  from def t have "\<not> c_Insecure c \<Longrightarrow> \<not> tls_InsecureSkipVerify t" "tls_MinVersion t = VersionTLS12"
    by (auto simp: default_transport_def split: option.splits)
  with def idle r show "\<not> c_Insecure c \<Longrightarrow> HTTPClientConfigurationTest_basic dt (opts getenv tr) = Ret []"
    by (simp add: HTTPClientConfigurationTest_basic_def default_transport_def failure_def)
  from r t(1) show "c_Insecure c \<Longrightarrow> HTTPClientConfigurationTest_insecureHTTPS (opts getenv tr) = Ret []"
    by (simp add: HTTPClientConfigurationTest_insecureHTTPS_def failure_def)
qed

section \<open>The table of proxy configurations\<close>

record proxyCase =
  pc_url :: string
  pc_expectedProxy :: string

record HTTPProxyTestCase =
  pt_config :: Config
  pt_environmentVariables :: "(string \<times> string) list"
  pt_urls :: "proxyCase list"

definition proxy_test_cases_1 :: "(string \<times> HTTPProxyTestCase) list" where
  "proxy_test_cases_1 =
     [(''no config'',
        \<lparr>pt_config = zero_Config,
         pt_environmentVariables = [],
         pt_urls =
          [\<lparr>pc_url = ''http://example.com'', pc_expectedProxy = []\<rparr>,
           \<lparr>pc_url = ''https://example.com'', pc_expectedProxy = []\<rparr>]\<rparr>),
      (''HTTPProxy config empty string'',
        \<lparr>pt_config = zero_Config\<lparr>c_HTTPProxy := Some []\<rparr>,
         pt_environmentVariables = [],
         pt_urls =
          [\<lparr>pc_url = ''http://example.com'', pc_expectedProxy = []\<rparr>,
           \<lparr>pc_url = ''https://example.com'', pc_expectedProxy = []\<rparr>]\<rparr>),
      (''HTTPProxy config Legacy'',
        \<lparr>pt_config = zero_Config\<lparr>c_HTTPProxy := Some ''http://http-proxy.test:1234'', c_HTTPProxyMode := HTTPProxyModeLegacy\<rparr>,
         pt_environmentVariables = [],
         pt_urls =
          [\<lparr>pc_url = ''http://example.com'', pc_expectedProxy = ''http://http-proxy.test:1234''\<rparr>,
           \<lparr>pc_url = ''https://example.com'', pc_expectedProxy = ''http://http-proxy.test:1234''\<rparr>]\<rparr>),
      (''HTTPProxy config Separate'',
        \<lparr>pt_config = zero_Config\<lparr>c_HTTPProxy := Some ''http://http-proxy.test:1234'', c_HTTPProxyMode := HTTPProxyModeSeparate\<rparr>,
         pt_environmentVariables = [],
         pt_urls =
          [\<lparr>pc_url = ''http://example.com'', pc_expectedProxy = ''http://http-proxy.test:1234''\<rparr>,
           \<lparr>pc_url = ''https://example.com'', pc_expectedProxy = []\<rparr>]\<rparr>),
      (''HTTPSProxy config'',
        \<lparr>pt_config = zero_Config\<lparr>c_HTTPSProxy := Some ''http://https-proxy.test:1234''\<rparr>,
         pt_environmentVariables = [],
         pt_urls =
          [\<lparr>pc_url = ''http://example.com'', pc_expectedProxy = []\<rparr>,
           \<lparr>pc_url = ''https://example.com'', pc_expectedProxy = ''http://https-proxy.test:1234''\<rparr>]\<rparr>),
      (''HTTPProxy config HTTPSProxy config'',
        \<lparr>pt_config = zero_Config\<lparr>c_HTTPProxy := Some ''http://http-proxy.test:1234'', c_HTTPSProxy := Some ''http://https-proxy.test:1234''\<rparr>,
         pt_environmentVariables = [],
         pt_urls =
          [\<lparr>pc_url = ''http://example.com'', pc_expectedProxy = ''http://http-proxy.test:1234''\<rparr>,
           \<lparr>pc_url = ''https://example.com'', pc_expectedProxy = ''http://https-proxy.test:1234''\<rparr>]\<rparr>),
      (''HTTPProxy config HTTPSProxy config empty string Legacy'',
        \<lparr>pt_config = zero_Config\<lparr>c_HTTPProxy := Some ''http://http-proxy.test:1234'', c_HTTPSProxy := Some [], c_HTTPProxyMode := HTTPProxyModeLegacy\<rparr>,
         pt_environmentVariables = [],
         pt_urls =
          [\<lparr>pc_url = ''http://example.com'', pc_expectedProxy = ''http://http-proxy.test:1234''\<rparr>,
           \<lparr>pc_url = ''https://example.com'', pc_expectedProxy = []\<rparr>]\<rparr>),
      (''HTTPSProxy config HTTPProxy config empty string'',
        \<lparr>pt_config = zero_Config\<lparr>c_HTTPProxy := Some [], c_HTTPSProxy := Some ''http://https-proxy.test:1234''\<rparr>,
         pt_environmentVariables = [],
         pt_urls =
          [\<lparr>pc_url = ''http://example.com'', pc_expectedProxy = []\<rparr>,
           \<lparr>pc_url = ''https://example.com'', pc_expectedProxy = ''http://https-proxy.test:1234''\<rparr>]\<rparr>)]"

definition proxy_test_cases_2 :: "(string \<times> HTTPProxyTestCase) list" where
  "proxy_test_cases_2 =
     [(''HTTPProxy config HTTPSProxy config NoProxy config'',
        \<lparr>pt_config = zero_Config\<lparr>c_HTTPProxy := Some ''http://http-proxy.test:1234'', c_HTTPSProxy := Some ''http://https-proxy.test:1234'', c_NoProxy := ''dont-proxy.test''\<rparr>,
         pt_environmentVariables = [],
         pt_urls =
          [\<lparr>pc_url = ''http://example.com'', pc_expectedProxy = ''http://http-proxy.test:1234''\<rparr>,
           \<lparr>pc_url = ''http://dont-proxy.test'', pc_expectedProxy = []\<rparr>,
           \<lparr>pc_url = ''https://example.com'', pc_expectedProxy = ''http://https-proxy.test:1234''\<rparr>,
           \<lparr>pc_url = ''https://dont-proxy.test'', pc_expectedProxy = []\<rparr>]\<rparr>),
      (''HTTP_PROXY envvar'',
        \<lparr>pt_config = zero_Config,
         pt_environmentVariables = [(''HTTP_PROXY'', ''http://http-proxy.test:1234'')],
         pt_urls =
          [\<lparr>pc_url = ''http://example.com'', pc_expectedProxy = ''http://http-proxy.test:1234''\<rparr>,
           \<lparr>pc_url = ''https://example.com'', pc_expectedProxy = []\<rparr>]\<rparr>),
      (''http_proxy envvar'',
        \<lparr>pt_config = zero_Config,
         pt_environmentVariables = [(''http_proxy'', ''http://http-proxy.test:1234'')],
         pt_urls =
          [\<lparr>pc_url = ''http://example.com'', pc_expectedProxy = ''http://http-proxy.test:1234''\<rparr>,
           \<lparr>pc_url = ''https://example.com'', pc_expectedProxy = []\<rparr>]\<rparr>),
      (''HTTPS_PROXY envvar'',
        \<lparr>pt_config = zero_Config,
         pt_environmentVariables = [(''HTTPS_PROXY'', ''http://https-proxy.test:1234'')],
         pt_urls =
          [\<lparr>pc_url = ''http://example.com'', pc_expectedProxy = []\<rparr>,
           \<lparr>pc_url = ''https://example.com'', pc_expectedProxy = ''http://https-proxy.test:1234''\<rparr>]\<rparr>),
      (''https_proxy envvar'',
        \<lparr>pt_config = zero_Config,
         pt_environmentVariables = [(''https_proxy'', ''http://https-proxy.test:1234'')],
         pt_urls =
          [\<lparr>pc_url = ''http://example.com'', pc_expectedProxy = []\<rparr>,
           \<lparr>pc_url = ''https://example.com'', pc_expectedProxy = ''http://https-proxy.test:1234''\<rparr>]\<rparr>),
      (''HTTPProxy config HTTPS_PROXY envvar'',
        \<lparr>pt_config = zero_Config\<lparr>c_HTTPProxy := Some ''http://http-proxy.test:1234''\<rparr>,
         pt_environmentVariables = [(''HTTPS_PROXY'', ''http://https-proxy.test:1234'')],
         pt_urls =
          [\<lparr>pc_url = ''http://example.com'', pc_expectedProxy = ''http://http-proxy.test:1234''\<rparr>,
           \<lparr>pc_url = ''https://example.com'', pc_expectedProxy = ''http://https-proxy.test:1234''\<rparr>]\<rparr>),
      (''HTTPProxy config https_proxy envvar'',
        \<lparr>pt_config = zero_Config\<lparr>c_HTTPProxy := Some ''http://http-proxy.test:1234''\<rparr>,
         pt_environmentVariables = [(''https_proxy'', ''http://https-proxy.test:1234'')],
         pt_urls =
          [\<lparr>pc_url = ''http://example.com'', pc_expectedProxy = ''http://http-proxy.test:1234''\<rparr>,
           \<lparr>pc_url = ''https://example.com'', pc_expectedProxy = ''http://https-proxy.test:1234''\<rparr>]\<rparr>)]"

definition proxy_test_cases_3 :: "(string \<times> HTTPProxyTestCase) list" where
  "proxy_test_cases_3 =
     [(''HTTPProxy config NO_PROXY envvar Legacy'',
        \<lparr>pt_config = zero_Config\<lparr>c_HTTPProxy := Some ''http://http-proxy.test:1234'', c_HTTPProxyMode := HTTPProxyModeLegacy\<rparr>,
         pt_environmentVariables = [(''NO_PROXY'', ''dont-proxy.test'')],
         pt_urls =
          [\<lparr>pc_url = ''http://example.com'', pc_expectedProxy = ''http://http-proxy.test:1234''\<rparr>,
           \<lparr>pc_url = ''http://dont-proxy.test'', pc_expectedProxy = []\<rparr>,
           \<lparr>pc_url = ''https://example.com'', pc_expectedProxy = ''http://http-proxy.test:1234''\<rparr>,
           \<lparr>pc_url = ''https://dont-proxy.test'', pc_expectedProxy = []\<rparr>]\<rparr>),
      (''HTTPProxy config NO_PROXY envvar Separate'',
        \<lparr>pt_config = zero_Config\<lparr>c_HTTPProxy := Some ''http://http-proxy.test:1234'', c_HTTPProxyMode := HTTPProxyModeSeparate\<rparr>,
         pt_environmentVariables = [(''NO_PROXY'', ''dont-proxy.test'')],
         pt_urls =
          [\<lparr>pc_url = ''http://example.com'', pc_expectedProxy = ''http://http-proxy.test:1234''\<rparr>,
           \<lparr>pc_url = ''http://dont-proxy.test'', pc_expectedProxy = []\<rparr>,
           \<lparr>pc_url = ''https://example.com'', pc_expectedProxy = []\<rparr>,
           \<lparr>pc_url = ''https://dont-proxy.test'', pc_expectedProxy = []\<rparr>]\<rparr>),
      (''HTTPProxy config no_proxy envvar Legacy'',
        \<lparr>pt_config = zero_Config\<lparr>c_HTTPProxy := Some ''http://http-proxy.test:1234'', c_HTTPProxyMode := HTTPProxyModeLegacy\<rparr>,
         pt_environmentVariables = [(''no_proxy'', ''dont-proxy.test'')],
         pt_urls =
          [\<lparr>pc_url = ''http://example.com'', pc_expectedProxy = ''http://http-proxy.test:1234''\<rparr>,
           \<lparr>pc_url = ''http://dont-proxy.test'', pc_expectedProxy = []\<rparr>,
           \<lparr>pc_url = ''https://example.com'', pc_expectedProxy = ''http://http-proxy.test:1234''\<rparr>,
           \<lparr>pc_url = ''https://dont-proxy.test'', pc_expectedProxy = []\<rparr>]\<rparr>),
      (''HTTPProxy config no_proxy envvar Separate'',
        \<lparr>pt_config = zero_Config\<lparr>c_HTTPProxy := Some ''http://http-proxy.test:1234'', c_HTTPProxyMode := HTTPProxyModeSeparate\<rparr>,
         pt_environmentVariables = [(''no_proxy'', ''dont-proxy.test'')],
         pt_urls =
          [\<lparr>pc_url = ''http://example.com'', pc_expectedProxy = ''http://http-proxy.test:1234''\<rparr>,
           \<lparr>pc_url = ''http://dont-proxy.test'', pc_expectedProxy = []\<rparr>,
           \<lparr>pc_url = ''https://example.com'', pc_expectedProxy = []\<rparr>,
           \<lparr>pc_url = ''https://dont-proxy.test'', pc_expectedProxy = []\<rparr>]\<rparr>),
      (''HTTP_PROXY envvar HTTPS_PROXY envvar NO_PROXY envvar'',
        \<lparr>pt_config = zero_Config,
         pt_environmentVariables = [(''HTTP_PROXY'', ''http://http-proxy.test:1234''), (''HTTPS_PROXY'', ''http://https-proxy.test:1234''), (''NO_PROXY'', ''dont-proxy.test'')],
         pt_urls =
          [\<lparr>pc_url = ''http://example.com'', pc_expectedProxy = ''http://http-proxy.test:1234''\<rparr>,
           \<lparr>pc_url = ''http://dont-proxy.test'', pc_expectedProxy = []\<rparr>,
           \<lparr>pc_url = ''https://example.com'', pc_expectedProxy = ''http://https-proxy.test:1234''\<rparr>,
           \<lparr>pc_url = ''https://dont-proxy.test'', pc_expectedProxy = []\<rparr>]\<rparr>)]"

definition proxy_test_cases_4 :: "(string \<times> HTTPProxyTestCase) list" where
  "proxy_test_cases_4 =
     [(''HTTPProxy config overrides HTTP_PROXY envvar Legacy'',
        \<lparr>pt_config = zero_Config\<lparr>c_HTTPProxy := Some ''http://config-proxy.test:1234'', c_HTTPProxyMode := HTTPProxyModeLegacy\<rparr>,
         pt_environmentVariables = [(''HTTP_PROXY'', ''http://envvar-proxy.test:1234'')],
         pt_urls =
          [\<lparr>pc_url = ''http://example.com'', pc_expectedProxy = ''http://config-proxy.test:1234''\<rparr>,
           \<lparr>pc_url = ''https://example.com'', pc_expectedProxy = ''http://config-proxy.test:1234''\<rparr>]\<rparr>),
      (''HTTPProxy config overrides HTTP_PROXY envvar Separate'',
        \<lparr>pt_config = zero_Config\<lparr>c_HTTPProxy := Some ''http://config-proxy.test:1234'', c_HTTPProxyMode := HTTPProxyModeSeparate\<rparr>,
         pt_environmentVariables = [(''HTTP_PROXY'', ''http://envvar-proxy.test:1234'')],
         pt_urls =
          [\<lparr>pc_url = ''http://example.com'', pc_expectedProxy = ''http://config-proxy.test:1234''\<rparr>,
           \<lparr>pc_url = ''https://example.com'', pc_expectedProxy = []\<rparr>]\<rparr>),
      (''HTTPSProxy config overrides HTTPS_PROXY envvar'',
        \<lparr>pt_config = zero_Config\<lparr>c_HTTPSProxy := Some ''http://config-proxy.test:1234''\<rparr>,
         pt_environmentVariables = [(''HTTPS_PROXY'', ''http://envvar-proxy.test:1234'')],
         pt_urls =
          [\<lparr>pc_url = ''http://example.com'', pc_expectedProxy = []\<rparr>,
           \<lparr>pc_url = ''https://example.com'', pc_expectedProxy = ''http://config-proxy.test:1234''\<rparr>]\<rparr>)]"

definition proxy_test_cases :: "(string \<times> HTTPProxyTestCase) list" where
  "proxy_test_cases = proxy_test_cases_1 @ proxy_test_cases_2 @ proxy_test_cases_3 @ proxy_test_cases_4"

text \<open>The proxy function of the transport calls \<open>ProxyFunc\<close> of its configuration with the URL of the
  request, here a string. A fatal failure ends the case.\<close>

datatype proxy_failure =
    UnexpectedError go_error
  | NoProxyFor string
  | WrongProxyFor string string string
  | ProxyFor string string

fun proxy_failures ::
    "('u \<Rightarrow> string) \<Rightarrow> (string \<Rightarrow> go_error + 'u option) \<Rightarrow> proxyCase list \<Rightarrow> proxy_failure list" where
  "proxy_failures String proxy [] = []"
| "proxy_failures String proxy (url # urls) =
     (case proxy (pc_url url) of
        Inl err \<Rightarrow> [UnexpectedError err]
      | Inr pUrl \<Rightarrow>
          (if pc_expectedProxy url \<noteq> []
           then (case pUrl of
                   None \<Rightarrow> [NoProxyFor (pc_url url)]
                 | Some u \<Rightarrow>
                     (if String u \<noteq> pc_expectedProxy url
                      then [WrongProxyFor (pc_expectedProxy url) (pc_url url) (String u)] else []))
           else (case pUrl of None \<Rightarrow> [] | Some u \<Rightarrow> [ProxyFor (pc_url url) (String u)])) @
          proxy_failures String proxy urls)"

text \<open>The environment of a case: the isolated one with the variables of the case.\<close>

definition proxy_test_env :: "HTTPProxyTestCase \<Rightarrow> test \<Rightarrow> test option" where
  "proxy_test_env tc t =
     foldl (\<lambda>t' (k, v). Option.bind t' (t_Setenv k v)) (InitSessionTestEnv t) (pt_environmentVariables tc)"

section \<open>The documented behaviour of httpproxy\<close>

text \<open>
  \<open>FromEnvironment\<close> reads each variable in upper, then in lower case. For a host that is a domain
  name of several labels (so no loopback address), a proxy URL with a port, and an exception list that
  is empty or one domain name: requests go to the proxy of their scheme, unless there is none or
  the host is the excepted domain or in it.
\<close>

definition env_any :: "env \<Rightarrow> string \<Rightarrow> string \<Rightarrow> string" where
  "env_any getenv upper lower = (if getenv upper \<noteq> [] then getenv upper else getenv lower)"

definition domain_name :: "string \<Rightarrow> bool" where
  "domain_name s \<longleftrightarrow>
     (let labels = Split1 (CHR ''.'') s
      in 2 \<le> length labels \<and>
         list_all (\<lambda>l. l \<noteq> [] \<and> list_all (\<lambda>c. (CHR ''a'' \<le> c \<and> c \<le> CHR ''z'') \<or> c = CHR ''-'') l \<and>
           hd l \<noteq> CHR ''-'' \<and> last l \<noteq> CHR ''-'') labels)"

definition proxy_url :: "string \<Rightarrow> bool" where
  "proxy_url p \<longleftrightarrow>
     HasPrefix p ''http://'' \<and> HasSuffix p '':1234'' \<and> domain_name (take (length p - 12) (drop 7 p))"

definition proxy_setting :: "string \<Rightarrow> bool" where
  "proxy_setting p \<longleftrightarrow> p = [] \<or> proxy_url p"

definition select_proxy ::
    "('u, 'm) http_deps_scheme \<Rightarrow> string \<Rightarrow> string \<Rightarrow> string \<Rightarrow> go_error + 'u option" where
  "select_proxy D proxy no_proxy host =
     (if proxy = [] \<or> (no_proxy \<noteq> [] \<and> (host = no_proxy \<or> HasSuffix host (''.'' @ no_proxy)))
      then Inr None
      else case hd_Parse D proxy of Inl err \<Rightarrow> Inl err | Inr u \<Rightarrow> Inr (Some u))"

definition httpproxy_documented ::
    "('u, 'm) http_deps_scheme \<Rightarrow> (ProxyConfig \<Rightarrow> string \<Rightarrow> go_error + 'u option) \<Rightarrow> bool" where
  "httpproxy_documented D ProxyFunc \<longleftrightarrow>
     (\<forall>getenv. hd_FromEnvironment D getenv =
        \<lparr>px_HTTPProxy = env_any getenv ''HTTP_PROXY'' ''http_proxy'',
         px_HTTPSProxy = env_any getenv ''HTTPS_PROXY'' ''https_proxy'',
         px_NoProxy = env_any getenv ''NO_PROXY'' ''no_proxy'',
         px_CGI = (getenv ''REQUEST_METHOD'' \<noteq> [])\<rparr>) \<and>
     (\<forall>pc host. domain_name host \<and> proxy_setting (px_HTTPProxy pc) \<and> proxy_setting (px_HTTPSProxy pc) \<and>
        (px_NoProxy pc = [] \<or> domain_name (px_NoProxy pc)) \<and> \<not> px_CGI pc \<longrightarrow>
        ProxyFunc pc (''http://'' @ host) = select_proxy D (px_HTTPProxy pc) (px_NoProxy pc) host \<and>
        ProxyFunc pc (''https://'' @ host) = select_proxy D (px_HTTPSProxy pc) (px_NoProxy pc) host)"

text \<open>\<open>url.Parse\<close> accepts the proxy URLs and the empty string, and \<open>String\<close> gives them back.\<close>

definition parses_proxies :: "('u, 'm) http_deps_scheme \<Rightarrow> bool" where
  "parses_proxies D \<longleftrightarrow> (\<forall>p. proxy_setting p \<longrightarrow> (\<exists>u. hd_Parse D p = Inr u \<and> hd_String D u = p))"

lemma table_names [simp]:
  "domain_name ''example.com''" "domain_name ''dont-proxy.test''"
  "proxy_setting []" "proxy_setting ''http://http-proxy.test:1234''" "proxy_setting ''http://https-proxy.test:1234''"
  "proxy_setting ''http://config-proxy.test:1234''" "proxy_setting ''http://envvar-proxy.test:1234''"
  by code_simp+
section \<open>Every case of the table passes\<close>

text \<open>The proxy configuration in terms of the settings, and what a request of the table gets from it.\<close>

definition effective_proxies :: "env \<Rightarrow> Config \<Rightarrow> ProxyConfig" where
  "effective_proxies getenv c =
     (let env_https = env_any getenv ''HTTPS_PROXY'' ''https_proxy''
      in \<lparr>px_HTTPProxy = (case c_HTTPProxy c of Some p \<Rightarrow> p | None \<Rightarrow> env_any getenv ''HTTP_PROXY'' ''http_proxy''),
          px_HTTPSProxy = (case c_HTTPSProxy c of
              Some p \<Rightarrow> p
            | None \<Rightarrow> (case c_HTTPProxy c of
                 Some p \<Rightarrow> if c_HTTPProxyMode c = HTTPProxyModeLegacy \<and> env_https = [] then p else env_https
               | None \<Rightarrow> env_https)),
          px_NoProxy = (if c_NoProxy c \<noteq> [] then c_NoProxy c else env_any getenv ''NO_PROXY'' ''no_proxy''),
          px_CGI = (getenv ''REQUEST_METHOD'' \<noteq> [])\<rparr>)"

fun optional_setting :: "string option \<Rightarrow> bool" where
  "optional_setting None = True"
| "optional_setting (Some p) = proxy_setting p"

definition settings_parse :: "Config \<Rightarrow> bool" where
  "settings_parse c \<longleftrightarrow> optional_setting (c_HTTPProxy c) \<and> optional_setting (c_HTTPSProxy c)"

definition proxies_ok :: "ProxyConfig \<Rightarrow> bool" where
  "proxies_ok pc \<longleftrightarrow> proxy_setting (px_HTTPProxy pc) \<and> proxy_setting (px_HTTPSProxy pc) \<and>
     (px_NoProxy pc = [] \<or> domain_name (px_NoProxy pc)) \<and> \<not> px_CGI pc"

definition expected_proxy :: "string \<Rightarrow> string \<Rightarrow> string \<Rightarrow> string" where
  "expected_proxy proxy no_proxy host =
     (if no_proxy \<noteq> [] \<and> (host = no_proxy \<or> HasSuffix host (''.'' @ no_proxy)) then [] else proxy)"

definition url_ok :: "ProxyConfig \<Rightarrow> proxyCase \<Rightarrow> bool" where
  "url_ok pc url \<longleftrightarrow>
     (if HasPrefix (pc_url url) ''http://''
      then domain_name (drop 7 (pc_url url)) \<and>
        pc_expectedProxy url = expected_proxy (px_HTTPProxy pc) (px_NoProxy pc) (drop 7 (pc_url url))
      else HasPrefix (pc_url url) ''https://'' \<and> domain_name (drop 8 (pc_url url)) \<and>
        pc_expectedProxy url = expected_proxy (px_HTTPSProxy pc) (px_NoProxy pc) (drop 8 (pc_url url)))"

definition case_env :: "HTTPProxyTestCase \<Rightarrow> environ" where
  "case_env tc = foldl (\<lambda>es (k, v). put_entry k v es)
     (put_entry ''AWS_SHARED_CREDENTIALS_FILE'' ''file_not_exists''
       (put_entry ''AWS_CONFIG_FILE'' ''file_not_exists'' []))
     (pt_environmentVariables tc)"

definition case_ok :: "HTTPProxyTestCase \<Rightarrow> bool" where
  "case_ok tc \<longleftrightarrow>
     (let pc = effective_proxies (Getenv (case_env tc)) (pt_config tc)
      in settings_parse (pt_config tc) \<and> proxies_ok pc \<and> list_all (url_ok pc) (pt_urls tc))"

lemma proxy_table_ok: "list_all (\<lambda>(name, tc). case_ok tc) proxy_test_cases"
  unfolding proxy_test_cases_def proxy_test_cases_1_def proxy_test_cases_2_def proxy_test_cases_3_def
    proxy_test_cases_4_def
  by code_simp

lemma put_all_env:
  "foldl (\<lambda>t' (k, v). Option.bind t' (t_Setenv k v)) (Some t) kvs = Some t' \<Longrightarrow>
   t_env t' = foldl (\<lambda>es (k, v). put_entry k v es) (t_env t) kvs"
proof (induction kvs arbitrary: t)
  case (Cons kv kvs)
  obtain k v where kv: "kv = (k, v)" by fastforce
  have none: "foldl (\<lambda>t' (k, v). Option.bind t' (t_Setenv k v)) None kvs = None"
    by (induction kvs) auto
  with Cons.prems kv obtain t1 where t1: "t_Setenv k v t = Some t1"
    by (cases "t_Setenv k v t") auto
  then have "t_env t1 = put_entry k v (t_env t)"
    by (auto simp: t_Setenv_def Setenv_def Cleanup_def split: sum.splits if_splits)
  with Cons.IH [of t1] Cons.prems t1 kv show ?case by simp
qed simp

lemma proxy_test_env_eq: "proxy_test_env tc t = Some t' \<Longrightarrow> t_env t' = case_env tc"
proof -
  assume some: "proxy_test_env tc t = Some t'"
  have v: "valid_value ''file_not_exists''" by (simp add: valid_value_def)
  obtain t1 where t1: "InitSessionTestEnv t = Some t1" "t_env t1 =
     put_entry ''AWS_SHARED_CREDENTIALS_FILE'' ''file_not_exists''
       (put_entry ''AWS_CONFIG_FILE'' ''file_not_exists'' [])"
    by (simp add: InitSessionTestEnv_def t_Setenv_def StashEnv_def Cleanup_def Clearenv_def Setenv_Inr v)
  with some show ?thesis
    using put_all_env [of t1 "pt_environmentVariables tc" t'] by (simp add: proxy_test_env_def case_env_def)
qed

lemma transport_proxies:
  assumes "parses_proxies D" and "httpproxy_documented D ProxyFunc" and "settings_parse c"
  shows "\<exists>opts. HTTPTransportOptions D c = Inr opts \<and>
    tr_Proxy (opts getenv (tr :: 't Transport_scheme)) = Some (effective_proxies getenv c)"
proof -
  have parse: "\<exists>u. parse_proxy D what s = Inr u \<and> map_option (hd_String D) u = s"
    if "optional_setting s" for what s
    using that assms(1) by (cases s) (force simp: parse_proxy_def parses_proxies_def)+
  obtain hp sp where p: "parse_proxy D ''parsing HTTP proxy URL: '' (c_HTTPProxy c) = Inr hp"
      "map_option (hd_String D) hp = c_HTTPProxy c"
      "parse_proxy D ''parsing HTTPS proxy URL: '' (c_HTTPSProxy c) = Inr sp"
      "map_option (hd_String D) sp = c_HTTPSProxy c"
    using parse assms(3) unfolding settings_parse_def by metis
  have env: "hd_FromEnvironment D getenv =
        \<lparr>px_HTTPProxy = env_any getenv ''HTTP_PROXY'' ''http_proxy'',
         px_HTTPSProxy = env_any getenv ''HTTPS_PROXY'' ''https_proxy'',
         px_NoProxy = env_any getenv ''NO_PROXY'' ''no_proxy'',
         px_CGI = (getenv ''REQUEST_METHOD'' \<noteq> [])\<rparr>"
    using assms(2) by (simp add: httpproxy_documented_def)
  have "proxy_config D getenv c hp sp = effective_proxies getenv c"
    unfolding proxy_config_def effective_proxies_def env p(2,4) [symmetric]
    by (cases hp; cases sp) (simp_all add: Let_def)
  with p(1,3) show ?thesis by (simp add: HTTPTransportOptions_def Let_def)
qed

lemma HasPrefix_drop: "HasPrefix s p \<Longrightarrow> s = p @ drop (length p) s"
  by (auto simp: HasPrefix_iff)

lemma url_passes:
  assumes "parses_proxies D" and "httpproxy_documented D ProxyFunc" and "proxies_ok pc" and "url_ok pc url"
  shows "proxy_failures (hd_String D) (ProxyFunc pc) (url # urls) = proxy_failures (hd_String D) (ProxyFunc pc) urls"
proof -
  have sel: "\<exists>u. select_proxy D proxy np host = Inr u \<and>
      (case u of None \<Rightarrow> expected_proxy proxy np host = []
       | Some v \<Rightarrow> expected_proxy proxy np host \<noteq> [] \<and> hd_String D v = expected_proxy proxy np host)"
    if "proxy_setting proxy" for proxy np host
    using that assms(1) by (auto simp: select_proxy_def expected_proxy_def parses_proxies_def)
  have law: "ProxyFunc pc (''http://'' @ host) = select_proxy D (px_HTTPProxy pc) (px_NoProxy pc) host"
      "ProxyFunc pc (''https://'' @ host) = select_proxy D (px_HTTPSProxy pc) (px_NoProxy pc) host"
    if "domain_name host" for host
    using assms(2,3) that unfolding httpproxy_documented_def proxies_ok_def by blast+
  have "\<exists>proxy host. proxy_setting proxy \<and> ProxyFunc pc (pc_url url) = select_proxy D proxy (px_NoProxy pc) host \<and>
      pc_expectedProxy url = expected_proxy proxy (px_NoProxy pc) host"
  proof (cases "HasPrefix (pc_url url) ''http://''")
    case True
    then obtain host where host: "pc_url url = ''http://'' @ host" by (auto simp: HasPrefix_iff)
    with assms(4) have "domain_name host" "pc_expectedProxy url = expected_proxy (px_HTTPProxy pc) (px_NoProxy pc) host"
      by (simp_all add: url_ok_def HasPrefix_def)
    with law(1) host assms(3) show ?thesis unfolding proxies_ok_def by metis
  next
    case False
    with assms(4) have "HasPrefix (pc_url url) ''https://''" by (simp add: url_ok_def)
    then obtain host where host: "pc_url url = ''https://'' @ host" by (auto simp: HasPrefix_iff)
    with assms(4) have "domain_name host" "pc_expectedProxy url = expected_proxy (px_HTTPSProxy pc) (px_NoProxy pc) host"
      by (simp_all add: url_ok_def HasPrefix_def)
    with law(2) host assms(3) show ?thesis unfolding proxies_ok_def by metis
  qed
  then obtain proxy host where p: "proxy_setting proxy"
    "ProxyFunc pc (pc_url url) = select_proxy D proxy (px_NoProxy pc) host"
    "pc_expectedProxy url = expected_proxy proxy (px_NoProxy pc) host" by blast
  from sel [OF p(1), of "px_NoProxy pc" host] obtain u where "select_proxy D proxy (px_NoProxy pc) host = Inr u"
    "case u of None \<Rightarrow> expected_proxy proxy (px_NoProxy pc) host = []
     | Some v \<Rightarrow> expected_proxy proxy (px_NoProxy pc) host \<noteq> [] \<and>
         hd_String D v = expected_proxy proxy (px_NoProxy pc) host" by blast
  with p(2,3) show ?thesis by (cases u) simp_all
qed

lemma urls_pass:
  assumes "parses_proxies D" and "httpproxy_documented D ProxyFunc" and "proxies_ok pc" and "list_all (url_ok pc) urls"
  shows "proxy_failures (hd_String D) (ProxyFunc pc) urls = []"
  using assms(4) by (induction urls) (simp_all add: url_passes [OF assms(1-3)] del: proxy_failures.simps(2))

text \<open>The 23 proxy configurations of \<open>HTTPClientConfigurationTest_proxy\<close> all pass: with the documented
  behaviour of \<open>httpproxy\<close>, in the environment the test sets up, whatever the environment of the
  process and the transport before, the transport options are created and its proxy function sends
  each request of the case to the expected proxy, or to none.\<close>

theorem proxy_tables_pass:
  assumes "parses_proxies D" and "httpproxy_documented D ProxyFunc"
    and "(name, tc) \<in> set proxy_test_cases" and "proxy_test_env tc t = Some t'"
  shows "\<exists>opts pc. HTTPTransportOptions D (pt_config tc) = Inr opts \<and>
    tr_Proxy (opts (Getenv (t_env t')) tr) = Some pc \<and>
    proxy_failures (hd_String D) (ProxyFunc pc) (pt_urls tc) = []"
proof -
  let ?pc = "effective_proxies (Getenv (t_env t')) (pt_config tc)"
  have "case_ok tc" using proxy_table_ok assms(3) by (auto simp: list_all_iff)
  then have ok: "settings_parse (pt_config tc)" "proxies_ok ?pc" "list_all (url_ok ?pc) (pt_urls tc)"
    by (simp_all add: case_ok_def Let_def proxy_test_env_eq [OF assms(4)])
  show ?thesis
    using transport_proxies [OF assms(1,2) ok(1)] urls_pass [OF assms(1,2) ok(2,3)] by blast
qed

end
