(* ===== verification/TestUserAgent.thy ===== *)
theory TestUserAgent
  imports AwsConfig_props V1Session MockData
begin

text \<open>
  The user agent test of \<open>internal/test/user_agent.go\<close>, which the SDK v2 library and the v1 shim
  share: its table of configurations with the expected header, the set-up of a case, and the proof that
  both models of the library pass it. The user agent of the SDK, which the test takes as a function, is
  a parameter, as is the builder the SDK provides.
\<close>

section \<open>The table\<close>

record UserAgentTestCase =
  ut_Config :: Config
  ut_Context :: "UserAgentProducts option"
  ut_EnvironmentVariables :: "(string \<times> string) list"
  ut_ExpectedUserAgent :: string

text \<open>The configuration every case starts from.\<close>

definition test_Config :: Config where
  "test_Config =
     zero_Config\<lparr>c_AccessKey := MockStaticAccessKey, c_Region := ''us-east-1'', c_SecretKey := MockStaticSecretKey\<rparr>"

definition user_agent_test_cases_1 :: "string \<Rightarrow> (string \<times> UserAgentTestCase) list" where
  "user_agent_test_cases_1 sdk =
     [(''standard User-Agent'',
        \<lparr>ut_Config = test_Config,
         ut_Context = None,
         ut_EnvironmentVariables = [],
         ut_ExpectedUserAgent = sdk\<rparr>),
      (''customized User-Agent TF_APPEND_USER_AGENT product'',
        \<lparr>ut_Config = test_Config,
         ut_Context = None,
         ut_EnvironmentVariables = [(AppendUserAgentEnvVar, ''Env'')],
         ut_ExpectedUserAgent = sdk @ '' Env''\<rparr>),
      (''customized User-Agent TF_APPEND_USER_AGENT product version'',
        \<lparr>ut_Config = test_Config,
         ut_Context = None,
         ut_EnvironmentVariables = [(AppendUserAgentEnvVar, ''Env/1.2'')],
         ut_ExpectedUserAgent = sdk @ '' Env/1.2''\<rparr>),
      (''customized User-Agent TF_APPEND_USER_AGENT multi product'',
        \<lparr>ut_Config = test_Config,
         ut_Context = None,
         ut_EnvironmentVariables = [(AppendUserAgentEnvVar, ''Env1/1.2 Env2'')],
         ut_ExpectedUserAgent = sdk @ '' Env1/1.2 Env2''\<rparr>),
      (''customized User-Agent TF_APPEND_USER_AGENT with comment'',
        \<lparr>ut_Config = test_Config,
         ut_Context = None,
         ut_EnvironmentVariables = [(AppendUserAgentEnvVar, ''Env1/1.2 (comment) Env2'')],
         ut_ExpectedUserAgent = sdk @ '' Env1/1.2 (comment) Env2''\<rparr>),
      (''APN User-Agent Products'',
        \<lparr>ut_Config = test_Config\<lparr>c_APNInfo := Some \<lparr>apn_PartnerName = ''partner'',
             apn_Products = [\<lparr>p_Name = ''first'', p_Version = ''1.2.3'', p_Comment = []\<rparr>,
                             \<lparr>p_Name = ''second'', p_Version = ''1.0.2'', p_Comment = ''a comment''\<rparr>]\<rparr>\<rparr>,
         ut_Context = None,
         ut_EnvironmentVariables = [],
         ut_ExpectedUserAgent = ''APN/1.0 partner/1.0 first/1.2.3 second/1.0.2 (a comment) '' @ sdk\<rparr>),
      (''APN User-Agent Products and TF_APPEND_USER_AGENT'',
        \<lparr>ut_Config = test_Config\<lparr>c_APNInfo := Some \<lparr>apn_PartnerName = ''partner'',
             apn_Products = [\<lparr>p_Name = ''first'', p_Version = ''1.2.3'', p_Comment = []\<rparr>,
                             \<lparr>p_Name = ''second'', p_Version = ''1.0.2'', p_Comment = []\<rparr>]\<rparr>\<rparr>,
         ut_Context = None,
         ut_EnvironmentVariables = [(AppendUserAgentEnvVar, ''Last/9.0.0'')],
         ut_ExpectedUserAgent = ''APN/1.0 partner/1.0 first/1.2.3 second/1.0.2 '' @ sdk @ '' Last/9.0.0''\<rparr>),
      (''User-Agent Products'',
        \<lparr>ut_Config = test_Config\<lparr>c_UserAgent := [\<lparr>p_Name = ''first'', p_Version = ''1.2.3'', p_Comment = []\<rparr>,
              \<lparr>p_Name = ''second'', p_Version = ''1.0.2'', p_Comment = ''a comment''\<rparr>]\<rparr>,
         ut_Context = None,
         ut_EnvironmentVariables = [],
         ut_ExpectedUserAgent = sdk @ '' first/1.2.3 second/1.0.2 (a comment)''\<rparr>)]"

definition user_agent_test_cases_2 :: "string \<Rightarrow> (string \<times> UserAgentTestCase) list" where
  "user_agent_test_cases_2 sdk =
     [(''APN and User-Agent Products'',
        \<lparr>ut_Config = test_Config\<lparr>c_APNInfo := Some \<lparr>apn_PartnerName = ''partner'',
             apn_Products = [\<lparr>p_Name = ''first'', p_Version = ''1.2.3'', p_Comment = []\<rparr>,
                             \<lparr>p_Name = ''second'', p_Version = ''1.0.2'', p_Comment = ''a comment''\<rparr>]\<rparr>,
           c_UserAgent := [\<lparr>p_Name = ''third'', p_Version = ''4.5.6'', p_Comment = []\<rparr>,
              \<lparr>p_Name = ''fourth'', p_Version = ''2.1'', p_Comment = []\<rparr>]\<rparr>,
         ut_Context = None,
         ut_EnvironmentVariables = [],
         ut_ExpectedUserAgent = ''APN/1.0 partner/1.0 first/1.2.3 second/1.0.2 (a comment) '' @ sdk @ '' third/4.5.6 fourth/2.1''\<rparr>),
      (''context'',
        \<lparr>ut_Config = test_Config,
         ut_Context = Some [\<lparr>p_Name = ''first'', p_Version = ''1.2.3'', p_Comment = []\<rparr>,
              \<lparr>p_Name = ''second'', p_Version = ''1.0.2'', p_Comment = ''a comment''\<rparr>],
         ut_EnvironmentVariables = [],
         ut_ExpectedUserAgent = sdk @ '' first/1.2.3 second/1.0.2 (a comment)''\<rparr>),
      (''User-Agent Products and context'',
        \<lparr>ut_Config = test_Config\<lparr>c_UserAgent := [\<lparr>p_Name = ''first'', p_Version = ''1.2.3'', p_Comment = []\<rparr>,
              \<lparr>p_Name = ''second'', p_Version = ''1.0.2'', p_Comment = ''a comment''\<rparr>]\<rparr>,
         ut_Context = Some [\<lparr>p_Name = ''third'', p_Version = ''4.5.6'', p_Comment = []\<rparr>,
              \<lparr>p_Name = ''fourth'', p_Version = ''2.1'', p_Comment = []\<rparr>],
         ut_EnvironmentVariables = [],
         ut_ExpectedUserAgent = sdk @ '' first/1.2.3 second/1.0.2 (a comment) third/4.5.6 fourth/2.1''\<rparr>)]"

definition user_agent_test_cases :: "string \<Rightarrow> (string \<times> UserAgentTestCase) list" where
  "user_agent_test_cases sdk = user_agent_test_cases_1 sdk @ user_agent_test_cases_2 sdk"

section \<open>The set-up of a case\<close>

definition user_agent_test_env :: "UserAgentTestCase \<Rightarrow> test \<Rightarrow> test option" where
  "user_agent_test_env tc t =
     map_option (\<lambda>t. t\<lparr>t_env := foldl (\<lambda>es (k, v). Setenv_ignored k v es) (t_env t) (ut_EnvironmentVariables tc)\<rparr>)
       (InitSessionTestEnv t)"

definition user_agent_test_config :: "UserAgentTestCase \<Rightarrow> Config" where
  "user_agent_test_config tc = (ut_Config tc)\<lparr>c_SkipCredsValidation := True\<rparr>"

section \<open>Both libraries pass\<close>

text \<open>The parts of the header in a case, as both libraries compose them.\<close>

definition case_parts :: "string \<Rightarrow> UserAgentTestCase \<Rightarrow> string list" where
  "case_parts sdk tc =
     (let build = (\<lambda>cs. Join '' '' (map call_text cs)); c = ut_Config tc
      in (case c_APNInfo c of None \<Rightarrow> [] | Some apn \<Rightarrow> [APN_BuildUserAgentString build apn]) @
         [sdk] @
         (if c_UserAgent c = [] then [] else [BuildUserAgentString build (c_UserAgent c)]) @
         nonempty (BuildFromContext build (ut_Context tc)) @
         map snd (ut_EnvironmentVariables tc))"

definition parts_ok :: "string \<Rightarrow> UserAgentTestCase \<Rightarrow> bool" where
  "parts_ok sdk tc \<longleftrightarrow>
     (let build = (\<lambda>cs. Join '' '' (map call_text cs))
      in Join '' '' (case_parts sdk tc) = ut_ExpectedUserAgent tc \<and>
         list_all (\<lambda>(k, v). k = AppendUserAgentEnvVar \<and> valid_value v \<and> v \<noteq> []) (ut_EnvironmentVariables tc) \<and>
         length (ut_EnvironmentVariables tc) \<le> 1 \<and>
         (case c_APNInfo (ut_Config tc) of None \<Rightarrow> True | Some apn \<Rightarrow> APN_BuildUserAgentString build apn \<noteq> []) \<and>
         (c_UserAgent (ut_Config tc) = [] \<or> BuildUserAgentString build (c_UserAgent (ut_Config tc)) \<noteq> []))"

lemmas ua_eval = APN_BuildUserAgentString_def BuildUserAgentString_def buildUserAgentPart_def
  BuildFromContext_def nonempty_def valid_value_def zero_Config_def

lemma parts_ok_1: "list_all (\<lambda>(name, tc). parts_ok sdk tc) (user_agent_test_cases_1 sdk)"
  by (simp add: user_agent_test_cases_1_def parts_ok_def case_parts_def Let_def test_Config_def ua_eval)

lemma parts_ok_2: "list_all (\<lambda>(name, tc). parts_ok sdk tc) (user_agent_test_cases_2 sdk)"
  by (simp add: user_agent_test_cases_2_def parts_ok_def case_parts_def Let_def test_Config_def ua_eval)

lemma user_agent_cases_ok: "(name, tc) \<in> set (user_agent_test_cases sdk) \<Longrightarrow> parts_ok sdk tc"
  using parts_ok_1 [of sdk] parts_ok_2 [of sdk] by (auto simp: user_agent_test_cases_def list_all_iff)

lemma test_env_append:
  assumes "user_agent_test_env tc t = Some t'" and "parts_ok sdk tc"
  shows "nonempty (Getenv (t_env t') AppendUserAgentEnvVar) = map snd (ut_EnvironmentVariables tc)"
proof -
  have key: "valid_key AppendUserAgentEnvVar" by (simp add: AppendUserAgentEnvVar_def valid_key_def)
  have none: "Getenv session_env AppendUserAgentEnvVar = []"
    by (simp add: session_env_def AppendUserAgentEnvVar_def Getenv_def LookupEnv_def del: put_entry.simps)
      (simp add: entry_of_def has_key_def)
  from assms(1) have e: "t_env t' = foldl (\<lambda>es (k, v). Setenv_ignored k v es) session_env (ut_EnvironmentVariables tc)"
    by (auto simp: user_agent_test_env_def InitSessionTestEnv_eq)
  show ?thesis
  proof (cases "ut_EnvironmentVariables tc")
    case Nil
    with e none show ?thesis by (simp add: nonempty_def)
  next
    case (Cons kv kvs)
    with assms(2) obtain v where "ut_EnvironmentVariables tc = [(AppendUserAgentEnvVar, v)]" "valid_value v" "v \<noteq> []"
      by (cases kv) (auto simp: parts_ok_def Let_def)
    with e key show ?thesis by (simp add: Setenv_ignored_def Setenv_Inr nonempty_def)
  qed
qed

lemma case_parts_expected:
  assumes "dp_Build D = (\<lambda>cs. Join '' '' (map call_text cs))" and "sdk \<noteq> []"
    and "parts_ok sdk tc" and "user_agent_test_env tc t = Some t'"
  shows "expected_user_agent D (Getenv (t_env t')) (user_agent_test_config tc) (ut_Context tc) sdk = case_parts sdk tc"
    and "v1_expected_user_agent D (Getenv (t_env t')) (user_agent_test_config tc) (ut_Context tc) [sdk] = case_parts sdk tc"
  using test_env_append [OF assms(4,3)] assms(1,2)
  by (simp_all add: expected_user_agent_def v1_expected_user_agent_def case_parts_def user_agent_test_config_def
      nonempty_def Let_def split: option.split)

text \<open>C39: Both libraries pass every case of the shared user agent test. In the environment the test sets
  up, whatever the environment of the process, the build step of the SDK v2 configuration turns the
  SDK's own header into the expected one, and the build handlers of a v1 session whose own handler
  writes the SDK's user agent produce the same one from an empty header.\<close>

theorem user_agent_table_passes:
  assumes "dp_Build D = (\<lambda>cs. Join '' '' (map call_text cs))" and "sdk \<noteq> []"
    and "(name, tc) \<in> set (user_agent_test_cases sdk)" and "user_agent_test_env tc t = Some t'"
    and v2: "header_Get h ''User-Agent'' = sdk"
    and v1: "header_Get h1 ''User-Agent'' = []"
      "GetSession D pooled NewS MaxA (Getenv (t_env t')) awsC (user_agent_test_config tc) = Ret (Some sess, ds)"
      "\<And>options s0. NewS options = Inr s0 \<Longrightarrow> se_Build s0 = [SDKHandler i]" "sdk_part i = sdk"
  shows "(\<exists>h'. build_step (dp_Build D) (ut_Context tc)
        (api_options D (Getenv (t_env t')) (user_agent_test_config tc)) final (Some h) = final (Some h') \<and>
      header_Get h' ''User-Agent'' = ut_ExpectedUserAgent tc) \<and>
    header_Get (run_build (dp_Build D) sdk_part (ut_Context tc) (se_Build sess) h1) ''User-Agent'' =
      ut_ExpectedUserAgent tc"
proof -
  let ?env = "Getenv (t_env t')" and ?c = "user_agent_test_config tc"
  have ok: "parts_ok sdk tc" using assms(3) by (rule user_agent_cases_ok)
  note parts = case_parts_expected [OF assms(1,2) ok assms(4)]
  have join: "Join '' '' (case_parts sdk tc) = ut_ExpectedUserAgent tc"
    using ok by (simp add: parts_ok_def Let_def)
  have ne: "c_APNInfo ?c = Some apn \<Longrightarrow> APN_BuildUserAgentString (dp_Build D) apn \<noteq> []"
    "c_UserAgent ?c \<noteq> [] \<Longrightarrow> BuildUserAgentString (dp_Build D) (c_UserAgent ?c) \<noteq> []" for apn
    using ok by (auto simp: parts_ok_def user_agent_test_config_def assms(1) Let_def)
  obtain h' where "build_step (dp_Build D) (ut_Context tc) (api_options D ?env ?c) final (Some h) = final (Some h')"
    "header_Get h' ''User-Agent'' = ut_ExpectedUserAgent tc"
    using api_options_header [OF ne, of ?env "ut_Context tc" h] v2
    by (auto simp: build_step_header ua_parts_def parts(1) join)
  moreover have "ua_parts (v1_expected_user_agent D ?env ?c (ut_Context tc) (map sdk_part [i]))
      (run_build (dp_Build D) sdk_part (ut_Context tc) (se_Build sess) h1)"
    by (rule session_ua_parts [OF v1(2) _ _ ne v1(1)]) (use v1(3,4) assms(2) in auto)
  then have "header_Get (run_build (dp_Build D) sdk_part (ut_Context tc) (se_Build sess) h1) ''User-Agent'' =
      ut_ExpectedUserAgent tc"
    using v1(4) parts(2) join by (simp add: ua_parts_def)
  ultimately show ?thesis by blast
qed

lemma user_agent_table_passes_witness:
  "\<exists>tc t' sess ds h'. (''customized User-Agent TF_APPEND_USER_AGENT product'', tc) \<in> set (user_agent_test_cases ''sdk/1'') \<and>
     user_agent_test_env tc \<lparr>t_env = [''TF_APPEND_USER_AGENT=outside''], t_cleanups = []\<rparr> = Some t' \<and>
     build_step (dp_Build sample_aws_deps) None
       (api_options sample_aws_deps (Getenv (t_env t')) (user_agent_test_config tc)) Inr
       (Some [''User-Agent'' \<mapsto> [''sdk/1'']]) = Inr (Some h') \<and>
     header_Get h' ''User-Agent'' = ''sdk/1 Env'' \<and>
     header_Get (run_build (dp_Build sample_aws_deps) (\<lambda>i. ''sdk/1'') None (se_Build sess) Map.empty) ''User-Agent'' =
       ''sdk/1 Env'' \<and>
     GetSession sample_aws_deps \<lparr>tr_MaxIdleConnsPerHost = 0, tr_TLSClientConfig = None, tr_Proxy = None\<rparr>
       (\<lambda>opts. Inr (sample_session opts)) (\<lambda>r. 3) (Getenv (t_env t'))
       (zero_aws_config\<lparr>ac_Retryer := Some (NewStandard [])\<rparr>) (user_agent_test_config tc) = Ret (Some sess, ds)"
proof -
  let ?t = "\<lparr>t_env = [''TF_APPEND_USER_AGENT=outside''], t_cleanups = []\<rparr>"
  let ?tr = "\<lparr>tr_MaxIdleConnsPerHost = 0, tr_TLSClientConfig = None, tr_Proxy = None\<rparr>"
  let ?tc = "\<lparr>ut_Config = test_Config, ut_Context = None,
    ut_EnvironmentVariables = [(AppendUserAgentEnvVar, ''Env'')], ut_ExpectedUserAgent = ''sdk/1'' @ '' Env''\<rparr>"
  have "(''customized User-Agent TF_APPEND_USER_AGENT product'', ?tc) \<in> set (user_agent_test_cases_1 ''sdk/1'')"
    by (simp add: user_agent_test_cases_1_def)
  then have tc: "(''customized User-Agent TF_APPEND_USER_AGENT product'', ?tc) \<in> set (user_agent_test_cases ''sdk/1'')"
    by (simp add: user_agent_test_cases_def)
  obtain t' where t': "user_agent_test_env ?tc ?t = Some t'"
    by (simp add: user_agent_test_env_def InitSessionTestEnv_eq)
  obtain options where "getSessionOptions sample_aws_deps ?tr (Getenv (t_env t'))
      (zero_aws_config\<lparr>ac_Retryer := Some (NewStandard [])\<rparr>) (user_agent_test_config ?tc) = Inr options"
    by (simp add: getSessionOptions_def ResolveUseFIPSEndpoint_def ResolveUseDualStackEndpoint_def
        v1_defaultHttpClient_def session_ca_bundle_def resolveCustomCABundle_def user_agent_test_config_def
        test_Config_def sample_evaluation)
  then obtain sess ds where g: "GetSession sample_aws_deps ?tr (\<lambda>opts. Inr (sample_session opts)) (\<lambda>r. 3)
      (Getenv (t_env t')) (zero_aws_config\<lparr>ac_Retryer := Some (NewStandard [])\<rparr>) (user_agent_test_config ?tc) =
      Ret (Some sess, ds)"
    by (simp add: GetSession_def Let_def)
  have b: "dp_Build sample_aws_deps = (\<lambda>cs. Join '' '' (map call_text cs))" by (simp add: sample_aws_deps_def)
  have h: "header_Get [''User-Agent'' \<mapsto> [''sdk/1'']] ''User-Agent'' = ''sdk/1''"
    "header_Get Map.empty ''User-Agent'' = []"
    by (simp_all add: header_Get_def header_Values_def canonical_keys)
  have s: "\<And>options s0. Inr (sample_session options) = Inr s0 \<Longrightarrow> se_Build s0 = [SDKHandler 1]"
    by (simp add: sample_session_def)
  have ne: "''sdk/1'' \<noteq> []" by simp
  from user_agent_table_passes [where final = Inr and sdk_part = "\<lambda>_. ''sdk/1''" and i = 1,
      OF b ne tc t' h(1) h(2) g s refl] show ?thesis
    using tc t' g by (intro exI [of _ ?tc] exI [of _ t'] exI [of _ sess] exI [of _ ds]) auto
qed

end
