(* ===== verification/Sha1.thy ===== *)
theory Sha1
  imports Prelude "HOL-Library.Word"
begin

text \<open>
  The parts of \<open>crypto/sha1\<close> and \<open>encoding/hex\<close> that \<open>servicemocks/setup.go\<close> uses to name the token
  file of an SSO session: SHA-1 of a byte string, as it is specified in FIPS 180, on 32-bit words, and
  the lower-case hexadecimal digits of the digest. The digest of the text \<open>abc\<close> is checked against the
  value the standard gives.
\<close>

unbundle bit_operations_syntax

section \<open>SHA-1\<close>

type_synonym sha_state = "32 word \<times> 32 word \<times> 32 word \<times> 32 word \<times> 32 word"

definition sha_init :: sha_state where
  "sha_init = (0x67452301, 0xEFCDAB89, 0x98BADCFE, 0x10325476, 0xC3D2E1F0)"

definition rotl :: "nat \<Rightarrow> 32 word \<Rightarrow> 32 word" where
  "rotl n x = push_bit n x OR drop_bit (32 - n) x"

definition sha_f :: "nat \<Rightarrow> 32 word \<Rightarrow> 32 word \<Rightarrow> 32 word \<Rightarrow> 32 word" where
  "sha_f i b c d =
     (if i < 20 then (b AND c) OR (NOT b AND d)
      else if i < 40 then b XOR c XOR d
      else if i < 60 then ((b OR c) AND d) OR (b AND c)
      else b XOR c XOR d)"

definition sha_k :: "nat \<Rightarrow> 32 word" where
  "sha_k i =
     (if i < 20 then 0x5A827999 else if i < 40 then 0x6ED9EBA1 else if i < 60 then 0x8F1BBCDC else 0xCA62C1D6)"

fun sha_round :: "nat \<Rightarrow> 32 word \<Rightarrow> sha_state \<Rightarrow> sha_state" where
  "sha_round i w (a, b, c, d, e) = (rotl 5 a + sha_f i b c d + e + w + sha_k i, a, rotl 30 b, c, d)"

text \<open>
  Rounds \<open>i\<close> to \<open>i + n\<close>; the list is the window of sixteen schedule words that starts at word \<open>i\<close>.
\<close>

fun sha_rounds :: "nat \<Rightarrow> nat \<Rightarrow> 32 word list \<Rightarrow> sha_state \<Rightarrow> 32 word list \<times> sha_state" where
  "sha_rounds 0 i ws s = (ws, s)"
| "sha_rounds (Suc n) i ws s =
     (case ws of
        [] \<Rightarrow> (ws, s)
      | w # rest \<Rightarrow>
          sha_rounds n (Suc i) (rest @ [rotl 1 (w XOR ws ! 2 XOR ws ! 8 XOR ws ! 13)]) (sha_round i w s))"

definition word_of4 :: "bytes \<Rightarrow> 32 word" where
  "word_of4 cs = foldl (\<lambda>w c. push_bit 8 w OR of_int (of_char c)) 0 cs"

fun block_words :: "bytes \<Rightarrow> 32 word list" where
  "block_words (a # b # c # d # r) = word_of4 [a, b, c, d] # block_words r"
| "block_words _ = []"

definition sha_add :: "sha_state \<Rightarrow> sha_state \<Rightarrow> sha_state" where
  "sha_add s t = (case (s, t) of ((a, b, c, d, e), (a', b', c', d', e')) \<Rightarrow> (a + a', b + b', c + c', d + d', e + e'))"

definition sha_block :: "sha_state \<Rightarrow> bytes \<Rightarrow> sha_state" where
  "sha_block s blk = sha_add s (snd (sha_rounds 80 0 (block_words blk) s))"

text \<open>The blocks of 64 bytes of a padded message.\<close>

function sha_blocks :: "sha_state \<Rightarrow> bytes \<Rightarrow> sha_state" where
  "sha_blocks s m = (if length m < 64 then s else sha_blocks (sha_block s (take 64 m)) (drop 64 m))"
  by pat_completeness auto
termination
  by (relation "measure (\<lambda>(s, m). length m)") auto

declare sha_blocks.simps [simp del]

definition be64 :: "int \<Rightarrow> bytes" where
  "be64 n = map (\<lambda>i. char_of (n div 2 ^ (56 - 8 * i))) [0..<8]"

definition sha_pad :: "bytes \<Rightarrow> bytes" where
  "sha_pad m = m @ CHR 0x80 # replicate ((119 - length m mod 64) mod 64) (CHR 0x00) @ be64 (8 * int (length m))"

definition be32 :: "32 word \<Rightarrow> bytes" where
  "be32 w = map (\<lambda>i. char_of (uint (drop_bit (24 - 8 * i) w))) [0..<4]"

definition sha_bytes :: "sha_state \<Rightarrow> bytes" where
  "sha_bytes s = (case s of (a, b, c, d, e) \<Rightarrow> be32 a @ be32 b @ be32 c @ be32 d @ be32 e)"

definition sha1_Sum :: "bytes \<Rightarrow> bytes" where
  "sha1_Sum m = sha_bytes (sha_blocks sha_init (sha_pad m))"

section \<open>Hexadecimal digits\<close>

definition hex_lower :: "nat \<Rightarrow> char" where
  "hex_lower n = ''0123456789abcdef'' ! n"

definition hex_EncodeToString :: "bytes \<Rightarrow> string" where
  "hex_EncodeToString bs = concat (map (\<lambda>c. [hex_lower (of_char c div 16), hex_lower (of_char c mod 16)]) bs)"

lemma length_hex [simp]: "length (hex_EncodeToString bs) = 2 * length bs"
  by (induction bs) (simp_all add: hex_EncodeToString_def)

lemma hex_lower_range: "n < 16 \<Longrightarrow> hex_lower n \<in> set ''0123456789abcdef''"
  unfolding hex_lower_def by (rule nth_mem) simp

lemma set_hex: "set (hex_EncodeToString bs) \<subseteq> set ''0123456789abcdef''"
proof -
  have "hex_lower (of_char c div 16) \<in> set ''0123456789abcdef'' \<and> hex_lower (of_char c mod 16) \<in> set ''0123456789abcdef''"
    for c :: char
    using hex_lower_range [of "of_char c div 16"] hex_lower_range [of "of_char c mod 16"] nat_of_char_less_256 [of c]
    by (simp add: less_mult_imp_div_less)
  then show ?thesis unfolding hex_EncodeToString_def by fastforce
qed

text \<open>Different digests have different names.\<close>

lemma hex_lower_inj: "hex_lower m = hex_lower n \<Longrightarrow> m < 16 \<Longrightarrow> n < 16 \<Longrightarrow> m = n"
  by (subst nth_eq_iff_index_eq [of "''0123456789abcdef''", symmetric]) (simp_all add: hex_lower_def)

lemma hex_inj: "hex_EncodeToString as = hex_EncodeToString bs \<Longrightarrow> as = bs"
proof (induction as bs rule: list_induct2')
  case (4 x xs y ys)
  from 4(2) have hl: "hex_lower (of_char x div 16) = hex_lower (of_char y div 16)"
    "hex_lower (of_char x mod 16) = hex_lower (of_char y mod 16)" and "hex_EncodeToString xs = hex_EncodeToString ys"
    by (simp_all add: hex_EncodeToString_def)
  moreover from hl have "of_char x div 16 = (of_char y div 16 :: nat)" "of_char x mod 16 = (of_char y mod 16 :: nat)"
    using nat_of_char_less_256 [of x] nat_of_char_less_256 [of y]
    by (auto intro!: hex_lower_inj simp: less_mult_imp_div_less)
  then have "(of_char x :: nat) = of_char y" by (metis div_mult_mod_eq)
  ultimately show ?case using 4(1) by simp
qed (simp_all add: hex_EncodeToString_def)

lemma length_sha1 [simp]: "length (sha1_Sum m) = 20"
  by (simp add: sha1_Sum_def sha_bytes_def be32_def split: prod.split)

lemma sha_pad_blocks: "length (sha_pad m) mod 64 = 0"
proof -
  have "(n + 9 + (119 - n mod 64) mod 64) mod 64 = 0" for n :: nat
  proof -
    have "(n + 9 + (119 - n mod 64) mod 64) mod 64 = (n + 9 + (119 - n mod 64)) mod 64"
      by (rule mod_add_right_eq)
    also have "n + 9 + (119 - n mod 64) = 64 * (n div 64 + 2)"
    proof -
      obtain q r where n: "n = 64 * q + r" and r: "r < (64 :: nat)"
        using mult_div_mod_eq [of 64 n] mod_less_divisor [of 64 n] by (metis zero_less_numeral)
      then have "n div 64 = q" "n mod 64 = r" by simp_all
      with n r show ?thesis by simp
    qed
    finally show ?thesis by simp
  qed
  from this [of "length m"] show ?thesis by (simp add: sha_pad_def be64_def ac_simps)
qed

section \<open>A test vector of the standard\<close>

lemma abc_rounds_0:
  "sha_rounds 10 0 [1633837952, 0, 0, 0, 0, 0, 0, 0, 0, 0, 0, 0, 0, 0, 0, 24] (1732584193, 4023233417, 2562383102, 271733878, 3285377520) =
     ([0, 0, 0, 0, 0, 24, 3267675904, 0, 48, 2240384513, 0, 96, 185801731, 48, 2240384705, 371603462], (2203187497, 1265296168, 664994293, 1716489264, 267514512))"
  by code_simp

lemma abc_rounds_10:
  "sha_rounds 10 10 [0, 0, 0, 0, 0, 24, 3267675904, 0, 48, 2240384513, 0, 96, 185801731, 48, 2240384705, 371603462] (2203187497, 1265296168, 664994293, 1716489264, 267514512) =
     ([0, 96, 185801731, 48, 2240384705, 371603462, 0, 384, 743206924, 240, 2477765895, 1486413896, 2392494594, 1536, 2972827888, 371604422], (4254997885, 3697578013, 548051402, 3550778888, 3358553483))"
  by code_simp

lemma abc_rounds_20:
  "sha_rounds 10 20 [0, 96, 185801731, 48, 2240384705, 371603462, 0, 384, 743206924, 240, 2477765895, 1486413896, 2392494594, 1536, 2972827888, 371604422] (4254997885, 3697578013, 548051402, 3550778888, 3358553483) =
     ([2477765895, 1486413896, 2392494594, 1536, 2972827888, 371604422, 1321128990, 1650688161, 371603462, 6336, 3537975492, 3840, 989548665, 2307785957, 3803855915, 24768], (3321605981, 2205201710, 3534361445, 1871544053, 303058665))"
  by code_simp

lemma abc_rounds_30:
  "sha_rounds 10 30 [2477765895, 1486413896, 2392494594, 1536, 2972827888, 371604422, 1321128990, 1650688161, 371603462, 6336, 3537975492, 3840, 989548665, 2307785957, 3803855915, 24768] (3321605981, 2205201710, 3534361445, 1871544053, 303058665) =
     ([3537975492, 3840, 989548665, 2307785957, 3803855915, 24768, 87701453, 1950713159, 3667138029, 641206806, 1650688929, 1321161950, 943043659, 62976, 512018339, 2564836760], (853417146, 1285055493, 4145604047, 64243702, 4147047474))"
  by code_simp

lemma abc_rounds_40:
  "sha_rounds 10 40 [3537975492, 3840, 989548665, 2307785957, 3803855915, 24768, 87701453, 1950713159, 3667138029, 641206806, 1650688929, 1321161950, 943043659, 62976, 512018339, 2564836760] (853417146, 1285055493, 4145604047, 64243702, 4147047474) =
     ([1650688929, 1321161950, 943043659, 62976, 512018339, 2564836760, 1696405152, 1650822305, 1166361814, 1146637495, 2074109465, 1669377698, 182801001, 1652246945, 2094292125, 983040], (302461381, 3136525111, 2947236018, 671539483, 2266265724))"
  by code_simp

lemma abc_rounds_50:
  "sha_rounds 10 50 [1650688929, 1321161950, 943043659, 62976, 512018339, 2564836760, 1696405152, 1650822305, 1166361814, 1146637495, 2074109465, 1669377698, 182801001, 1652246945, 2094292125, 983040] (302461381, 3136525111, 2947236018, 671539483, 2266265724) =
     ([2074109465, 1669377698, 182801001, 1652246945, 2094292125, 983040, 4216354106, 3966199272, 3124505570, 6340608, 976735493, 1166362356, 3092880854, 940186150, 31465987, 3888919638], (1062395482, 165119485, 882425812, 4061233743, 3617133995))"
  by code_simp

lemma abc_rounds_60:
  "sha_rounds 10 60 [2074109465, 1669377698, 182801001, 1652246945, 2094292125, 983040, 4216354106, 3966199272, 3124505570, 6340608, 976735493, 1166362356, 3092880854, 940186150, 31465987, 3888919638] (1062395482, 165119485, 882425812, 4061233743, 3617133995) =
     ([976735493, 1166362356, 3092880854, 940186150, 31465987, 3888919638, 3873835881, 16124416, 1469443919, 2184054905, 2119662818, 133112067, 2235885893, 3946437304, 3255146778, 2158938979], (1059424450, 1232114624, 3728167754, 51346605, 1141216638))"
  by code_simp

lemma abc_rounds_70:
  "sha_rounds 10 70 [976735493, 1166362356, 3092880854, 940186150, 31465987, 3888919638, 3873835881, 16124416, 1469443919, 2184054905, 2119662818, 133112067, 2235885893, 3946437304, 3255146778, 2158938979] (1059424450, 1232114624, 3728167754, 51346605, 1141216638) =
     ([2119662818, 133112067, 2235885893, 3946437304, 3255146778, 2158938979, 2105854536, 2068421474, 2390757544, 1264290423, 840349338, 84404365, 1885073046, 1623260928, 2726519504, 497465629], (1112808245, 1463342561, 562251891, 1746824694, 3640522413))"
  by code_simp

lemma sha_rounds_add:
  "sha_rounds (m + n) i ws s = (case sha_rounds m i ws s of (ws', s') \<Rightarrow> sha_rounds n (i + m) ws' s')"
  if "ws \<noteq> []"
  using that
proof (induction m arbitrary: i ws s)
  case (Suc m)
  then obtain w rest where "ws = w # rest" by (cases ws) auto
  then show ?case using Suc.IH [of "rest @ [rotl 1 (w XOR ws ! 2 XOR ws ! 8 XOR ws ! 13)]" "Suc i" "sha_round i w s"] by simp
qed simp

lemma sha_rounds_10:
  "n = 10 + k \<Longrightarrow> sha_rounds 10 i (w # ws) s = (ws', s') \<Longrightarrow> sha_rounds n i (w # ws) s = sha_rounds k (i + 10) ws' s'"
  using sha_rounds_add [of "w # ws" 10 k i s] by simp

lemma abc_rounds:
  "sha_rounds 80 0 [1633837952, 0, 0, 0, 0, 0, 0, 0, 0, 0, 0, 0, 0, 0, 0, 24] sha_init =
     ([2119662818, 133112067, 2235885893, 3946437304, 3255146778, 2158938979, 2105854536, 2068421474, 2390757544, 1264290423, 840349338, 84404365, 1885073046, 1623260928, 2726519504, 497465629], (1112808245, 1463342561, 562251891, 1746824694, 3640522413))"
proof -
  have "sha_rounds 80 0 [1633837952, 0, 0, 0, 0, 0, 0, 0, 0, 0, 0, 0, 0, 0, 0, 24] (1732584193, 4023233417, 2562383102, 271733878, 3285377520) =
      sha_rounds 70 10 [0, 0, 0, 0, 0, 24, 3267675904, 0, 48, 2240384513, 0, 96, 185801731, 48, 2240384705, 371603462] (2203187497, 1265296168, 664994293, 1716489264, 267514512)"
    using sha_rounds_10 [of 80 70, OF _ abc_rounds_0] by (simp del: sha_rounds.simps)
  also have "\<dots> =
      sha_rounds 60 20 [0, 96, 185801731, 48, 2240384705, 371603462, 0, 384, 743206924, 240, 2477765895, 1486413896, 2392494594, 1536, 2972827888, 371604422] (4254997885, 3697578013, 548051402, 3550778888, 3358553483)"
    using sha_rounds_10 [of 70 60, OF _ abc_rounds_10] by (simp del: sha_rounds.simps)
  also have "\<dots> =
      sha_rounds 50 30 [2477765895, 1486413896, 2392494594, 1536, 2972827888, 371604422, 1321128990, 1650688161, 371603462, 6336, 3537975492, 3840, 989548665, 2307785957, 3803855915, 24768] (3321605981, 2205201710, 3534361445, 1871544053, 303058665)"
    using sha_rounds_10 [of 60 50, OF _ abc_rounds_20] by (simp del: sha_rounds.simps)
  also have "\<dots> =
      sha_rounds 40 40 [3537975492, 3840, 989548665, 2307785957, 3803855915, 24768, 87701453, 1950713159, 3667138029, 641206806, 1650688929, 1321161950, 943043659, 62976, 512018339, 2564836760] (853417146, 1285055493, 4145604047, 64243702, 4147047474)"
    using sha_rounds_10 [of 50 40, OF _ abc_rounds_30] by (simp del: sha_rounds.simps)
  also have "\<dots> =
      sha_rounds 30 50 [1650688929, 1321161950, 943043659, 62976, 512018339, 2564836760, 1696405152, 1650822305, 1166361814, 1146637495, 2074109465, 1669377698, 182801001, 1652246945, 2094292125, 983040] (302461381, 3136525111, 2947236018, 671539483, 2266265724)"
    using sha_rounds_10 [of 40 30, OF _ abc_rounds_40] by (simp del: sha_rounds.simps)
  also have "\<dots> =
      sha_rounds 20 60 [2074109465, 1669377698, 182801001, 1652246945, 2094292125, 983040, 4216354106, 3966199272, 3124505570, 6340608, 976735493, 1166362356, 3092880854, 940186150, 31465987, 3888919638] (1062395482, 165119485, 882425812, 4061233743, 3617133995)"
    using sha_rounds_10 [of 30 20, OF _ abc_rounds_50] by (simp del: sha_rounds.simps)
  also have "\<dots> =
      sha_rounds 10 70 [976735493, 1166362356, 3092880854, 940186150, 31465987, 3888919638, 3873835881, 16124416, 1469443919, 2184054905, 2119662818, 133112067, 2235885893, 3946437304, 3255146778, 2158938979] (1059424450, 1232114624, 3728167754, 51346605, 1141216638)"
    using sha_rounds_10 [of 20 10, OF _ abc_rounds_60] by (simp del: sha_rounds.simps)
  also have "\<dots> =
      sha_rounds 0 80 [2119662818, 133112067, 2235885893, 3946437304, 3255146778, 2158938979, 2105854536, 2068421474, 2390757544, 1264290423, 840349338, 84404365, 1885073046, 1623260928, 2726519504, 497465629] (1112808245, 1463342561, 562251891, 1746824694, 3640522413)"
    using sha_rounds_10 [of 10 0, OF _ abc_rounds_70] by (simp del: sha_rounds.simps)
  finally have "sha_rounds 80 0 [1633837952, 0, 0, 0, 0, 0, 0, 0, 0, 0, 0, 0, 0, 0, 0, 24] (1732584193, 4023233417, 2562383102, 271733878, 3285377520) =
      ([2119662818, 133112067, 2235885893, 3946437304, 3255146778, 2158938979, 2105854536, 2068421474, 2390757544, 1264290423, 840349338, 84404365, 1885073046, 1623260928, 2726519504, 497465629], (1112808245, 1463342561, 562251891, 1746824694, 3640522413))"
    by simp
  then show ?thesis by (simp add: sha_init_def)
qed

definition sha1_abc :: bytes where
  "sha1_abc = map char_of
     [0xa9, 0x99, 0x3e, 0x36, 0x47, 0x06, 0x81, 0x6a, 0xba, 0x3e, 0x25, 0x71, 0x78, 0x50, 0xc2, 0x6c,
      0x9c, 0xd0, 0xd8, 0x9d :: nat]"

lemma abc_words: "block_words (sha_pad ''abc'') = [1633837952, 0, 0, 0, 0, 0, 0, 0, 0, 0, 0, 0, 0, 0, 0, 24]"
  by code_simp

lemma abc_digest_words:
  "sha_bytes (sha_add sha_init (1112808245, 1463342561, 562251891, 1746824694, 3640522413)) = sha1_abc"
  by code_simp

lemma sha1_Sum_abc: "sha1_Sum ''abc'' = sha1_abc"
proof -
  have len: "length (sha_pad ''abc'') = 64" by (simp add: sha_pad_def be64_def)
  have "sha_blocks sha_init (sha_pad ''abc'') = sha_block sha_init (sha_pad ''abc'')"
    by (subst sha_blocks.simps, subst sha_blocks.simps) (simp add: len)
  then show ?thesis by (simp add: sha1_Sum_def sha_block_def abc_words abc_rounds abc_digest_words)
qed

end
