(* ===== verification/TestWorld.thy ===== *)
theory TestWorld
  imports TestEnv "HOL-Library.Finite_Map"
begin

text \<open>
  What the test support of the repository does to its surroundings: files, directories, listening
  servers, the environment and the state of the running test (\<open>os\<close>, \<open>path/filepath\<close>, \<open>testing\<close> and
  \<open>net/http/httptest\<close> of the standard library). A file system is a map from resolved paths to nodes.
  Every call into the operating system may fail for a reason of its own, which an environment of
  type \<open>os_env\<close> decides by the kind of the call and the number of calls before it; the random
  numbers of temporary names come from there too. A program of type \<open>world \<Rightarrow> 'a outcome \<times> world\<close>
  returns, ends its goroutine (as \<open>t.FailNow\<close> does) or panics; deferred calls run in all three cases.
\<close>

section \<open>Paths\<close>

type_synonym path = "string list"

text \<open>The path a name denotes; the working directory is the root, there are no symbolic links.\<close>

definition path_step :: "path \<Rightarrow> string \<Rightarrow> path" where
  "path_step p c = (if c = [] \<or> c = ''.'' then p else if c = ''..'' then butlast p else p @ [c])"

definition resolve :: "string \<Rightarrow> path" where
  "resolve name = foldl path_step [] (Split1 (CHR ''/'') name)"

definition path_string :: "path \<Rightarrow> string" where
  "path_string p = concat (map (\<lambda>c. ''/'' @ c) p)"

text \<open>\<open>filepath.Join\<close> joins the non-empty elements and cleans the result; for an absolute path.\<close>

definition filepath_Join :: "string list \<Rightarrow> string" where
  "filepath_Join elems = path_string (resolve (Join ''/'' (filter (\<lambda>e. e \<noteq> []) elems)))"

text \<open>The function \<open>joinPath\<close> of \<open>os/tempfile.go\<close>.\<close>

definition joinPath :: "string \<Rightarrow> string \<Rightarrow> string" where
  "joinPath dir name = (if dir \<noteq> [] \<and> last dir = CHR ''/'' then dir @ name else dir @ ''/'' @ name)"

definition ok_comp :: "string \<Rightarrow> bool" where
  "ok_comp c \<longleftrightarrow> c \<noteq> [] \<and> c \<noteq> ''.'' \<and> c \<noteq> ''..'' \<and> CHR ''/'' \<notin> set c"

lemma path_step_ok: "ok_comp c \<Longrightarrow> path_step p c = p @ [c]"
  by (simp add: path_step_def ok_comp_def)

lemma resolve_append: "resolve (d @ CHR ''/'' # n) = foldl path_step (resolve d) (Split1 (CHR ''/'') n)"
  by (simp add: resolve_def Split1_append_sep)

lemma resolve_child: "ok_comp n \<Longrightarrow> resolve (d @ CHR ''/'' # n) = resolve d @ [n]"
  by (simp add: resolve_append ok_comp_def Split1_no_sep path_step_def)

lemma resolve_trailing_slash: "resolve (d @ [CHR ''/'']) = resolve d"
  by (simp add: resolve_append path_step_def)

lemma resolve_joinPath: "ok_comp n \<Longrightarrow> resolve (joinPath d n) = resolve d @ [n]"
proof (cases "d \<noteq> [] \<and> last d = CHR ''/''")
  case True
  assume n: "ok_comp n"
  from True obtain d' where d: "d = d' @ [CHR ''/'']" by (metis append_butlast_last_id)
  have "resolve (joinPath d n) = resolve (d' @ CHR ''/'' # n)" by (simp add: joinPath_def d)
  then show ?thesis by (simp only: resolve_child [OF n] d resolve_trailing_slash)
next
  case False
  assume n: "ok_comp n"
  have "joinPath d n = d @ CHR ''/'' # n" unfolding joinPath_def if_not_P [OF False] by simp
  then show ?thesis by (simp only: resolve_child [OF n])
qed

lemma foldl_path_step_ok:
  "\<forall>c \<in> set p. ok_comp c \<Longrightarrow> \<forall>c \<in> set cs. CHR ''/'' \<notin> set c \<Longrightarrow> \<forall>c \<in> set (foldl path_step p cs). ok_comp c"
proof (induction cs arbitrary: p)
  case (Cons c cs)
  have c: "ok_comp c" if "c \<noteq> []" "c \<noteq> ''.''" "c \<noteq> ''..''"
    using that Cons.prems(2) by (simp add: ok_comp_def)
  have "\<forall>c \<in> set (path_step p c). ok_comp c"
    using Cons.prems(1) c in_set_butlastD [of _ p] by (simp add: path_step_def Ball_def)
  with Cons show ?case by simp
qed simp

lemma resolve_ok: "c \<in> set (resolve n) \<Longrightarrow> ok_comp c"
  using foldl_path_step_ok [of "[]" "Split1 (CHR ''/'') n"] by (auto simp: resolve_def dest: Split1_parts)

lemma resolve_path_string: "\<forall>c \<in> set p. ok_comp c \<Longrightarrow> resolve (path_string p) = p"
proof (induction p rule: rev_induct)
  case (snoc c p)
  then show ?case using resolve_child [of c "path_string p"] by (simp add: path_string_def)
qed (simp add: resolve_def path_string_def path_step_def)

lemma resolve_filepath_Join [simp]:
  "resolve (filepath_Join elems) = resolve (Join ''/'' (filter (\<lambda>e. e \<noteq> []) elems))"
  unfolding filepath_Join_def by (rule resolve_path_string) (simp add: resolve_ok)

section \<open>File systems\<close>

datatype node = Dir | File bytes

type_synonym file_system = "(path, node) fmap"

datatype errno = ENOENT | EEXIST | ENOTDIR | EISDIR | ENOTEMPTY | EBUSY | Errno string

fun errno_text :: "errno \<Rightarrow> string" where
  "errno_text ENOENT = ''no such file or directory''"
| "errno_text EEXIST = ''file exists''"
| "errno_text ENOTDIR = ''not a directory''"
| "errno_text EISDIR = ''is a directory''"
| "errno_text ENOTEMPTY = ''directory not empty''"
| "errno_text EBUSY = ''device or resource busy''"
| "errno_text (Errno s) = s"

record PathError =
  pe_Op :: string
  pe_Path :: string
  pe_Err :: errno

definition path_error :: "PathError \<Rightarrow> go_error" where
  "path_error e = ForeignError (pe_Op e @ '' '' @ pe_Path e @ '': '' @ errno_text (pe_Err e)) []"

definition IsExist :: "PathError \<Rightarrow> bool" where
  "IsExist e \<longleftrightarrow> pe_Err e = EEXIST \<or> pe_Err e = ENOTEMPTY"

text \<open>The root exists always and is no entry of the map.\<close>

definition node_at :: "file_system \<Rightarrow> path \<Rightarrow> node option" where
  "node_at fs p = (if p = [] then Some Dir else fmlookup fs p)"

fun walk_error :: "file_system \<Rightarrow> path \<Rightarrow> path \<Rightarrow> errno option" where
  "walk_error fs pre [] = None"
| "walk_error fs pre (c # cs) =
     (case fmlookup fs (pre @ [c]) of
        None \<Rightarrow> Some ENOENT
      | Some (File data) \<Rightarrow> Some ENOTDIR
      | Some Dir \<Rightarrow> walk_error fs (pre @ [c]) cs)"

definition parent_error :: "file_system \<Rightarrow> path \<Rightarrow> errno option" where
  "parent_error fs p = walk_error fs [] (butlast p)"

definition fs_Mkdir :: "path \<Rightarrow> file_system \<Rightarrow> errno + file_system" where
  "fs_Mkdir p fs =
     (case parent_error fs p of
        Some e \<Rightarrow> Inl e
      | None \<Rightarrow> if node_at fs p \<noteq> None then Inl EEXIST else Inr (fmupd p Dir fs))"

text \<open>Opening for writing with \<open>O_CREATE\<close>: with \<open>O_EXCL\<close> the name must be new, otherwise (\<open>O_TRUNC\<close>)
  an existing file is emptied.\<close>

definition fs_Open :: "bool \<Rightarrow> path \<Rightarrow> file_system \<Rightarrow> errno + file_system" where
  "fs_Open excl p fs =
     (case parent_error fs p of
        Some e \<Rightarrow> Inl e
      | None \<Rightarrow>
          (case node_at fs p of
             None \<Rightarrow> Inr (fmupd p (File []) fs)
           | Some Dir \<Rightarrow> Inl (if excl then EEXIST else EISDIR)
           | Some (File data) \<Rightarrow> if excl then Inl EEXIST else Inr (fmupd p (File []) fs)))"

definition fs_append :: "path \<Rightarrow> bytes \<Rightarrow> file_system \<Rightarrow> file_system" where
  "fs_append p s fs = (case fmlookup fs p of Some (File data) \<Rightarrow> fmupd p (File (data @ s)) fs | _ \<Rightarrow> fs)"

text \<open>\<open>os.Remove\<close> unlinks a file or removes an empty directory.\<close>

definition empty_dir :: "path \<Rightarrow> file_system \<Rightarrow> bool" where
  "empty_dir p fs \<longleftrightarrow> fBall (fmdom fs) (\<lambda>q. q = [] \<or> butlast q \<noteq> p)"

definition fs_Remove :: "path \<Rightarrow> file_system \<Rightarrow> errno + file_system" where
  "fs_Remove p fs =
     (case parent_error fs p of
        Some e \<Rightarrow> Inl e
      | None \<Rightarrow>
          (case node_at fs p of
             None \<Rightarrow> Inl ENOENT
           | Some (File data) \<Rightarrow> Inr (fmdrop p fs)
           | Some Dir \<Rightarrow>
               if p = [] then Inl EBUSY
               else if \<not> empty_dir p fs then Inl ENOTEMPTY
               else Inr (fmdrop p fs)))"

definition fs_RemoveAll :: "path \<Rightarrow> file_system \<Rightarrow> file_system" where
  "fs_RemoveAll p fs = fmfilter (\<lambda>q. \<not> prefix p q) fs"

section \<open>The world of a test\<close>

datatype os_op = OpMkdir | OpOpen | OpWrite | OpClose | OpRemove | OpRemoveAll

text \<open>
  \<open>os_fault op n\<close> is the failure the system imposes on the \<open>n\<close>-th call, of kind \<open>op\<close>; of a failing
  write the first bytes, as many as the number says, still reach the file. \<open>os_random\<close> gives the
  random numbers, \<open>os_url\<close> the address of the server started at a time, \<open>os_expiry\<close> the time fifteen
  minutes later as \<open>time.RFC3339\<close> prints it.
\<close>

record os_env =
  os_fault :: "os_op \<Rightarrow> nat \<Rightarrow> (errno \<times> nat) option"
  os_random :: "nat \<Rightarrow> nat"
  os_url :: "nat \<Rightarrow> string"
  os_expiry :: "nat \<Rightarrow> string"
  os_GOOS :: string

text \<open>
  \<open>w_open\<close> are the names of the files opened and not closed, \<open>w_servers\<close> the URLs of the servers
  that listen, \<open>w_tempdirs\<close> the directories that clean-ups of \<open>t.TempDir\<close> remove. These clean-ups
  are kept apart from those of \<open>w_test\<close>, which only touch the environment. \<open>w_driver\<close> is the state
  of the code under test.
\<close>

record 'c world =
  w_test :: test
  w_fs :: file_system
  w_clock :: nat
  w_open :: "string list"
  w_servers :: "string list"
  w_tempdirs :: "string list"
  w_log :: "string list"
  w_failed :: bool
  w_skipped :: bool
  w_driver :: 'c

definition tick :: "'c world \<Rightarrow> 'c world" where
  "tick w = w\<lparr>w_clock := Suc (w_clock w)\<rparr>"

definition os_Getenv :: "string \<Rightarrow> 'c world \<Rightarrow> string" where
  "os_Getenv k w = Getenv (t_env (w_test w)) k"

section \<open>Calls of the os package\<close>

text \<open>A call that changes the file system, by name.\<close>

definition fs_call ::
    "os_env \<Rightarrow> os_op \<Rightarrow> string \<Rightarrow> string \<Rightarrow> (path \<Rightarrow> file_system \<Rightarrow> errno + file_system) \<Rightarrow> 'c world \<Rightarrow>
     PathError option \<times> 'c world" where
  "fs_call E op opname name f w =
     (case os_fault E op (w_clock w) of
        Some (e, n) \<Rightarrow> (Some \<lparr>pe_Op = opname, pe_Path = name, pe_Err = e\<rparr>, tick w)
      | None \<Rightarrow>
          (case f (resolve name) (w_fs w) of
             Inl e \<Rightarrow> (Some \<lparr>pe_Op = opname, pe_Path = name, pe_Err = e\<rparr>, tick w)
           | Inr fs \<Rightarrow> (None, (tick w)\<lparr>w_fs := fs\<rparr>)))"

definition os_Mkdir :: "os_env \<Rightarrow> string \<Rightarrow> 'c world \<Rightarrow> PathError option \<times> 'c world" where
  "os_Mkdir E name = fs_call E OpMkdir ''mkdir'' name fs_Mkdir"

definition os_OpenFile :: "os_env \<Rightarrow> bool \<Rightarrow> string \<Rightarrow> 'c world \<Rightarrow> PathError option \<times> 'c world" where
  "os_OpenFile E excl name w =
     (case fs_call E OpOpen ''open'' name (fs_Open excl) w of
        (Some e, w) \<Rightarrow> (Some e, w)
      | (None, w) \<Rightarrow> (None, w\<lparr>w_open := name # w_open w\<rparr>))"

definition os_Create :: "os_env \<Rightarrow> string \<Rightarrow> 'c world \<Rightarrow> PathError option \<times> 'c world" where
  "os_Create E = os_OpenFile E False"

text \<open>A write to an open file, at the end of what was written before.\<close>

definition file_Write :: "os_env \<Rightarrow> string \<Rightarrow> bytes \<Rightarrow> 'c world \<Rightarrow> PathError option \<times> 'c world" where
  "file_Write E name data w =
     (case os_fault E OpWrite (w_clock w) of
        Some (e, n) \<Rightarrow>
          (Some \<lparr>pe_Op = ''write'', pe_Path = name, pe_Err = e\<rparr>,
           (tick w)\<lparr>w_fs := fs_append (resolve name) (take n data) (w_fs w)\<rparr>)
      | None \<Rightarrow> (None, (tick w)\<lparr>w_fs := fs_append (resolve name) data (w_fs w)\<rparr>))"

definition file_Close :: "os_env \<Rightarrow> string \<Rightarrow> 'c world \<Rightarrow> PathError option \<times> 'c world" where
  "file_Close E name w =
     (map_option (\<lambda>(e, n). \<lparr>pe_Op = ''close'', pe_Path = name, pe_Err = e\<rparr>) (os_fault E OpClose (w_clock w)),
      (tick w)\<lparr>w_open := remove1 name (w_open w)\<rparr>)"

text \<open>\<open>os.WriteFile\<close> reports the error of the write, or else that of the close.\<close>

definition os_WriteFile :: "os_env \<Rightarrow> string \<Rightarrow> bytes \<Rightarrow> 'c world \<Rightarrow> PathError option \<times> 'c world" where
  "os_WriteFile E name data w =
     (case os_OpenFile E False name w of
        (Some e, w) \<Rightarrow> (Some e, w)
      | (None, w) \<Rightarrow>
          (case file_Write E name data w of
             (err, w) \<Rightarrow>
               (case file_Close E name w of
                  (err1, w) \<Rightarrow> (if err1 \<noteq> None \<and> err = None then err1 else err, w))))"

definition os_Remove :: "os_env \<Rightarrow> string \<Rightarrow> 'c world \<Rightarrow> PathError option \<times> 'c world" where
  "os_Remove E name = fs_call E OpRemove ''remove'' name fs_Remove"

definition os_RemoveAll :: "os_env \<Rightarrow> string \<Rightarrow> 'c world \<Rightarrow> PathError option \<times> 'c world" where
  "os_RemoveAll E name = fs_call E OpRemoveAll ''unlinkat'' name (\<lambda>p fs. Inr (fs_RemoveAll p fs))"

text \<open>\<open>os.MkdirAll\<close> creates the missing parents first; the list is the path, its last component first.\<close>

fun mkdir_all :: "os_env \<Rightarrow> string list \<Rightarrow> 'c world \<Rightarrow> PathError option \<times> 'c world" where
  "mkdir_all E [] w = (None, w)"
| "mkdir_all E (c # up) w =
     (let p = rev (c # up) in
      case fmlookup (w_fs w) p of
        Some Dir \<Rightarrow> (None, w)
      | Some (File data) \<Rightarrow> (Some \<lparr>pe_Op = ''mkdir'', pe_Path = path_string p, pe_Err = ENOTDIR\<rparr>, w)
      | None \<Rightarrow>
          (case mkdir_all E up w of
             (Some e, w) \<Rightarrow> (Some e, w)
           | (None, w) \<Rightarrow>
               (case os_Mkdir E (path_string p) w of
                  (None, w) \<Rightarrow> (None, w)
                | (Some e, w) \<Rightarrow> (if fmlookup (w_fs w) p = Some Dir then None else Some e, w))))"

definition os_MkdirAll :: "os_env \<Rightarrow> string \<Rightarrow> 'c world \<Rightarrow> PathError option \<times> 'c world" where
  "os_MkdirAll E name = mkdir_all E (rev (resolve name))"

subsection \<open>Temporary files and directories\<close>

definition os_TempDir :: "'c world \<Rightarrow> string" where
  "os_TempDir w = (let dir = os_Getenv ''TMPDIR'' w in if dir = [] then ''/tmp'' else dir)"

definition nextRandom :: "os_env \<Rightarrow> 'c world \<Rightarrow> string" where
  "nextRandom E w = Itoa (os_random E (w_clock w) mod 2 ^ 32)"

text \<open>A pattern is cut at its last star.\<close>

definition prefixAndSuffix :: "string \<Rightarrow> (string \<times> string) option" where
  "prefixAndSuffix pattern =
     (if CHR ''/'' \<in> set pattern then None
      else case LastIndex1 (CHR ''*'') pattern of
             None \<Rightarrow> Some (pattern, [])
           | Some pos \<Rightarrow> Some (take pos pattern, drop (Suc pos) pattern))"

text \<open>The loop over random names ends after ten thousand names that exist.\<close>

fun temp_loop ::
    "(string \<Rightarrow> 'c world \<Rightarrow> PathError option \<times> 'c world) \<Rightarrow> os_env \<Rightarrow> nat \<Rightarrow> string \<Rightarrow> string \<Rightarrow> string \<Rightarrow> 'c world \<Rightarrow>
     (PathError + string) \<times> 'c world" where
  "temp_loop mk E 0 op pre suf w = (Inl \<lparr>pe_Op = op, pe_Path = pre @ ''*'' @ suf, pe_Err = EEXIST\<rparr>, w)"
| "temp_loop mk E (Suc tries) op pre suf w =
     (let name = pre @ nextRandom E w @ suf in
      case mk name (tick w) of
        (None, w) \<Rightarrow> (Inr name, w)
      | (Some e, w) \<Rightarrow> if IsExist e then temp_loop mk E tries op pre suf w else (Inl e, w))"

definition temp_tries :: nat where "temp_tries = 10000"

definition os_temp ::
    "(string \<Rightarrow> 'c world \<Rightarrow> PathError option \<times> 'c world) \<Rightarrow> os_env \<Rightarrow> string \<Rightarrow> string \<Rightarrow> 'c world \<Rightarrow>
     (PathError + string) \<times> 'c world" where
  "os_temp mk E op pattern w =
     (case prefixAndSuffix pattern of
        None \<Rightarrow> (Inl \<lparr>pe_Op = op, pe_Path = pattern, pe_Err = Errno ''pattern contains path separator''\<rparr>, w)
      | Some (pre, suf) \<Rightarrow> temp_loop mk E temp_tries op (joinPath (os_TempDir w) pre) suf w)"

text \<open>\<open>os.CreateTemp\<close> and \<open>os.MkdirTemp\<close> with the default directory.\<close>

definition os_CreateTemp :: "os_env \<Rightarrow> string \<Rightarrow> 'c world \<Rightarrow> (PathError + string) \<times> 'c world" where
  "os_CreateTemp E = os_temp (os_OpenFile E True) E ''createtemp''"

definition os_MkdirTemp :: "os_env \<Rightarrow> string \<Rightarrow> 'c world \<Rightarrow> (PathError + string) \<times> 'c world" where
  "os_MkdirTemp E = os_temp (os_Mkdir E) E ''mkdirtemp''"

section \<open>Programs that may end early\<close>

text \<open>\<open>Goexit\<close>: the goroutine of the test ended, as after \<open>t.FailNow\<close> and \<open>t.SkipNow\<close>.\<close>

datatype 'a outcome = Done 'a | Goexit | Panicked string

definition tret :: "'a \<Rightarrow> 's \<Rightarrow> 'a outcome \<times> 's" where
  "tret v s = (Done v, s)"

definition tbind :: "('s \<Rightarrow> 'a outcome \<times> 's) \<Rightarrow> ('a \<Rightarrow> 's \<Rightarrow> 'b outcome \<times> 's) \<Rightarrow> 's \<Rightarrow> 'b outcome \<times> 's" where
  "tbind m f s =
     (case m s of
        (Done v, s) \<Rightarrow> f v s
      | (Goexit, s) \<Rightarrow> (Goexit, s)
      | (Panicked p, s) \<Rightarrow> (Panicked p, s))"

text \<open>A call that returns a value and a new state.\<close>

definition tcall :: "('s \<Rightarrow> 'a \<times> 's) \<Rightarrow> 's \<Rightarrow> 'a outcome \<times> 's" where
  "tcall m s = (case m s of (v, s) \<Rightarrow> (Done v, s))"

definition tmodify :: "('s \<Rightarrow> 's) \<Rightarrow> 's \<Rightarrow> unit outcome \<times> 's" where
  "tmodify f s = (Done (), f s)"

text \<open>
  \<open>deferring d rest\<close> is a \<open>defer d()\<close> followed by the rest of the function: the deferred call runs
  however the rest ends, and calls deferred by the rest run before it.
\<close>

definition deferring :: "('s \<Rightarrow> 's) \<Rightarrow> ('s \<Rightarrow> 'a outcome \<times> 's) \<Rightarrow> 's \<Rightarrow> 'a outcome \<times> 's" where
  "deferring d rest s = (case rest s of (r, s) \<Rightarrow> (r, d s))"

definition t_Errorf :: "string \<Rightarrow> 'c world \<Rightarrow> 'c world" where
  "t_Errorf msg w = w\<lparr>w_log := w_log w @ [msg], w_failed := True\<rparr>"

definition t_Fatalf :: "string \<Rightarrow> 'c world \<Rightarrow> 'a outcome \<times> 'c world" where
  "t_Fatalf msg w = (Goexit, t_Errorf msg w)"

definition t_Skipf :: "string \<Rightarrow> 'c world \<Rightarrow> 'a outcome \<times> 'c world" where
  "t_Skipf msg w = (Goexit, w\<lparr>w_log := w_log w @ [msg], w_skipped := True\<rparr>)"

text \<open>A call that may panic and changes the state of the driver.\<close>

definition driver_call :: "('c \<Rightarrow> 'c go) \<Rightarrow> 'c world \<Rightarrow> unit outcome \<times> 'c world" where
  "driver_call f w =
     (case f (w_driver w) of
        Panic p \<Rightarrow> (Panicked p, w)
      | Ret c \<Rightarrow> (Done (), w\<lparr>w_driver := c\<rparr>))"

section \<open>The testing package\<close>

definition w_Setenv :: "string \<Rightarrow> string \<Rightarrow> 'c world \<Rightarrow> unit outcome \<times> 'c world" where
  "w_Setenv k v w =
     (case t_Setenv k v (w_test w) of
        None \<Rightarrow> t_Fatalf ''cannot set environment variable: setenv: invalid argument'' w
      | Some t \<Rightarrow> (Done (), w\<lparr>w_test := t\<rparr>))"

definition w_InitSessionTestEnv :: "'c world \<Rightarrow> unit outcome \<times> 'c world" where
  "w_InitSessionTestEnv w =
     (case InitSessionTestEnv (w_test w) of
        None \<Rightarrow> t_Fatalf ''cannot set environment variable: setenv: invalid argument'' w
      | Some t \<Rightarrow> (Done (), w\<lparr>w_test := t\<rparr>))"

text \<open>The first call of \<open>t.TempDir\<close> in a test; the pattern is made from the name of the test.\<close>

definition t_TempDir :: "os_env \<Rightarrow> string \<Rightarrow> 'c world \<Rightarrow> string outcome \<times> 'c world" where
  "t_TempDir E pattern w =
     (case os_MkdirTemp E pattern w of
        (Inl e, w) \<Rightarrow> t_Fatalf (''TempDir: '' @ err_Error (\<lambda>_. []) (path_error e)) w
      | (Inr base, w) \<Rightarrow>
          (let w = w\<lparr>w_tempdirs := base # w_tempdirs w\<rparr>;
               dir = base @ ''/001''
           in case os_Mkdir E dir w of
                (Some e, w) \<Rightarrow> t_Fatalf (''TempDir: '' @ err_Error (\<lambda>_. []) (path_error e)) w
              | (None, w) \<Rightarrow> (Done dir, w)))"

fun remove_tempdirs :: "os_env \<Rightarrow> string list \<Rightarrow> 'c world \<Rightarrow> 'c world" where
  "remove_tempdirs E [] w = w"
| "remove_tempdirs E (d # ds) w =
     (case os_RemoveAll E d w of
        (None, w) \<Rightarrow> remove_tempdirs E ds w
      | (Some e, w) \<Rightarrow>
          remove_tempdirs E ds (t_Errorf (''TempDir RemoveAll cleanup: '' @ err_Error (\<lambda>_. []) (path_error e)) w))"

text \<open>
  \<open>t.Run\<close>: the subtest has clean-ups, flags and a goroutine of its own; its clean-ups run however it
  ends, and its failure is a failure of the test. A panic ends the process after the clean-ups.
\<close>

definition t_Run :: "os_env \<Rightarrow> ('c world \<Rightarrow> unit outcome \<times> 'c world) \<Rightarrow> 'c world \<Rightarrow> unit outcome \<times> 'c world" where
  "t_Run E f w =
     (case f (w\<lparr>w_test := (w_test w)\<lparr>t_cleanups := []\<rparr>, w_tempdirs := [], w_failed := False, w_skipped := False\<rparr>) of
        (r, w1) \<Rightarrow>
          (let w2 = remove_tempdirs E (w_tempdirs w1) w1;
               w3 = w2\<lparr>w_test := \<lparr>t_env = finish_test (w_test w2), t_cleanups = t_cleanups (w_test w)\<rparr>,
                       w_tempdirs := w_tempdirs w, w_failed := w_failed w \<or> w_failed w2,
                       w_skipped := w_skipped w\<rparr>
           in (case r of Panicked p \<Rightarrow> Panicked p | _ \<Rightarrow> Done (), w3)))"

text \<open>\<open>httptest.NewServer\<close> and the \<open>Close\<close> of the server it returns.\<close>

definition NewServer :: "os_env \<Rightarrow> 'c world \<Rightarrow> string \<times> 'c world" where
  "NewServer E w = (let url = os_url E (w_clock w) in (url, (tick w)\<lparr>w_servers := url # w_servers w\<rparr>))"

definition server_Close :: "string \<Rightarrow> 'c world \<Rightarrow> 'c world" where
  "server_Close url w = w\<lparr>w_servers := remove1 url (w_servers w)\<rparr>"

section \<open>Well-formed file systems\<close>

text \<open>Every node lies in a directory.\<close>

definition wf_fs :: "file_system \<Rightarrow> bool" where
  "wf_fs fs \<longleftrightarrow> fmlookup fs [] = None \<and> (\<forall>p. fmlookup fs p \<noteq> None \<longrightarrow> node_at fs (butlast p) = Some Dir)"

lemma walk_error_Dir:
  "walk_error fs pre cs = None \<Longrightarrow> node_at fs pre = Some Dir \<Longrightarrow> node_at fs (pre @ cs) = Some Dir"
proof (induction cs arbitrary: pre)
  case (Cons c cs)
  from Cons.prems have "fmlookup fs (pre @ [c]) = Some Dir" "walk_error fs (pre @ [c]) cs = None"
    by (auto split: option.splits node.splits)
  with Cons.IH [of "pre @ [c]"] show ?case by (simp add: node_at_def)
qed simp

lemma parent_error_Dir: "parent_error fs p = None \<Longrightarrow> node_at fs (butlast p) = Some Dir"
  using walk_error_Dir [of fs "[]" "butlast p"] by (simp add: parent_error_def node_at_def)

lemma walk_error_None:
  assumes "wf_fs fs" and "node_at fs (pre @ cs) = Some Dir"
  shows "walk_error fs pre cs = None"
  using assms(2)
proof (induction cs arbitrary: pre)
  case (Cons c cs)
  have up: "node_at fs (pre @ [c] @ ds) = Some Dir \<Longrightarrow> node_at fs (pre @ [c]) = Some Dir" for ds
  proof (induction ds rule: rev_induct)
    case (snoc d ds)
    then have "fmlookup fs (pre @ [c] @ ds @ [d]) \<noteq> None" by (simp add: node_at_def)
    then have "node_at fs (butlast (pre @ [c] @ ds @ [d])) = Some Dir" using assms(1) unfolding wf_fs_def by blast
    then show ?case using snoc.IH by (simp add: butlast_append)
  qed simp
  have "fmlookup fs (pre @ [c]) = Some Dir" using up [of cs] Cons.prems by (simp add: node_at_def)
  then show ?case using Cons.IH [of "pre @ [c]"] Cons.prems by simp
qed simp

lemma parent_error_None: "wf_fs fs \<Longrightarrow> fmlookup fs p \<noteq> None \<Longrightarrow> parent_error fs p = None"
  unfolding parent_error_def by (rule walk_error_None) (auto simp: wf_fs_def)

lemma wf_nothing_below:
  assumes "wf_fs fs" and "p \<noteq> []" and "fmlookup fs p = None" and "prefix p q"
  shows "fmlookup fs q = None"
proof -
  obtain r where q: "q = p @ r" using assms(4) by (rule prefixE)
  have "fmlookup fs (p @ r) = None"
  proof (induction r rule: rev_induct)
    case (snoc c r)
    show ?case
    proof (rule ccontr)
      assume "\<not> ?case"
      then have "node_at fs (butlast (p @ r @ [c])) = Some Dir" using assms(1) unfolding wf_fs_def by blast
      then show False using snoc.IH assms(2) by (simp add: butlast_append node_at_def)
    qed
  qed (simp add: assms(3))
  then show ?thesis by (simp add: q)
qed

lemma wf_fs_upd:
  assumes "wf_fs fs" and "p \<noteq> []" and "node_at fs (butlast p) = Some Dir"
    and "x = Dir \<or> fmlookup fs p \<noteq> Some Dir"
  shows "wf_fs (fmupd p x fs)"
proof -
  have "butlast p \<noteq> p" using assms(2) by (metis append_butlast_last_id append_self_conv list.distinct(1))
  then show ?thesis using assms by (auto simp: wf_fs_def node_at_def)
qed

text \<open>What the operations do to a well-formed file system.\<close>

lemma fs_Mkdir_Inr:
  assumes "fs_Mkdir p fs = Inr fs'"
  shows "fmlookup fs p = None" and "p \<noteq> []" and "fs' = fmupd p Dir fs" and "wf_fs fs \<Longrightarrow> wf_fs fs'"
proof -
  from assms show 1: "fmlookup fs p = None" and 2: "p \<noteq> []" and 3: "fs' = fmupd p Dir fs"
    by (auto simp: fs_Mkdir_def node_at_def split: option.splits if_splits)
  show "wf_fs fs'" if "wf_fs fs"
    unfolding 3 by (rule wf_fs_upd [OF that 2]) (use assms in \<open>auto simp: fs_Mkdir_def intro: parent_error_Dir split: option.splits\<close>)
qed

lemma fs_Open_Inr:
  assumes "fs_Open excl p fs = Inr fs'"
  shows "fmlookup fs p \<noteq> Some Dir" and "excl \<Longrightarrow> fmlookup fs p = None" and "p \<noteq> []"
    and "fs' = fmupd p (File []) fs" and "wf_fs fs \<Longrightarrow> wf_fs fs'"
proof -
  from assms show 1: "fmlookup fs p \<noteq> Some Dir" and "excl \<Longrightarrow> fmlookup fs p = None" and 2: "p \<noteq> []"
    and 3: "fs' = fmupd p (File []) fs"
    by (auto simp: fs_Open_def node_at_def split: option.splits if_splits node.splits)
  show "wf_fs fs'" if "wf_fs fs"
    unfolding 3 by (rule wf_fs_upd [OF that 2]) (use assms 1 in \<open>auto simp: fs_Open_def intro: parent_error_Dir split: option.splits\<close>)
qed

lemma fs_append_File:
  "fmlookup fs p = Some (File data) \<Longrightarrow> fs_append p s fs = fmupd p (File (data @ s)) fs"
  by (simp add: fs_append_def)

lemma fs_append_other: "q \<noteq> p \<Longrightarrow> fmlookup (fs_append p s fs) q = fmlookup fs q"
  by (auto simp: fs_append_def split: option.split node.split)

lemma wf_fs_append: "wf_fs fs \<Longrightarrow> wf_fs (fs_append p s fs)"
proof -
  assume wf: "wf_fs fs"
  have "wf_fs (fmupd p (File x) fs)" if "fmlookup fs p = Some (File data)" for x data
    by (rule wf_fs_upd [OF wf]) (use wf that in \<open>auto simp: wf_fs_def\<close>)
  with wf show ?thesis by (auto simp: fs_append_def split: option.split node.split)
qed

lemma fmdrop_upd: "fmlookup fs p = None \<Longrightarrow> fmdrop p (fmupd p x fs) = fs"
  by (rule fmap_ext) auto

text \<open>A file that was created is gone after its removal, and so is a directory, if nothing is left in it.\<close>

lemma fs_Remove_created_file:
  assumes "wf_fs (fmupd p (File data) fs)" and "fmlookup fs p = None"
  shows "fs_Remove p (fmupd p (File data) fs) = Inr fs"
proof -
  have "parent_error (fmupd p (File data) fs) p = None" using assms(1) by (rule parent_error_None) simp
  moreover have "p \<noteq> []" using assms(1) by (auto simp: wf_fs_def)
  ultimately show ?thesis using assms(2) by (simp add: fs_Remove_def node_at_def fmdrop_upd)
qed

lemma empty_created_dir:
  assumes "wf_fs fs" and "fmlookup fs p = None" and "p \<noteq> []"
  shows "empty_dir p (fmupd p Dir fs)"
proof -
  have "q = [] \<or> butlast q \<noteq> p" if "fmlookup fs q \<noteq> None" for q
  proof (rule ccontr)
    assume "\<not> ?thesis"
    then have "q \<noteq> []" "butlast q = p" by auto
    moreover have "node_at fs (butlast q) = Some Dir" using that assms(1) unfolding wf_fs_def by blast
    ultimately show False using assms(2,3) by (simp add: node_at_def)
  qed
  moreover have "butlast p \<noteq> p" using assms(3) by (metis append_butlast_last_id append_self_conv list.distinct(1))
  ultimately show ?thesis by (auto simp: empty_dir_def fmlookup_dom_iff)
qed

lemma fs_Remove_created_dir:
  assumes "wf_fs fs" and "wf_fs (fmupd p Dir fs)" and "fmlookup fs p = None"
  shows "fs_Remove p (fmupd p Dir fs) = Inr fs"
proof -
  have "parent_error (fmupd p Dir fs) p = None" using assms(2) by (rule parent_error_None) simp
  moreover have ne: "p \<noteq> []" using assms(2) by (auto simp: wf_fs_def)
  ultimately show ?thesis using assms(3) empty_created_dir [OF assms(1,3) ne]
    by (simp add: fs_Remove_def node_at_def fmdrop_upd)
qed

section \<open>What the calls leave unchanged\<close>

text \<open>Only the count of system calls differs.\<close>

definition same :: "'c world \<Rightarrow> 'c world \<Rightarrow> bool" where
  "same w w' \<longleftrightarrow> (\<exists>n. w' = w\<lparr>w_clock := n\<rparr>)"

lemma same_refl [simp]: "same w w"
  unfolding same_def by (rule exI [of _ "w_clock w"]) simp

lemma same_tick [simp]: "same w (tick w)"
  by (auto simp: same_def tick_def)

lemma same_trans: "same w w' \<Longrightarrow> same w' w'' \<Longrightarrow> same w w''"
  by (auto simp: same_def)

lemma same_fields:
  assumes "same w w'"
  shows "w_fs w' = w_fs w" and "w_test w' = w_test w" and "w_open w' = w_open w" and "w_servers w' = w_servers w"
    and "w_tempdirs w' = w_tempdirs w" and "w_driver w' = w_driver w" and "w_failed w' = w_failed w" and "w_log w' = w_log w"
    and "w_skipped w' = w_skipped w"
  using assms by (auto simp: same_def)

lemma tick_fields [simp]:
  "w_fs (tick w) = w_fs w" "w_test (tick w) = w_test w" "w_open (tick w) = w_open w" "w_servers (tick w) = w_servers w"
  "w_tempdirs (tick w) = w_tempdirs w" "w_driver (tick w) = w_driver w" "w_failed (tick w) = w_failed w"
  "w_log (tick w) = w_log w" "w_skipped (tick w) = w_skipped w" "w_clock (tick w) = Suc (w_clock w)"
  by (simp_all add: tick_def)

text \<open>A failed call changes nothing; a call that succeeds changes the file system as told.\<close>

lemma fs_call_cases:
  assumes "fs_call E op opn n f w = (r, w')"
  obtains (fails) e where "r = Some e" and "same w w'"
  | (ok) fs where "r = None" and "f (resolve n) (w_fs w) = Inr fs" and "w' = (tick w)\<lparr>w_fs := fs\<rparr>"
  using assms by (auto simp: fs_call_def split: option.splits sum.splits)

lemma fs_call_ok:
  "os_fault E op (w_clock w) = None \<Longrightarrow> f (resolve n) (w_fs w) = Inr fs \<Longrightarrow>
   fs_call E op opn n f w = (None, (tick w)\<lparr>w_fs := fs\<rparr>)"
  by (simp add: fs_call_def)

lemma os_Mkdir_cases:
  assumes "os_Mkdir E n w = (r, w')"
  obtains (fails) e where "r = Some e" and "same w w'"
  | (ok) "r = None" and "fmlookup (w_fs w) (resolve n) = None" and "resolve n \<noteq> []"
      and "w' = (tick w)\<lparr>w_fs := fmupd (resolve n) Dir (w_fs w)\<rparr>"
      and "wf_fs (w_fs w) \<Longrightarrow> wf_fs (fmupd (resolve n) Dir (w_fs w))"
  using assms unfolding os_Mkdir_def
proof (cases rule: fs_call_cases)
  case (ok fs)
  with fs_Mkdir_Inr [OF ok(2)] show thesis by (intro that(2)) auto
qed (rule that(1))

lemma os_OpenFile_cases:
  assumes "os_OpenFile E excl n w = (r, w')"
  obtains (fails) e where "r = Some e" and "same w w'"
  | (ok) "r = None" and "fmlookup (w_fs w) (resolve n) \<noteq> Some Dir" and "excl \<Longrightarrow> fmlookup (w_fs w) (resolve n) = None"
      and "resolve n \<noteq> []"
      and "w' = (tick w)\<lparr>w_fs := fmupd (resolve n) (File []) (w_fs w), w_open := n # w_open w\<rparr>"
      and "wf_fs (w_fs w) \<Longrightarrow> wf_fs (fmupd (resolve n) (File []) (w_fs w))"
proof -
  obtain r1 w1 where c: "fs_call E OpOpen ''open'' n (fs_Open excl) w = (r1, w1)" by fastforce
  from c show thesis
  proof (cases rule: fs_call_cases)
    case (fails e)
    with assms c show thesis by (auto simp: os_OpenFile_def intro: that(1))
  next
    case (ok fs)
    with assms c have "r = None" "w' = w1\<lparr>w_open := n # w_open w1\<rparr>" by (auto simp: os_OpenFile_def)
    with ok fs_Open_Inr [OF ok(2)] show thesis by (intro that(2)) auto
  qed
qed

text \<open>A way to create a temporary object changes nothing when it fails.\<close>

definition fails_clean :: "(string \<Rightarrow> 'c world \<Rightarrow> PathError option \<times> 'c world) \<Rightarrow> bool" where
  "fails_clean mk \<longleftrightarrow> (\<forall>name w e w'. mk name w = (Some e, w') \<longrightarrow> same w w')"

lemma fails_clean_OpenFile: "fails_clean (os_OpenFile E excl)"
  unfolding fails_clean_def by (auto elim: os_OpenFile_cases)

lemma fails_clean_Mkdir: "fails_clean (os_Mkdir E)"
  unfolding fails_clean_def by (auto elim: os_Mkdir_cases)

lemma temp_loop_cases:
  assumes "temp_loop mk E tries op pre suf w = (r, w')"
    and fail: "fails_clean mk"
  obtains (fails) e where "r = Inl e" and "same w w'"
  | (ok) k w1 where "same w w1" and "r = Inr (pre @ Itoa k @ suf)" and "mk (pre @ Itoa k @ suf) w1 = (None, w')"
  using assms(1)
proof (induction tries arbitrary: w thesis)
  case (Suc tries)
  let ?k = "os_random E (w_clock w) mod 2 ^ 32"
  let ?name = "pre @ Itoa ?k @ suf"
  obtain e w1 where m: "mk ?name (tick w) = (e, w1)" by fastforce
  show ?case
  proof (cases e)
    case None
    with m Suc.prems(3) have "r = Inr ?name" "w' = w1" by (simp_all add: nextRandom_def Let_def)
    with m None show ?thesis by (intro Suc.prems(2) [of "tick w" ?k]) simp_all
  next
    case (Some e')
    with m fail have s: "same w w1" unfolding fails_clean_def by (metis same_tick same_trans)
    show ?thesis
    proof (cases "IsExist e'")
      case True
      with m Some Suc.prems(3) have "temp_loop mk E tries op pre suf w1 = (r, w')" by (simp add: nextRandom_def Let_def)
      then show ?thesis
        by (rule Suc.IH [rotated 2]) (use s Suc.prems(1,2) in \<open>blast intro: same_trans\<close>)+
    next
      case False
      with m Some Suc.prems(3) have "r = Inl e'" "w' = w1" by (simp_all add: nextRandom_def Let_def)
      with s show ?thesis by (intro Suc.prems(1)) simp_all
    qed
  qed
next
  case 0
  from 0(3) show ?case by (intro 0(1)) auto
qed

lemma temp_loop_first:
  "0 < tries \<Longrightarrow> mk (pre @ nextRandom E w @ suf) (tick w) = (None, w') \<Longrightarrow>
   temp_loop mk E tries op pre suf w = (Inr (pre @ nextRandom E w @ suf), w')"
  by (cases tries) (simp_all add: Let_def)

lemma os_temp_cases:
  assumes "os_temp mk E op pattern w = (r, w')"
    and fail: "fails_clean mk"
  obtains (fails) e where "r = Inl e" and "same w w'"
  | (ok) pre k suf w1 where "prefixAndSuffix pattern = Some (pre, suf)" and "same w w1"
      and "r = Inr (joinPath (os_TempDir w) (pre @ Itoa k @ suf))"
      and "mk (joinPath (os_TempDir w) (pre @ Itoa k @ suf)) w1 = (None, w')"
proof (cases "prefixAndSuffix pattern")
  case None
  with assms(1) show thesis by (auto simp: os_temp_def intro: that(1))
next
  case (Some ps)
  obtain pre suf where ps: "ps = (pre, suf)" by fastforce
  have join: "joinPath d pre @ s = joinPath d (pre @ s)" for d s by (simp add: joinPath_def)
  from assms(1) Some ps have l: "temp_loop mk E temp_tries op (joinPath (os_TempDir w) pre) suf w = (r, w')"
    by (simp add: os_temp_def)
  show thesis
  proof (cases rule: temp_loop_cases [OF l fail, case_names fails ok])
    case (fails e)
    then show thesis by (rule that(1))
  next
    case (ok k w1)
    with Some ps show thesis by (intro that(2) [of pre suf w1 k]) (simp_all add: join)
  qed
qed

lemma os_CreateTemp_cases:
  assumes "os_CreateTemp E pattern w = (r, w')"
  obtains (fails) e where "r = Inl e" and "same w w'"
  | (ok) name n where "r = Inr name" and "fmlookup (w_fs w) (resolve name) = None"
      and "w' = w\<lparr>w_clock := n, w_fs := fmupd (resolve name) (File []) (w_fs w), w_open := name # w_open w\<rparr>"
      and "wf_fs (w_fs w) \<Longrightarrow> wf_fs (fmupd (resolve name) (File []) (w_fs w))"
proof -
  show thesis
  proof (cases rule: os_temp_cases [OF assms [unfolded os_CreateTemp_def] fails_clean_OpenFile, case_names fails ok])
    case (fails e)
    then show thesis by (rule that(1))
  next
    case (ok pre k suf w1)
    from ok(2) obtain n where w1: "w1 = w\<lparr>w_clock := n\<rparr>" by (auto simp: same_def)
    from ok(4) show thesis
    proof (cases rule: os_OpenFile_cases)
      case ok': ok
      show thesis
        by (rule that(2) [of "joinPath (os_TempDir w) (pre @ Itoa k @ suf)" "Suc n"])
          (use ok ok' w1 in \<open>simp_all add: tick_def\<close>)
    qed simp
  qed
qed

lemma os_MkdirTemp_cases:
  assumes "os_MkdirTemp E pattern w = (r, w')"
  obtains (fails) e where "r = Inl e" and "same w w'"
  | (ok) name n where "r = Inr name" and "fmlookup (w_fs w) (resolve name) = None" and "resolve name \<noteq> []"
      and "w' = w\<lparr>w_clock := n, w_fs := fmupd (resolve name) Dir (w_fs w)\<rparr>"
      and "wf_fs (w_fs w) \<Longrightarrow> wf_fs (fmupd (resolve name) Dir (w_fs w))"
proof -
  show thesis
  proof (cases rule: os_temp_cases [OF assms [unfolded os_MkdirTemp_def] fails_clean_Mkdir, case_names fails ok])
    case (fails e)
    then show thesis by (rule that(1))
  next
    case (ok pre k suf w1)
    from ok(2) obtain n where w1: "w1 = w\<lparr>w_clock := n\<rparr>" by (auto simp: same_def)
    from ok(4) show thesis
    proof (cases rule: os_Mkdir_cases)
      case ok': ok
      show thesis
        by (rule that(2) [of "joinPath (os_TempDir w) (pre @ Itoa k @ suf)" "Suc n"])
          (use ok ok' w1 in \<open>simp_all add: tick_def\<close>)
    qed simp
  qed
qed

end
