(* ===== verification/TestFiles.thy ===== *)
theory TestFiles
  imports TestWorld Sha1 HttpHeader
begin

text \<open>
  The helpers of \<open>servicemocks\<close> that write files: \<open>SsoTestSetup\<close> (\<open>setup.go\<close>) puts the cached token
  of an SSO session where the SDK looks for it, in a home directory made for the test, and
  \<open>TempPEMFile\<close> (\<open>pem_file.go\<close>) writes a certificate to a temporary file. The lemmas show that all
  that \<open>SsoTestSetup\<close> leaves in the file system is below the directories that the clean-ups of the
  test remove, whichever call fails.
\<close>

section \<open>\<open>SsoTestSetup\<close>\<close>

definition ToLower :: "string \<Rightarrow> string" where
  "ToLower s = map to_lower s"

text \<open>\<open>ssoTokenCacheFile\<close> with the expiry in place of its verb.\<close>

definition ssoTokenCacheFile :: "string \<Rightarrow> string" where
  "ssoTokenCacheFile expiresAt =
     ''{'' @ NL @ [CHR 0x09] @ ''\"accessToken\": \"ssoAccessToken\",'' @ NL @
     [CHR 0x09] @ ''\"expiresAt\": \"'' @ expiresAt @ ''\"'' @ NL @ ''}''"

text \<open>The name of the file: the digest of the session name, or of the start URL, in hexadecimal.\<close>

definition cacheFilename :: "string \<Rightarrow> string" where
  "cacheFilename ssoKey = ToLower (hex_EncodeToString (sha1_Sum ssoKey)) @ ''.json''"

text \<open>
  The function deferred after the file is created: it sets the result of \<open>SsoTestSetup\<close> to the error
  of the close, if there is no other, and otherwise wraps the other error.
\<close>

definition close_result :: "PathError option \<Rightarrow> go_error option \<Rightarrow> go_error option" where
  "close_result closeErr err =
     (case err of
        None \<Rightarrow> map_option path_error closeErr
      | Some e \<Rightarrow>
          (case closeErr of
             None \<Rightarrow> Some e
           | Some ce \<Rightarrow>
               Some (WrapError (''close error: '' @ err_Error (\<lambda>_. []) (path_error ce) @ '', original error: '') e)))"

definition closing ::
    "os_env \<Rightarrow> string \<Rightarrow> ('c world \<Rightarrow> go_error option outcome \<times> 'c world) \<Rightarrow> 'c world \<Rightarrow>
     go_error option outcome \<times> 'c world" where
  "closing E tokenFile rest w =
     (case rest w of
        (r, w) \<Rightarrow>
          (case file_Close E tokenFile w of
             (closeErr, w) \<Rightarrow>
               (case r of Done err \<Rightarrow> (Done (close_result closeErr err), w) | _ \<Rightarrow> (r, w))))"

text \<open>The part after the token file is open: write it, then point the home directory at it.\<close>

definition write_token :: "os_env \<Rightarrow> string \<Rightarrow> string \<Rightarrow> 'c world \<Rightarrow> go_error option outcome \<times> 'c world" where
  "write_token E dir tokenFile w =
     (case file_Write E tokenFile (ssoTokenCacheFile (os_expiry E (w_clock w))) w of
        (Some e, w) \<Rightarrow> (Done (Some (path_error e)), w)
      | (None, w) \<Rightarrow>
          tbind (if os_GOOS E = ''windows'' then w_Setenv ''USERPROFILE'' dir else w_Setenv ''HOME'' dir)
            (\<lambda>_. tret None) w)"

text \<open>Writing to a SHA-1 hash never fails.\<close>

definition SsoTestSetup :: "os_env \<Rightarrow> string \<Rightarrow> string \<Rightarrow> 'c world \<Rightarrow> go_error option outcome \<times> 'c world" where
  "SsoTestSetup E pattern ssoKey =
     tbind (t_TempDir E pattern)
       (\<lambda>dir.
          let cacheDir = filepath_Join [dir, ''.aws'', ''sso'', ''cache'']
          in tbind (tcall (os_MkdirAll E cacheDir))
            (\<lambda>err.
               case err of
                 Some e \<Rightarrow> tret (Some (path_error e))
               | None \<Rightarrow>
                   let tokenFile = filepath_Join [cacheDir, cacheFilename ssoKey]
                   in tbind (tcall (os_Create E tokenFile))
                     (\<lambda>err.
                        case err of
                          Some e \<Rightarrow> tret (Some (path_error e))
                        | None \<Rightarrow> closing E tokenFile (write_token E dir tokenFile))))"

section \<open>\<open>TempPEMFile\<close>\<close>

definition TLSBundleCA :: bytes where
  "TLSBundleCA =
     ''-----BEGIN CERTIFICATE-----'' @ NL @
     ''MIICiTCCAfKgAwIBAgIJAJ5X1olt05XjMA0GCSqGSIb3DQEBCwUAMDgxCzAJBgNV'' @ NL @
     ''BAYTAkdPMQ8wDQYDVQQIEwZHb3BoZXIxGDAWBgNVBAoTD1Rlc3RpbmcgUk9PVCBD'' @ NL @
     ''QTAeFw0xNzAzMDkwMDAyMDZaFw0yNzAzMDcwMDAyMDZaMDgxCzAJBgNVBAYTAkdP'' @ NL @
     ''MQ8wDQYDVQQIEwZHb3BoZXIxGDAWBgNVBAoTD1Rlc3RpbmcgUk9PVCBDQTCBnzAN'' @ NL @
     ''BgkqhkiG9w0BAQEFAAOBjQAwgYkCgYEAw/8DN+t9XQR60jx42rsQ2WE2Dx85rb3n'' @ NL @
     ''GQxnKZZLNddsT8rDyxJNP18aFalbRbFlyln5fxWxZIblu9Xkm/HRhOpbSimSqo1y'' @ NL @
     ''uDx21NVZ1YsOvXpHby71jx3gPrrhSc/t/zikhi++6D/C6m1CiIGuiJ0GBiJxtrub'' @ NL @
     ''UBMXT0QtI2ECAwEAAaOBmjCBlzAdBgNVHQ4EFgQU8XG3X/YHBA6T04kdEkq6+4GV'' @ NL @
     ''YykwaAYDVR0jBGEwX4AU8XG3X/YHBA6T04kdEkq6+4GVYymhPKQ6MDgxCzAJBgNV'' @ NL @
     ''BAYTAkdPMQ8wDQYDVQQIEwZHb3BoZXIxGDAWBgNVBAoTD1Rlc3RpbmcgUk9PVCBD'' @ NL @
     ''QYIJAJ5X1olt05XjMAwGA1UdEwQFMAMBAf8wDQYJKoZIhvcNAQELBQADgYEAeILv'' @ NL @
     ''z49+uxmPcfOZzonuOloRcpdvyjiXblYxbzz6ch8GsE7Q886FTZbvwbgLhzdwSVgG'' @ NL @
     ''G8WHkodDUsymVepdqAamS3f8PdCUk8xIk9mop8LgaB9Ns0/TssxDvMr3sOD2Grb3'' @ NL @
     ''xyWymTWMcj6uCiEBKtnUp4rPiefcvCRYZ17/hLE='' @ NL @
     ''-----END CERTIFICATE-----'' @ NL"

definition TempPEMFile :: "os_env \<Rightarrow> 'c world \<Rightarrow> (string \<times> go_error option) \<times> 'c world" where
  "TempPEMFile E w =
     (case os_CreateTemp E ''bundle-*.pem'' w of
        (Inl e, w) \<Rightarrow> (([], Some (path_error e)), w)
      | (Inr name, w) \<Rightarrow>
          (case file_Write E name TLSBundleCA w of
             (Some e, w) \<Rightarrow> (([], Some (path_error e)), snd (file_Close E name w))
           | (None, w) \<Rightarrow> ((name, None), snd (file_Close E name w))))"

section \<open>What the helpers leave behind\<close>

text \<open>The paths the clean-ups of \<open>t.TempDir\<close> remove, and a file system that they will turn into \<open>fs\<close>.\<close>

definition covered :: "'c world \<Rightarrow> path \<Rightarrow> bool" where
  "covered w q \<longleftrightarrow> (\<exists>d \<in> set (w_tempdirs w). prefix (resolve d) q)"

definition tidy :: "file_system \<Rightarrow> 'c world \<Rightarrow> bool" where
  "tidy fs w \<longleftrightarrow> wf_fs (w_fs w) \<and>
     (\<forall>q. if covered w q then fmlookup fs q = None else fmlookup (w_fs w) q = fmlookup fs q)"

text \<open>What the helpers do not touch; clean-ups of the environment may be added.\<close>

definition frame :: "'c world \<Rightarrow> 'c world \<Rightarrow> bool" where
  "frame w w' \<longleftrightarrow> w_servers w' = w_servers w \<and> w_open w' = w_open w \<and> w_driver w' = w_driver w \<and>
     w_skipped w' = w_skipped w \<and> suffix (t_cleanups (w_test w)) (t_cleanups (w_test w'))"

lemma frame_refl [simp]: "frame w w"
  by (simp add: frame_def)

lemma frame_trans: "frame w w' \<Longrightarrow> frame w' w'' \<Longrightarrow> frame w w''"
  by (auto simp: frame_def intro: suffix_order.trans)

lemma same_frame: "same w w' \<Longrightarrow> frame w w'"
  by (simp add: frame_def same_fields)

lemma tidy_same: "same w w' \<Longrightarrow> tidy fs w \<Longrightarrow> tidy fs w'"
  by (auto simp: tidy_def covered_def same_fields)

lemma tidy_cong: "w_fs w' = w_fs w \<Longrightarrow> w_tempdirs w' = w_tempdirs w \<Longrightarrow> tidy fs w' \<longleftrightarrow> tidy fs w"
  by (simp add: tidy_def covered_def)

text \<open>A change at a covered path.\<close>

lemma tidy_upd:
  assumes "tidy fs w" and "covered w p" and "wf_fs (fmupd p x (w_fs w))"
    and "w_fs w' = fmupd p x (w_fs w)" and "w_tempdirs w' = w_tempdirs w"
  shows "tidy fs w'"
  using assms by (auto simp: tidy_def covered_def)

lemma tidy_append:
  assumes "tidy fs w" and "covered w p" and "w_fs w' = fs_append p s (w_fs w)" and "w_tempdirs w' = w_tempdirs w"
  shows "tidy fs w'"
  using assms wf_fs_append [of "w_fs w" p s] fs_append_other [of _ p s "w_fs w"] unfolding tidy_def covered_def
  by (metis (no_types, lifting))

text \<open>A new directory and a clean-up that removes it.\<close>

lemma tidy_new_dir:
  assumes "tidy fs w" and "p = resolve d" and "p \<noteq> []" and "fmlookup (w_fs w) p = None" and "wf_fs (fmupd p Dir (w_fs w))"
    and "w_fs w' = fmupd p Dir (w_fs w)" and "w_tempdirs w' = d # w_tempdirs w"
  shows "tidy fs w'"
proof -
  have new: "fmlookup fs q = None" if "prefix p q" for q
    using that assms(1,3,4) wf_nothing_below [of "w_fs w" p q] unfolding tidy_def by metis
  have "p \<noteq> q" if "\<not> prefix p q" for q using that by auto
  with assms new show ?thesis by (auto simp: tidy_def covered_def)
qed

text \<open>The clean-ups give the file system back.\<close>

definition removable :: "os_env \<Rightarrow> bool" where
  "removable E \<longleftrightarrow> (\<forall>n. os_fault E OpRemove n = None \<and> os_fault E OpRemoveAll n = None)"

definition without :: "string list \<Rightarrow> file_system \<Rightarrow> file_system" where
  "without ds fs = fmfilter (\<lambda>q. \<not> (\<exists>d \<in> set ds. prefix (resolve d) q)) fs"

lemma without_Cons: "without (d # ds) fs = without ds (fs_RemoveAll (resolve d) fs)"
  unfolding without_def fs_RemoveAll_def by (rule fmap_ext) simp

lemma remove_tempdirs_fs:
  assumes "removable E"
  shows "\<exists>n. remove_tempdirs E ds w = w\<lparr>w_clock := n, w_fs := without ds (w_fs w)\<rparr>"
proof (induction ds arbitrary: w)
  case Nil
  show ?case by (rule exI [of _ "w_clock w"]) (simp add: without_def fmfilter_true)
next
  case (Cons d ds)
  let ?w = "w\<lparr>w_clock := Suc (w_clock w), w_fs := fs_RemoveAll (resolve d) (w_fs w)\<rparr>"
  have "os_RemoveAll E d w = (None, ?w)"
    using assms by (simp add: os_RemoveAll_def fs_call_ok removable_def tick_def)
  then have "remove_tempdirs E (d # ds) w = remove_tempdirs E ds ?w" by simp
  with Cons.IH [of ?w] show ?case by (auto simp: without_Cons)
qed

lemma tidy_removed:
  assumes "removable E" and "tidy fs w"
  shows "w_fs (remove_tempdirs E (w_tempdirs w) w) = fs"
proof -
  have "without (w_tempdirs w) (w_fs w) = fs"
    unfolding without_def using assms(2) by (intro fmap_ext) (auto simp: tidy_def covered_def)
  then show ?thesis using remove_tempdirs_fs [OF assms(1), of "w_tempdirs w" w] by auto
qed

lemma t_TempDir_cases:
  assumes "t_TempDir E pattern w = (r, w')" and "tidy fs w"
  obtains (fails) "r = Goexit" and "tidy fs w'" and "frame w w'" and "w_failed w'"
  | (ok) base where "r = Done (base @ ''/001'')" and "tidy fs w'" and "frame w w'" and "w_test w' = w_test w"
      and "w_tempdirs w' = base # w_tempdirs w" and "fmlookup (w_fs w') (resolve base @ [''001'']) = Some Dir"
      and "w_failed w' = w_failed w" and "w_log w' = w_log w"
proof -
  have wf: "wf_fs (w_fs w)" using assms(2) by (simp add: tidy_def)
  obtain r1 w1 where m: "os_MkdirTemp E pattern w = (r1, w1)" by fastforce
  from m show thesis
  proof (cases rule: os_MkdirTemp_cases)
    case (fails e)
    with assms(1) m have "r = Goexit" "w_failed w'" "same w1 (w'\<lparr>w_log := w_log w1, w_failed := w_failed w1\<rparr>)"
      and t: "w_fs w' = w_fs w1" "w_tempdirs w' = w_tempdirs w1" "frame w1 w'"
      by (auto simp: t_TempDir_def t_Fatalf_def t_Errorf_def frame_def)
    moreover have "tidy fs w1" using tidy_same [OF fails(2) assms(2)] .
    moreover have "frame w w'" using frame_trans [OF same_frame [OF fails(2)] t(3)] .
    ultimately show thesis by (intro that(1)) (auto simp: tidy_def covered_def)
  next
    case (ok base n)
    let ?p = "resolve base"
    let ?w = "w1\<lparr>w_tempdirs := base # w_tempdirs w1\<rparr>"
    have w1: "w_fs w1 = fmupd ?p Dir (w_fs w)" "w_tempdirs w1 = w_tempdirs w" "frame w ?w" "w_test w1 = w_test w"
      "w_failed w1 = w_failed w" "w_log w1 = w_log w"
      by (simp_all add: ok(4) frame_def)
    have tw: "tidy fs ?w"
      by (rule tidy_new_dir [OF assms(2), of ?p base]) (use ok w1 wf in simp_all)
    have child: "resolve (base @ ''/001'') = ?p @ [''001'']"
      using resolve_child [of "''001''" base] by (simp add: ok_comp_def)
    obtain r2 w2 where m2: "os_Mkdir E (base @ ''/001'') ?w = (r2, w2)" by fastforce
    from m2 show thesis
    proof (cases rule: os_Mkdir_cases)
      case (fails e)
      with assms(1) m ok m2 have "r = Goexit" "w_failed w'" and t: "w_fs w' = w_fs w2" "w_tempdirs w' = w_tempdirs w2" "frame w2 w'"
        by (auto simp: t_TempDir_def t_Fatalf_def t_Errorf_def frame_def)
      moreover have "tidy fs w2" using tidy_same [OF fails(2) tw] .
      moreover have "frame w w'" using frame_trans [OF w1(3) frame_trans [OF same_frame [OF fails(2)] t(3)]] .
      ultimately show thesis by (intro that(1)) (auto simp: tidy_def covered_def)
    next
      case ok2: ok
      with assms(1) m ok m2 have r: "r = Done (base @ ''/001'')" "w' = w2" by (simp_all add: t_TempDir_def Let_def)
      have "tidy fs w2"
        by (rule tidy_upd [OF tw, of "resolve (base @ ''/001'')"])
          (use ok2 tw in \<open>auto simp: covered_def child tidy_def\<close>)
      moreover have "frame ?w w2" by (simp add: ok2(4) frame_def)
      moreover have "w_tempdirs w2 = base # w_tempdirs w" "w_test w2 = w_test w" "w_failed w2 = w_failed w" "w_log w2 = w_log w"
        using ok2(4) w1 by simp_all
      moreover have "fmlookup (w_fs w2) (?p @ [''001'']) = Some Dir" using ok2(4) by (simp add: child)
      ultimately show thesis using r frame_trans [OF w1(3), of w2] by (intro that(2) [of base]) simp_all
    qed
  qed
qed

text \<open>\<open>MkdirAll\<close> on a path below a directory that exists and is covered.\<close>

lemma mkdir_all_tidy:
  assumes "mkdir_all E up w = (r, w')" and "tidy fs w" and "\<forall>c \<in> set up. ok_comp c"
    and "prefix tp (rev up)" and "fmlookup (w_fs w) tp = Some Dir" and "covered w tp"
  shows "tidy fs w' \<and> frame w w' \<and> w_tempdirs w' = w_tempdirs w \<and> w_test w' = w_test w \<and> w_failed w' = w_failed w \<and>
    (r = None \<longrightarrow> node_at (w_fs w') (rev up) = Some Dir)"
  using assms
proof (induction E up w arbitrary: r w' rule: mkdir_all.induct)
  case (2 E c up w)
  let ?p = "rev (c # up)"
  have cov: "covered w ?p"
    using "2.prems"(4,6) by (auto simp: covered_def intro: prefix_order.trans)
  show ?case
  proof (cases "fmlookup (w_fs w) ?p")
    case None
    with "2.prems"(5) have "tp \<noteq> ?p" by auto
    with "2.prems"(4) have top: "prefix tp (rev up)" by auto
    obtain r1 w1 where m: "mkdir_all E up w = (r1, w1)" by fastforce
    have IH: "tidy fs w1 \<and> frame w w1 \<and> w_tempdirs w1 = w_tempdirs w \<and> w_test w1 = w_test w \<and> w_failed w1 = w_failed w"
      using "2.IH" [OF refl None m] "2.prems" top by simp
    show ?thesis
    proof (cases r1)
      case (Some e)
      with m None "2.prems"(1) IH show ?thesis by auto
    next
      case r1: None
      obtain r2 w2 where m2: "os_Mkdir E (path_string ?p) w1 = (r2, w2)" by fastforce
      have res: "resolve (path_string ?p) = ?p" using "2.prems"(3) by (intro resolve_path_string) auto
      from m2 show ?thesis
      proof (cases rule: os_Mkdir_cases)
        case (fails e)
        have "w' = w2 \<and> (r = None \<longrightarrow> fmlookup (w_fs w2) ?p = Some Dir)"
          using "2.prems"(1) m m2 None r1 fails(1) by (auto simp: Let_def split: if_splits)
        then show ?thesis using IH tidy_same [OF fails(2)] frame_trans [OF _ same_frame [OF fails(2)]] same_fields [OF fails(2)]
          by (auto simp: node_at_def)
      next
        case ok
        have w': "w' = w2" using "2.prems"(1) m m2 None r1 ok(1) by (auto simp: Let_def)
        have "covered w1 (resolve (path_string ?p))" using IH cov by (simp only: res covered_def)
        then have "tidy fs w2" using IH ok by (intro tidy_upd [of fs w1 _ Dir w2]) (simp_all add: tidy_def)
        moreover have "frame w1 w2" by (simp add: ok(4) frame_def)
        moreover have "node_at (w_fs w2) ?p = Some Dir" using ok(4) unfolding res by (simp add: node_at_def)
        ultimately show ?thesis using IH ok(4) frame_trans [of w w1 w2] by (simp add: w')
      qed
    qed
  next
    case (Some x)
    with "2.prems" show ?thesis by (cases x) (auto simp: node_at_def)
  qed
qed (auto simp: node_at_def)

lemma cache_path:
  "resolve (filepath_Join [dir, ''.aws'', ''sso'', ''cache'']) = resolve dir @ [''.aws'', ''sso'', ''cache'']"
  if "dir \<noteq> []"
proof -
  have "Join ''/'' [dir, ''.aws'', ''sso'', ''cache''] = ((dir @ CHR ''/'' # ''.aws'') @ CHR ''/'' # ''sso'') @ CHR ''/'' # ''cache''"
    by simp
  with that show ?thesis by (simp del: append.simps append_assoc Join.simps add: resolve_child ok_comp_def)
qed

lemma ok_cacheFilename: "ok_comp (cacheFilename ssoKey)"
proof -
  have "to_lower d \<noteq> CHR ''/''" if "d \<in> set ''0123456789abcdef''" for d
  proof -
    have "list_all (\<lambda>d. to_lower d \<noteq> CHR ''/'') ''0123456789abcdef''" by code_simp
    with that show ?thesis unfolding list_all_iff by blast
  qed
  then have "to_lower d \<noteq> CHR ''/''" if "d \<in> set (hex_EncodeToString bs)" for d bs
    using that set_hex [of bs] by blast
  then have "CHR ''/'' \<notin> set (ToLower (hex_EncodeToString bs))" for bs
    unfolding ToLower_def set_map by (metis imageE)
  moreover have "length (cacheFilename ssoKey) = 45" by (simp add: cacheFilename_def ToLower_def)
  then have "cacheFilename ssoKey \<noteq> []" "cacheFilename ssoKey \<noteq> ''.''" "cacheFilename ssoKey \<noteq> ''..''" by auto
  ultimately show ?thesis by (simp add: ok_comp_def cacheFilename_def)
qed

lemma token_path:
  "dir \<noteq> [] \<Longrightarrow> resolve (filepath_Join [filepath_Join [dir, ''.aws'', ''sso'', ''cache''], cacheFilename ssoKey]) =
    resolve dir @ [''.aws'', ''sso'', ''cache'', cacheFilename ssoKey]"
proof -
  assume d: "dir \<noteq> []"
  let ?c = "filepath_Join [dir, ''.aws'', ''sso'', ''cache'']"
  have "?c \<noteq> []" using cache_path [OF d] by (auto simp: resolve_def path_step_def)
  moreover have "cacheFilename ssoKey \<noteq> []" using ok_cacheFilename by (auto simp: ok_comp_def)
  ultimately have "resolve (filepath_Join [?c, cacheFilename ssoKey]) = resolve (?c @ CHR ''/'' # cacheFilename ssoKey)" by simp
  then show ?thesis by (simp only: resolve_child [OF ok_cacheFilename] cache_path [OF d]) simp
qed

text \<open>The token of a session under a home directory.\<close>

definition token_at :: "string \<Rightarrow> string \<Rightarrow> file_system \<Rightarrow> bool" where
  "token_at home ssoKey fs \<longleftrightarrow> (\<exists>t. fmlookup fs (resolve home @ [''.aws'', ''sso'', ''cache'', cacheFilename ssoKey]) =
     Some (File (ssoTokenCacheFile t)))"

text \<open>The environment variable that names the home directory.\<close>

definition home_var :: "os_env \<Rightarrow> string" where
  "home_var E = (if os_GOOS E = ''windows'' then ''USERPROFILE'' else ''HOME'')"

text \<open>The home directory has been set to one with the token, and no other variable has changed.\<close>

definition home_with_token :: "os_env \<Rightarrow> string \<Rightarrow> 'c world \<Rightarrow> 'c world \<Rightarrow> bool" where
  "home_with_token E ssoKey w w' \<longleftrightarrow> (\<exists>home. t_env (w_test w') = put_entry (home_var E) home (t_env (w_test w)) \<and>
     token_at home ssoKey (w_fs w'))"

lemma valid_home_var [simp]: "valid_key (home_var E)"
  by (simp add: home_var_def valid_key_def)

lemma w_Setenv_cases [consumes 2, case_names fails ok]:
  assumes "w_Setenv k v w = (r, w')" and "valid_key k"
  obtains (fails) "r = Goexit" and "w_failed w'" and "w_fs w' = w_fs w" and "w_tempdirs w' = w_tempdirs w"
      and "w_test w' = w_test w" and "frame w w'" and "\<not> valid_value v"
  | (ok) "r = Done ()" and "w' = w\<lparr>w_test := w_test w'\<rparr>" and "t_env (w_test w') = put_entry k v (t_env (w_test w))"
      and "frame w w'" and "valid_value v"
proof (cases "valid_value v")
  case True
  then have "t_Setenv k v (w_test w) =
      Some (Cleanup (restore_var k (LookupEnv (t_env (w_test w)) k)) ((w_test w)\<lparr>t_env := put_entry k v (t_env (w_test w))\<rparr>))"
    using assms(2) by (simp add: t_Setenv_def Setenv_Inr)
  with assms(1) True show thesis by (intro that(2)) (auto simp: w_Setenv_def Cleanup_def frame_def suffix_Cons)
next
  case False
  then have "t_Setenv k v (w_test w) = None" by (simp add: t_Setenv_def Setenv_def)
  with assms(1) False show thesis by (intro that(1)) (auto simp: w_Setenv_def t_Fatalf_def t_Errorf_def frame_def)
qed

text \<open>The part with the token file open, from a state in which the file is new and covered.\<close>

lemma write_token_cases:
  assumes "write_token E dir f w = (r, w')" and "tidy fs w" and "covered w (resolve f)"
    and "fmlookup (w_fs w) (resolve f) = Some (File [])"
  shows "tidy fs w' \<and> frame w w' \<and> w_tempdirs w' = w_tempdirs w \<and>
    ((\<exists>e. r = Done (Some (path_error e)) \<and> w_test w' = w_test w \<and> w_failed w' = w_failed w) \<or>
     (r = Goexit \<and> w_failed w') \<or>
     (r = Done None \<and> t_env (w_test w') = put_entry (home_var E) dir (t_env (w_test w)) \<and> w_failed w' = w_failed w \<and>
       (\<exists>t. fmlookup (w_fs w') (resolve f) = Some (File (ssoTokenCacheFile t)))))"
proof (cases "os_fault E OpWrite (w_clock w)")
  case (Some en)
  obtain e n where en: "en = (e, n)" by fastforce
  let ?data = "take n (ssoTokenCacheFile (os_expiry E (w_clock w)))"
  have r: "r = Done (Some (path_error \<lparr>pe_Op = ''write'', pe_Path = f, pe_Err = e\<rparr>))"
    and w': "w' = (tick w)\<lparr>w_fs := fs_append (resolve f) ?data (w_fs w)\<rparr>"
    using assms(1) Some en by (auto simp: write_token_def file_Write_def)
  have "tidy fs w'" by (rule tidy_append [OF assms(2,3), of _ ?data]) (simp_all add: w')
  then show ?thesis by (simp add: r w' frame_def) blast
next
  case None
  let ?data = "ssoTokenCacheFile (os_expiry E (w_clock w))"
  let ?w = "(tick w)\<lparr>w_fs := fs_append (resolve f) ?data (w_fs w)\<rparr>"
  have tw: "tidy fs ?w" by (rule tidy_append [OF assms(2,3), of _ ?data]) simp_all
  have content: "fmlookup (w_fs ?w) (resolve f) = Some (File ?data)" using assms(4) by (simp add: fs_append_File)
  obtain r1 w1 where s: "w_Setenv (home_var E) dir ?w = (r1, w1)" by fastforce
  have rw: "(r, w') = (case r1 of Done u \<Rightarrow> Done None | Goexit \<Rightarrow> Goexit | Panicked p \<Rightarrow> Panicked p, w1)"
    using assms(1) None s
    by (auto simp: write_token_def file_Write_def tbind_def tret_def home_var_def split: outcome.splits if_splits)
  have fw: "frame w ?w" by (simp add: frame_def)
  from s valid_home_var show ?thesis
  proof (cases rule: w_Setenv_cases)
    case fails
    have "tidy fs w1" using tw tidy_cong [of w1 ?w fs] fails by simp
    with rw fails frame_trans [OF fw fails(6)] show ?thesis by simp
  next
    case ok
    have w1: "w_fs w1 = w_fs ?w" "w_tempdirs w1 = w_tempdirs w" "w_failed w1 = w_failed w"
      by (subst ok(2), simp)+
    moreover have "t_env (w_test w1) = put_entry (home_var E) dir (t_env (w_test w))" by (simp add: ok(3))
    moreover have "tidy fs w1" using tw tidy_cong [of w1 ?w fs] w1 by simp
    ultimately show ?thesis using rw ok(1) content frame_trans [OF fw ok(4)] by auto
  qed
qed

lemma closing_fields:
  assumes "closing E f rest w = (r, w')" and "rest w = (r1, w1)"
  shows "\<exists>n. w' = w1\<lparr>w_clock := n, w_open := remove1 f (w_open w1)\<rparr> \<and>
    (case r1 of Done err \<Rightarrow> (\<exists>ce. r = Done (close_result ce err) \<and> (\<forall>e. ce = Some e \<longrightarrow> pe_Op e = ''close''))
     | Goexit \<Rightarrow> r = Goexit | Panicked p \<Rightarrow> r = Panicked p)"
proof -
  obtain ce w2 where c: "file_Close E f w1 = (ce, w2)" by fastforce
  then have "w2 = w1\<lparr>w_clock := Suc (w_clock w1), w_open := remove1 f (w_open w1)\<rparr>" "\<forall>e. ce = Some e \<longrightarrow> pe_Op e = ''close''"
    by (auto simp: file_Close_def tick_def)
  with assms c show ?thesis by (cases r1) (auto simp: closing_def)
qed

definition setup_result :: "os_env \<Rightarrow> string \<Rightarrow> 'c world \<Rightarrow> go_error option outcome \<Rightarrow> 'c world \<Rightarrow> bool" where
  "setup_result E ssoKey w r w' \<longleftrightarrow>
     (case r of
        Done None \<Rightarrow> w_failed w' = w_failed w \<and> home_with_token E ssoKey w w'
      | Done (Some err) \<Rightarrow> w_failed w' = w_failed w \<and>
          (w_test w' = w_test w \<or>
           (\<exists>e. err = path_error e \<and> pe_Op e = ''close'' \<and>
             home_with_token E ssoKey w w'))
      | Goexit \<Rightarrow> w_failed w'
      | Panicked p \<Rightarrow> False)"

lemma SsoTestSetup_tidy:
  assumes "SsoTestSetup E pattern ssoKey w = (r, w')" and "tidy fs w"
  shows "tidy fs w' \<and> frame w w' \<and> setup_result E ssoKey w r w'"
proof -
  obtain r0 w0 where t: "t_TempDir E pattern w = (r0, w0)" by fastforce
  from t assms(2) show ?thesis
  proof (cases rule: t_TempDir_cases)
    case fails
    with assms(1) t show ?thesis by (auto simp: SsoTestSetup_def tbind_def setup_result_def)
  next
    case (ok base)
    let ?dir = "base @ ''/001''"
    let ?c = "filepath_Join [?dir, ''.aws'', ''sso'', ''cache'']"
    let ?f = "filepath_Join [?c, cacheFilename ssoKey]"
    have res: "resolve ?dir = resolve base @ [''001'']"
      using resolve_child [of "''001''" base] by (simp add: ok_comp_def)
    have dir: "?dir \<noteq> []" by simp
    have cov: "covered w0 (resolve ?dir @ p)" for p by (simp add: covered_def ok(5) res)
    obtain r1 w1 where m: "os_MkdirAll E ?c w0 = (r1, w1)" by fastforce
    have m1: "tidy fs w1 \<and> frame w0 w1 \<and> w_tempdirs w1 = w_tempdirs w0 \<and> w_test w1 = w_test w0 \<and> w_failed w1 = w_failed w0 \<and>
        (r1 = None \<longrightarrow> node_at (w_fs w1) (resolve ?c) = Some Dir)"
      using mkdir_all_tidy [OF m [unfolded os_MkdirAll_def] ok(2), of "resolve ?dir"] resolve_ok [of _ ?c] ok(6) cov [of "[]"] res
      by (simp add: cache_path del: resolve_filepath_Join)
    have f1: "frame w w1" using frame_trans ok(3) m1 by blast
    show ?thesis
    proof (cases r1)
      case (Some e)
      have r: "r = Done (Some (path_error e))" "w' = w1"
        using assms(1) t ok(1) m Some by (simp_all add: SsoTestSetup_def tbind_def tcall_def tret_def Let_def)
      then show ?thesis using m1 f1 ok by (simp add: setup_result_def)
    next
      case r1: None
      have resf: "resolve ?f = resolve ?dir @ [''.aws'', ''sso'', ''cache'', cacheFilename ssoKey]"
        by (rule token_path [OF dir])
      have cov1: "covered w1 (resolve ?f)" using cov [of "[''.aws'', ''sso'', ''cache'', cacheFilename ssoKey]"] m1
        by (simp only: resf covered_def)
      obtain r2 w2 where o: "os_Create E ?f w1 = (r2, w2)" by fastforce
      from o [unfolded os_Create_def] show ?thesis
      proof (cases rule: os_OpenFile_cases)
        case (fails e)
        have r: "r = Done (Some (path_error e))" "w' = w2"
          using assms(1) t ok(1) m r1 o fails(1) by (simp_all add: SsoTestSetup_def tbind_def tcall_def tret_def Let_def)
        then show ?thesis
          using m1 ok tidy_same [OF fails(2)] frame_trans [OF f1 same_frame [OF fails(2)]]
          by (simp add: setup_result_def same_fields [OF fails(2)])
      next
        case opened: ok
        have wt: "tidy fs w2" by (rule tidy_upd [OF _ cov1, of fs "File []"]) (use m1 opened in \<open>simp_all add: tidy_def\<close>)
        have cov2: "covered w2 (resolve ?f)" using cov1 opened(5) by (simp add: covered_def)
        have new: "fmlookup (w_fs w2) (resolve ?f) = Some (File [])" by (simp add: opened(5))
        have f2: "frame w (w2\<lparr>w_open := w_open w\<rparr>)" "w_test w2 = w_test w" "w_failed w2 = w_failed w" "w_open w2 = ?f # w_open w"
          using opened(5) f1 m1 ok by (simp_all add: frame_def)
        obtain r3 w3 where k: "write_token E ?dir ?f w2 = (r3, w3)" by fastforce
        note k3 = write_token_cases [OF k wt cov2 new]
        have "closing E ?f (write_token E ?dir ?f) w2 = (r, w')"
          using assms(1) t ok(1) m r1 o opened(1) by (simp add: SsoTestSetup_def tbind_def tcall_def tret_def Let_def)
        from closing_fields [OF this k] obtain n where
          w': "w' = w3\<lparr>w_clock := n, w_open := remove1 ?f (w_open w3)\<rparr>" and
          r: "case r3 of Done err \<Rightarrow> (\<exists>ce. r = Done (close_result ce err) \<and> (\<forall>e. ce = Some e \<longrightarrow> pe_Op e = ''close''))
            | Goexit \<Rightarrow> r = Goexit | Panicked p \<Rightarrow> r = Panicked p" by blast
        have fr: "frame w w'" using k3 f2 by (auto simp: frame_def w')
        have ti: "tidy fs w'" using k3 tidy_cong [of w' w3 fs] by (simp add: w')
        have tok: "home_with_token E ssoKey w w'"
          if "t_env (w_test w3) = put_entry (home_var E) ?dir (t_env (w_test w2))"
            "fmlookup (w_fs w3) (resolve ?f) = Some (File (ssoTokenCacheFile t))" for t
          using that f2(2) by (auto simp: home_with_token_def token_at_def w' resf simp del: resolve_filepath_Join)
        have "setup_result E ssoKey w r w'"
          using k3 r tok f2 by (auto simp: setup_result_def close_result_def w' split: option.splits outcome.splits)
        with fr ti show ?thesis by simp
      qed
    qed
  qed
qed


text \<open>A system without failures, and a process with a directory for temporary files.\<close>

definition sample_os_env :: os_env where
  "sample_os_env =
     \<lparr>os_fault = (\<lambda>op n. None), os_random = (\<lambda>n. n), os_url = (\<lambda>n. ''http://127.0.0.1:8080''),
      os_expiry = (\<lambda>n. ''2030-01-01T00:15:00Z''), os_GOOS = ''linux''\<rparr>"

definition sample_world :: "'c \<Rightarrow> 'c world" where
  "sample_world c =
     \<lparr>w_test = \<lparr>t_env = [''HOME=/root''], t_cleanups = []\<rparr>, w_fs = fmupd [''tmp''] Dir fmempty, w_clock = 0,
      w_open = [], w_servers = [], w_tempdirs = [], w_log = [], w_failed = False, w_skipped = False, w_driver = c\<rparr>"

lemma removable_sample [simp]: "removable sample_os_env"
  by (simp add: removable_def sample_os_env_def)

lemma wf_sample [simp]: "wf_fs (w_fs (sample_world c))"
  by (auto simp: wf_fs_def sample_world_def node_at_def)

lemma sample_os_env_sel [simp]:
  "os_fault sample_os_env op n = None" "os_expiry sample_os_env n = ''2030-01-01T00:15:00Z''" "os_GOOS sample_os_env = ''linux''"
  by (simp_all add: sample_os_env_def)

text \<open>Calls on this system: they succeed when the file system allows it.\<close>

lemma sample_Mkdir:
  assumes "resolve n = p" and "fs_Mkdir p (w_fs w) = Inr fs"
  shows "os_Mkdir sample_os_env n w = (None, w\<lparr>w_clock := Suc (w_clock w), w_fs := fs\<rparr>)"
  using assms by (simp add: os_Mkdir_def fs_call_def sample_os_env_def tick_def)

lemma sample_OpenFile:
  assumes "resolve n = p" and "fs_Open excl p (w_fs w) = Inr fs"
  shows "os_OpenFile sample_os_env excl n w = (None, w\<lparr>w_clock := Suc (w_clock w), w_fs := fs, w_open := n # w_open w\<rparr>)"
  using assms by (simp add: os_OpenFile_def fs_call_def sample_os_env_def tick_def)

lemma sample_nextRandom: "w_clock w < 2 ^ 32 \<Longrightarrow> nextRandom sample_os_env w = Itoa (w_clock w)"
  by (simp add: nextRandom_def sample_os_env_def)

lemma sample_MkdirTemp:
  assumes "prefixAndSuffix pattern = Some (pre, suf)" and "joinPath (os_TempDir w) pre @ Itoa (w_clock w) @ suf = n"
    and "w_clock w < 2 ^ 32" and "resolve n = p" and "fs_Mkdir p (w_fs w) = Inr fs"
  shows "os_MkdirTemp sample_os_env pattern w = (Inr n, w\<lparr>w_clock := Suc (Suc (w_clock w)), w_fs := fs\<rparr>)"
  using temp_loop_first [of temp_tries "os_Mkdir sample_os_env" "joinPath (os_TempDir w) pre" sample_os_env w suf]
    sample_Mkdir [OF assms(4), of "tick w" fs] assms
  by (simp add: os_MkdirTemp_def os_temp_def sample_nextRandom temp_tries_def tick_def)

lemma sample_CreateTemp:
  assumes "prefixAndSuffix pattern = Some (pre, suf)" and "joinPath (os_TempDir w) pre @ Itoa (w_clock w) @ suf = n"
    and "w_clock w < 2 ^ 32" and "resolve n = p" and "fs_Open True p (w_fs w) = Inr fs"
  shows "os_CreateTemp sample_os_env pattern w =
    (Inr n, w\<lparr>w_clock := Suc (Suc (w_clock w)), w_fs := fs, w_open := n # w_open w\<rparr>)"
  using temp_loop_first [of temp_tries "os_OpenFile sample_os_env True" "joinPath (os_TempDir w) pre" sample_os_env w suf]
    sample_OpenFile [OF assms(4), of True "tick w" fs] assms
  by (simp add: os_CreateTemp_def os_temp_def sample_nextRandom temp_tries_def tick_def)

definition sample_dirs :: file_system where
  "sample_dirs = fmupd [''tmp'', ''T0'', ''001''] Dir (fmupd [''tmp'', ''T0''] Dir (fmupd [''tmp''] Dir fmempty))"

lemma resolve_samples:
  "resolve ''/tmp/T0'' = [''tmp'', ''T0'']" "resolve ''/tmp/T0/001'' = [''tmp'', ''T0'', ''001'']"
  by code_simp+

lemma sample_TempDir:
  assumes "os_TempDir w = ''/tmp''" and "w_clock w = 0" and "w_fs w = fmupd [''tmp''] Dir fmempty"
  shows "t_TempDir sample_os_env ''T'' w =
     (Done ''/tmp/T0/001'', w\<lparr>w_clock := 3, w_fs := sample_dirs, w_tempdirs := ''/tmp/T0'' # w_tempdirs w\<rparr>)"
proof -
  have "Itoa 0 = ''0''" by code_simp
  then have "os_MkdirTemp sample_os_env ''T'' w =
      (Inr ''/tmp/T0'', w\<lparr>w_clock := 2, w_fs := fmupd [''tmp'', ''T0''] Dir (fmupd [''tmp''] Dir fmempty)\<rparr>)"
    using sample_MkdirTemp [OF _ _ _ resolve_samples(1), of "''T''" "''T''" "[]" w] assms
    by (simp add: prefixAndSuffix_def joinPath_def fs_Mkdir_def parent_error_def node_at_def)
  then show ?thesis
    by (simp add: t_TempDir_def sample_Mkdir [OF resolve_samples(2)] fs_Mkdir_def parent_error_def node_at_def
        sample_dirs_def Let_def)
qed

definition sample_cache :: file_system where
  "sample_cache = fmupd [''tmp'', ''T0'', ''001'', ''.aws'', ''sso'', ''cache''] Dir
     (fmupd [''tmp'', ''T0'', ''001'', ''.aws'', ''sso''] Dir
       (fmupd [''tmp'', ''T0'', ''001'', ''.aws''] Dir sample_dirs))"

lemma sample_MkdirAll:
  assumes "w_fs w = sample_dirs"
  shows "os_MkdirAll sample_os_env (filepath_Join [''/tmp/T0/001'', ''.aws'', ''sso'', ''cache'']) w =
   (None, w\<lparr>w_clock := w_clock w + 3, w_fs := sample_cache\<rparr>)"
proof -
  have steps: "resolve (path_string [''tmp'', ''T0'', ''001'', ''.aws'']) = [''tmp'', ''T0'', ''001'', ''.aws'']"
    "resolve (path_string [''tmp'', ''T0'', ''001'', ''.aws'', ''sso'']) = [''tmp'', ''T0'', ''001'', ''.aws'', ''sso'']"
    "resolve (path_string [''tmp'', ''T0'', ''001'', ''.aws'', ''sso'', ''cache'']) = [''tmp'', ''T0'', ''001'', ''.aws'', ''sso'', ''cache'']"
    by (simp_all add: resolve_path_string ok_comp_def)
  show ?thesis
    by (simp add: os_MkdirAll_def cache_path resolve_samples Let_def assms sample_Mkdir [OF steps(1)] sample_Mkdir [OF steps(2)]
        sample_Mkdir [OF steps(3)] fs_Mkdir_def parent_error_def node_at_def sample_dirs_def sample_cache_def
        del: resolve_filepath_Join)
qed

definition sample_token :: "string \<Rightarrow> string" where
  "sample_token ssoKey = filepath_Join [filepath_Join [''/tmp/T0/001'', ''.aws'', ''sso'', ''cache''], cacheFilename ssoKey]"

definition sample_token_fs :: "string \<Rightarrow> file_system" where
  "sample_token_fs ssoKey =
     fmupd [''tmp'', ''T0'', ''001'', ''.aws'', ''sso'', ''cache'', cacheFilename ssoKey]
       (File (ssoTokenCacheFile ''2030-01-01T00:15:00Z'')) sample_cache"

lemma sample_SsoTestSetup:
  assumes "os_TempDir w = ''/tmp''" and "w_clock w = 0" and "w_fs w = fmupd [''tmp''] Dir fmempty"
    and "t_Setenv ''HOME'' ''/tmp/T0/001'' (w_test w) = Some t"
  shows "SsoTestSetup sample_os_env ''T'' ssoKey w =
    (Done None, w\<lparr>w_clock := 9, w_fs := sample_token_fs ssoKey, w_tempdirs := ''/tmp/T0'' # w_tempdirs w, w_test := t\<rparr>)"
proof -
  let ?p = "[''tmp'', ''T0'', ''001'', ''.aws'', ''sso'', ''cache'', cacheFilename ssoKey]"
  have f: "resolve (sample_token ssoKey) = ?p"
    by (simp add: sample_token_def token_path resolve_samples del: resolve_filepath_Join)
  have op: "fs_Open False ?p sample_cache = Inr (fmupd ?p (File []) sample_cache)"
    by (simp add: fs_Open_def parent_error_def node_at_def sample_cache_def sample_dirs_def)
  have app: "fs_append ?p s (fmupd ?p (File []) sample_cache) = fmupd ?p (File s) sample_cache" for s
    by (simp add: fs_append_def)
  have "closing sample_os_env (sample_token ssoKey) (write_token sample_os_env ''/tmp/T0/001'' (sample_token ssoKey))
      (w1\<lparr>w_clock := 7, w_fs := fmupd ?p (File []) sample_cache, w_open := sample_token ssoKey # w_open w1\<rparr>) =
    (Done None, w1\<lparr>w_clock := 9, w_fs := sample_token_fs ssoKey, w_test := t\<rparr>)" if "w_test w1 = w_test w" for w1
    using assms(4) that
    by (simp add: closing_def write_token_def file_Write_def file_Close_def close_result_def f app w_Setenv_def tick_def
        tbind_def tret_def sample_token_fs_def)
  from this [of "w\<lparr>w_tempdirs := ''/tmp/T0'' # w_tempdirs w\<rparr>"] show ?thesis
    by (simp add: SsoTestSetup_def tbind_def tcall_def tret_def Let_def sample_TempDir [OF assms(1-3)] sample_MkdirAll
        os_Create_def sample_OpenFile [OF f] op flip: sample_token_def del: resolve_filepath_Join)
qed

lemma sample_world_temp: "os_TempDir (sample_world c) = ''/tmp''"
  by (simp add: os_TempDir_def os_Getenv_def sample_world_def Getenv_def LookupEnv_def has_key_def)


text \<open>\<open>TempPEMFile\<close> leaves no file open, and on success a new file holds the certificate. When the
  write fails, the file stays with what was written, and since the name is not returned with the error,
  the caller cannot remove it.\<close>

theorem TempPEMFile_result:
  "case os_CreateTemp E ''bundle-*.pem'' w of
     (Inl e, w1) \<Rightarrow>
       fst (TempPEMFile E w) = ([], Some (path_error e)) \<and>
       w_fs (snd (TempPEMFile E w)) = w_fs w \<and> w_open (snd (TempPEMFile E w)) = w_open w
   | (Inr f, w1) \<Rightarrow>
       fmlookup (w_fs w) (resolve f) = None \<and> w_open (snd (TempPEMFile E w)) = w_open w \<and>
       (case os_fault E OpWrite (w_clock w1) of
          None \<Rightarrow>
            fst (TempPEMFile E w) = (f, None) \<and>
            w_fs (snd (TempPEMFile E w)) = fmupd (resolve f) (File TLSBundleCA) (w_fs w)
        | Some (e, n) \<Rightarrow>
            fst (TempPEMFile E w) = ([], Some (path_error \<lparr>pe_Op = ''write'', pe_Path = f, pe_Err = e\<rparr>)) \<and>
            w_fs (snd (TempPEMFile E w)) = fmupd (resolve f) (File (take n TLSBundleCA)) (w_fs w))"
proof -
  obtain r w1 where c: "os_CreateTemp E ''bundle-*.pem'' w = (r, w1)" by fastforce
  from c show ?thesis
  proof (cases rule: os_CreateTemp_cases)
    case (fails e)
    then show ?thesis using c by (simp add: TempPEMFile_def same_fields)
  next
    case (ok name n)
    have "fs_append (resolve name) data (w_fs w1) = fmupd (resolve name) (File data) (w_fs w)" for data
      by (subst fs_append_File [of _ _ "[]"]) (simp_all add: ok(3))
    then show ?thesis using c ok(1,2)
      by (auto simp: TempPEMFile_def file_Write_def file_Close_def ok(3) split: option.split)
  qed
qed

end
