(* ===== verification/MockCreds.thy ===== *)
theory MockCreds
  imports MockData V1Shim TestWorld
begin

text \<open>
  The packages \<open>mockdata\<close> and \<open>v2/awsv1shim/mockdata\<close>: the credentials that the mocked services hand
  out, as values of the SDK v2 and of the SDK v1, and the sessions with the mocked API server. The names
  that the providers of the SDKs give themselves are parameters.
\<close>

section \<open>Credential values\<close>

text \<open>The constants \<open>ProviderName\<close> and the like of the packages the values name, for one SDK.\<close>

record provider_names =
  pn_ec2role :: string
  pn_endpoint :: string
  pn_env :: string
  pn_static :: string
  pn_sts :: string
  pn_webidentity :: string
  pn_sso :: string

definition zero_v2_credentials :: v2_credentials where
  "zero_v2_credentials =
     \<lparr>vc_AccessKeyID = [], vc_SecretAccessKey = [], vc_SessionToken = [], vc_Source = [], vc_CanExpire = False,
      vc_Expires = 0, vc_AccountID = []\<rparr>"

definition MockEc2MetadataCredentials :: "provider_names \<Rightarrow> v2_credentials" where
  "MockEc2MetadataCredentials N =
     zero_v2_credentials\<lparr>vc_AccessKeyID := MockEc2MetadataAccessKey,
       vc_Source := pn_ec2role N,
       vc_SecretAccessKey := MockEc2MetadataSecretKey,
       vc_SessionToken := MockEc2MetadataSessionToken,
       vc_CanExpire := True\<rparr>"

definition MockEcsCredentialsCredentials :: "provider_names \<Rightarrow> v2_credentials" where
  "MockEcsCredentialsCredentials N =
     zero_v2_credentials\<lparr>vc_AccessKeyID := MockEcsCredentialsAccessKey,
       vc_SecretAccessKey := MockEcsCredentialsSecretKey,
       vc_SessionToken := MockEcsCredentialsSessionToken,
       vc_CanExpire := True,
       vc_Source := pn_endpoint N\<rparr>"

definition MockEnvCredentials :: "provider_names \<Rightarrow> v2_credentials" where
  "MockEnvCredentials N =
     zero_v2_credentials\<lparr>vc_AccessKeyID := MockEnvAccessKey,
       vc_SecretAccessKey := MockEnvSecretKey,
       vc_Source := pn_env N\<rparr>"

definition MockEnvCredentialsWithSessionToken :: "provider_names \<Rightarrow> v2_credentials" where
  "MockEnvCredentialsWithSessionToken N =
     zero_v2_credentials\<lparr>vc_AccessKeyID := MockEnvAccessKey,
       vc_SecretAccessKey := MockEnvSecretKey,
       vc_SessionToken := MockEnvSessionToken,
       vc_Source := pn_env N\<rparr>"

definition MockStaticCredentials :: "provider_names \<Rightarrow> v2_credentials" where
  "MockStaticCredentials N =
     zero_v2_credentials\<lparr>vc_AccessKeyID := MockStaticAccessKey,
       vc_SecretAccessKey := MockStaticSecretKey,
       vc_Source := pn_static N\<rparr>"

definition MockStsAssumeRoleCredentials :: "provider_names \<Rightarrow> v2_credentials" where
  "MockStsAssumeRoleCredentials N =
     zero_v2_credentials\<lparr>vc_AccessKeyID := MockStsAssumeRoleAccessKey,
       vc_AccountID := ''555555555555'',
       vc_SecretAccessKey := MockStsAssumeRoleSecretKey,
       vc_SessionToken := MockStsAssumeRoleSessionToken,
       vc_Source := pn_sts N,
       vc_CanExpire := True\<rparr>"

definition MockStsAssumeRoleWithWebIdentityCredentials :: "provider_names \<Rightarrow> v2_credentials" where
  "MockStsAssumeRoleWithWebIdentityCredentials N =
     zero_v2_credentials\<lparr>vc_AccessKeyID := MockStsAssumeRoleWithWebIdentityAccessKey,
       vc_AccountID := ''666666666666'',
       vc_SecretAccessKey := MockStsAssumeRoleWithWebIdentitySecretKey,
       vc_SessionToken := MockStsAssumeRoleWithWebIdentitySessionToken,
       vc_Source := pn_webidentity N,
       vc_CanExpire := True\<rparr>"

definition MockSsoCredentials :: "provider_names \<Rightarrow> v2_credentials" where
  "MockSsoCredentials N =
     zero_v2_credentials\<lparr>vc_AccessKeyID := MockSsoAccessKeyID,
       vc_AccountID := ''123456789012'',
       vc_SecretAccessKey := MockSsoSecretAccessKey,
       vc_SessionToken := MockSsoSessionToken,
       vc_Source := pn_sso N,
       vc_CanExpire := True\<rparr>"

definition v1_MockEc2MetadataCredentials :: "provider_names \<Rightarrow> v1_value" where
  "v1_MockEc2MetadataCredentials N =
     zero_v1_value\<lparr>vv_AccessKeyID := MockEc2MetadataAccessKey,
       vv_ProviderName := pn_ec2role N,
       vv_SecretAccessKey := MockEc2MetadataSecretKey,
       vv_SessionToken := MockEc2MetadataSessionToken\<rparr>"

definition v1_MockEcsCredentialsCredentials :: "provider_names \<Rightarrow> v1_value" where
  "v1_MockEcsCredentialsCredentials N =
     zero_v1_value\<lparr>vv_AccessKeyID := MockEcsCredentialsAccessKey,
       vv_ProviderName := pn_endpoint N,
       vv_SecretAccessKey := MockEcsCredentialsSecretKey,
       vv_SessionToken := MockEcsCredentialsSessionToken\<rparr>"

definition v1_MockEnvCredentials :: "provider_names \<Rightarrow> v1_value" where
  "v1_MockEnvCredentials N =
     zero_v1_value\<lparr>vv_AccessKeyID := MockEnvAccessKey,
       vv_ProviderName := pn_env N,
       vv_SecretAccessKey := MockEnvSecretKey\<rparr>"

definition v1_MockEnvCredentialsWithSessionToken :: "provider_names \<Rightarrow> v1_value" where
  "v1_MockEnvCredentialsWithSessionToken N =
     zero_v1_value\<lparr>vv_AccessKeyID := MockEnvAccessKey,
       vv_ProviderName := pn_env N,
       vv_SecretAccessKey := MockEnvSecretKey,
       vv_SessionToken := MockEnvSessionToken\<rparr>"

definition v1_MockStaticCredentials :: "provider_names \<Rightarrow> v1_value" where
  "v1_MockStaticCredentials N =
     zero_v1_value\<lparr>vv_AccessKeyID := MockStaticAccessKey,
       vv_ProviderName := pn_static N,
       vv_SecretAccessKey := MockStaticSecretKey\<rparr>"

definition v1_MockStsAssumeRoleCredentials :: "provider_names \<Rightarrow> v1_value" where
  "v1_MockStsAssumeRoleCredentials N =
     zero_v1_value\<lparr>vv_AccessKeyID := MockStsAssumeRoleAccessKey,
       vv_ProviderName := pn_sts N,
       vv_SecretAccessKey := MockStsAssumeRoleSecretKey,
       vv_SessionToken := MockStsAssumeRoleSessionToken\<rparr>"

definition v1_MockStsAssumeRoleWithWebIdentityCredentials :: "provider_names \<Rightarrow> v1_value" where
  "v1_MockStsAssumeRoleWithWebIdentityCredentials N =
     zero_v1_value\<lparr>vv_AccessKeyID := MockStsAssumeRoleWithWebIdentityAccessKey,
       vv_ProviderName := pn_webidentity N,
       vv_SecretAccessKey := MockStsAssumeRoleWithWebIdentitySecretKey,
       vv_SessionToken := MockStsAssumeRoleWithWebIdentitySessionToken\<rparr>"

section \<open>Sessions with the mocked API server\<close>

datatype EndpointSource = EndpointSourceServiceMetadata | EndpointSourceCustom

record v2_endpoint =
  ve_URL :: string
  ve_Source :: EndpointSource

text \<open>\<open>NewStaticCredentialsProvider\<close> of the SDK v2 and \<open>NewStaticCredentials\<close> of the SDK v1, with their
  arguments.\<close>

datatype static_provider = NewStaticCredentialsProvider string string string

record mocked_config =
  mc_Credentials :: static_provider
  mc_Region :: string
  mc_EndpointResolver :: "string \<Rightarrow> string \<Rightarrow> go_error + v2_endpoint"

text \<open>The results are the function that closes the server, the configuration and the URL; the server
  answers with \<open>MockAwsApiServer\<close> for the endpoints.\<close>

definition GetMockedAwsApiSession ::
    "os_env \<Rightarrow> (go_error \<Rightarrow> string) \<Rightarrow> MockEndpoint list \<Rightarrow> 'c world \<Rightarrow>
     (('c world \<Rightarrow> 'c world) \<times> mocked_config \<times> string \<times>
      (string \<Rightarrow> server_request \<Rightarrow> response_writer \<Rightarrow> response_writer go)) \<times> 'c world" where
  "GetMockedAwsApiSession E Err endpoints w =
     (case NewServer E w of
        (url, w) \<Rightarrow>
          ((server_Close url,
            \<lparr>mc_Credentials = NewStaticCredentialsProvider ''accessKey'' ''secretKey'' [],
             mc_Region = ''us-east-1'',
             mc_EndpointResolver = (\<lambda>service region. Inr \<lparr>ve_URL = url, ve_Source = EndpointSourceCustom\<rparr>)\<rparr>,
            url, MockAwsApiServer Err endpoints), w))"

record v1_config =
  v1c_Credentials :: static_provider
  v1c_Region :: string
  v1c_Endpoint :: string
  v1c_CredentialsChainVerboseErrors :: bool

definition v1_GetMockedAwsApiSession ::
    "(v1_config \<Rightarrow> go_error + 's) \<Rightarrow> os_env \<Rightarrow> (go_error \<Rightarrow> string) \<Rightarrow> MockEndpoint list \<Rightarrow> 'c world \<Rightarrow>
     (('c world \<Rightarrow> 'c world) \<times> (go_error + 's) \<times>
      (string \<Rightarrow> server_request \<Rightarrow> response_writer \<Rightarrow> response_writer go)) \<times> 'c world" where
  "v1_GetMockedAwsApiSession NewSession E Err endpoints w =
     (case NewServer E w of
        (url, w) \<Rightarrow>
          ((server_Close url,
            NewSession
              \<lparr>v1c_Credentials = NewStaticCredentialsProvider ''accessKey'' ''secretKey'' [],
               v1c_Region = ''us-east-1'', v1c_Endpoint = url, v1c_CredentialsChainVerboseErrors = True\<rparr>,
            MockAwsApiServer Err endpoints), w))"

section \<open>Properties\<close>

text \<open>The value the credentials adapter of the shim makes of credentials of the SDK v2.\<close>

definition shim_value :: "v2_credentials \<Rightarrow> v1_value" where
  "shim_value c = fst (snd (RetrieveWithContext (Inr c) None))"

definition shared_mocks :: "provider_names \<Rightarrow> provider_names \<Rightarrow> (v2_credentials \<times> v1_value) list" where
  "shared_mocks N2 N1 =
     [(MockEc2MetadataCredentials N2, v1_MockEc2MetadataCredentials N1),
      (MockEcsCredentialsCredentials N2, v1_MockEcsCredentialsCredentials N1),
      (MockEnvCredentials N2, v1_MockEnvCredentials N1),
      (MockEnvCredentialsWithSessionToken N2, v1_MockEnvCredentialsWithSessionToken N1),
      (MockStaticCredentials N2, v1_MockStaticCredentials N1),
      (MockStsAssumeRoleCredentials N2, v1_MockStsAssumeRoleCredentials N1),
      (MockStsAssumeRoleWithWebIdentityCredentials N2, v1_MockStsAssumeRoleWithWebIdentityCredentials N1)]"

lemmas mock_credential_defs =
  MockEc2MetadataCredentials_def MockEcsCredentialsCredentials_def MockEnvCredentials_def
  MockEnvCredentialsWithSessionToken_def MockStaticCredentials_def MockStsAssumeRoleCredentials_def
  MockStsAssumeRoleWithWebIdentityCredentials_def MockSsoCredentials_def
  v1_MockEc2MetadataCredentials_def v1_MockEcsCredentialsCredentials_def v1_MockEnvCredentials_def
  v1_MockEnvCredentialsWithSessionToken_def v1_MockStaticCredentials_def
  v1_MockStsAssumeRoleCredentials_def v1_MockStsAssumeRoleWithWebIdentityCredentials_def

lemmas mock_key_defs =
  MockEc2MetadataAccessKey_def MockEc2MetadataSecretKey_def MockEc2MetadataSessionToken_def
  MockEcsCredentialsAccessKey_def MockEcsCredentialsSecretKey_def MockEcsCredentialsSessionToken_def
  MockEnvAccessKey_def MockEnvSecretKey_def MockEnvSessionToken_def MockSsoAccessKeyID_def
  MockSsoSecretAccessKey_def MockSsoSessionToken_def MockStaticAccessKey_def MockStaticSecretKey_def
  MockStsAssumeRoleAccessKey_def MockStsAssumeRoleSecretKey_def MockStsAssumeRoleSessionToken_def
  MockStsAssumeRoleWithWebIdentityAccessKey_def MockStsAssumeRoleWithWebIdentitySecretKey_def
  MockStsAssumeRoleWithWebIdentitySessionToken_def

text \<open>The two packages of mocked credentials agree: what the shim makes of each of the seven values of
  the SDK v2 is the value of the SDK v1, except that the shim names the provider after the source of the SDK
  v2. All have keys, and no two kinds of credentials share an access key, so a test can tell which
  source was used.\<close>

theorem mock_credentials_agree:
  "list_all (\<lambda>(c, v).
      shim_value c = v\<lparr>vv_ProviderName := ''v2Credentials('' @ vc_Source c @ '')''\<rparr> \<and>
      vc_AccessKeyID c \<noteq> [] \<and> vc_SecretAccessKey c \<noteq> []) (shared_mocks N2 N1) \<and>
   distinct (map vc_AccessKeyID
     [MockEc2MetadataCredentials N2, MockEcsCredentialsCredentials N2, MockEnvCredentials N2, MockStaticCredentials N2,
      MockStsAssumeRoleCredentials N2, MockStsAssumeRoleWithWebIdentityCredentials N2, MockSsoCredentials N2])"
  by (simp add: shared_mocks_def shim_value_def RetrieveWithContext_def mock_credential_defs zero_v2_credentials_def
      zero_v1_value_def mock_key_defs)

end
