(* ===== verification/TestDrivers.thy ===== *)
theory TestDrivers
  imports TestFiles MockCreds
begin

text \<open>
  The package \<open>configtesting\<close>: test drivers for the code that configures an SDK (\<open>config.go\<close>,
  \<open>file_parsing.go\<close>). The code under test implements the interfaces \<open>TestDriver\<close>, \<open>TestCaseDriver\<close>,
  \<open>Configurer\<close> and \<open>Thing\<close>; here it is a record of functions, whose state is the \<open>w_driver\<close> of the
  world. The drivers go through a table of cases in the order of a Go map, which is an argument.
\<close>

section \<open>The interfaces\<close>

type_synonym TestMode = int

definition TestModeInvalid :: TestMode where "TestModeInvalid = 0"
definition TestModeLocal :: TestMode where "TestModeLocal = 1"
definition TestModeAcceptanceTest :: TestMode where "TestModeAcceptanceTest = 2"

record 'c Configurer =
  cf_SetAccessKey :: "string \<Rightarrow> 'c \<Rightarrow> 'c go"
  cf_SetSecretKey :: "string \<Rightarrow> 'c \<Rightarrow> 'c go"
  cf_SetProfile :: "string \<Rightarrow> 'c \<Rightarrow> 'c go"
  cf_SetUseFIPSEndpoint :: "bool \<Rightarrow> 'c \<Rightarrow> 'c go"
  cf_AddEndpoint :: "string \<Rightarrow> string \<Rightarrow> 'c \<Rightarrow> 'c go"
  cf_AddSharedConfigFile :: "string \<Rightarrow> 'c \<Rightarrow> 'c go"

type_synonym 'c ConfigFunc = "'c Configurer \<Rightarrow> 'c \<Rightarrow> 'c go"

definition WithProfile :: "string \<Rightarrow> 'c ConfigFunc" where
  "WithProfile s = (\<lambda>c. cf_SetProfile c s)"

definition WithUseFIPSEndpoint :: "bool \<Rightarrow> 'c ConfigFunc" where
  "WithUseFIPSEndpoint b = (\<lambda>c. cf_SetUseFIPSEndpoint c b)"

text \<open>
  The driver, its case driver and the methods of a \<open>Thing\<close>: \<open>'d\<close> is the state of the driver, \<open>'c\<close>
  that of a case driver with its configuration, \<open>'t\<close> a \<open>Thing\<close> and \<open>'p\<close> a credentials provider.
  \<open>td_GetAwsConfig\<close> is \<open>None\<close> for a thing that is no \<open>AwsConfigThing\<close>; otherwise it gives for every
  configuration source the SSO start URL, if the source is a \<open>config.SharedConfig\<close>. The last two fields
  are the texts of errors and the quoting of the verb \<open>%q\<close>.
\<close>

record ('d, 'c, 't, 'p) TestDriver =
  td_Init :: "TestMode \<Rightarrow> 'd \<Rightarrow> 'd"
  td_TestCase :: "'d \<Rightarrow> 'c go"
  td_Configuration :: "'c ConfigFunc list \<Rightarrow> 'c \<Rightarrow> 'c go"
  td_configurer :: "'c Configurer"
  td_Setup :: "'c world \<Rightarrow> unit outcome \<times> 'c world"
  td_Apply :: "'c world \<Rightarrow> 't outcome \<times> 'c world"
  td_GetCredentials :: "'t \<Rightarrow> 'p option"
  td_Retrieve :: "'p \<Rightarrow> 'c world \<Rightarrow> (go_error + v2_credentials) \<times> 'c world"
  td_GetRegion :: "'t \<Rightarrow> string"
  td_GetAwsConfig :: "'t \<Rightarrow> string option list option"
  td_Error :: "go_error \<Rightarrow> string"
  td_quote :: "string \<Rightarrow> string"

section \<open>Steps the drivers share\<close>

definition os_error_text :: "PathError \<Rightarrow> string" where
  "os_error_text e = err_Error (\<lambda>_. []) (path_error e)"

definition start_case :: "('d, 'c, 't, 'p) TestDriver \<Rightarrow> 'd \<Rightarrow> 'c world \<Rightarrow> unit outcome \<times> 'c world" where
  "start_case D d w =
     (case td_TestCase D d of
        Panic p \<Rightarrow> (Panicked p, w)
      | Ret c \<Rightarrow> (Done (), w\<lparr>w_driver := c\<rparr>))"

text \<open>The shared configuration file of a case, if it has one, around the rest of the test.\<close>

definition configure_file ::
    "os_env \<Rightarrow> ('d, 'c, 't, 'p) TestDriver \<Rightarrow> string \<Rightarrow> string \<Rightarrow> ('c world \<Rightarrow> unit outcome \<times> 'c world) \<Rightarrow>
     'c world \<Rightarrow> unit outcome \<times> 'c world" where
  "configure_file E D name content rest =
     tbind (tcall (os_WriteFile E name content))
       (\<lambda>err.
          case err of
            Some e \<Rightarrow> t_Fatalf (''unexpected error writing shared configuration file: '' @ os_error_text e)
          | None \<Rightarrow> tbind (driver_call (cf_AddSharedConfigFile (td_configurer D) name)) (\<lambda>_. rest))"

definition with_config_file ::
    "os_env \<Rightarrow> ('d, 'c, 't, 'p) TestDriver \<Rightarrow> string \<Rightarrow> ('c world \<Rightarrow> unit outcome \<times> 'c world) \<Rightarrow>
     'c world \<Rightarrow> unit outcome \<times> 'c world" where
  "with_config_file E D content rest =
     (if content \<noteq> [] then
        tbind (tcall (os_CreateTemp E ''aws-sdk-go-base-shared-configuration-file''))
          (\<lambda>r.
             case r of
               Inl e \<Rightarrow>
                 t_Fatalf (''unexpected error creating temporary shared configuration file: '' @ os_error_text e)
             | Inr name \<Rightarrow>
                 deferring (\<lambda>w. snd (os_Remove E name w)) (configure_file E D name content rest))
      else rest)"

text \<open>\<open>t.Run\<close> for every case; a panic ends the process.\<close>

fun run_cases ::
    "os_env \<Rightarrow> ('tc \<Rightarrow> 'c world \<Rightarrow> unit outcome \<times> 'c world) \<Rightarrow> 'tc list \<Rightarrow> 'c world \<Rightarrow> unit outcome \<times> 'c world" where
  "run_cases E body [] w = (Done (), w)"
| "run_cases E body (tc # tcs) w = tbind (t_Run E (body tc)) (\<lambda>_. run_cases E body tcs) w"

section \<open>SSO\<close>

record 'c sso_case =
  sc_name :: string
  sc_Configuration :: "'c ConfigFunc list"
  sc_SharedConfigurationFile :: string
  sc_ExpectedCredentialsValue :: v2_credentials

text \<open>\<open>cmp.Diff\<close> with the field \<open>Expires\<close> ignored finds no difference.\<close>

definition same_credentials :: "v2_credentials \<Rightarrow> v2_credentials \<Rightarrow> bool" where
  "same_credentials a b \<longleftrightarrow> a\<lparr>vc_Expires := 0\<rparr> = b\<lparr>vc_Expires := 0\<rparr>"

text \<open>The end of a case: run the code under test and check the credentials.\<close>

definition check_credentials ::
    "('d, 'c, 't, 'p) TestDriver \<Rightarrow> v2_credentials \<Rightarrow> 't \<Rightarrow> 'c world \<Rightarrow> unit outcome \<times> 'c world" where
  "check_credentials D expected thing =
     (case td_GetCredentials D thing of
        None \<Rightarrow> t_Fatalf ''credentials are nil''
      | Some credentials \<Rightarrow>
          tbind (tcall (td_Retrieve D credentials))
            (\<lambda>r.
               case r of
                 Inl err \<Rightarrow> t_Fatalf (''retrieving credentials: '' @ err_Error (td_Error D) err)
               | Inr credentialsValue \<Rightarrow>
                   if \<not> same_credentials credentialsValue expected
                   then t_Fatalf ''unexpected credentials: (- got, + expected)''
                   else tret ()))"

definition sso_apply ::
    "('d, 'c, 't, 'p) TestDriver \<Rightarrow> v2_credentials \<Rightarrow> 'c world \<Rightarrow> unit outcome \<times> 'c world" where
  "sso_apply D expected =
     tbind (td_Setup D) (\<lambda>_. tbind (td_Apply D) (\<lambda>thing. check_credentials D expected thing))"

definition with_temp_dir ::
    "os_env \<Rightarrow> ('c world \<Rightarrow> unit outcome \<times> 'c world) \<Rightarrow> 'c world \<Rightarrow> unit outcome \<times> 'c world" where
  "with_temp_dir E rest =
     tbind (tcall (os_MkdirTemp E ''temp''))
       (\<lambda>r.
          case r of
            Inl e \<Rightarrow> t_Fatalf (''error creating temp dir: '' @ os_error_text e)
          | Inr tempdir \<Rightarrow>
              deferring (\<lambda>w. snd (os_Remove E tempdir w))
                (tbind (w_Setenv ''TMPDIR'' tempdir) (\<lambda>_. rest)))"

definition sso_body ::
    "os_env \<Rightarrow> ('d, 'c, 't, 'p) TestDriver \<Rightarrow> 'd \<Rightarrow> (string \<Rightarrow> string) \<Rightarrow> string \<Rightarrow> 'c sso_case \<Rightarrow>
     'c world \<Rightarrow> unit outcome \<times> 'c world" where
  "sso_body E D d pattern ssoKey tc =
     tbind (start_case D d)
       (\<lambda>_. tbind w_InitSessionTestEnv
         (\<lambda>_. tbind (SsoTestSetup E (pattern (sc_name tc)) ssoKey)
           (\<lambda>err.
              case err of
                Some e \<Rightarrow> t_Fatalf (''setup: '' @ err_Error (\<lambda>_. []) e)
              | None \<Rightarrow>
                  tbind (driver_call (td_Configuration D (sc_Configuration tc)))
                    (\<lambda>_. tbind (tcall (NewServer E))
                      (\<lambda>ssoEndpoint.
                         deferring (server_Close ssoEndpoint)
                           (tbind (driver_call (cf_AddEndpoint (td_configurer D) ''sso'' ssoEndpoint))
                             (\<lambda>_. with_temp_dir E
                               (with_config_file E D (sc_SharedConfigurationFile tc)
                                 (sso_apply D (sc_ExpectedCredentialsValue tc))))))))))"

definition ssoSessionName :: string where
  "ssoSessionName = ''test-sso-session''"

definition SSO_file :: string where
  "SSO_file =
      NL @
      ''[default]'' @ NL @
      ''sso_session = '' @ ssoSessionName @ NL @
      ''sso_account_id = 123456789012'' @ NL @
      ''sso_role_name = testRole'' @ NL @
      ''region = us-east-1'' @ NL @
      NL @
      ''[sso-session test-sso-session]'' @ NL @
      ''sso_region = us-east-1'' @ NL @
      ''sso_start_url = https://d-123456789a.awsapps.com/start'' @ NL @
      ''sso_registration_scopes = sso:account:access'' @ NL"

definition SSO_cases :: "provider_names \<Rightarrow> 'c sso_case list" where
  "SSO_cases N =
     [\<lparr>sc_name = ''shared configuration file'', sc_Configuration = [],
       sc_SharedConfigurationFile = SSO_file, sc_ExpectedCredentialsValue = MockSsoCredentials N\<rparr>,
      \<lparr>sc_name = ''use FIPS'', sc_Configuration = [WithUseFIPSEndpoint True],
       sc_SharedConfigurationFile = SSO_file, sc_ExpectedCredentialsValue = MockSsoCredentials N\<rparr>]"

definition SSO ::
    "os_env \<Rightarrow> ('d, 'c, 't, 'p) TestDriver \<Rightarrow> provider_names \<Rightarrow> ('c sso_case list \<Rightarrow> 'c sso_case list) \<Rightarrow>
     (string \<Rightarrow> string) \<Rightarrow> 'd \<Rightarrow> 'c world \<Rightarrow> unit outcome \<times> 'c world" where
  "SSO E D N order pattern d =
     (let d = td_Init D TestModeLocal d
      in run_cases E (sso_body E D d pattern ssoSessionName) (order (SSO_cases N)))"

definition ssoStartUrl :: string where
  "ssoStartUrl = ''https://d-123456789a.awsapps.com/start''"

definition LegacySSO_file :: string where
  "LegacySSO_file =
      NL @
      ''[default]'' @ NL @
      ''sso_start_url = '' @ ssoStartUrl @ NL @
      ''sso_region = us-east-1'' @ NL @
      ''sso_account_id = 123456789012'' @ NL @
      ''sso_role_name = testRole'' @ NL @
      ''region = us-east-1'' @ NL"

definition LegacySSO_cases :: "provider_names \<Rightarrow> 'c sso_case list" where
  "LegacySSO_cases N =
     [\<lparr>sc_name = ''shared configuration file'', sc_Configuration = [],
       sc_SharedConfigurationFile = LegacySSO_file, sc_ExpectedCredentialsValue = MockSsoCredentials N\<rparr>,
      \<lparr>sc_name = ''use FIPS'', sc_Configuration = [WithUseFIPSEndpoint True],
       sc_SharedConfigurationFile = LegacySSO_file, sc_ExpectedCredentialsValue = MockSsoCredentials N\<rparr>]"

definition LegacySSO ::
    "os_env \<Rightarrow> ('d, 'c, 't, 'p) TestDriver \<Rightarrow> provider_names \<Rightarrow> ('c sso_case list \<Rightarrow> 'c sso_case list) \<Rightarrow>
     (string \<Rightarrow> string) \<Rightarrow> 'd \<Rightarrow> 'c world \<Rightarrow> unit outcome \<times> 'c world" where
  "LegacySSO E D N order pattern d =
     (let d = td_Init D TestModeLocal d
      in run_cases E (sso_body E D d pattern ssoStartUrl) (order (LegacySSO_cases N)))"

section \<open>Parsing of shared configuration files\<close>

record ('c, 't) parse_case =
  pc_name :: string
  pc_Configuration :: "'c ConfigFunc list"
  pc_SharedConfigurationFile :: string
  pc_Check :: "'t \<Rightarrow> 'c world \<Rightarrow> unit outcome \<times> 'c world"

definition check_region ::
    "('d, 'c, 't, 'p) TestDriver \<Rightarrow> string \<Rightarrow> 't \<Rightarrow> 'c world \<Rightarrow> unit outcome \<times> 'c world" where
  "check_region D e thing =
     (let a = td_GetRegion D thing
      in if a \<noteq> e then tmodify (t_Errorf (''expected region '' @ td_quote D e @ '', got '' @ td_quote D a)) else tret ())"

text \<open>The last shared configuration decides.\<close>

definition last_start_url :: "string option list \<Rightarrow> string" where
  "last_start_url sources = foldl (\<lambda>url source. case source of Some u \<Rightarrow> u | None \<Rightarrow> url) [] sources"

definition check_start_url ::
    "('d, 'c, 't, 'p) TestDriver \<Rightarrow> string \<Rightarrow> 't \<Rightarrow> 'c world \<Rightarrow> unit outcome \<times> 'c world" where
  "check_start_url D e thing =
     (case td_GetAwsConfig D thing of
        None \<Rightarrow> t_Skipf ''Not an AwsConfigThing''
      | Some sources \<Rightarrow>
          (let a = last_start_url sources
           in if a \<noteq> e then tmodify (t_Errorf (''expected sso_start_url '' @ td_quote D e @ '', got '' @ td_quote D a)) else tret ()))"

definition parse_cases :: "('d, 'c, 't, 'p) TestDriver \<Rightarrow> ('c, 't) parse_case list" where
  "parse_cases D =
     [\<lparr>pc_name = ''leading newline'', pc_Configuration = [],
       pc_SharedConfigurationFile =
         NL @
         ''[default]'' @ NL @
         ''region = us-west-2'' @ NL,
       pc_Check = check_region D ''us-west-2''\<rparr>,
      \<lparr>pc_name = ''leading whitespace'', pc_Configuration = [],
       pc_SharedConfigurationFile =
         [CHR 0x09] @ ''[default]'' @ NL @
         [CHR 0x09] @ ''region = us-west-2'' @ NL @
         [CHR 0x09],
       pc_Check = check_region D ''us-west-2''\<rparr>,
      \<lparr>pc_name = ''leading newline and whitespace'', pc_Configuration = [],
       pc_SharedConfigurationFile =
         NL @
         [CHR 0x09] @ ''[default]'' @ NL @
         [CHR 0x09] @ ''region = us-west-2'' @ NL @
         [CHR 0x09] @ [CHR 0x09],
       pc_Check = check_region D ''us-west-2''\<rparr>,
      \<lparr>pc_name = ''named profile after leading newline and whitespace'', pc_Configuration = [WithProfile ''test''],
       pc_SharedConfigurationFile =
         NL @
         ''[default]'' @ NL @
         ''region = us-west-2'' @ NL @
         NL @
         [CHR 0x09] @ ''[profile test]'' @ NL @
         [CHR 0x09] @ ''region = us-east-1'' @ NL @
         [CHR 0x09] @ [CHR 0x09] @ [CHR 0x09],
       pc_Check = check_region D ''us-east-1''\<rparr>,
      \<lparr>pc_name = ''named profile'', pc_Configuration = [WithProfile ''test''],
       pc_SharedConfigurationFile =
         NL @
         ''[default]'' @ NL @
         ''region = us-west-2'' @ NL @
         NL @
         ''[profile test]'' @ NL @
         ''region = us-east-1'' @ NL,
       pc_Check = check_region D ''us-east-1''\<rparr>,
      \<lparr>pc_name = ''trailing hash'', pc_Configuration = [],
       pc_SharedConfigurationFile =
         NL @
         ''[default]'' @ NL @
         ''sso_start_url = https://d-123456789a.awsapps.com/start#'' @ NL,
       pc_Check = check_start_url D ''https://d-123456789a.awsapps.com/start#''\<rparr>]"

definition parse_body ::
    "os_env \<Rightarrow> ('d, 'c, 't, 'p) TestDriver \<Rightarrow> 'd \<Rightarrow> ('c, 't) parse_case \<Rightarrow> 'c world \<Rightarrow> unit outcome \<times> 'c world" where
  "parse_body E D d tc =
     tbind (start_case D d)
       (\<lambda>_. tbind w_InitSessionTestEnv
         (\<lambda>_. tbind (driver_call (td_Configuration D (pc_Configuration tc)))
           (\<lambda>_. tbind (driver_call (cf_SetAccessKey (td_configurer D) MockStaticAccessKey))
             (\<lambda>_. tbind (driver_call (cf_SetSecretKey (td_configurer D) MockStaticSecretKey))
               (\<lambda>_. with_config_file E D (pc_SharedConfigurationFile tc)
                 (tbind (td_Apply D) (pc_Check tc)))))))"

definition SharedConfigFileParsing ::
    "os_env \<Rightarrow> ('d, 'c, 't, 'p) TestDriver \<Rightarrow> (('c, 't) parse_case list \<Rightarrow> ('c, 't) parse_case list) \<Rightarrow>
     'd \<Rightarrow> 'c world \<Rightarrow> unit outcome \<times> 'c world" where
  "SharedConfigFileParsing E D order d =
     (let d = td_Init D TestModeLocal d
      in run_cases E (parse_body E D d) (order (parse_cases D)))"

end
