(* ===== verification/TestDrivers_props.thy ===== *)
theory TestDrivers_props
  imports TestDrivers
begin

text \<open>
  Properties of the test drivers: steps that leave no trace (the collection \<open>steady_intros\<close>), steps whose
  traces the clean-ups of the test remove, and the state in which the SSO drivers run the code under test.
\<close>

section \<open>The drivers leave no trace\<close>

text \<open>What a step of a test keeps: everything outside the process but files that it leaves open, and
  the clean-ups that are registered.\<close>

definition steady :: "'c world \<Rightarrow> 'c world \<Rightarrow> bool" where
  "steady w w' \<longleftrightarrow> w_fs w' = w_fs w \<and> w_servers w' = w_servers w \<and> w_tempdirs w' = w_tempdirs w \<and>
     suffix (w_open w) (w_open w') \<and> suffix (t_cleanups (w_test w)) (t_cleanups (w_test w'))"

lemma steady_refl [simp]: "steady w w"
  by (simp add: steady_def)

lemma steady_trans: "steady w w' \<Longrightarrow> steady w' w'' \<Longrightarrow> steady w w''"
  by (auto simp: steady_def intro: suffix_order.trans)

lemma same_steady: "same w w' \<Longrightarrow> steady w w'"
  by (simp add: steady_def same_fields)

definition steadily :: "('c world \<Rightarrow> 'a \<times> 'c world) \<Rightarrow> bool" where
  "steadily m \<longleftrightarrow> (\<forall>w. wf_fs (w_fs w) \<longrightarrow> steady w (snd (m w)))"

named_theorems steady_intros \<open>steps that leave no trace\<close>

lemma steadilyD: "steadily m \<Longrightarrow> m w = (r, w') \<Longrightarrow> wf_fs (w_fs w) \<Longrightarrow> steady w w' \<and> wf_fs (w_fs w')"
  by (auto simp: steadily_def steady_def dest!: spec [of _ w])

lemma steadily_tbind [steady_intros]:
  assumes "steadily m" and "\<And>v. steadily (f v)"
  shows "steadily (tbind m f)"
  unfolding steadily_def
proof (intro allI impI)
  fix w :: "'a world"
  assume wf: "wf_fs (w_fs w)"
  obtain r w' where m: "m w = (r, w')" by fastforce
  have "steady w w'" "wf_fs (w_fs w')" using steadilyD [OF assms(1) m wf] by auto
  with m assms(2) show "steady w (snd (tbind m f w))"
    by (cases r) (auto simp: tbind_def steadily_def intro: steady_trans)
qed

lemma steadily_tcall [steady_intros]: "steadily m \<Longrightarrow> steadily (tcall m)"
  by (auto simp: steadily_def tcall_def split: prod.split)

lemma steadily_tret [steady_intros]: "steadily (tret v)"
  by (simp add: steadily_def tret_def)

lemma steadily_t_Fatalf [steady_intros]: "steadily (t_Fatalf msg)"
  by (simp add: steadily_def t_Fatalf_def t_Errorf_def steady_def)

lemma steadily_t_Skipf [steady_intros]: "steadily (t_Skipf msg)"
  by (simp add: steadily_def t_Skipf_def steady_def)

lemma steadily_t_Errorf [steady_intros]: "steadily (tmodify (t_Errorf msg))"
  by (simp add: steadily_def tmodify_def t_Errorf_def steady_def)

lemma steadily_driver_call [steady_intros]: "steadily (driver_call f)"
  by (auto simp: steadily_def driver_call_def steady_def split: go.split)

lemma steadily_w_Setenv [steady_intros]: "steadily (w_Setenv k v)"
  by (auto simp: steadily_def w_Setenv_def t_Setenv_def t_Fatalf_def t_Errorf_def Cleanup_def steady_def suffix_Cons
      split: sum.split)

lemma steadily_if [steady_intros]: "steadily m \<Longrightarrow> steadily m' \<Longrightarrow> steadily (if b then m else m')"
  by simp

lemma steadily_sum [steady_intros]:
  "(\<And>a. steadily (f a)) \<Longrightarrow> (\<And>b. steadily (g b)) \<Longrightarrow> steadily (case x of Inl a \<Rightarrow> f a | Inr b \<Rightarrow> g b)"
  by (cases x) simp_all

lemma steadily_option [steady_intros]:
  "steadily f \<Longrightarrow> (\<And>a. steadily (g a)) \<Longrightarrow> steadily (case x of None \<Rightarrow> f | Some a \<Rightarrow> g a)"
  by (cases x) simp_all

text \<open>A temporary file that the rest of the test may have written to, and its removal.\<close>

lemma os_WriteFile_existing:
  assumes "os_WriteFile E name data w = (r, w')" and "fmlookup (w_fs w) (resolve name) = Some (File old)"
  shows "\<exists>new n. w' = w\<lparr>w_clock := n, w_fs := fmupd (resolve name) (File new) (w_fs w)\<rparr> \<and> (r = None \<longrightarrow> new = data)"
proof -
  let ?p = "resolve name"
  obtain r1 w1 where o: "os_OpenFile E False name w = (r1, w1)" by fastforce
  from o show ?thesis
  proof (cases rule: os_OpenFile_cases)
    case (fails e)
    with assms(1) o have "r = Some e" "w' = w1" by (auto simp: os_WriteFile_def)
    moreover have "fmupd ?p (File old) (w_fs w) = w_fs w" using assms(2) by (intro fmap_ext) auto
    ultimately show ?thesis using fails(2) by (auto simp: same_def intro!: exI [of _ old])
  next
    case ok
    obtain e w2 where k: "file_Write E name data w1 = (e, w2)" by fastforce
    have app: "fs_append ?p s (w_fs w1) = fmupd ?p (File s) (w_fs w)" for s
      by (subst fs_append_File [of _ _ "[]"]) (simp_all add: ok(5))
    have "\<exists>new. w2 = (tick w1)\<lparr>w_fs := fmupd ?p (File new) (w_fs w)\<rparr> \<and> (e = None \<longrightarrow> new = data)"
      using k by (auto simp: file_Write_def app split: option.splits)
    then obtain new where w2: "w2 = (tick w1)\<lparr>w_fs := fmupd ?p (File new) (w_fs w)\<rparr>" and new: "e = None \<longrightarrow> new = data"
      by blast
    obtain e3 w3 where c: "file_Close E name w2 = (e3, w3)" by fastforce
    have w3: "w3 = (tick w2)\<lparr>w_open := remove1 name (w_open w2)\<rparr>" using c by (auto simp: file_Close_def)
    have "w' = w3" "r = None \<longrightarrow> e = None" using assms(1) o ok(1) k c by (auto simp: os_WriteFile_def split: if_splits)
    moreover have "w3 = w\<lparr>w_clock := Suc (Suc (Suc (w_clock w))), w_fs := fmupd ?p (File new) (w_fs w)\<rparr>"
      by (simp add: w3 w2 ok(5) tick_def)
    ultimately show ?thesis using new by blast
  qed
qed

lemma os_Remove_created:
  assumes "removable E" and "wf_fs fs" and "fmlookup fs (resolve name) = None"
    and "w_fs w = fmupd (resolve name) x fs" and "wf_fs (w_fs w)"
  shows "os_Remove E name w = (None, (tick w)\<lparr>w_fs := fs\<rparr>)"
proof -
  have "fs_Remove (resolve name) (w_fs w) = Inr fs"
    using fs_Remove_created_file [of "resolve name" _ fs] fs_Remove_created_dir [OF assms(2), of "resolve name"] assms(3-5)
    by (cases x) simp_all
  then show ?thesis using assms(1) by (simp add: os_Remove_def fs_call_ok removable_def)
qed

lemma wf_fs_replace_file:
  "wf_fs (fmupd p (File old) fs) \<Longrightarrow> wf_fs (fmupd p (File new) fs)"
proof -
  assume wf: "wf_fs (fmupd p (File old) fs)"
  have "wf_fs (fmupd p (File new) (fmupd p (File old) fs))"
    by (rule wf_fs_upd [OF wf]) (use wf in \<open>auto simp: wf_fs_def\<close>)
  moreover have "fmupd p (File new) (fmupd p (File old) fs) = fmupd p (File new) fs" by (rule fmap_ext) simp
  ultimately show ?thesis by simp
qed

text \<open>The rest of the test, from the state in which the file has just been created.\<close>

lemma configure_file_steady:
  assumes "configure_file E D name content rest w = (r, w')" and "steadily rest"
    and "w_fs w = fmupd (resolve name) (File old) fs" and "wf_fs (w_fs w)"
  shows "\<exists>new. w_fs w' = fmupd (resolve name) (File new) fs \<and> wf_fs (w_fs w') \<and> steady w (w'\<lparr>w_fs := w_fs w\<rparr>)"
proof -
  let ?p = "resolve name"
  obtain err w2 where k: "os_WriteFile E name content w = (err, w2)" by fastforce
  have "fmlookup (w_fs w) ?p = Some (File old)" by (simp add: assms(3))
  from os_WriteFile_existing [OF k this] obtain new n2 where
    w2: "w2 = w\<lparr>w_clock := n2, w_fs := fmupd ?p (File new) (w_fs w)\<rparr>" by blast
  have fs2: "w_fs w2 = fmupd ?p (File new) fs" by (rule fmap_ext) (simp add: w2 assms(3))
  have wf2: "wf_fs (w_fs w2)" using assms(4) wf_fs_replace_file unfolding fs2 assms(3) by blast
  let ?m = "case err of
      Some e \<Rightarrow> t_Fatalf (''unexpected error writing shared configuration file: '' @ os_error_text e)
    | None \<Rightarrow> tbind (driver_call (cf_AddSharedConfigFile (td_configurer D) name)) (\<lambda>_. rest)"
  have "steadily ?m" by (intro steady_intros assms(2))
  moreover have "(r, w') = ?m w2" using assms(1) k by (simp add: configure_file_def tbind_def tcall_def)
  ultimately have "steady w2 w'" using steadilyD [of ?m w2 r w'] wf2 by simp
  with fs2 wf2 show ?thesis by (auto simp: steady_def w2)
qed

lemma steadily_with_config_file [steady_intros]:
  fixes rest :: "'c world \<Rightarrow> unit outcome \<times> 'c world"
  assumes "removable E" and "steadily rest"
  shows "steadily (with_config_file E D content rest)"
  unfolding steadily_def
proof (intro allI impI)
  fix w :: "'c world"
  assume wf: "wf_fs (w_fs w)"
  show "steady w (snd (with_config_file E D content rest w))"
  proof (cases "content = []")
    case True
    with assms(2) wf show ?thesis by (simp add: with_config_file_def steadily_def)
  next
    case False
    obtain r w1 where c: "os_CreateTemp E ''aws-sdk-go-base-shared-configuration-file'' w = (r, w1)" by fastforce
    from c show ?thesis
    proof (cases rule: os_CreateTemp_cases)
      case (fails e)
      with c False same_steady [OF fails(2)] show ?thesis
        by (simp add: with_config_file_def tbind_def tcall_def t_Fatalf_def t_Errorf_def steady_def)
    next
      case (ok name n)
      obtain r3 w3 where m: "configure_file E D name content rest w1 = (r3, w3)" by fastforce
      have "w_fs w1 = fmupd (resolve name) (File []) (w_fs w)" "wf_fs (w_fs w1)" using ok(3) ok(4) [OF wf] by simp_all
      from configure_file_steady [OF m assms(2) this] obtain new where
        w3: "w_fs w3 = fmupd (resolve name) (File new) (w_fs w)" "wf_fs (w_fs w3)" "steady w1 (w3\<lparr>w_fs := w_fs w1\<rparr>)" by blast
      have "os_Remove E name w3 = (None, (tick w3)\<lparr>w_fs := w_fs w\<rparr>)"
        by (rule os_Remove_created [OF assms(1) wf ok(2) w3(1,2)])
      then have "snd (with_config_file E D content rest w) = (tick w3)\<lparr>w_fs := w_fs w\<rparr>"
        using False c ok(1) m by (simp add: with_config_file_def tbind_def tcall_def deferring_def)
      moreover have "steady w (w1\<lparr>w_fs := w_fs w\<rparr>)" by (simp add: steady_def ok(3) suffix_Cons)
      ultimately show ?thesis using w3(3) by (auto simp: steady_def intro: suffix_order.trans)
    qed
  qed
qed

lemma steadily_with_temp_dir [steady_intros]:
  fixes rest :: "'c world \<Rightarrow> unit outcome \<times> 'c world"
  assumes "removable E" and "steadily rest"
  shows "steadily (with_temp_dir E rest)"
  unfolding steadily_def
proof (intro allI impI)
  fix w :: "'c world"
  assume wf: "wf_fs (w_fs w)"
  obtain r w1 where c: "os_MkdirTemp E ''temp'' w = (r, w1)" by fastforce
  from c show "steady w (snd (with_temp_dir E rest w))"
  proof (cases rule: os_MkdirTemp_cases)
    case (fails e)
    with c same_steady [OF fails(2)] show ?thesis
      by (simp add: with_temp_dir_def tbind_def tcall_def t_Fatalf_def t_Errorf_def steady_def)
  next
    case (ok name n)
    let ?m = "tbind (w_Setenv ''TMPDIR'' name) (\<lambda>_. rest)"
    obtain r3 w3 where m: "?m w1 = (r3, w3)" by fastforce
    have st: "steadily ?m" by (intro steady_intros assms(2))
    have "wf_fs (w_fs w1)" using ok(4) ok(5) [OF wf] by simp
    from steadilyD [OF st m this] have s: "steady w1 w3" "wf_fs (w_fs w3)" by simp_all
    have "w_fs w1 = fmupd (resolve name) Dir (w_fs w)" by (simp add: ok(4))
    then have "w_fs w3 = fmupd (resolve name) Dir (w_fs w)" using s(1) by (simp add: steady_def)
    then have "os_Remove E name w3 = (None, (tick w3)\<lparr>w_fs := w_fs w\<rparr>)"
      using os_Remove_created [OF assms(1) wf ok(2)] s(2) by blast
    then have "snd (with_temp_dir E rest w) = (tick w3)\<lparr>w_fs := w_fs w\<rparr>"
      using c ok(1) m by (simp add: with_temp_dir_def tbind_def [of "tcall _"] tcall_def deferring_def)
    then show ?thesis using s(1) by (simp add: steady_def ok(4))
  qed
qed

lemma steadily_server [steady_intros]:
  assumes "\<And>url. steadily (rest url)"
  shows "steadily (tbind (tcall (NewServer E)) (\<lambda>url. deferring (server_Close url) (rest url)))"
  unfolding steadily_def
proof (intro allI impI)
  fix w :: "'a world"
  assume wf: "wf_fs (w_fs w)"
  let ?url = "os_url E (w_clock w)" and ?w = "(tick w)\<lparr>w_servers := os_url E (w_clock w) # w_servers w\<rparr>"
  have "steady ?w (snd (rest ?url ?w))" using assms wf by (simp add: steadily_def)
  then show "steady w (snd (tbind (tcall (NewServer E)) (\<lambda>url. deferring (server_Close url) (rest url)) w))"
    by (auto simp: tbind_def tcall_def NewServer_def Let_def deferring_def server_Close_def steady_def split: prod.split)
qed

text \<open>Code under test that leaves no trace itself.\<close>

definition quiet :: "('d, 'c, 't, 'p) TestDriver \<Rightarrow> bool" where
  "quiet D \<longleftrightarrow> steadily (td_Setup D) \<and> steadily (td_Apply D) \<and> (\<forall>p. steadily (td_Retrieve D p))"

lemma steadily_sso_apply [steady_intros]: "quiet D \<Longrightarrow> steadily (sso_apply D expected)"
  unfolding sso_apply_def check_credentials_def quiet_def by (elim conjE) (intro steady_intros; simp)

text \<open>The steps of a test that only change what its clean-ups undo.\<close>

definition tidily :: "('c world \<Rightarrow> 'a outcome \<times> 'c world) \<Rightarrow> bool" where
  "tidily m \<longleftrightarrow> (\<forall>fs w r w'. m w = (r, w') \<longrightarrow> tidy fs w \<longrightarrow>
     tidy fs w' \<and> w_servers w' = w_servers w \<and> suffix (w_open w) (w_open w') \<and>
     suffix (t_cleanups (w_test w)) (t_cleanups (w_test w')))"

lemma tidilyI:
  "(\<And>fs w r w'. m w = (r, w') \<Longrightarrow> tidy fs w \<Longrightarrow>
     tidy fs w' \<and> w_servers w' = w_servers w \<and> suffix (w_open w) (w_open w') \<and>
     suffix (t_cleanups (w_test w)) (t_cleanups (w_test w'))) \<Longrightarrow> tidily m"
  by (auto simp: tidily_def)

lemma tidilyD:
  "tidily m \<Longrightarrow> m w = (r, w') \<Longrightarrow> tidy fs w \<Longrightarrow>
     tidy fs w' \<and> w_servers w' = w_servers w \<and> suffix (w_open w) (w_open w') \<and>
     suffix (t_cleanups (w_test w)) (t_cleanups (w_test w'))"
  by (auto simp: tidily_def)

lemma steadily_tidily:
  assumes "steadily m"
  shows "tidily m"
proof (rule tidilyI)
  fix fs r and w w' :: "'a world"
  assume m: "m w = (r, w')" and t: "tidy fs w"
  have "steady w w'" using steadilyD [OF assms m] t by (simp add: tidy_def)
  moreover from this have "tidy fs w'" using t tidy_cong [of w' w fs] by (simp add: steady_def)
  ultimately show "tidy fs w' \<and> w_servers w' = w_servers w \<and> suffix (w_open w) (w_open w') \<and>
     suffix (t_cleanups (w_test w)) (t_cleanups (w_test w'))" by (simp add: steady_def)
qed

lemma tidily_tbind:
  assumes "tidily m" and "\<And>v. tidily (f v)"
  shows "tidily (tbind m f)"
proof (rule tidilyI)
  fix fs r and w w' :: "'a world"
  assume b: "tbind m f w = (r, w')" and t: "tidy fs w"
  obtain r1 w1 where m: "m w = (r1, w1)" by fastforce
  note 1 = tidilyD [OF assms(1) m t]
  show "tidy fs w' \<and> w_servers w' = w_servers w \<and> suffix (w_open w) (w_open w') \<and>
     suffix (t_cleanups (w_test w)) (t_cleanups (w_test w'))"
  proof (cases r1)
    case (Done v)
    with b m have "f v w1 = (r, w')" by (simp add: tbind_def)
    from tidilyD [OF assms(2) this] 1 show ?thesis by (auto intro: suffix_order.trans)
  qed (use b m 1 in \<open>auto simp: tbind_def\<close>)
qed

lemma tidily_SsoTestSetup: "tidily (SsoTestSetup E pattern ssoKey)"
proof (rule tidilyI)
  fix fs r and w w' :: "'a world"
  assume "SsoTestSetup E pattern ssoKey w = (r, w')" and "tidy fs w"
  from SsoTestSetup_tidy [OF this]
  show "tidy fs w' \<and> w_servers w' = w_servers w \<and> suffix (w_open w) (w_open w') \<and>
     suffix (t_cleanups (w_test w)) (t_cleanups (w_test w'))" by (simp add: frame_def)
qed

text \<open>A subtest that starts with \<open>InitSessionTestEnv\<close>.\<close>

definition untouched :: "'c world \<Rightarrow> 'c world \<Rightarrow> bool" where
  "untouched w w' \<longleftrightarrow> w_fs w' = w_fs w \<and> w_test w' = w_test w \<and> w_servers w' = w_servers w \<and>
     w_tempdirs w' = w_tempdirs w \<and> suffix (w_open w) (w_open w')"

lemma untouched_refl [simp]: "untouched w w"
  by (simp add: untouched_def)

lemma untouched_trans: "untouched w w' \<Longrightarrow> untouched w' w'' \<Longrightarrow> untouched w w''"
  by (auto simp: untouched_def intro: suffix_order.trans)

lemma finish_session_env:
  assumes "wf_environ (t_env t)" and "t_cleanups t = []" and "InitSessionTestEnv t = Some t1"
    and "suffix (t_cleanups t1) (t_cleanups t2)"
  shows "finish_test t2 = t_env t"
proof -
  obtain cs where "t_cleanups t2 = cs @ t_cleanups t1" using assms(4) by (auto simp: suffix_def)
  moreover have "t_cleanups t1 = [restore_var ''AWS_SHARED_CREDENTIALS_FILE'' None, restore_var ''AWS_CONFIG_FILE'' None,
      PopEnv (t_env t)]"
    using assms(2,3) by (auto simp: InitSessionTestEnv_eq)
  ultimately show ?thesis by (simp add: finish_test_def PopEnv_restores [OF assms(1)])
qed

lemma session_subtest_untouched:
  assumes "tidily rest" and "wf_environ (t_env (w_test w))" and "wf_fs (w_fs w)" and "removable E"
    and "t_Run E (tbind (start_case D d) (\<lambda>_. tbind w_InitSessionTestEnv (\<lambda>_. rest))) w = (r, w')"
  shows "untouched w w'"
proof -
  let ?w0 = "w\<lparr>w_test := (w_test w)\<lparr>t_cleanups := []\<rparr>, w_tempdirs := [], w_failed := False, w_skipped := False\<rparr>"
  obtain r1 w1 where b: "tbind (start_case D d) (\<lambda>_. tbind w_InitSessionTestEnv (\<lambda>_. rest)) ?w0 = (r1, w1)" by fastforce
  have "tidy (w_fs w) w1 \<and> w_servers w1 = w_servers w \<and> suffix (w_open w) (w_open w1) \<and>
      finish_test (w_test w1) = t_env (w_test w)"
  proof (cases "td_TestCase D d")
    case (Panic p)
    with b have "w1 = ?w0" by (simp add: tbind_def start_case_def)
    with assms(3) show ?thesis by (simp add: finish_test_def tidy_def covered_def)
  next
    case (Ret c)
    let ?w1 = "?w0\<lparr>w_driver := c\<rparr>"
    obtain t1 where i: "InitSessionTestEnv (w_test ?w1) = Some t1" by (simp add: InitSessionTestEnv_eq)
    let ?w2 = "?w1\<lparr>w_test := t1\<rparr>"
    have "rest ?w2 = (r1, w1)"
      using b Ret i by (simp add: tbind_def start_case_def w_InitSessionTestEnv_def split: prod.splits outcome.splits)
    moreover have "tidy (w_fs w) ?w2" using assms(3) by (simp add: tidy_def covered_def)
    ultimately have 1: "tidy (w_fs w) w1 \<and> w_servers w1 = w_servers w \<and> suffix (w_open w) (w_open w1) \<and>
        suffix (t_cleanups t1) (t_cleanups (w_test w1))"
      using tidilyD [OF assms(1)] by fastforce
    moreover have "finish_test (w_test w1) = t_env (w_test ?w1)"
      by (rule finish_session_env [OF _ _ i]) (use 1 assms(2) in simp_all)
    ultimately show ?thesis by simp
  qed
  then have 1: "tidy (w_fs w) w1" "w_servers w1 = w_servers w" "suffix (w_open w) (w_open w1)"
    "finish_test (w_test w1) = t_env (w_test w)" by auto
  obtain n where rm: "remove_tempdirs E (w_tempdirs w1) w1 = w1\<lparr>w_clock := n, w_fs := without (w_tempdirs w1) (w_fs w1)\<rparr>"
    using remove_tempdirs_fs [OF assms(4), of "w_tempdirs w1" w1] by blast
  have "without (w_tempdirs w1) (w_fs w1) = w_fs w" using tidy_removed [OF assms(4) 1(1)] by (simp add: rm)
  with assms(5) 1 rm show ?thesis by (auto simp: t_Run_def b Let_def untouched_def)
qed

lemma run_cases_untouched:
  assumes "\<And>tc. tc \<in> set tcs \<Longrightarrow> \<exists>rest. body tc = tbind (start_case D d) (\<lambda>_. tbind w_InitSessionTestEnv (\<lambda>_. rest)) \<and> tidily rest"
    and "wf_environ (t_env (w_test w))" and "wf_fs (w_fs w)" and "removable E"
  shows "untouched w (snd (run_cases E body tcs w))"
  using assms(1-3)
proof (induction tcs arbitrary: w)
  case (Cons tc tcs)
  obtain r w1 where t: "t_Run E (body tc) w = (r, w1)" by fastforce
  have u: "untouched w w1"
    using Cons.prems(1) [of tc] session_subtest_untouched [OF _ Cons.prems(2,3) assms(4)] t by auto
  have "untouched w1 (snd (run_cases E body tcs w1))"
    by (rule Cons.IH) (use Cons.prems u in \<open>auto simp: untouched_def\<close>)
  with u t show ?case by (cases r) (auto simp: tbind_def intro: untouched_trans)
qed simp

lemma tidily_option:
  "tidily f \<Longrightarrow> (\<And>a. tidily (g a)) \<Longrightarrow> tidily (case x of None \<Rightarrow> f | Some a \<Rightarrow> g a)"
  by (cases x) simp_all

lemma sso_body_tidy:
  assumes "quiet D" and "removable E"
  shows "\<exists>rest. sso_body E D d pattern ssoKey tc = tbind (start_case D d) (\<lambda>_. tbind w_InitSessionTestEnv (\<lambda>_. rest)) \<and>
    tidily rest"
  unfolding sso_body_def
  by (intro exI conjI, rule refl, intro tidily_tbind tidily_SsoTestSetup tidily_option steadily_tidily)
    (intro steady_intros assms)+

lemma steadily_parse_check: "tc \<in> set (parse_cases D) \<Longrightarrow> steadily (pc_Check tc thing)"
proof -
  have "steadily (check_region D e thing)" "steadily (check_start_url D e thing)" for e
    unfolding check_region_def check_start_url_def Let_def by (intro steady_intros)+
  then show "tc \<in> set (parse_cases D) \<Longrightarrow> steadily (pc_Check tc thing)" by (auto simp: parse_cases_def)
qed

lemma parse_body_tidy:
  assumes "quiet D" and "removable E" and "tc \<in> set (parse_cases D)"
  shows "\<exists>rest. parse_body E D d tc = tbind (start_case D d) (\<lambda>_. tbind w_InitSessionTestEnv (\<lambda>_. rest)) \<and>
    tidily rest"
proof -
  have ap: "steadily (td_Apply D)" using assms(1) by (simp add: quiet_def)
  show ?thesis
    unfolding parse_body_def
    by (intro exI conjI, rule refl, intro tidily_tbind steadily_tidily)
      (intro steady_intros steadily_parse_check [OF assms(3)] assms(2) ap)+
qed

text \<open>C32: The drivers leave no trace: for every order of their cases, whatever system calls fail (removals
  apart), and whether a case passes, fails, skips or panics, afterwards the file system, every entry of
  the environment, the clean-ups and the servers that listen are as they were before. The code under
  test must leave no trace itself.\<close>

theorem drivers_leave_no_trace:
  assumes "quiet D" and "removable E" and "wf_environ (t_env (w_test w))" and "wf_fs (w_fs w)"
    and "set (parse_order (parse_cases D)) = set (parse_cases D)"
  shows "untouched w (snd (SSO E D N order pattern d w)) \<and>
    untouched w (snd (LegacySSO E D N order pattern d w)) \<and>
    untouched w (snd (SharedConfigFileParsing E D parse_order d w))"
  unfolding SSO_def LegacySSO_def SharedConfigFileParsing_def Let_def
  using assms(5) sso_body_tidy [OF assms(1,2)] parse_body_tidy [OF assms(1,2)]
  by (intro conjI run_cases_untouched [OF _ assms(3,4,2)]) auto

text \<open>A driver like that of \<open>aws_config_test.go\<close>: the configuration is kept, the endpoint must be that of SSO,
  and the result of the code under test is fixed.\<close>

record sample_config =
  sm_AccessKey :: string
  sm_SecretKey :: string
  sm_Profile :: string
  sm_UseFIPSEndpoint :: bool
  sm_SsoEndpoint :: string
  sm_SharedConfigFiles :: "string list"

definition sample_driver :: "v2_credentials \<Rightarrow> (TestMode, sample_config, v2_credentials, v2_credentials) TestDriver" where
  "sample_driver creds =
     (let cf = \<lparr>cf_SetAccessKey = (\<lambda>s c. Ret (c\<lparr>sm_AccessKey := s\<rparr>)), cf_SetSecretKey = (\<lambda>s c. Ret (c\<lparr>sm_SecretKey := s\<rparr>)),
           cf_SetProfile = (\<lambda>s c. Ret (c\<lparr>sm_Profile := s\<rparr>)), cf_SetUseFIPSEndpoint = (\<lambda>b c. Ret (c\<lparr>sm_UseFIPSEndpoint := b\<rparr>)),
           cf_AddEndpoint = (\<lambda>k v c. if k = ''sso'' then Ret (c\<lparr>sm_SsoEndpoint := v\<rparr>) else Panic ''invalid endpoint''),
           cf_AddSharedConfigFile = (\<lambda>f c. Ret (c\<lparr>sm_SharedConfigFiles := sm_SharedConfigFiles c @ [f]\<rparr>))\<rparr>
      in \<lparr>td_Init = (\<lambda>mode d. mode),
          td_TestCase = (\<lambda>d. if d = TestModeInvalid then Panic ''TestDriver not initialized'' else Ret \<lparr>sm_AccessKey = [],
            sm_SecretKey = [], sm_Profile = [], sm_UseFIPSEndpoint = False, sm_SsoEndpoint = [], sm_SharedConfigFiles = []\<rparr>),
          td_Configuration = (\<lambda>fs c. foldl (\<lambda>r f. go_bind r (f cf)) (Ret c) fs),
          td_configurer = cf, td_Setup = tret (), td_Apply = tret creds, td_GetCredentials = Some,
          td_Retrieve = (\<lambda>p w. (Inr p, w)), td_GetRegion = (\<lambda>t. ''us-east-1''), td_GetAwsConfig = (\<lambda>t. None),
          td_Error = (\<lambda>e. []), td_quote = (\<lambda>s. s)\<rparr>)"

definition sample_config0 :: sample_config where
  "sample_config0 =
     \<lparr>sm_AccessKey = [], sm_SecretKey = [], sm_Profile = [], sm_UseFIPSEndpoint = False, sm_SsoEndpoint = [],
      sm_SharedConfigFiles = []\<rparr>"

definition sample_names :: provider_names where
  "sample_names =
     \<lparr>pn_ec2role = ''EC2RoleProvider'', pn_endpoint = ''CredentialsEndpointProvider'', pn_env = ''EnvConfigCredentials'',
      pn_static = ''StaticCredentials'', pn_sts = ''AssumeRoleProvider'', pn_webidentity = ''WebIdentityCredentials'',
      pn_sso = ''SSOProvider''\<rparr>"

lemma quiet_sample_driver: "quiet (sample_driver creds)"
  by (simp add: quiet_def sample_driver_def Let_def steadily_tret) (simp add: steadily_def)

lemma wf_sample_environ: "wf_environ (t_env (w_test (sample_world c)))"
  unfolding wf_environ_def sample_world_def
  by (intro exI [of _ "[(''HOME'', ''/root'')]"]) (simp add: entry_of_def valid_value_def)

lemma drivers_leave_no_trace_witness:
  "untouched (sample_world sample_config0)
     (snd (SSO sample_os_env (sample_driver (MockSsoCredentials sample_names)) sample_names rev (\<lambda>name. ''T'') TestModeInvalid
       (sample_world sample_config0)))"
  using drivers_leave_no_trace [OF quiet_sample_driver removable_sample wf_sample_environ wf_sample,
      of rev "MockSsoCredentials sample_names" sample_config0 sample_names rev]
  by simp

section \<open>What the code under test finds\<close>

text \<open>The state in which the SSO drivers run the code under test.\<close>

definition session_ready :: "os_env \<Rightarrow> string \<Rightarrow> 'c world \<Rightarrow> bool" where
  "session_ready E ssoKey w \<longleftrightarrow>
     (\<exists>home. Getenv (t_env (w_test w)) (home_var E) = home \<and> token_at home ssoKey (w_fs w)) \<and>
     Getenv (t_env (w_test w)) ''AWS_CONFIG_FILE'' = ''file_not_exists'' \<and>
     Getenv (t_env (w_test w)) ''AWS_SHARED_CREDENTIALS_FILE'' = ''file_not_exists''"

definition sso_ready :: "os_env \<Rightarrow> string \<Rightarrow> string \<Rightarrow> 'c world \<Rightarrow> bool" where
  "sso_ready E ssoKey content w \<longleftrightarrow> session_ready E ssoKey w \<and> w_servers w \<noteq> [] \<and>
     (content = [] \<or> (\<exists>name \<in> set (w_open w). fmlookup (w_fs w) (resolve name) = Some (File content)))"

lemma session_ready_new:
  assumes "session_ready E ssoKey w" and "w_test w' = w_test w" and "w_fs w' = fmupd p x (w_fs w)" and "fmlookup (w_fs w) p = None"
  shows "session_ready E ssoKey w'"
  using assms by (auto simp: session_ready_def token_at_def)

lemma tbind_cong_Done:
  assumes "m w = m' w" and "\<And>v w'. m w = (Done v, w') \<Longrightarrow> f v w' = f' v w'"
  shows "tbind m f w = tbind m' f' w"
  using assms by (auto simp: tbind_def split: prod.split outcome.split)

lemma deferring_cong: "rest w = rest' w \<Longrightarrow> deferring d rest w = deferring d rest' w"
  by (simp add: deferring_def)

lemma tcall_Done: "tcall m w = (Done v, w') \<longleftrightarrow> m w = (v, w')"
  by (auto simp: tcall_def split: prod.split)

lemma driver_call_Done:
  "driver_call f w = (Done u, w') \<Longrightarrow> \<exists>c. w' = w\<lparr>w_driver := c\<rparr>"
  by (auto simp: driver_call_def split: go.splits)

lemma session_ready_driver [simp]: "session_ready E ssoKey (w\<lparr>w_driver := c\<rparr>) \<longleftrightarrow> session_ready E ssoKey w"
  by (simp add: session_ready_def)

definition keeps_env :: "('c world \<Rightarrow> 'a \<times> 'c world) \<Rightarrow> bool" where
  "keeps_env m \<longleftrightarrow> (\<forall>w. t_env (w_test (snd (m w))) = t_env (w_test w))"

lemma check_credentials_Apply [simp]: "check_credentials (D\<lparr>td_Apply := f\<rparr>) = check_credentials D"
proof -
  have "td_GetCredentials (D\<lparr>td_Apply := f\<rparr>) = td_GetCredentials D" "td_Retrieve (D\<lparr>td_Apply := f\<rparr>) = td_Retrieve D"
    "td_Error (D\<lparr>td_Apply := f\<rparr>) = td_Error D" by simp_all
  then show ?thesis by (intro ext) (simp only: check_credentials_def)
qed

lemma sso_apply_ready:
  assumes "quiet D" and "keeps_env (td_Setup D)" and "\<And>w. sso_ready E ssoKey content w \<Longrightarrow> f w = td_Apply D w"
    and "sso_ready E ssoKey content w" and "wf_fs (w_fs w)"
  shows "sso_apply (D\<lparr>td_Apply := f\<rparr>) e w = sso_apply D e w"
  unfolding sso_apply_def
proof (rule tbind_cong_Done)
  fix v w'
  assume s: "td_Setup (D\<lparr>td_Apply := f\<rparr>) w = (Done v, w')"
  then have s': "td_Setup D w = (Done v, w')" by simp
  have "steady w w'" using assms(1) steadilyD [of "td_Setup D", OF _ s' assms(5)] by (simp add: quiet_def)
  moreover have "t_env (w_test w') = t_env (w_test w)" using assms(2) s' unfolding keeps_env_def by (metis snd_conv)
  ultimately have "sso_ready E ssoKey content w'"
    using assms(4) by (auto simp: sso_ready_def session_ready_def steady_def suffix_def)
  with assms(3) have "f w' = td_Apply D w'" by blast
  then show "tbind (td_Apply (D\<lparr>td_Apply := f\<rparr>)) (check_credentials (D\<lparr>td_Apply := f\<rparr>) e) w' =
      tbind (td_Apply D) (check_credentials D e) w'"
    by (simp add: tbind_def)
qed simp

lemma with_config_file_ready:
  assumes "quiet D" and "keeps_env (td_Setup D)" and "\<And>w. sso_ready E ssoKey content w \<Longrightarrow> f w = td_Apply D w"
    and "session_ready E ssoKey w" and "w_servers w \<noteq> []" and "wf_fs (w_fs w)"
  shows "with_config_file E (D\<lparr>td_Apply := f\<rparr>) content (sso_apply (D\<lparr>td_Apply := f\<rparr>) e) w =
    with_config_file E D content (sso_apply D e) w"
proof (cases "content = []")
  case True
  then have "sso_ready E ssoKey content w" using assms(4,5) by (simp add: sso_ready_def)
  with True sso_apply_ready [OF assms(1-3) _ assms(6)] show ?thesis by (simp add: with_config_file_def)
next
  case False
  have conf: "configure_file E (D\<lparr>td_Apply := f\<rparr>) name content (sso_apply (D\<lparr>td_Apply := f\<rparr>) e) w1 =
      configure_file E D name content (sso_apply D e) w1"
    if c: "os_CreateTemp E p w = (Inr name, w1)" for name w1 p
    unfolding configure_file_def
  proof (rule tbind_cong_Done)
    fix err w2
    assume "tcall (os_WriteFile E name content) w1 = (Done err, w2)"
    then have k: "os_WriteFile E name content w1 = (err, w2)" by (simp add: tcall_Done)
    from c obtain n where w1: "fmlookup (w_fs w) (resolve name) = None"
      "w1 = w\<lparr>w_clock := n, w_fs := fmupd (resolve name) (File []) (w_fs w), w_open := name # w_open w\<rparr>"
      "wf_fs (fmupd (resolve name) (File []) (w_fs w))"
      using assms(6) by (cases rule: os_CreateTemp_cases) auto
    from os_WriteFile_existing [OF k, of "[]"] w1(2) obtain new n2 where
      w2: "w2 = w1\<lparr>w_clock := n2, w_fs := fmupd (resolve name) (File new) (w_fs w1)\<rparr>" "err = None \<longrightarrow> new = content" by auto
    have fs2: "w_fs w2 = fmupd (resolve name) (File new) (w_fs w)" by (rule fmap_ext) (simp add: w2 w1(2))
    have wf2: "wf_fs (w_fs w2)" using w1(3) wf_fs_replace_file unfolding fs2 by blast
    have ses: "session_ready E ssoKey w2"
      by (rule session_ready_new [OF assms(4) _ fs2 w1(1)]) (simp add: w2 w1(2))
    have "tbind (driver_call g) (\<lambda>_. sso_apply (D\<lparr>td_Apply := f\<rparr>) e) w2 = tbind (driver_call g) (\<lambda>_. sso_apply D e) w2"
      if "err = None" for g
    proof (rule tbind_cong_Done [OF refl])
      fix u w3
      assume "driver_call g w2 = (Done u, w3)"
      then obtain d where w3: "w3 = w2\<lparr>w_driver := d\<rparr>" using driver_call_Done by blast
      have "sso_ready E ssoKey content w3"
        using ses w2 that assms(5) by (simp add: sso_ready_def w3 w1(2))
      then show "sso_apply (D\<lparr>td_Apply := f\<rparr>) e w3 = sso_apply D e w3"
        using sso_apply_ready [OF assms(1-3)] wf2 by (simp add: w3)
    qed
    then show "(case err of None \<Rightarrow>
          tbind (driver_call (cf_AddSharedConfigFile (td_configurer (D\<lparr>td_Apply := f\<rparr>)) name)) (\<lambda>_. sso_apply (D\<lparr>td_Apply := f\<rparr>) e)
        | Some e \<Rightarrow> t_Fatalf (''unexpected error writing shared configuration file: '' @ os_error_text e)) w2 =
      (case err of None \<Rightarrow> tbind (driver_call (cf_AddSharedConfigFile (td_configurer D) name)) (\<lambda>_. sso_apply D e)
        | Some e \<Rightarrow> t_Fatalf (''unexpected error writing shared configuration file: '' @ os_error_text e)) w2"
      by (cases err) simp_all
  qed (rule refl)
  show ?thesis
    unfolding with_config_file_def if_P [OF False]
  proof (rule tbind_cong_Done [OF refl])
    fix r w1
    assume "tcall (os_CreateTemp E ''aws-sdk-go-base-shared-configuration-file'') w = (Done r, w1)"
    then have "os_CreateTemp E ''aws-sdk-go-base-shared-configuration-file'' w = (r, w1)" by (simp add: tcall_Done)
    then show "(case r of Inl e \<Rightarrow> t_Fatalf (''unexpected error creating temporary shared configuration file: '' @ os_error_text e)
        | Inr name \<Rightarrow> deferring (\<lambda>w. snd (os_Remove E name w))
            (configure_file E (D\<lparr>td_Apply := f\<rparr>) name content (sso_apply (D\<lparr>td_Apply := f\<rparr>) e))) w1 =
      (case r of Inl e \<Rightarrow> t_Fatalf (''unexpected error creating temporary shared configuration file: '' @ os_error_text e)
        | Inr name \<Rightarrow> deferring (\<lambda>w. snd (os_Remove E name w)) (configure_file E D name content (sso_apply D e))) w1"
      by (cases r) (simp_all add: conf deferring_def)
  qed
qed

lemma with_temp_dir_ready:
  assumes "\<And>w. session_ready E ssoKey w \<Longrightarrow> w_servers w \<noteq> [] \<Longrightarrow> wf_fs (w_fs w) \<Longrightarrow> rest w = rest' w"
    and "session_ready E ssoKey w" and "w_servers w \<noteq> []" and "wf_fs (w_fs w)"
  shows "with_temp_dir E rest w = with_temp_dir E rest' w"
  unfolding with_temp_dir_def
proof (rule tbind_cong_Done [OF refl])
  fix r w1
  assume "tcall (os_MkdirTemp E ''temp'') w = (Done r, w1)"
  then have m: "os_MkdirTemp E ''temp'' w = (r, w1)" by (simp add: tcall_Done)
  show "(case r of Inl e \<Rightarrow> t_Fatalf (''error creating temp dir: '' @ os_error_text e)
      | Inr tempdir \<Rightarrow> deferring (\<lambda>w. snd (os_Remove E tempdir w)) (tbind (w_Setenv ''TMPDIR'' tempdir) (\<lambda>_. rest))) w1 =
    (case r of Inl e \<Rightarrow> t_Fatalf (''error creating temp dir: '' @ os_error_text e)
      | Inr tempdir \<Rightarrow> deferring (\<lambda>w. snd (os_Remove E tempdir w)) (tbind (w_Setenv ''TMPDIR'' tempdir) (\<lambda>_. rest'))) w1"
  proof (cases r)
    case (Inr name)
    from m Inr obtain n where w1: "fmlookup (w_fs w) (resolve name) = None"
      "w1 = w\<lparr>w_clock := n, w_fs := fmupd (resolve name) Dir (w_fs w)\<rparr>" "wf_fs (fmupd (resolve name) Dir (w_fs w))"
      using assms(4) by (cases rule: os_MkdirTemp_cases) auto
    have ses: "session_ready E ssoKey w1"
      by (rule session_ready_new [OF assms(2) _ _ w1(1), of _ Dir]) (simp_all add: w1(2))
    have "tbind (w_Setenv ''TMPDIR'' name) (\<lambda>_. rest) w1 = tbind (w_Setenv ''TMPDIR'' name) (\<lambda>_. rest') w1"
    proof (rule tbind_cong_Done [OF refl])
      fix u w2
      assume s: "w_Setenv ''TMPDIR'' name w1 = (Done u, w2)"
      have k: "valid_key ''TMPDIR''" by (simp add: valid_key_def)
      from s k have w2: "w2 = w1\<lparr>w_test := w_test w2\<rparr> \<and> t_env (w_test w2) = put_entry ''TMPDIR'' name (t_env (w_test w1))"
      proof (cases rule: w_Setenv_cases)
        case ok
        then show ?thesis by blast
      qed simp
      have fields: "w_fs w2 = w_fs w1" "w_servers w2 = w_servers w1" by (subst conjunct1 [OF w2], simp)+
      have "session_ready E ssoKey w2"
        using ses by (simp add: session_ready_def fields conjunct2 [OF w2] k home_var_def)
      then show "rest w2 = rest' w2" using assms(1) fields w1(2,3) assms(3) by simp
    qed
    then show ?thesis by (simp add: Inr deferring_def)
  qed simp
qed

lemma session_env_Getenv:
  "Getenv session_env ''AWS_CONFIG_FILE'' = ''file_not_exists''"
  "Getenv session_env ''AWS_SHARED_CREDENTIALS_FILE'' = ''file_not_exists''"
  by (simp_all add: session_env_def del: put_entry.simps)

text \<open>Code under test that behaves differently in states that are not ready cannot be told apart by a case,
  whether it passes or not.\<close>

lemma sso_body_only_ready:
  assumes "quiet D" and "keeps_env (td_Setup D)" and "wf_fs (w_fs w)" and "w_tempdirs w = []"
    and "\<And>w. sso_ready E ssoKey (sc_SharedConfigurationFile tc) w \<Longrightarrow> f w = td_Apply D w"
  shows "sso_body E (D\<lparr>td_Apply := f\<rparr>) d pattern ssoKey tc w = sso_body E D d pattern ssoKey tc w"
proof -
  let ?D = "D\<lparr>td_Apply := f\<rparr>"
  let ?rest = "\<lambda>D. with_temp_dir E (with_config_file E D (sc_SharedConfigurationFile tc) (sso_apply D (sc_ExpectedCredentialsValue tc)))"
  let ?conf = "\<lambda>D. tbind (driver_call (td_Configuration D (sc_Configuration tc)))
      (\<lambda>_. tbind (tcall (NewServer E)) (\<lambda>url. deferring (server_Close url)
        (tbind (driver_call (cf_AddEndpoint (td_configurer D) ''sso'' url)) (\<lambda>_. ?rest D))))"
  have rest: "?rest ?D w = ?rest D w" if "session_ready E ssoKey w" "w_servers w \<noteq> []" "wf_fs (w_fs w)" for w
    using that by (intro with_temp_dir_ready [of E ssoKey] with_config_file_ready [OF assms(1,2,5)])
  have conf: "?conf ?D w = ?conf D w" if "session_ready E ssoKey w" "wf_fs (w_fs w)" for w
  proof (rule tbind_cong_Done)
    fix u w1
    assume "driver_call (td_Configuration ?D (sc_Configuration tc)) w = (Done u, w1)"
    then obtain c where w1: "w1 = w\<lparr>w_driver := c\<rparr>" using driver_call_Done by blast
    show "tbind (tcall (NewServer E)) (\<lambda>url. deferring (server_Close url)
        (tbind (driver_call (cf_AddEndpoint (td_configurer ?D) ''sso'' url)) (\<lambda>_. ?rest ?D))) w1 =
      tbind (tcall (NewServer E)) (\<lambda>url. deferring (server_Close url)
        (tbind (driver_call (cf_AddEndpoint (td_configurer D) ''sso'' url)) (\<lambda>_. ?rest D))) w1"
    proof (rule tbind_cong_Done [OF refl], rule deferring_cong, rule tbind_cong_Done)
      fix url u w2 w3
      assume "tcall (NewServer E) w1 = (Done url, w2)"
        and a: "driver_call (cf_AddEndpoint (td_configurer ?D) ''sso'' url) w2 = (Done u, w3)"
      then have w2: "w2 = (tick w1)\<lparr>w_servers := url # w_servers w1\<rparr>" by (auto simp: tcall_def NewServer_def Let_def)
      obtain c' where w3: "w3 = w2\<lparr>w_driver := c'\<rparr>" using driver_call_Done [OF a] by blast
      have "session_ready E ssoKey w3" using that(1) by (simp add: w3 w2 w1 session_ready_def)
      then show "?rest ?D w3 = ?rest D w3" by (rule rest) (simp_all add: w3 w2 w1 that(2))
    qed simp
  qed simp
  show ?thesis
    unfolding sso_body_def
  proof (rule tbind_cong_Done, goal_cases)
    case (2 u w1)
    then have w1: "\<exists>c. w1 = w\<lparr>w_driver := c\<rparr>" by (auto simp: start_case_def split: go.splits)
    show ?case
    proof (rule tbind_cong_Done [OF refl], rule tbind_cong_Done [OF refl], goal_cases)
      case (1 u2 w2 err w3)
      from 1(1) w1 have w2: "t_env (w_test w2) = session_env" "w_fs w2 = w_fs w" "w_tempdirs w2 = []"
        using assms(4) by (auto simp: w_InitSessionTestEnv_def InitSessionTestEnv_eq)
      have "tidy (w_fs w) w2" using assms(3) w2 by (simp add: tidy_def covered_def)
      from SsoTestSetup_tidy [OF 1(2) this] have s: "tidy (w_fs w) w3" "setup_result E ssoKey w2 (Done err) w3" by auto
      show ?case
      proof (cases err)
        case None
        with s(2) have h: "home_with_token E ssoKey w2 w3" by (simp add: setup_result_def)
        have "session_ready E ssoKey w3"
          using h w2(1) by (auto simp: home_with_token_def session_ready_def session_env_Getenv home_var_def valid_key_def)
        moreover have "wf_fs (w_fs w3)" using s(1) by (simp add: tidy_def)
        ultimately show ?thesis using conf None by simp
      qed simp
    qed
  qed (simp add: start_case_def)
qed

text \<open>The file that \<open>os.CreateTemp\<close> opens for the shared configuration is removed but never closed: the
  drivers use only its name.\<close>

theorem config_file_never_closed:
  assumes "content \<noteq> []" and "os_CreateTemp E ''aws-sdk-go-base-shared-configuration-file'' w = (Inr name, w1)"
    and "\<And>w. w_open (snd (rest w)) = w_open w"
  shows "w_open (snd (with_config_file E D content rest w)) = name # w_open w"
proof -
  from assms(2) have w1: "w_open w1 = name # w_open w" "fmlookup (w_fs w1) (resolve name) = Some (File [])"
    by (auto elim!: os_CreateTemp_cases)
  obtain err w2 where k: "os_WriteFile E name content w1 = (err, w2)" by fastforce
  have w2: "w_open w2 = w_open w1" using os_WriteFile_existing [OF k w1(2)] by auto
  have rm: "w_open (snd (os_Remove E name w)) = w_open w" for w
    by (cases "os_Remove E name w") (auto simp: os_Remove_def same_fields elim!: fs_call_cases)
  have "w_open (snd (configure_file E D name content rest w1)) = w_open w1"
  proof (cases err)
    case None
    then have "configure_file E D name content rest w1 =
        tbind (driver_call (cf_AddSharedConfigFile (td_configurer D) name)) (\<lambda>_. rest) w2"
      using k by (simp add: configure_file_def tbind_def [of "tcall _"] tcall_def)
    then show ?thesis using assms(3) w2 by (simp add: tbind_def driver_call_def split: go.split)
  next
    case (Some e)
    then show ?thesis using k w2 by (simp add: configure_file_def tbind_def tcall_def t_Fatalf_def t_Errorf_def)
  qed
  moreover obtain r w3 where "configure_file E D name content rest w1 = (r, w3)" by fastforce
  ultimately show ?thesis using assms(1,2) w1 rm [of w3]
    by (simp add: with_config_file_def tbind_def tcall_def deferring_def)
qed

end
