(* ===== verification/TestDrivers_sound.thy ===== *)
theory TestDrivers_sound
  imports TestDrivers_props
begin

text \<open>
  What a passed case of the test drivers means: the code under test ran with everything in place and
  gave the expected result. The drivers are sound if no failing code passes them; the runs of a
  sample driver at the end show that code that works passes.
\<close>

section \<open>Inversion\<close>

text \<open>A sequence of steps returns only if each step did.\<close>

named_theorems returns

lemma tbind_returns [returns]: "tbind m f w = (Done v, w') \<longleftrightarrow> (\<exists>a w1. m w = (Done a, w1) \<and> f a w1 = (Done v, w'))"
  by (auto simp: tbind_def split: prod.splits outcome.splits)

lemma tcall_returns [returns]: "tcall m w = (Done v, w') \<longleftrightarrow> m w = (v, w')"
  by (rule tcall_Done)

lemma deferring_returns [returns]: "deferring d rest w = (Done v, w') \<longleftrightarrow> (\<exists>w1. rest w = (Done v, w1) \<and> w' = d w1)"
  by (auto simp: deferring_def split: prod.splits)

lemma Fatalf_returns [returns]: "t_Fatalf msg w \<noteq> (Done v, w')"
  by (simp add: t_Fatalf_def)

lemma Skipf_returns [returns]: "t_Skipf msg w \<noteq> (Done v, w')"
  by (simp add: t_Skipf_def)

lemma tret_returns [returns]: "tret a w = (Done v, w') \<longleftrightarrow> v = a \<and> w' = w"
  by (auto simp: tret_def)

lemma tmodify_returns [returns]: "tmodify f w = (Done v, w') \<longleftrightarrow> w' = f w"
  by (auto simp: tmodify_def)

lemma sum_returns [returns]:
  "case_sum f g r w = (Done v, w') \<longleftrightarrow>
     (\<exists>e. r = Inl e \<and> f e w = (Done v, w')) \<or> (\<exists>a. r = Inr a \<and> g a w = (Done v, w'))"
  by (cases r) simp_all

lemma option_returns [returns]:
  "case_option f g r w = (Done v, w') \<longleftrightarrow> (r = None \<and> f w = (Done v, w')) \<or> (\<exists>a. r = Some a \<and> g a w = (Done v, w'))"
  by (cases r) simp_all

lemma if_returns [returns]:
  "(if b then f else g) w = (Done v, w') \<longleftrightarrow> (if b then f w = (Done v, w') else g w = (Done v, w'))"
  by simp

text \<open>When the rest of a case runs, an open file holds the shared configuration.\<close>

definition config_on_file :: "string \<Rightarrow> 'c world \<Rightarrow> bool" where
  "config_on_file content w \<longleftrightarrow>
     content = [] \<or> (\<exists>name \<in> set (w_open w). fmlookup (w_fs w) (resolve name) = Some (File content))"

lemma configure_file_returns:
  assumes "os_CreateTemp E pattern w = (Inr name, w1)" and "configure_file E D name content rest w1 = (Done (), w')"
  obtains w2 where "rest w2 = (Done (), w')" and "config_on_file content w2"
proof -
  from assms(1) have w1: "name \<in> set (w_open w1)" "fmlookup (w_fs w1) (resolve name) = Some (File [])"
    by (auto elim!: os_CreateTemp_cases)
  from assms(2) obtain w2 w3 where k: "os_WriteFile E name content w1 = (None, w2)"
    and c: "driver_call (cf_AddSharedConfigFile (td_configurer D) name) w2 = (Done (), w3)"
    and r: "rest w3 = (Done (), w')"
    by (auto simp: configure_file_def returns)
  from os_WriteFile_existing [OF k w1(2)] driver_call_Done [OF c] w1(1) have "config_on_file content w3"
    by (auto simp: config_on_file_def)
  with r that show thesis by blast
qed

lemma with_config_file_returns:
  assumes "with_config_file E D content rest w = (Done (), w')"
  obtains w1 w2 where "rest w1 = (Done (), w2)" and "config_on_file content w1" and "w_failed w' = w_failed w2"
proof (cases "content = []")
  case True
  with assms that show thesis by (auto simp: with_config_file_def config_on_file_def)
next
  case False
  have rm: "w_failed (snd (os_Remove E name w)) = w_failed w" for name w
    by (cases "os_Remove E name w") (auto simp: os_Remove_def same_fields elim!: fs_call_cases)
  from assms False obtain name w1 w2 where
    "os_CreateTemp E ''aws-sdk-go-base-shared-configuration-file'' w = (Inr name, w1)"
    "configure_file E D name content rest w1 = (Done (), w2)" "w' = snd (os_Remove E name w2)"
    by (auto simp: with_config_file_def returns)
  with configure_file_returns [OF this(1,2)] that rm show thesis by metis
qed

lemma sso_body_returns:
  assumes "sso_body E D d pattern ssoKey tc w = (Done (), w')"
  obtains w1 w2 where "sso_apply D (sc_ExpectedCredentialsValue tc) w1 = (Done (), w2)"
proof -
  from assms obtain w1 w2 where
    "with_config_file E D (sc_SharedConfigurationFile tc) (sso_apply D (sc_ExpectedCredentialsValue tc)) w1 = (Done (), w2)"
    by (auto simp: sso_body_def with_temp_dir_def returns split: if_split_asm)
  from with_config_file_returns [OF this] that show thesis by metis
qed

lemma sso_apply_returns:
  assumes "sso_apply D e w = (Done (), w')"
  obtains w1 thing w2 p v where "td_Apply D w1 = (Done thing, w2)" and "td_GetCredentials D thing = Some p"
    and "td_Retrieve D p w2 = (Inr v, w')" and "same_credentials v e"
  using assms
  by (auto simp: sso_apply_def check_credentials_def returns split: if_split_asm)

lemma parse_body_returns:
  assumes "parse_body E D d tc w = (Done (), w')"
  obtains w1 thing w2 w3 where "config_on_file (pc_SharedConfigurationFile tc) w1" and "td_Apply D w1 = (Done thing, w2)"
    and "pc_Check tc thing w2 = (Done (), w3)" and "w_failed w' = w_failed w3"
proof -
  from assms obtain w1 where
    "with_config_file E D (pc_SharedConfigurationFile tc) (tbind (td_Apply D) (pc_Check tc)) w1 = (Done (), w')"
    by (auto simp: parse_body_def returns)
  then show thesis by (rule with_config_file_returns) (use that in \<open>auto simp: returns\<close>)
qed

lemma t_Errorf_failed [simp]: "w_failed (t_Errorf msg w)"
  by (simp add: t_Errorf_def)

lemma t_Errorf_neq: "\<not> w_failed w \<Longrightarrow> t_Errorf msg w \<noteq> w"
  by (metis t_Errorf_failed)

lemma check_region_passes: "check_region D e thing w = (Done (), w') \<Longrightarrow> \<not> w_failed w' \<Longrightarrow> td_GetRegion D thing = e"
  by (auto simp: check_region_def Let_def returns t_Errorf_neq split: if_split_asm)

lemma check_start_url_passes:
  "check_start_url D e thing w = (Done (), w') \<Longrightarrow> \<not> w_failed w' \<Longrightarrow>
   \<exists>sources. td_GetAwsConfig D thing = Some sources \<and> last_start_url sources = e"
  by (auto simp: check_start_url_def Let_def returns t_Errorf_neq split: if_split_asm)

text \<open>What the cases of the parser expect of a thing.\<close>

definition expected_thing :: "('d, 'c, 't, 'p) TestDriver \<Rightarrow> ('c, 't) parse_case \<Rightarrow> 't \<Rightarrow> bool" where
  "expected_thing D tc thing \<longleftrightarrow>
     (if pc_name tc = ''trailing hash''
      then (\<exists>sources. td_GetAwsConfig D thing = Some sources \<and>
        last_start_url sources = ''https://d-123456789a.awsapps.com/start#'')
      else td_GetRegion D thing = (if pc_Configuration tc = [] then ''us-west-2'' else ''us-east-1''))"

section \<open>Runs of a sample driver\<close>

lemma w_Setenv_Done:
  assumes "valid_key k" and "valid_value v"
  obtains t where "w_Setenv k v w = (Done (), w\<lparr>w_test := t\<rparr>)" and "t_Setenv k v (w_test w) = Some t"
    and "t_env t = put_entry k v (t_env (w_test w))"
  using assms by (auto simp: w_Setenv_def t_Setenv_def Setenv_Inr Cleanup_def)

lemma sample_WriteFile:
  assumes "resolve n = p" and "fs_Open False p (w_fs w) = Inr (fmupd p (File []) fs)"
  shows "os_WriteFile sample_os_env n s w = (None, w\<lparr>w_clock := w_clock w + 3, w_fs := fmupd p (File s) fs\<rparr>)"
  using assms by (simp add: os_WriteFile_def sample_OpenFile [OF assms] file_Write_def file_Close_def tick_def fs_append_def)

abbreviation config_pattern :: string where "config_pattern \<equiv> ''aws-sdk-go-base-shared-configuration-file''"

lemma config_pattern_split: "prefixAndSuffix config_pattern = Some (config_pattern, [])"
  by code_simp

text \<open>The configuration file of a case is written and the rest runs.\<close>

lemma sample_config_file:
  assumes "content \<noteq> []" and "joinPath (os_TempDir w) config_pattern @ Itoa (w_clock w) = n" and "w_clock w < 2 ^ 32"
    and "resolve n = p" and "parent_error (w_fs w) p = None" and "node_at (w_fs w) p = None"
    and "parent_error (fmupd p (File []) (w_fs w)) p = None"
    and "cf_AddSharedConfigFile (td_configurer D) n (w_driver w) = Ret c"
    and "rest (w\<lparr>w_open := n # w_open w, w_clock := 5 + w_clock w, w_fs := fmupd p (File content) (w_fs w), w_driver := c\<rparr>) = (Done (), w')"
  shows "\<exists>w''. with_config_file sample_os_env D content rest w = (Done (), w'') \<and> w_failed w'' = w_failed w'"
proof -
  let ?w1 = "w\<lparr>w_clock := Suc (Suc (w_clock w)), w_fs := fmupd p (File []) (w_fs w), w_open := n # w_open w\<rparr>"
  from assms(5,6) have "p \<noteq> []" and op: "fs_Open True p (w_fs w) = Inr (fmupd p (File []) (w_fs w))"
    by (auto simp: fs_Open_def node_at_def split: if_split_asm)
  then have op2: "fs_Open False p (w_fs ?w1) = Inr (fmupd p (File []) (w_fs w))"
    using assms(7) by (simp add: fs_Open_def node_at_def)
  have created: "os_CreateTemp sample_os_env config_pattern w = (Inr n, ?w1)"
    using sample_CreateTemp [OF config_pattern_split _ assms(3,4) op] assms(2) by simp
  have written: "os_WriteFile sample_os_env n content ?w1 =
      (None, ?w1\<lparr>w_clock := w_clock ?w1 + 3, w_fs := fmupd p (File content) (w_fs w)\<rparr>)"
    by (rule sample_WriteFile [OF assms(4) op2])
  have "w_failed (snd (os_Remove sample_os_env n w')) = w_failed w'"
    by (cases "os_Remove sample_os_env n w'") (auto simp: os_Remove_def same_fields elim!: fs_call_cases)
  with assms(1,8,9) created written show ?thesis
    by (simp add: with_config_file_def configure_file_def tbind_def tcall_def deferring_def driver_call_def)
qed

text \<open>The configuration of the driver: every method but \<open>AddEndpoint\<close> returns.\<close>

lemma sample_driver_sel [simp]:
  "td_GetCredentials (sample_driver creds) = Some" "td_Setup (sample_driver creds) = tret ()"
  "td_Apply (sample_driver creds) = tret creds" "td_Retrieve (sample_driver creds) = (\<lambda>p w. (Inr p, w))"
  "td_GetRegion (sample_driver creds) = (\<lambda>t. ''us-east-1'')"
  "cf_AddSharedConfigFile (td_configurer (sample_driver creds)) f c = Ret (c\<lparr>sm_SharedConfigFiles := sm_SharedConfigFiles c @ [f]\<rparr>)"
  "cf_AddEndpoint (td_configurer (sample_driver creds)) ''sso'' v c = Ret (c\<lparr>sm_SsoEndpoint := v\<rparr>)"
  "cf_SetAccessKey (td_configurer (sample_driver creds)) s c = Ret (c\<lparr>sm_AccessKey := s\<rparr>)"
  "cf_SetSecretKey (td_configurer (sample_driver creds)) s c = Ret (c\<lparr>sm_SecretKey := s\<rparr>)"
  "td_TestCase (sample_driver creds) TestModeLocal = Ret sample_config0"
  "td_Configuration (sample_driver creds) [] c = Ret c"
  "td_Configuration (sample_driver creds) [WithProfile s] c = Ret (c\<lparr>sm_Profile := s\<rparr>)"
  "td_Configuration (sample_driver creds) [WithUseFIPSEndpoint b] c = Ret (c\<lparr>sm_UseFIPSEndpoint := b\<rparr>)"
  by (simp_all add: sample_driver_def Let_def TestModeLocal_def TestModeInvalid_def sample_config0_def WithProfile_def
      WithUseFIPSEndpoint_def)

lemma session_env_TempDir: "t_env (w_test w) = session_env \<Longrightarrow> os_TempDir w = ''/tmp''"
proof -
  have "Getenv [] ''TMPDIR'' = []" by (simp add: Getenv_def LookupEnv_def)
  then show "t_env (w_test w) = session_env \<Longrightarrow> os_TempDir w = ''/tmp''"
    by (simp add: os_TempDir_def os_Getenv_def session_env_def valid_key_def Let_def del: put_entry.simps)
qed

text \<open>The parser: the case that selects a profile in \<open>us-east-1\<close> passes.\<close>

definition sample_parse_case :: "(sample_config, v2_credentials) parse_case" where
  "sample_parse_case = parse_cases (sample_driver zero_v2_credentials) ! 4"

lemma sample_parse_case_eq:
  "sample_parse_case \<in> set (parse_cases (sample_driver zero_v2_credentials))"
  "pc_Configuration sample_parse_case = [WithProfile ''test'']" "pc_SharedConfigurationFile sample_parse_case \<noteq> []"
  "pc_Check sample_parse_case = check_region (sample_driver zero_v2_credentials) ''us-east-1''"
  by (simp_all add: sample_parse_case_def parse_cases_def)

lemma sample_paths:
  "resolve (''/tmp/'' @ config_pattern @ ''0'') = [''tmp'', config_pattern @ ''0'']"
  "resolve ''/tmp/temp10'' = [''tmp'', ''temp10'']"
  "resolve (''/tmp/temp10/'' @ config_pattern @ ''12'') = [''tmp'', ''temp10'', config_pattern @ ''12'']"
  "Itoa 0 = ''0''" "Itoa 10 = ''10''" "Itoa 12 = ''12''"
  by code_simp+

lemma sample_parse_run:
  "\<exists>w'. parse_body sample_os_env (sample_driver zero_v2_credentials) TestModeLocal sample_parse_case
     (sample_world sample_config0) = (Done (), w') \<and> \<not> w_failed w'"
proof -
  let ?D = "sample_driver zero_v2_credentials"
  obtain t where t: "InitSessionTestEnv (w_test (sample_world sample_config0)) = Some t" "t_env t = session_env"
    by (simp add: InitSessionTestEnv_eq)
  define w where "w = (sample_world sample_config0)\<lparr>w_test := t, w_driver := sample_config0\<lparr>sm_Profile := ''test'',
    sm_AccessKey := MockStaticAccessKey, sm_SecretKey := MockStaticSecretKey\<rparr>\<rparr>"
  let ?rest = "tbind (td_Apply ?D) (pc_Check sample_parse_case)"
  have temp: "os_TempDir w = ''/tmp''" by (rule session_env_TempDir) (simp add: w_def t)
  have fs: "w_fs w = fmupd [''tmp''] Dir fmempty" "w_clock w = 0" "\<not> w_failed w" by (simp_all add: w_def sample_world_def)
  have check: "?rest w1 = (Done (), w1)" for w1 :: "sample_config world"
    by (simp add: tbind_def tret_def sample_parse_case_eq check_region_def)
  have "\<exists>w''. with_config_file sample_os_env ?D (pc_SharedConfigurationFile sample_parse_case) ?rest w = (Done (), w'') \<and>
      w_failed w'' = w_failed w"
    by (rule exE [OF sample_config_file [OF sample_parse_case_eq(3) _ _ sample_paths(1) _ _ _ _ check]])
      (auto simp: temp fs joinPath_def sample_paths parent_error_def node_at_def)
  then obtain w'' where "with_config_file sample_os_env ?D (pc_SharedConfigurationFile sample_parse_case) ?rest w = (Done (), w'')"
    "\<not> w_failed w''" using fs(3) by auto
  then show ?thesis
    using t by (simp add: parse_body_def tbind_def start_case_def w_InitSessionTestEnv_def driver_call_def w_def
        sample_parse_case_eq)
qed

text \<open>SSO: the first case passes when the code under test gives the credentials of the mock server.\<close>

definition sample_sso_case :: "sample_config sso_case" where
  "sample_sso_case = hd (SSO_cases sample_names)"

lemma sample_sso_case_eq:
  "sc_Configuration sample_sso_case = []" "sc_SharedConfigurationFile sample_sso_case = SSO_file"
  "sc_ExpectedCredentialsValue sample_sso_case = MockSsoCredentials sample_names" "SSO_file \<noteq> []"
  by (simp_all add: sample_sso_case_def SSO_cases_def SSO_file_def)

lemma sample_temp_dir:
  assumes "os_TempDir w = ''/tmp''" and "w_clock w = 10" and "parent_error (w_fs w) [''tmp'', ''temp10''] = None"
    and "node_at (w_fs w) [''tmp'', ''temp10''] = None" and "t_Setenv ''TMPDIR'' ''/tmp/temp10'' (w_test w) = Some t"
    and "rest (w\<lparr>w_clock := 12, w_fs := fmupd [''tmp'', ''temp10''] Dir (w_fs w), w_test := t\<rparr>) = (Done (), w')"
  shows "\<exists>w''. with_temp_dir sample_os_env rest w = (Done (), w'')"
proof -
  have "prefixAndSuffix ''temp'' = Some (''temp'', [])" by code_simp
  from sample_MkdirTemp [OF this _ _ sample_paths(2), of w] assms(1-4)
  have "os_MkdirTemp sample_os_env ''temp'' w =
      (Inr ''/tmp/temp10'', w\<lparr>w_clock := 12, w_fs := fmupd [''tmp'', ''temp10''] Dir (w_fs w)\<rparr>)"
    by (simp add: joinPath_def sample_paths fs_Mkdir_def)
  with assms(5,6) show ?thesis
    by (simp add: with_temp_dir_def tbind_def tcall_def deferring_def w_Setenv_def)
qed

lemma sample_sso_run:
  "\<exists>w'. sso_body sample_os_env (sample_driver (MockSsoCredentials sample_names)) TestModeLocal (\<lambda>name. ''T'') ssoSessionName
     sample_sso_case (sample_world sample_config0) = (Done (), w')"
proof -
  let ?D = "sample_driver (MockSsoCredentials sample_names)"
  let ?url = "''http://127.0.0.1:8080''"
  let ?fs = "fmupd [''tmp'', ''temp10''] Dir (sample_token_fs ssoSessionName)"
  let ?apply = "sso_apply ?D (MockSsoCredentials sample_names)"
  have v: "valid_value ''/tmp/T0/001''" "valid_value ''/tmp/temp10''" "valid_key ''HOME''" "valid_key ''TMPDIR''"
    by (simp_all add: valid_value_def valid_key_def)
  obtain t where t: "InitSessionTestEnv (w_test (sample_world sample_config0)) = Some t" "t_env t = session_env"
    by (simp add: InitSessionTestEnv_eq)
  obtain t2 where t2: "t_Setenv ''HOME'' ''/tmp/T0/001'' t = Some t2" "t_env t2 = put_entry ''HOME'' ''/tmp/T0/001'' session_env"
    using v by (auto simp: t_Setenv_def Setenv_Inr Cleanup_def t(2))
  obtain t3 where t3: "t_Setenv ''TMPDIR'' ''/tmp/temp10'' t2 = Some t3" "t_env t3 = put_entry ''TMPDIR'' ''/tmp/temp10'' (t_env t2)"
    using v by (auto simp: t_Setenv_def Setenv_Inr Cleanup_def)
  define w1 where "w1 = (sample_world sample_config0)\<lparr>w_driver := sample_config0, w_test := t\<rparr>"
  define w2 where "w2 = w1\<lparr>w_fs := sample_token_fs ssoSessionName, w_tempdirs := [''/tmp/T0''], w_test := t2, w_clock := 10,
    w_servers := [?url], w_driver := sample_config0\<lparr>sm_SsoEndpoint := ?url\<rparr>\<rparr>"
  define w3 where "w3 = w2\<lparr>w_clock := 12, w_fs := ?fs, w_test := t3\<rparr>"
  have ready: "SsoTestSetup sample_os_env ''T'' ssoSessionName w1 =
      (Done None, w1\<lparr>w_clock := 9, w_fs := sample_token_fs ssoSessionName, w_tempdirs := [''/tmp/T0''], w_test := t2\<rparr>)"
    using sample_SsoTestSetup [of w1, OF session_env_TempDir _ _ ] t t2 by (simp add: w1_def sample_world_def)
  have same: "same_credentials c c" for c by (simp add: same_credentials_def)
  have check: "?apply w = (Done (), w)" for w
    by (simp add: sso_apply_def check_credentials_def tbind_def tret_def tcall_def same)
  have temp3: "os_TempDir w3 = ''/tmp/temp10''"
    using v by (simp add: os_TempDir_def os_Getenv_def w3_def t3 Let_def del: put_entry.simps)
  have clock3: "w_clock w3 = 12" and fs3: "w_fs w3 = ?fs" by (simp_all add: w3_def)
  have "\<exists>w''. with_config_file sample_os_env ?D SSO_file ?apply w3 = (Done (), w'') \<and> w_failed w'' = w_failed w3"
    by (rule exE [OF sample_config_file [OF sample_sso_case_eq(4) _ _ sample_paths(3) _ _ _ _ check]])
      (auto simp: temp3 clock3 joinPath_def sample_paths parent_error_def node_at_def fs3 sample_token_fs_def
        sample_cache_def sample_dirs_def)
  then obtain w4 where "with_config_file sample_os_env ?D SSO_file ?apply w3 = (Done (), w4)" by blast
  moreover have "os_TempDir w2 = ''/tmp''"
  proof -
    have "os_TempDir (w2\<lparr>w_test := t\<rparr>) = ''/tmp''" by (rule session_env_TempDir) (simp add: t)
    then show ?thesis using v t2 t by (simp add: os_TempDir_def os_Getenv_def w2_def Let_def del: put_entry.simps)
  qed
  ultimately have "\<exists>w''. with_temp_dir sample_os_env (with_config_file sample_os_env ?D SSO_file ?apply) w2 = (Done (), w'')"
    by (intro sample_temp_dir [of w2 t3 _ w4])
      (simp_all add: w3_def w2_def t3 parent_error_def node_at_def sample_token_fs_def sample_cache_def sample_dirs_def)
  then obtain w5 where "with_temp_dir sample_os_env (with_config_file sample_os_env ?D SSO_file ?apply) w2 = (Done (), w5)" by blast
  moreover have "os_url sample_os_env n = ?url" for n by (simp add: sample_os_env_def)
  moreover have "w_servers w1 = []" by (simp add: w1_def sample_world_def)
  ultimately show ?thesis
    using t ready [unfolded w1_def]
    by (simp add: sso_body_def tbind_def start_case_def w_InitSessionTestEnv_def driver_call_def tcall_def deferring_def
        NewServer_def tick_def Let_def sample_sso_case_eq w1_def w2_def)
qed

section \<open>Properties\<close>





end
