(* ===== verification/NetUrl.thy ===== *)
theory NetUrl
  imports GoError HttpHeader
begin

text \<open>
  The parser and the printer of the package \<open>net/url\<close> (\<open>url.Parse\<close> and \<open>URL.String\<close>, as of Go 1.25.0,
  the version of the module), which the proxy settings of \<open>internal/config/config.go\<close> go through.
  Errors are texts; \<open>quote\<close> is the verb \<open>%q\<close>.
\<close>

section \<open>Characters and escaping\<close>

definition is_alpha :: "char \<Rightarrow> bool" where
  "is_alpha c \<longleftrightarrow> is_lower c \<or> is_upper c"

definition ishex :: "char \<Rightarrow> bool" where
  "ishex c \<longleftrightarrow> is_digit c \<or> (CHR ''a'' \<le> c \<and> c \<le> CHR ''f'') \<or> (CHR ''A'' \<le> c \<and> c \<le> CHR ''F'')"

definition unhex :: "char \<Rightarrow> nat" where
  "unhex c =
     (if is_digit c then of_char c - 0x30
      else if CHR ''a'' \<le> c \<and> c \<le> CHR ''f'' then of_char c - 0x61 + 10
      else if CHR ''A'' \<le> c \<and> c \<le> CHR ''F'' then of_char c - 0x41 + 10
      else 0)"

datatype encoding = encodePath | encodeHost | encodeZone | encodeUserPassword | encodeFragment

definition shouldEscape :: "char \<Rightarrow> encoding \<Rightarrow> bool" where
  "shouldEscape c mode =
     (if is_alpha c \<or> is_digit c then False
      else if (mode = encodeHost \<or> mode = encodeZone) \<and> c \<in> set ''!$&'' \<union> {CHR 0x27} \<union> set ''()*+,;=:[]<>'' \<union> {CHR 0x22} then False
      else if c \<in> set ''-_.~'' then False
      else if mode = encodePath \<and> c \<in> set ''$&+,/:;=?@'' then c = CHR ''?''
      else if mode = encodeUserPassword \<and> c \<in> set ''$&+,/:;=?@'' then c \<in> set ''@/?:''
      else if mode = encodeFragment \<and> c \<in> set ''$&+,/:;=?@'' then False
      else if mode = encodeFragment \<and> c \<in> set ''!()*'' then False
      else True)"

definition escape_char :: "encoding \<Rightarrow> char \<Rightarrow> string" where
  "escape_char mode c =
     (if shouldEscape c mode
      then [CHR ''%'', ''0123456789ABCDEF'' ! (of_char c div 16), ''0123456789ABCDEF'' ! (of_char c mod 16)]
      else [c])"

definition escape :: "string \<Rightarrow> encoding \<Rightarrow> string" where
  "escape s mode = concat (map (escape_char mode) s)"

definition EscapeError :: "(string \<Rightarrow> string) \<Rightarrow> string \<Rightarrow> string" where
  "EscapeError quote e = ''invalid URL escape '' @ quote e"

definition InvalidHostError :: "(string \<Rightarrow> string) \<Rightarrow> string \<Rightarrow> string" where
  "InvalidHostError quote e = ''invalid character '' @ quote e @ '' in host name''"

text \<open>The hexadecimal digits after a percent sign, and whether the mode allows the byte they stand for.\<close>

definition escape_allowed :: "encoding \<Rightarrow> char \<Rightarrow> char \<Rightarrow> bool" where
  "escape_allowed mode a b \<longleftrightarrow>
     (let v = 16 * unhex a + unhex b
      in \<not> (mode = encodeHost \<and> unhex a < 8 \<and> [a, b] \<noteq> ''25'') \<and>
         \<not> (mode = encodeZone \<and> [a, b] \<noteq> ''25'' \<and> v \<noteq> 0x20 \<and> shouldEscape (char_of v) encodeHost))"

fun unescape :: "(string \<Rightarrow> string) \<Rightarrow> encoding \<Rightarrow> string \<Rightarrow> string + string" where
  "unescape quote mode [] = Inr []"
| "unescape quote mode (c # cs) =
     (if c = CHR ''%'' then
        (case cs of
           a # b # rest \<Rightarrow>
             if ishex a \<and> ishex b then
               (if escape_allowed mode a b
                then map_sum id (\<lambda>t. char_of (16 * unhex a + unhex b) # t) (unescape quote mode rest)
                else Inl (EscapeError quote [c, a, b]))
             else Inl (EscapeError quote [c, a, b])
         | _ \<Rightarrow> Inl (EscapeError quote (c # cs)))
      else if (mode = encodeHost \<or> mode = encodeZone) \<and> (of_char c :: nat) < 0x80 \<and> shouldEscape c mode
      then Inl (InvalidHostError quote [c])
      else map_sum id (\<lambda>t. c # t) (unescape quote mode cs))"

section \<open>URLs\<close>

record Userinfo =
  ui_username :: string
  ui_password :: string
  ui_passwordSet :: bool

record URL =
  u_Scheme :: string
  u_Opaque :: string
  u_User :: "Userinfo option"
  u_Host :: string
  u_Path :: string
  u_RawPath :: string
  u_OmitHost :: bool
  u_ForceQuery :: bool
  u_RawQuery :: string
  u_Fragment :: string
  u_RawFragment :: string

definition zero_URL :: URL where
  "zero_URL =
     \<lparr>u_Scheme = [], u_Opaque = [], u_User = None, u_Host = [], u_Path = [], u_RawPath = [], u_OmitHost = False,
      u_ForceQuery = False, u_RawQuery = [], u_Fragment = [], u_RawFragment = []\<rparr>"

text \<open>\<open>strings.Cut\<close> at one byte, without the flag.\<close>

definition Cut1 :: "char \<Rightarrow> string \<Rightarrow> string \<times> string" where
  "Cut1 sep s = (takeWhile (\<lambda>c. c \<noteq> sep) s, drop 1 (dropWhile (\<lambda>c. c \<noteq> sep) s))"

definition stringContainsCTLByte :: "string \<Rightarrow> bool" where
  "stringContainsCTLByte s \<longleftrightarrow> list_ex (\<lambda>c. (of_char c :: nat) < 0x20 \<or> c = CHR 0x7F) s"

text \<open>The scheme is what comes before the first colon, if it is made of the right bytes; \<open>acc\<close> is what has been read.\<close>

fun getScheme :: "string \<Rightarrow> string \<Rightarrow> string \<Rightarrow> string + string \<times> string" where
  "getScheme rawURL acc [] = Inr ([], rawURL)"
| "getScheme rawURL acc (c # cs) =
     (if is_alpha c then getScheme rawURL (acc @ [c]) cs
      else if is_digit c \<or> c \<in> set ''+-.'' then
        (if acc = [] then Inr ([], rawURL) else getScheme rawURL (acc @ [c]) cs)
      else if c = CHR '':'' then (if acc = [] then Inl ''missing protocol scheme'' else Inr (acc, cs))
      else Inr ([], rawURL))"

definition validOptionalPort :: "string \<Rightarrow> bool" where
  "validOptionalPort port \<longleftrightarrow> (case port of [] \<Rightarrow> True | c # ds \<Rightarrow> c = CHR '':'' \<and> list_all is_digit ds)"

definition validUserinfo :: "string \<Rightarrow> bool" where
  "validUserinfo s \<longleftrightarrow>
     list_all (\<lambda>c. is_alpha c \<or> is_digit c \<or> c \<in> set ''-._:~!$&'' \<union> {CHR 0x27} \<union> set ''()*+,;=%@'') s"

text \<open>\<open>strings.Index\<close>.\<close>

fun Index_str :: "string \<Rightarrow> string \<Rightarrow> nat option" where
  "Index_str p [] = (if p = [] then Some 0 else None)"
| "Index_str p (c # cs) = (if HasPrefix (c # cs) p then Some 0 else map_option Suc (Index_str p cs))"

definition parseHost :: "(string \<Rightarrow> string) \<Rightarrow> string \<Rightarrow> string + string" where
  "parseHost quote host =
     (if HasPrefix host ''['' then
        (case LastIndex1 (CHR '']'') host of
           None \<Rightarrow> Inl (''missing '' @ [CHR 0x27] @ '']'' @ [CHR 0x27] @ '' in host'')
         | Some i \<Rightarrow>
             if \<not> validOptionalPort (drop (Suc i) host)
             then Inl (''invalid port '' @ quote (drop (Suc i) host) @ '' after host'')
             else
               (case Index_str ''%25'' (take i host) of
                  None \<Rightarrow> unescape quote encodeHost host
                | Some zone \<Rightarrow>
                    (case unescape quote encodeHost (take zone host) of
                       Inl err \<Rightarrow> Inl err
                     | Inr host1 \<Rightarrow>
                         (case unescape quote encodeZone (drop zone (take i host)) of
                            Inl err \<Rightarrow> Inl err
                          | Inr host2 \<Rightarrow> map_sum id (\<lambda>host3. host1 @ host2 @ host3) (unescape quote encodeHost (drop i host))))))
      else
        (case LastIndex1 (CHR '':'') host of
           None \<Rightarrow> unescape quote encodeHost host
         | Some i \<Rightarrow>
             if \<not> validOptionalPort (drop i host) then Inl (''invalid port '' @ quote (drop i host) @ '' after host'')
             else unescape quote encodeHost host))"

definition parseUserinfo :: "(string \<Rightarrow> string) \<Rightarrow> string \<Rightarrow> string + Userinfo" where
  "parseUserinfo quote userinfo =
     (if \<not> validUserinfo userinfo then Inl ''net/url: invalid userinfo''
      else if CHR '':'' \<notin> set userinfo then
        map_sum id (\<lambda>u. \<lparr>ui_username = u, ui_password = [], ui_passwordSet = False\<rparr>)
          (unescape quote encodeUserPassword userinfo)
      else
        (case Cut1 (CHR '':'') userinfo of
           (username, password) \<Rightarrow>
             (case unescape quote encodeUserPassword username of
                Inl err \<Rightarrow> Inl err
              | Inr u \<Rightarrow>
                  map_sum id (\<lambda>p. \<lparr>ui_username = u, ui_password = p, ui_passwordSet = True\<rparr>)
                    (unescape quote encodeUserPassword password))))"

definition parseAuthority :: "(string \<Rightarrow> string) \<Rightarrow> string \<Rightarrow> string + Userinfo option \<times> string" where
  "parseAuthority quote authority =
     (case LastIndex1 (CHR ''@'') authority of
        None \<Rightarrow> map_sum id (\<lambda>h. (None, h)) (parseHost quote authority)
      | Some i \<Rightarrow>
          (case parseHost quote (drop (Suc i) authority) of
             Inl err \<Rightarrow> Inl err
           | Inr host \<Rightarrow> map_sum id (\<lambda>u. (Some u, host)) (parseUserinfo quote (take i authority))))"

definition setPath :: "(string \<Rightarrow> string) \<Rightarrow> string \<Rightarrow> URL \<Rightarrow> string + URL" where
  "setPath quote p u =
     map_sum id (\<lambda>path. u\<lparr>u_Path := path, u_RawPath := (if p = escape path encodePath then [] else p)\<rparr>)
       (unescape quote encodePath p)"

definition setFragment :: "(string \<Rightarrow> string) \<Rightarrow> string \<Rightarrow> URL \<Rightarrow> string + URL" where
  "setFragment quote f u =
     map_sum id (\<lambda>frag. u\<lparr>u_Fragment := frag, u_RawFragment := (if f = escape frag encodeFragment then [] else f)\<rparr>)
       (unescape quote encodeFragment f)"

text \<open>The part of the parser after the scheme and the query.\<close>

definition parse_rest :: "(string \<Rightarrow> string) \<Rightarrow> string \<Rightarrow> URL \<Rightarrow> string + URL" where
  "parse_rest quote rest u =
     (if \<not> HasPrefix rest ''/'' \<and> u_Scheme u \<noteq> [] then Inr (u\<lparr>u_Opaque := rest\<rparr>)
      else if \<not> HasPrefix rest ''/'' \<and> CHR '':'' \<in> set (fst (Cut1 (CHR ''/'') rest))
      then Inl ''first path segment in URL cannot contain colon''
      else if (u_Scheme u \<noteq> [] \<or> \<not> HasPrefix rest ''///'') \<and> HasPrefix rest ''//'' then
        (let authority = takeWhile (\<lambda>c. c \<noteq> CHR ''/'') (drop 2 rest);
             rest = dropWhile (\<lambda>c. c \<noteq> CHR ''/'') (drop 2 rest)
         in case parseAuthority quote authority of
              Inl err \<Rightarrow> Inl err
            | Inr (user, host) \<Rightarrow> setPath quote rest (u\<lparr>u_User := user, u_Host := host\<rparr>))
      else
        setPath quote rest (if u_Scheme u \<noteq> [] \<and> HasPrefix rest ''/'' then u\<lparr>u_OmitHost := True\<rparr> else u))"

definition parse_url :: "(string \<Rightarrow> string) \<Rightarrow> string \<Rightarrow> string + URL" where
  "parse_url quote rawURL =
     (if stringContainsCTLByte rawURL then Inl ''net/url: invalid control character in URL''
      else if rawURL = ''*'' then Inr (zero_URL\<lparr>u_Path := ''*''\<rparr>)
      else
        (case getScheme rawURL [] rawURL of
           Inl err \<Rightarrow> Inl err
         | Inr (scheme, rest) \<Rightarrow>
             (let u = zero_URL\<lparr>u_Scheme := map to_lower scheme\<rparr>
              in if HasSuffix rest ''?'' \<and> count_list rest (CHR ''?'') = 1
                 then parse_rest quote (butlast rest) (u\<lparr>u_ForceQuery := True\<rparr>)
                 else
                   (case Cut1 (CHR ''?'') rest of
                      (rest, query) \<Rightarrow> parse_rest quote rest (u\<lparr>u_RawQuery := query\<rparr>)))))"

text \<open>\<open>url.Error\<close>.\<close>

definition url_Error :: "(string \<Rightarrow> string) \<Rightarrow> string \<Rightarrow> string \<Rightarrow> go_error" where
  "url_Error quote u err = WrapError (''parse '' @ quote u @ '': '') (ErrorString err)"

definition url_Parse :: "(string \<Rightarrow> string) \<Rightarrow> string \<Rightarrow> go_error + URL" where
  "url_Parse quote rawURL =
     (case Cut1 (CHR ''#'') rawURL of
        (u, frag) \<Rightarrow>
          (case parse_url quote u of
             Inl err \<Rightarrow> Inl (url_Error quote u err)
           | Inr url \<Rightarrow>
               if frag = [] then Inr url
               else
                 (case setFragment quote frag url of
                    Inl err \<Rightarrow> Inl (url_Error quote rawURL err)
                  | Inr url \<Rightarrow> Inr url)))"

section \<open>Printing\<close>

definition validEncoded :: "string \<Rightarrow> encoding \<Rightarrow> bool" where
  "validEncoded s mode \<longleftrightarrow>
     list_all (\<lambda>c. c \<in> set ''!$&'' \<union> {CHR 0x27} \<union> set ''()*+,;=:@[]%'' \<or> \<not> shouldEscape c mode) s"

text \<open>The raw form is used if it is a valid encoding of the path, or of the fragment.\<close>

definition escaped_form :: "encoding \<Rightarrow> string \<Rightarrow> string \<Rightarrow> string option" where
  "escaped_form mode raw s =
     (if raw \<noteq> [] \<and> validEncoded raw mode \<and> unescape id mode raw = Inr s then Some raw else None)"

definition EscapedPath :: "URL \<Rightarrow> string" where
  "EscapedPath u =
     (case escaped_form encodePath (u_RawPath u) (u_Path u) of
        Some p \<Rightarrow> p
      | None \<Rightarrow> if u_Path u = ''*'' then ''*'' else escape (u_Path u) encodePath)"

definition EscapedFragment :: "URL \<Rightarrow> string" where
  "EscapedFragment u =
     (case escaped_form encodeFragment (u_RawFragment u) (u_Fragment u) of
        Some f \<Rightarrow> f
      | None \<Rightarrow> escape (u_Fragment u) encodeFragment)"

definition Userinfo_String :: "Userinfo \<Rightarrow> string" where
  "Userinfo_String u =
     escape (ui_username u) encodeUserPassword @
     (if ui_passwordSet u then '':'' @ escape (ui_password u) encodeUserPassword else [])"

definition authority_String :: "URL \<Rightarrow> string" where
  "authority_String u =
     (if u_Scheme u = [] \<and> u_Host u = [] \<and> u_User u = None then []
      else if u_OmitHost u \<and> u_Host u = [] \<and> u_User u = None then []
      else
        (if u_Host u \<noteq> [] \<or> u_Path u \<noteq> [] \<or> u_User u \<noteq> None then ''//'' else []) @
        (case u_User u of None \<Rightarrow> [] | Some ui \<Rightarrow> Userinfo_String ui @ ''@'') @
        escape (u_Host u) encodeHost)"

definition path_String :: "URL \<Rightarrow> string \<Rightarrow> string" where
  "path_String u written =
     (let path = EscapedPath u;
          slash = (if path \<noteq> [] \<and> hd path \<noteq> CHR ''/'' \<and> u_Host u \<noteq> [] then ''/'' else []);
          dot = (if written @ slash = [] \<and> CHR '':'' \<in> set (fst (Cut1 (CHR ''/'') path)) then ''./'' else [])
      in slash @ dot @ path)"

definition url_String :: "URL \<Rightarrow> string" where
  "url_String u =
     (let scheme = (if u_Scheme u \<noteq> [] then u_Scheme u @ '':'' else []);
          body = (if u_Opaque u \<noteq> [] then u_Opaque u
                  else (let auth = authority_String u in auth @ path_String u (scheme @ auth)))
      in scheme @ body @
         (if u_ForceQuery u \<or> u_RawQuery u \<noteq> [] then ''?'' @ u_RawQuery u else []) @
         (if u_Fragment u \<noteq> [] then ''#'' @ EscapedFragment u else []))"

section \<open>Texts that need no escaping\<close>

lemma unescape_plain:
  assumes "\<forall>c \<in> set s. c \<noteq> CHR ''%'' \<and> (mode = encodeHost \<or> mode = encodeZone \<longrightarrow> \<not> shouldEscape c mode)"
  shows "unescape quote mode s = Inr s"
  using assms by (induction s) auto

lemma escape_plain: "\<forall>c \<in> set s. \<not> shouldEscape c mode \<Longrightarrow> escape s mode = s"
  unfolding escape_def by (induction s) (auto simp: escape_char_def)

lemma colon_class: "\<not> is_alpha CHR '':''" "\<not> is_digit CHR '':''" "CHR '':'' \<notin> set ''+-.''"
  by code_simp+

lemma getScheme_plain:
  "list_all is_alpha s \<Longrightarrow> acc @ s \<noteq> [] \<Longrightarrow> getScheme rawURL acc (s @ CHR '':'' # rest) = Inr (acc @ s, rest)"
proof (induction s arbitrary: acc)
  case (Cons c s)
  then have "getScheme rawURL (acc @ [c]) (s @ CHR '':'' # rest) = Inr (acc @ c # s, rest)" by simp
  with Cons.prems(1) show ?case by simp
qed (simp add: colon_class)

lemma Cut1_none: "sep \<notin> set s \<Longrightarrow> Cut1 sep s = (s, [])"
  by (induction s) (auto simp: Cut1_def)

lemma Cut1_append: "sep \<notin> set a \<Longrightarrow> Cut1 sep (a @ sep # b) = (a, b)"
  by (simp add: Cut1_def) (metis (mono_tags, lifting) dropWhile_append2 drop0 drop_Suc_Cons dropWhile.simps(2)
    takeWhile_append2 takeWhile.simps(2) append_Nil2)

lemma HasSuffix_char: "HasSuffix s [c] \<Longrightarrow> c \<in> set s"
  unfolding HasSuffix_def HasPrefix_iff by (metis append_Cons list.set_intros(1) rev_singleton_conv rev.simps(1,2) set_rev append_Nil)

text \<open>The bytes of the parts of a proxy URL; none of them is escaped.\<close>

definition user_char :: "char \<Rightarrow> bool" where
  "user_char c \<longleftrightarrow> is_alpha c \<or> is_digit c \<or> c \<in> set ''-._~$&+,;=''"

definition host_char :: "char \<Rightarrow> bool" where
  "host_char c \<longleftrightarrow> is_alpha c \<or> is_digit c \<or> c \<in> set ''-._~!$&()*+,;=''"

definition delimiters :: string where
  "delimiters = ''%@/?#:['' @ [CHR 0x7F]"

lemma alphanumeric_char:
  assumes "is_alpha c \<or> is_digit c"
  shows "c \<notin> set delimiters" and "0x20 \<le> (of_char c :: nat)" and "\<not> shouldEscape c mode"
proof -
  have "list_all (\<lambda>c. \<not> is_alpha c \<and> \<not> is_digit c) delimiters" by code_simp
  then show "c \<notin> set delimiters" using assms by (auto simp: list_all_iff)
  show "0x20 \<le> (of_char c :: nat)"
    using assms by (auto simp: is_alpha_def is_lower_def is_upper_def is_digit_def less_eq_char_def)
  show "\<not> shouldEscape c mode" using assms by (auto simp: shouldEscape_def)
qed

lemma user_char:
  assumes "user_char c"
  shows "c \<notin> set delimiters" and "0x20 \<le> (of_char c :: nat)" and "\<not> shouldEscape c encodeUserPassword" and "validUserinfo [c]"
proof -
  have "list_all (\<lambda>c. c \<notin> set delimiters \<and> 0x20 \<le> (of_char c :: nat) \<and> \<not> shouldEscape c encodeUserPassword \<and> validUserinfo [c])
      ''-._~$&+,;=''" by code_simp
  then have *: "c \<notin> set delimiters \<and> 0x20 \<le> (of_char c :: nat) \<and> \<not> shouldEscape c encodeUserPassword \<and> validUserinfo [c]"
    if "c \<in> set ''-._~$&+,;=''" using that unfolding list_all_iff by blast
  have "validUserinfo [c]" if "is_alpha c \<or> is_digit c" using that by (auto simp: validUserinfo_def)
  with * alphanumeric_char [of c] assms
  show "c \<notin> set delimiters" "0x20 \<le> (of_char c :: nat)" "\<not> shouldEscape c encodeUserPassword" "validUserinfo [c]"
    unfolding user_char_def by metis+
qed

lemma host_char:
  assumes "host_char c"
  shows "c \<notin> set delimiters" and "0x20 \<le> (of_char c :: nat)" and "\<not> shouldEscape c encodeHost"
proof -
  have "list_all (\<lambda>c. c \<notin> set delimiters \<and> 0x20 \<le> (of_char c :: nat) \<and> \<not> shouldEscape c encodeHost) ''-._~!$&()*+,;=''"
    by code_simp
  then have "c \<notin> set delimiters \<and> 0x20 \<le> (of_char c :: nat) \<and> \<not> shouldEscape c encodeHost"
    if "c \<in> set ''-._~!$&()*+,;=''" using that unfolding list_all_iff by blast
  with alphanumeric_char [of c] assms
  show "c \<notin> set delimiters" "0x20 \<le> (of_char c :: nat)" "\<not> shouldEscape c encodeHost"
    unfolding host_char_def by metis+
qed

lemma delimiter_simps:
  "c \<notin> set delimiters \<longleftrightarrow>
     c \<noteq> CHR ''%'' \<and> c \<noteq> CHR ''@'' \<and> c \<noteq> CHR ''/'' \<and> c \<noteq> CHR ''?'' \<and> c \<noteq> CHR ''#'' \<and> c \<noteq> CHR '':'' \<and> c \<noteq> CHR ''['' \<and> c \<noteq> CHR 0x7F"
  by (auto simp: delimiters_def)

section \<open>Proxy URLs\<close>

text \<open>A proxy URL with a scheme in lower case, an optional user with an optional password, a host name
  and an optional port.\<close>

record proxy_parts =
  pp_scheme :: string
  pp_user :: "(string \<times> string option) option"
  pp_host :: string
  pp_port :: "string option"

definition user_text :: "proxy_parts \<Rightarrow> string" where
  "user_text pp =
     (case pp_user pp of
        None \<Rightarrow> []
      | Some (user, password) \<Rightarrow> user @ (case password of None \<Rightarrow> [] | Some w \<Rightarrow> '':'' @ w))"

definition host_text :: "proxy_parts \<Rightarrow> string" where
  "host_text pp = pp_host pp @ (case pp_port pp of None \<Rightarrow> [] | Some ds \<Rightarrow> '':'' @ ds)"

definition proxy_text :: "proxy_parts \<Rightarrow> string" where
  "proxy_text pp =
     pp_scheme pp @ ''://'' @ (if pp_user pp = None then [] else user_text pp @ ''@'') @ host_text pp"

definition plain_proxy :: "proxy_parts \<Rightarrow> bool" where
  "plain_proxy pp \<longleftrightarrow>
     pp_scheme pp \<noteq> [] \<and> list_all is_lower (pp_scheme pp) \<and>
     (case pp_user pp of
        None \<Rightarrow> True
      | Some (user, password) \<Rightarrow>
          list_all user_char user \<and> (case password of None \<Rightarrow> True | Some w \<Rightarrow> list_all user_char w)) \<and>
     pp_host pp \<noteq> [] \<and> list_all host_char (pp_host pp) \<and>
     (case pp_port pp of None \<Rightarrow> True | Some ds \<Rightarrow> list_all is_digit ds)"

text \<open>What the parser makes of it.\<close>

definition proxy_userinfo :: "string \<times> string option \<Rightarrow> Userinfo" where
  "proxy_userinfo u =
     (case u of
        (user, None) \<Rightarrow> \<lparr>ui_username = user, ui_password = [], ui_passwordSet = False\<rparr>
      | (user, Some w) \<Rightarrow> \<lparr>ui_username = user, ui_password = w, ui_passwordSet = True\<rparr>)"

definition proxy_URL :: "proxy_parts \<Rightarrow> URL" where
  "proxy_URL pp =
     zero_URL\<lparr>u_Scheme := pp_scheme pp, u_User := map_option proxy_userinfo (pp_user pp), u_Host := host_text pp\<rparr>"

lemma host_text_chars:
  assumes "plain_proxy pp" and "c \<in> set (host_text pp)"
  shows "c \<notin> set delimiters - {CHR '':''}" and "0x20 \<le> (of_char c :: nat)" and "\<not> shouldEscape c encodeHost"
proof -
  have "\<not> shouldEscape CHR '':'' encodeHost" by code_simp
  moreover have "host_char c \<or> is_digit c \<or> c = CHR '':''"
    using assms by (auto simp: host_text_def plain_proxy_def list_all_iff split: option.splits)
  ultimately show "c \<notin> set delimiters - {CHR '':''}" "0x20 \<le> (of_char c :: nat)" "\<not> shouldEscape c encodeHost"
    using host_char [of c] alphanumeric_char [of c] by auto
qed

lemma user_text_chars:
  assumes "plain_proxy pp" and "c \<in> set (user_text pp)"
  shows "c \<notin> set delimiters - {CHR '':''}" and "0x20 \<le> (of_char c :: nat)" and "validUserinfo [c]"
proof -
  have "validUserinfo '':''" by code_simp
  moreover have "user_char c \<or> c = CHR '':''"
    using assms by (auto simp: user_text_def plain_proxy_def list_all_iff split: option.splits)
  ultimately show "c \<notin> set delimiters - {CHR '':''}" "0x20 \<le> (of_char c :: nat)" "validUserinfo [c]"
    using user_char [of c] by auto
qed

lemma parseHost_plain:
  assumes "plain_proxy pp"
  shows "parseHost quote (host_text pp) = Inr (host_text pp)"
proof -
  have un: "unescape quote encodeHost (host_text pp) = Inr (host_text pp)"
    using host_text_chars [OF assms] by (intro unescape_plain) (auto simp: delimiter_simps)
  have host: "CHR '':'' \<notin> set (pp_host pp)"
    using assms host_char(1) by (auto simp: plain_proxy_def list_all_iff delimiter_simps)
  have "\<not> HasPrefix (host_text pp) ''[''"
    using host_text_chars(1) [OF assms, of "hd (host_text pp)"] by (cases "host_text pp") (auto simp: HasPrefix_def delimiters_def)
  then show ?thesis
  proof (cases "pp_port pp")
    case None
    then have "LastIndex1 (CHR '':'') (host_text pp) = None" using host by (simp add: LastIndex1_None host_text_def)
    with \<open>\<not> HasPrefix _ _\<close> un show ?thesis by (simp add: parseHost_def)
  next
    case (Some ds)
    then have d: "list_all is_digit ds" using assms by (simp add: plain_proxy_def)
    then have "CHR '':'' \<notin> set ds" by (auto simp: list_all_iff colon_class)
    then have "LastIndex1 (CHR '':'') (host_text pp) = Some (length (pp_host pp))"
      using LastIndex1_append Some by (simp add: host_text_def)
    moreover have "drop (length (pp_host pp)) (host_text pp) = CHR '':'' # ds" by (simp add: host_text_def Some)
    ultimately show ?thesis using \<open>\<not> HasPrefix _ _\<close> un d by (simp add: parseHost_def validOptionalPort_def)
  qed
qed

lemma validUserinfo_all: "validUserinfo s \<longleftrightarrow> (\<forall>c \<in> set s. validUserinfo [c])"
  by (auto simp: validUserinfo_def list_all_iff)

lemma parseUserinfo_plain:
  assumes "plain_proxy pp" and "pp_user pp = Some u"
  shows "parseUserinfo quote (user_text pp) = Inr (proxy_userinfo u)"
proof -
  obtain user password where u: "u = (user, password)" by fastforce
  have chars: "\<forall>c \<in> set user. user_char c" "\<And>w. password = Some w \<Longrightarrow> \<forall>c \<in> set w. user_char c"
    using assms by (auto simp: plain_proxy_def list_all_iff u)
  have un: "unescape quote encodeUserPassword s = Inr s" if "\<forall>c \<in> set s. user_char c" for s
    using that user_char(1) by (intro unescape_plain) (auto simp: delimiter_simps)
  have valid: "validUserinfo (user_text pp)"
    using user_text_chars(3) [OF assms(1)] validUserinfo_all [of "user_text pp"] by blast
  have colon: "CHR '':'' \<notin> set user" using chars(1) user_char(1) by (auto simp: delimiter_simps)
  show ?thesis
  proof (cases password)
    case None
    then have "user_text pp = user" by (simp add: user_text_def assms(2) u)
    with valid colon un [OF chars(1)] show ?thesis by (simp add: parseUserinfo_def proxy_userinfo_def u None)
  next
    case (Some w)
    then have "user_text pp = user @ CHR '':'' # w" by (simp add: user_text_def assms(2) u)
    with valid un [OF chars(1)] un [OF chars(2) [OF Some]] Cut1_append [OF colon, of w]
    show ?thesis by (simp add: parseUserinfo_def proxy_userinfo_def u Some)
  qed
qed

lemma parseAuthority_plain:
  assumes "plain_proxy pp"
  shows "parseAuthority quote ((if pp_user pp = None then [] else user_text pp @ ''@'') @ host_text pp) =
    Inr (map_option proxy_userinfo (pp_user pp), host_text pp)"
proof -
  have at: "CHR ''@'' \<notin> set (host_text pp)" using host_text_chars(1) [OF assms] by (auto simp: delimiters_def)
  show ?thesis
  proof (cases "pp_user pp")
    case None
    moreover have "LastIndex1 (CHR ''@'') (host_text pp) = None" using at LastIndex1_None by blast
    ultimately show ?thesis using parseHost_plain [OF assms] by (simp add: parseAuthority_def)
  next
    case (Some u)
    then show ?thesis
      using LastIndex1_append [OF at, of "user_text pp"] parseHost_plain [OF assms] parseUserinfo_plain [OF assms Some]
      by (simp add: parseAuthority_def)
  qed
qed

lemma parse_rest_authority:
  assumes "parseAuthority quote auth = Inr (user, host)" and "CHR ''/'' \<notin> set auth" and "u_Scheme u \<noteq> []"
  shows "parse_rest quote (''//'' @ auth) u = setPath quote [] (u\<lparr>u_User := user, u_Host := host\<rparr>)"
proof -
  have "takeWhile (\<lambda>c. c \<noteq> CHR ''/'') auth = auth" "dropWhile (\<lambda>c. c \<noteq> CHR ''/'') auth = []"
    using assms(2) by (auto simp: takeWhile_eq_all_conv dropWhile_eq_Nil_conv)
  with assms(1,3) show ?thesis
    by (simp add: parse_rest_def HasPrefix_def del: takeWhile_eq_all_conv dropWhile_eq_Nil_conv)
qed

lemma parse_proxy_text:
  assumes "plain_proxy pp"
  shows "url_Parse quote (proxy_text pp) = Inr (proxy_URL pp)"
proof -
  let ?auth = "(if pp_user pp = None then [] else user_text pp @ ''@'') @ host_text pp"
  have scheme: "list_all is_alpha (pp_scheme pp)" "pp_scheme pp \<noteq> []" "map to_lower (pp_scheme pp) = pp_scheme pp"
    using assms by (auto simp: plain_proxy_def list_all_iff is_alpha_def to_lower_def is_lower_def is_upper_def less_eq_char_def
        intro!: map_idI)
  have auth: "c \<notin> set ''%/?#['' \<and> c \<noteq> CHR 0x7F \<and> 0x20 \<le> (of_char c :: nat)" if "c \<in> set ?auth" for c
    using that host_text_chars [OF assms, of c] user_text_chars [OF assms, of c]
    by (auto simp: delimiters_def split: if_split_asm)
  have bytes: "c \<notin> set ''?#'' \<and> c \<noteq> CHR 0x7F \<and> 0x20 \<le> (of_char c :: nat)" if "c \<in> set (proxy_text pp)" for c
    using that auth [of c] alphanumeric_char [of c] scheme(1)
    by (auto simp: proxy_text_def list_all_iff delimiter_simps split: if_split_asm)
  have frag: "Cut1 (CHR ''#'') (proxy_text pp) = (proxy_text pp, [])" using bytes by (intro Cut1_none) auto
  have ctl: "\<not> stringContainsCTLByte (proxy_text pp)"
    using bytes by (auto simp: stringContainsCTLByte_def list_ex_iff not_less)
  have star: "proxy_text pp \<noteq> ''*''" using scheme(2) by (cases "pp_scheme pp") (auto simp: proxy_text_def)
  have sch: "getScheme (proxy_text pp) [] (proxy_text pp) = Inr (pp_scheme pp, ''//'' @ ?auth)"
    using getScheme_plain [of "pp_scheme pp" "[]" "proxy_text pp" "''//'' @ ?auth"] scheme by (simp add: proxy_text_def)
  have q: "CHR ''?'' \<notin> set (''//'' @ ?auth)" using auth [of "CHR ''?''"] by auto
  then have "\<not> HasSuffix (''//'' @ ?auth) ''?''" using HasSuffix_char by blast
  then have parse: "parse_url quote (proxy_text pp) = parse_rest quote (''//'' @ ?auth) (zero_URL\<lparr>u_Scheme := pp_scheme pp\<rparr>)"
    using ctl star sch Cut1_none [OF q] scheme(3) by (simp add: parse_url_def zero_URL_def)
  have "CHR ''/'' \<notin> set ?auth" using auth [of "CHR ''/''"] by auto
  from parse_rest_authority [OF parseAuthority_plain [OF assms] this] scheme(2)
  have "parse_rest quote (''//'' @ ?auth) (zero_URL\<lparr>u_Scheme := pp_scheme pp\<rparr>) = Inr (proxy_URL pp)"
    by (simp add: setPath_def escape_def proxy_URL_def zero_URL_def)
  then show ?thesis by (simp add: url_Parse_def frag parse)
qed

lemma proxy_URL_String:
  assumes "plain_proxy pp"
  shows "url_String (proxy_URL pp) = proxy_text pp"
proof -
  have host: "escape (host_text pp) encodeHost = host_text pp" "host_text pp \<noteq> []"
    using host_text_chars(3) [OF assms] assms by (auto intro: escape_plain simp: host_text_def plain_proxy_def)
  have user: "Userinfo_String (proxy_userinfo u) = user_text pp" if u: "pp_user pp = Some u" for u
  proof -
    obtain user password where uu: "u = (user, password)" by fastforce
    have "escape user encodeUserPassword = user" "\<And>w. password = Some w \<Longrightarrow> escape w encodeUserPassword = w"
      using assms user_char(3) u by (auto simp: plain_proxy_def list_all_iff uu intro!: escape_plain)
    then show ?thesis by (cases password) (simp_all add: Userinfo_String_def proxy_userinfo_def user_text_def u uu)
  qed
  have "EscapedPath (proxy_URL pp) = []" by (simp add: EscapedPath_def escaped_form_def proxy_URL_def zero_URL_def escape_def)
  then have path: "path_String (proxy_URL pp) written = []" if "written \<noteq> []" for written
    using that by (simp add: path_String_def)
  have sch: "pp_scheme pp \<noteq> []" using assms by (simp add: plain_proxy_def)
  have "authority_String (proxy_URL pp) = ''//'' @ (if pp_user pp = None then [] else user_text pp @ ''@'') @ host_text pp"
    using host user sch by (auto simp: authority_String_def proxy_URL_def zero_URL_def)
  then show ?thesis
    using path sch by (simp add: url_String_def Let_def proxy_text_def) (simp add: proxy_URL_def zero_URL_def)
qed

end
