(* ===== verification/Spec2Isabelle.thy ===== *)
theory Spec2Isabelle
  imports Prelude GoError ConfigTypes Diag HttpHeader UserAgent GoRegex Mask EndpointsData Endpoints Validation Config_ops HttpLog
    AwsAuth Resolvers AwsConfig AwsConfig_props V1Shim V1Session ResponseLog V1Log Loggers Generator
    GenCommand TestEnv MockServer MockData TestHelpers TestUserAgent Sha1 TestWorld TestFiles MockCreds TestDrivers
    TestDrivers_props TestDrivers_sound NetUrl ProxyUrl
begin

text \<open>
  A verification library of \<open>aws-sdk-go-base\<close>, the Go package with which Terraform providers
  configure the AWS SDK for Go: it resolves credentials and the HTTP client, builds an
  \<open>aws.Config\<close> for the SDK v2 and a session for the SDK v1, reports problems as diagnostics, finds
  the account and partition of the caller, and logs requests and responses with the credentials
  masked. The model is a shallow embedding: functions of the code are HOL functions with the names
  they have there (a method carries the name of its type where two types share a method name),
  structs are records, Go's panics are the constructor \<open>Panic\<close> of the type \<open>go\<close>, errors are trees
  of the datatype \<open>go_error\<close>, and nil pointers and interfaces are \<open>None\<close>.

  How the parts work together. \<open>GetAwsConfig\<close> (\<open>aws_config.go\<close>) first checks the environment and
  the proxies (\<open>Config_ops\<close>), then asks \<open>getCredentialsProvider\<close> (\<open>credentials.go\<close>) for a provider,
  which may assume a chain of roles, loads the configuration with the options of
  \<open>commonLoadOptions\<close>, installs a retryer and validates the credentials with STS
  (\<open>awsauth.go\<close>). All problems end up in a \<open>Diagnostics\<close> value (\<open>diag/\<close>). The API options it
  installs write the User-Agent header (\<open>user_agent.go\<close>, \<open>useragent/\<close>) and log each request
  (\<open>logging/http.go\<close>), which masks credentials (\<open>logging/aws.go\<close>). \<open>GetSession\<close>
  (\<open>v2/awsv1shim\<close>) carries the result over to the SDK v1. The partition table (\<open>endpoints/\<close>) is
  data with lookups, used when the account ID is not requested and by \<open>validation/region.go\<close>.

  The theories:

  \<^item> \<open>Prelude\<close>: strings as byte lists, the \<open>go\<close> type of panics, \<open>strings\<close> and \<open>slices\<close> functions
    of the standard library, and the lemmas on them the components share.
  \<^item> \<open>GoError\<close>: error values, \<open>errors.As\<close> as the pre-order walk of an error tree, and the classifiers
    of \<open>tfawserr\<close> and \<open>v2/awsv1shim/tfawserr\<close>. The locale \<open>error_target\<close> proves once what any
    \<open>errors.As\<close> based classifier looks at.
  \<^item> \<open>ConfigTypes\<close>: \<open>internal/config\<close>: \<open>Config\<close>, \<open>AssumeRole\<close> and the other records.
  \<^item> \<open>Diag\<close>: \<open>diag/\<close> and \<open>errors.go\<close>: the collection of diagnostics and the six diagnostic types, method by
    method: the call of an interface method chooses the method of the dynamic type. The locale
    \<open>diag_interface\<close> states the contract of \<open>Diagnostic.Equal\<close>.
  \<^item> \<open>HttpHeader\<close>, \<open>UserAgent\<close>: header maps with canonical keys, product strings and their parser,
    and the build-step middleware.
  \<^item> \<open>GoRegex\<close>: regular expressions with Go's leftmost-first match, a backtracking matcher with its
    soundness and completeness for the language of the expression.
  \<^item> \<open>Mask\<close>: \<open>MaskAWSSensitiveValues\<close>: unique IDs by expression, and the in-place loop that masks
    40-byte base-64 runs, refined to a specification on runs.
  \<^item> \<open>EndpointsData\<close>, \<open>Endpoints\<close>: the generated table as data and the lookups. The locale
    \<open>disjoint_table\<close> shows that lookups do not depend on the iteration order of Go's maps.
  \<^item> \<open>Validation\<close>: the duplicate-key check over JSON tokens. Slices are slices of a store of arrays,
    since \<open>append\<close> makes paths share memory, with a growth function as parameter. The recursion has
    fuel; the number of tokens is enough for a JSON value, which \<open>JSONNoDuplicateKeys_correct\<close>
    shows, and twice that number for any list of tokens, which \<open>checkToken_terminates\<close> shows.
  \<^item> \<open>Config_ops\<close>: the methods of \<open>Config\<close>: proxies, TLS, file paths, account IDs, tokens.
  \<^item> \<open>HttpLog\<close>: \<open>logging/http.go\<close>: headers and bodies of a request as attributes. The locale
    \<open>body_logger\<close> is the contract of the body loggers.
  \<^item> \<open>AwsAuth\<close>: the sources of the account ID in order, with the list of calls made.
  \<^item> \<open>Resolvers\<close>: \<open>internal/awsconfig\<close>: the first decisive configuration source wins.
  \<^item> \<open>AwsConfig\<close>, \<open>AwsConfig_props\<close>: \<open>aws_config.go\<close>, \<open>credentials.go\<close>, \<open>clients.go\<close> and
    \<open>endpoints.go\<close>; the process environment is threaded as state, since the code writes it.
  \<^item> \<open>V1Shim\<close>, \<open>V1Session\<close>: \<open>v2/awsv1shim\<close>: the credentials adapter as a state machine, the limited
    writer of the response capture (locale \<open>tee_writer\<close>), session options, handler lists and the
    retry handler.
  \<^item> \<open>ResponseLog\<close>: \<open>logger.go\<close>: the middleware of the SDK v2. Bodies are streams and log output is
    part of the result, so that what the operation sees can be compared with and without the log.
  \<^item> \<open>V1Log\<close>: \<open>v2/awsv1shim/logger.go\<close>: the request handler, the tee in front of a response body, and
    the handler that logs what was captured.
  \<^item> \<open>Loggers\<close>: the loggers of \<open>logging/\<close> and their registration in contexts. The locale
    \<open>logger_contract\<close> is what their users rely on.
  \<^item> \<open>Generator\<close>, \<open>GenCommand\<close>: \<open>internal/generate\<close>: from the endpoints document to the file of the
    table, and the command around it: flags, messages, download and exit status.
  \<^item> \<open>TestEnv\<close>: \<open>servicemocks/setup.go\<close>: the entries of the process environment, and the helpers that
    save and restore them around a test.
  \<^item> \<open>MockServer\<close>, \<open>MockData\<close>: \<open>servicemocks/mock.go\<close>: response writers, form encoding, the handlers of
    the mock servers (locale \<open>first_route\<close>), and their data.
  \<^item> \<open>TestHelpers\<close>, \<open>TestUserAgent\<close>: \<open>internal/test\<close>: the shared tables of test cases, as data, and
    their checks, run on the models of the library above.
  \<^item> \<open>Sha1\<close>: SHA-1 on 32-bit words, which names the cached token of an SSO session.
  \<^item> \<open>TestWorld\<close>: what a test runs in: a file system as a finite map, open files, servers, the
    environment with its clean-ups, and the outcomes of Go's package \<open>testing\<close> (a test returns, ends by
    \<open>runtime.Goexit\<close>, or panics), with deferred calls. An oracle decides which system calls fail.
  \<^item> \<open>TestFiles\<close>: \<open>SsoTestSetup\<close> and \<open>TempPEMFile\<close> of \<open>servicemocks\<close> in this world.
  \<^item> \<open>MockCreds\<close>: \<open>mockdata/\<close> and \<open>v2/awsv1shim/mockdata/\<close>: the credentials tests expect of both SDKs.
  \<^item> \<open>TestDrivers\<close>, \<open>TestDrivers_props\<close>, \<open>TestDrivers_sound\<close>: \<open>configtesting/\<close>: the drivers of the SSO tests and of the tests of
    shared configuration files, over any code under test, given as a record of functions.
  \<^item> \<open>NetUrl\<close>, \<open>ProxyUrl\<close>: \<open>url.Parse\<close> and \<open>URL.String\<close> of the standard library, as plain functions on
    bytes, and the proxy settings of \<open>Config_ops\<close> with them in place of the parameters.

  What the lemmas show. Masking ends without a panic, only writes stars over bytes, leaves no
  unique ID and no run of exactly 40 base-64 bytes, and is idempotent; the index loops refine the
  specification. Diagnostics hold no duplicates and lose no errors. Region lookup returns the one
  partition that claims a region for every iteration order. The duplicate-key check is correct for
  every JSON value and every growth policy. The proxy warning says what the transport then does,
  and a proxy URL, with user and password or without, reaches the transport byte for byte.
  Neither the signature nor the session token of a request reaches the log. Roles are assumed in a
  chain, each with the credentials of the one before, and the first failure is reported.
  \<open>GetAwsConfig\<close> never panics and returns either an error or a configuration with credentials,
  outside the cases the lemmas single out as defects; what it returns can be carried over to the SDK
  v1. Logging is transparent for the operations of both SDKs: they see the same outputs, errors and
  bodies, and the logged bodies are masked, except for a key cut in two by the capture of the SDK v1.
  Retries end on network failures. The generator gives the same table for every order of the
  document, and the table of the repository is what its command writes; a run of the command that
  fails says so and closes what it opened. The tables of expectations the two
  SDKs share, 23 proxy configurations and 11 user agents, hold of the models of both; a test's
  environment is isolated and restored, with the one exception a lemma names. Whatever system calls
  fail, the test drivers leave no trace behind, and a case that passes has run the code under test with all
  it needs in place and got the expected result. A collection of diagnostics keeps the dynamic type of every diagnostic it is given.

  Parameters. Code outside the repository is an argument of the definitions that call it: the
  records \<open>http_deps\<close>, \<open>aws_deps\<close>, \<open>auth_deps\<close> and \<open>creds_deps\<close> hold the functions of the SDKs, of
  \<open>net/url\<close>, \<open>go-homedir\<close>, \<open>go-multierror\<close>, \<open>httpconv\<close> and the operating system. Hypotheses on them
  state documented behaviour, and each such theorem has an instance with concrete functions.
  \<open>ProxyUrl\<close> instantiates the functions of \<open>net/url\<close> with their model. Iteration orders of Go maps and
  the growth of slices are parameters too.

  Not modelled. Contexts are passed explicitly only where a value is read from them. Messages to
  the logger are part of the model for requests and responses; elsewhere they are left out, since no
  result depends on them.
  Test files (\<open>_test.go\<close>) are not part of the library. File modes and modification times are left
  out of the file system, and concurrent tests are not modelled: the drivers run their cases in
  sequence. Integers are
  unbounded where the code cannot come near a bound (lengths of bodies, retry counts).
\<close>

section \<open>Properties that span components\<close>

text \<open>C29: With validation and the account ID request both skipped, the caller gets the partition of
  the configured region from the table, without any call and without an error, for every region the
  table lists or its expressions describe and every iteration order of the table; a region of no
  partition gives the empty partition.\<close>

theorem offline_partition:
  assumes "mset order = mset partitions" and "c_SkipCredsValidation c" and "c_SkipRequestingAccountId c"
  shows "(\<forall>p \<in> set (map snd partitions).
      map_of (pt_regions p) (ac_Region cfg) \<noteq> None \<or> rx_full_match (pt_regionRegex p) (ac_Region cfg) \<longrightarrow>
      GetAwsAccountIDAndPartition D order getenv cfg c = Ret ([], pt_id p, [])) \<and>
    ((\<forall>p \<in> set (map snd partitions). \<not> claims_region p (ac_Region cfg)) \<longrightarrow>
      GetAwsAccountIDAndPartition D order getenv cfg c = Ret ([], [], []))"
proof -
  note find = PartitionForRegion_iff [OF assms(1)]
  have r: "GetAwsAccountIDAndPartition D order getenv cfg c =
      Ret ([], (case PartitionForRegion (DefaultPartitions order) (ac_Region cfg) of
                  None \<Rightarrow> [] | Some p \<Rightarrow> Partition_ID p), [])"
    using assms(2,3) by (simp add: GetAwsAccountIDAndPartition_def)
  have "PartitionForRegion (DefaultPartitions order) (ac_Region cfg) = Some p"
    if "p \<in> set (map snd partitions)" "claims_region p (ac_Region cfg)" for p using that find by blast
  moreover have "PartitionForRegion (DefaultPartitions order) (ac_Region cfg) = None"
    if "\<forall>p \<in> set (map snd partitions). \<not> claims_region p (ac_Region cfg)" using that find by (metis not_None_eq)
  ultimately show ?thesis by (auto simp: r Partition_ID_def claims_region_def)
qed

lemma offline_partition_witness:
  "GetAwsAccountIDAndPartition sample_aws_deps (rev partitions) (\<lambda>k. []) (zero_aws_config\<lparr>ac_Region := ''us-gov-west-7''\<rparr>)
     (zero_Config\<lparr>c_SkipCredsValidation := True, c_SkipRequestingAccountId := True\<rparr>) = Ret ([], ''aws-us-gov'', [])"
proof -
  have rx: "rx_full_match (pt_regionRegex aws_us_gov_partition) ''us-gov-west-7''" by code_simp
  have mem: "aws_us_gov_partition \<in> set (map snd partitions)" by (simp add: partitions_def)
  have "GetAwsAccountIDAndPartition sample_aws_deps (rev partitions) (\<lambda>k. []) (zero_aws_config\<lparr>ac_Region := ''us-gov-west-7''\<rparr>)
     (zero_Config\<lparr>c_SkipCredsValidation := True, c_SkipRequestingAccountId := True\<rparr>) =
     Ret ([], pt_id aws_us_gov_partition, [])"
    by (rule offline_partition [THEN conjunct1, THEN bspec, THEN mp]) (use mem rx in simp_all)
  then show ?thesis by (simp add: aws_us_gov_partition_def)
qed

text \<open>C23: A configuration that \<open>GetAwsConfig\<close> returns without an error can be carried over to the SDK
  v1: \<open>GetSession\<close> does not panic on it, since its retryer is always set. It returns an error or a
  session without diagnostics, which was created with the credentials and the region of the
  configuration and has the number of attempts of its retryer.\<close>

theorem configured_session:
  assumes "loads_credentials D" and "GetAwsConfig D fmt_d getenv c = (getenv', Ret (cfg, ds))"
    and "\<not> HasError ds"
  shows "\<exists>sess ds'. GetSession D pooled NewSession MaxAttempts getenv' cfg c = Ret (sess, ds') \<and>
    (case sess of
       None \<Rightarrow> HasError ds'
     | Some s \<Rightarrow> ds' = [] \<and> (\<exists>options s0 r. NewSession options = Inr s0 \<and> se_options s = se_options s0 \<and>
         so_Credentials options = ac_Credentials cfg \<and> so_Region options = ac_Region cfg \<and>
         ac_Retryer cfg = Some r \<and> se_MaxRetries s = MaxAttempts r))"
proof -
  have "good_result c (Ret (cfg, ds))"
    using GetAwsConfig_good [OF assms(1), of c fmt_d getenv] assms(2) by simp
  then obtain r where r: "ac_Retryer cfg = Some r" using assms(3) by (auto simp: good_result_def)
  show ?thesis
  proof (cases "getSessionOptions D pooled getenv' cfg c")
    case (Inl err)
    then show ?thesis by (simp add: GetSession_def)
  next
    case (Inr options)
    then have o: "so_Credentials options = ac_Credentials cfg" "so_Region options = ac_Region cfg"
      by (auto simp: getSessionOptions_def option_bind_def split: prod.splits option.splits sum.splits)
    show ?thesis
    proof (cases "NewSession options")
      case (Inl err)
      with Inr show ?thesis by (simp add: GetSession_def)
    next
      case new: (Inr s0)
      with Inr r o show ?thesis
        by (auto simp: GetSession_def SetSessionUserAgent_def Let_def split: option.split)
    qed
  qed
qed

lemma configured_session_witness:
  "\<exists>cfg getenv' ds sess ds'.
     GetAwsConfig sample_aws_deps (\<lambda>n. ''1'') (\<lambda>k. [])
       (zero_Config\<lparr>c_SkipCredsValidation := True, c_AccessKey := ''k'', c_SecretKey := ''s'', c_Region := ''r''\<rparr>) =
       (getenv', Ret (cfg, ds)) \<and> ac_Region cfg = ''r'' \<and>
     GetSession sample_aws_deps \<lparr>tr_MaxIdleConnsPerHost = 0, tr_TLSClientConfig = None, tr_Proxy = None\<rparr>
       (\<lambda>opts. Inr (sample_session opts)) (\<lambda>r. 3) getenv' cfg
       (zero_Config\<lparr>c_SkipCredsValidation := True, c_AccessKey := ''k'', c_SecretKey := ''s'', c_Region := ''r''\<rparr>) =
       Ret (sess, ds')"
proof -
  let ?c = "zero_Config\<lparr>c_SkipCredsValidation := True, c_AccessKey := ''k'', c_SecretKey := ''s'', c_Region := ''r''\<rparr>"
  have "\<exists>cfg getenv'. GetAwsConfig sample_aws_deps (\<lambda>n. ''1'') (\<lambda>k. []) ?c = (getenv', Ret (cfg, [])) \<and> ac_Region cfg = ''r''"
    by (simp add: GetAwsConfig_def metadata_url_def ValidateProxySettings_def check_proxy_url_def static_creds_def
        load_config_def finish_config_def validate_config_def resolveRetryer_def diags_HasError_iff sample_evaluation)
  then obtain cfg getenv' where g: "GetAwsConfig sample_aws_deps (\<lambda>n. ''1'') (\<lambda>k. []) ?c = (getenv', Ret (cfg, []))"
    and r: "ac_Region cfg = ''r''" by blast
  have "\<not> HasError []" by (simp add: diags_HasError_iff)
  from configured_session [OF sample_loads_credentials g this] g r show ?thesis by blast
qed

end
